(* ===== verification/Prelude.thy ===== *)
theory Prelude
  imports Main "HOL-Library.Word" "HOL-Library.Sublist"
begin

unbundle bit_operations_syntax

text \<open>
  The vocabulary the component theories share: the C++ machine types, the ways a piece of
  client code can fail (an exception, undefined behaviour, a call of exit), programs as
  state transformers with failure, and the arithmetic of the 32-bit signed \<^verbatim>\<open>int\<close>.
\<close>

section \<open>Machine types\<close>

text \<open>
  \<^verbatim>\<open>uint8_t\<close>, \<^verbatim>\<open>int32_t\<close> and \<^verbatim>\<open>int64_t\<close> are words of their width; signed values are
  read with \<^const>\<open>sint\<close>. Where the code computes with an \<^verbatim>\<open>int\<close> that never goes on the
  wire it is a mathematical integer and every operation checks the range, since signed
  overflow is undefined in C++.
\<close>

type_synonym byte = "8 word"
type_synonym int32 = "32 word"
type_synonym int64 = "64 word"

section \<open>Failures\<close>

text \<open>
  The C++ exceptions the client can meet. All of them derive from \<^verbatim>\<open>std::exception\<close>.
\<close>

datatype exn =
    Runtime_Error string
  | Length_Error
  | Invalid_Argument
  | Out_Of_Range string

text \<open>
  A run that does not produce a value throws, leaves the defined part of the language, or
  ends the process. Only the first can be caught.
\<close>

datatype failure =
    Throws exn
  | Undefined string
  | Exits int

text \<open>What \<^verbatim>\<open>e.what()\<close> prints (libstdc++ texts for the library's own exceptions).\<close>

fun what :: "exn \<Rightarrow> string" where
  "what (Runtime_Error m) = m"
| "what Length_Error = ''basic_string::_M_create''"
| "what Invalid_Argument = ''stoi''"
| "what (Out_Of_Range m) = m"

section \<open>Programs\<close>

text \<open>
  A program over a state \<open>'s\<close> returns a value or a failure, and the state as it is at that
  point: effects before an exception stay.
\<close>

type_synonym ('s, 'a) prog = "'s \<Rightarrow> (failure + 'a) \<times> 's"

named_theorems prog_defs \<open>definitions of the program combinators\<close>

definition ret :: "'a \<Rightarrow> ('s, 'a) prog" where
  [prog_defs]: "ret x = (\<lambda>s. (Inr x, s))"

definition fail :: "failure \<Rightarrow> ('s, 'a) prog" where
  [prog_defs]: "fail e = (\<lambda>s. (Inl e, s))"

definition bnd :: "('s, 'a) prog \<Rightarrow> ('a \<Rightarrow> ('s, 'b) prog) \<Rightarrow> ('s, 'b) prog" where
  [prog_defs]: "bnd m k = (\<lambda>s. case m s of (Inl e, s') \<Rightarrow> (Inl e, s') | (Inr x, s') \<Rightarrow> k x s')"

definition of_result :: "failure + 'a \<Rightarrow> ('s, 'a) prog" where
  [prog_defs]: "of_result r = (\<lambda>s. (r, s))"

definition modify :: "('s \<Rightarrow> 's) \<Rightarrow> ('s, unit) prog" where
  [prog_defs]: "modify f = (\<lambda>s. (Inr (), f s))"

text \<open>
  \<^verbatim>\<open>try { m } catch (const std::exception \&e) { h }\<close>: exceptions are handled, undefined
  behaviour and \<^verbatim>\<open>exit\<close> are not.
\<close>

definition try_catch :: "('s, 'a) prog \<Rightarrow> (exn \<Rightarrow> ('s, 'a) prog) \<Rightarrow> ('s, 'a) prog" where
  [prog_defs]: "try_catch m h = (\<lambda>s. case m s of
     (Inl (Throws x), s') \<Rightarrow> h x s' | (Inl e, s') \<Rightarrow> (Inl e, s') | (Inr v, s') \<Rightarrow> (Inr v, s'))"

lemma bnd_ret [simp]: "bnd (ret x) k = k x"
  by (simp add: prog_defs)

lemma bnd_fail [simp]: "bnd (fail e) k = fail e"
  by (simp add: prog_defs)

lemma bnd_assoc: "bnd (bnd m k) h = bnd m (\<lambda>x. bnd (k x) h)"
  by (auto simp: prog_defs fun_eq_iff split: prod.splits sum.splits)

lemma run_ret [simp]: "ret x s = (Inr x, s)"
  by (simp add: prog_defs)

lemma run_fail [simp]: "fail e s = (Inl e, s)"
  by (simp add: prog_defs)

lemma run_modify [simp]: "modify f s = (Inr (), f s)"
  by (simp add: prog_defs)

lemma run_of_result [simp]: "of_result r s = (r, s)"
  by (simp add: prog_defs)

lemma run_bnd_Inr [simp]: "m s = (Inr x, s') \<Longrightarrow> bnd m k s = k x s'"
  by (simp add: prog_defs)

lemma run_bnd_Inl [simp]: "m s = (Inl e, s') \<Longrightarrow> bnd m k s = (Inl e, s')"
  by (simp add: prog_defs)

lemma bnd_InrE:
  assumes "bnd m k s = (Inr y, s'')"
  obtains x s' where "m s = (Inr x, s')" and "k x s' = (Inr y, s'')"
  using assms by (auto simp: prog_defs split: prod.splits sum.splits)

text \<open>A state component run inside a larger state.\<close>

definition zoom :: "('s \<Rightarrow> 't) \<Rightarrow> ('t \<Rightarrow> 's \<Rightarrow> 's) \<Rightarrow> ('t, 'a) prog \<Rightarrow> ('s, 'a) prog" where
  [prog_defs]: "zoom get upd m = (\<lambda>s. case m (get s) of (r, t) \<Rightarrow> (r, upd t s))"

lemma run_zoom [simp]: "m (get s) = (r, t) \<Longrightarrow> zoom get upd m s = (r, upd t s)"
  by (simp add: prog_defs)

section \<open>The signed 32-bit int\<close>

definition INT_MAX :: int where "INT_MAX = 2 ^ 31 - 1"
definition INT_MIN :: int where "INT_MIN = - (2 ^ 31)"

definition in_int :: "int \<Rightarrow> bool" where
  "in_int i \<longleftrightarrow> INT_MIN \<le> i \<and> i \<le> INT_MAX"

definition int_result :: "int \<Rightarrow> failure + int" where
  "int_result i = (if in_int i then Inr i else Inl (Undefined ''signed integer overflow''))"

text \<open>C++ division and remainder truncate towards zero.\<close>

definition c_div :: "int \<Rightarrow> int \<Rightarrow> int" where
  "c_div a b = sgn a * sgn b * (\<bar>a\<bar> div \<bar>b\<bar>)"

definition c_mod :: "int \<Rightarrow> int \<Rightarrow> int" where
  "c_mod a b = a - c_div a b * b"

lemma c_div_mod: "c_div a b * b + c_mod a b = a"
  by (simp add: c_mod_def)

lemma c_div_nonneg: "0 \<le> a \<Longrightarrow> 0 < b \<Longrightarrow> c_div a b = a div b"
  by (cases "a = 0") (simp_all add: c_div_def)

lemma c_mod_nonneg: "0 \<le> a \<Longrightarrow> 0 < b \<Longrightarrow> c_mod a b = a mod b"
  by (simp add: c_mod_def c_div_nonneg minus_div_mult_eq_mod)

lemma in_int_sint [simp]: "in_int (sint (w :: int32))"
  using sint_greater_eq [of w] sint_less [of w] by (simp add: in_int_def INT_MIN_def INT_MAX_def)

end
