(* ===== verification/Std_Strings.thy ===== *)
theory Std_Strings
  imports Prelude
begin

text \<open>
  The parts of the C++ standard library's \<^verbatim>\<open>std::string\<close> the client uses: searching,
  \<^verbatim>\<open>substr\<close>, \<^verbatim>\<open>std::to_string\<close> and \<^verbatim>\<open>std::stoi\<close>. A \<^verbatim>\<open>std::string\<close> is a list of
  8-bit characters.
\<close>

section \<open>Character classes\<close>

definition isdigit :: "char \<Rightarrow> bool" where
  "isdigit c \<longleftrightarrow> c \<in> set ''0123456789''"

definition newline :: char where
  "newline = CHR 0x0A"

text \<open>Space, tab, newline, vertical tab, form feed and carriage return, in the "C" locale.\<close>

definition isspace :: "char \<Rightarrow> bool" where
  "isspace c \<longleftrightarrow> c \<in> set [CHR '' '', CHR 0x09, CHR 0x0A, CHR 0x0B, CHR 0x0C, CHR 0x0D]"

section \<open>Searching and slicing\<close>

text \<open>\<^verbatim>\<open>s.find(p)\<close>: the index of the first occurrence, \<^const>\<open>None\<close> for \<^verbatim>\<open>npos\<close>.\<close>

fun str_find :: "string \<Rightarrow> string \<Rightarrow> nat option" where
  "str_find [] p = (if p = [] then Some 0 else None)"
| "str_find (c # cs) p = (if prefix p (c # cs) then Some 0 else map_option Suc (str_find cs p))"

text \<open>\<^verbatim>\<open>s.find(c, start)\<close> for a single character.\<close>

definition str_find_char_from :: "string \<Rightarrow> char \<Rightarrow> nat \<Rightarrow> nat option" where
  "str_find_char_from s c start = map_option ((+) start) (str_find (drop start s) [c])"

lemma str_find_0 [simp]: "str_find s p = Some 0 \<longleftrightarrow> prefix p s"
  by (cases s) auto

lemma str_find_Some:
  "str_find s p = Some i \<Longrightarrow> \<exists>u v. s = u @ p @ v \<and> length u = i"
proof (induction s arbitrary: i)
  case Nil
  then show ?case by (auto split: if_splits)
next
  case (Cons c cs)
  show ?case
  proof (cases "prefix p (c # cs)")
    case True
    with Cons.prems have "i = 0" by simp
    with True show ?thesis by (auto simp: prefix_def)
  next
    case False
    with Cons.prems obtain j where j: "str_find cs p = Some j" "i = Suc j" by auto
    from Cons.IH [OF j(1)] obtain u v where "cs = u @ p @ v" "length u = j" by blast
    with j(2) have "c # cs = (c # u) @ p @ v \<and> length (c # u) = i" by simp
    then show ?thesis by blast
  qed
qed

text \<open>The first occurrence of a one-character needle.\<close>

lemma str_find_char: "c \<notin> set u \<Longrightarrow> str_find (u @ c # v) [c] = Some (length u)"
  by (induction u) auto

lemma str_find_char_None: "c \<notin> set u \<Longrightarrow> str_find u [c] = None"
  by (induction u) auto

text \<open>
  A needle that starts right after a prefix in which it cannot start is found there: no
  proper suffix of the prefix, followed by the rest, begins with it.
\<close>

lemma str_find_skip:
  assumes "\<And>k. k < length u \<Longrightarrow> \<not> prefix p (drop k (u @ p @ v))"
  shows "str_find (u @ p @ v) p = Some (length u)"
  using assms
proof (induction u)
  case Nil
  then show ?case by simp
next
  case (Cons c u)
  from Cons.prems [of 0] have 0: "\<not> prefix p (c # u @ p @ v)" by simp
  have "\<And>k. k < length u \<Longrightarrow> \<not> prefix p (drop k (u @ p @ v))"
    using Cons.prems [of "Suc _"] by simp
  then have "str_find (u @ p @ v) p = Some (length u)" by (rule Cons.IH)
  with 0 show ?case by simp
qed

section \<open>Decimal numbers\<close>

definition digit_char :: "nat \<Rightarrow> char" where
  "digit_char n = (''0123456789'' ! n)"

definition digit_val :: "char \<Rightarrow> nat" where
  "digit_val c = of_char c - 48"

text \<open>\<^verbatim>\<open>std::to_string\<close> of an unsigned and of a signed integer.\<close>

fun to_string_nat :: "nat \<Rightarrow> string" where
  "to_string_nat n =
     (if n < 10 then [digit_char n] else to_string_nat (n div 10) @ [digit_char (n mod 10)])"

declare to_string_nat.simps [simp del]

definition to_string :: "int \<Rightarrow> string" where
  "to_string i = (if i < 0 then CHR ''-'' # to_string_nat (nat (- i)) else to_string_nat (nat i))"

text \<open>\<^verbatim>\<open>s.substr(pos, n)\<close> throws \<^verbatim>\<open>std::out_of_range\<close> when \<open>pos\<close> is past the end.\<close>

definition substr_error :: "string \<Rightarrow> nat \<Rightarrow> exn" where
  "substr_error s pos = Out_Of_Range (''basic_string::substr: __pos (which is '' @ to_string_nat pos @
     '') > this->size() (which is '' @ to_string_nat (length s) @ '')'')"

definition substr :: "string \<Rightarrow> nat \<Rightarrow> nat \<Rightarrow> failure + string" where
  "substr s pos n = (if length s < pos then Inl (Throws (substr_error s pos)) else Inr (take n (drop pos s)))"

definition digits_val :: "string \<Rightarrow> nat" where
  "digits_val ds = foldl (\<lambda>v c. 10 * v + digit_val c) 0 ds"

text \<open>An optional sign in front of a number.\<close>

fun split_sign :: "string \<Rightarrow> bool \<times> string" where
  "split_sign [] = (False, [])"
| "split_sign (c # cs) =
     (if c = CHR ''-'' then (True, cs) else if c = CHR ''+'' then (False, cs) else (False, c # cs))"

text \<open>
  \<^verbatim>\<open>std::stoi\<close>: leading white space, an optional sign and at least one digit; what follows
  the digits is ignored.
\<close>

definition stoi :: "string \<Rightarrow> failure + int" where
  "stoi s = (let (neg, t) = split_sign (dropWhile isspace s); ds = takeWhile isdigit t in
     if ds = [] then Inl (Throws Invalid_Argument)
     else let v = (if neg then - int (digits_val ds) else int (digits_val ds)) in
       if in_int v then Inr v else Inl (Throws (Out_Of_Range ''stoi'')))"

lemma digit_char_cases: "(n::nat) < 10 \<Longrightarrow> n \<in> {0, 1, 2, 3, 4, 5, 6, 7, 8, 9}"
  by auto

lemma digit_val_digit_char [simp]: "n < 10 \<Longrightarrow> digit_val (digit_char n) = n"
  by (drule digit_char_cases) (auto simp: digit_char_def digit_val_def)

lemma isdigit_digit_char [simp]: "n < 10 \<Longrightarrow> isdigit (digit_char n)"
  by (drule digit_char_cases) (auto simp: digit_char_def isdigit_def)

lemma digit_val_less: "isdigit c \<Longrightarrow> digit_val c < 10"
  by (auto simp: isdigit_def digit_val_def)

lemma isdigit_not_space: "isdigit c \<Longrightarrow> \<not> isspace c \<and> c \<noteq> CHR ''-'' \<and> c \<noteq> CHR ''+'' \<and> c \<noteq> CHR '',''"
  by (auto simp: isdigit_def isspace_def)

lemma digits_val_snoc [simp]: "digits_val (ds @ [c]) = 10 * digits_val ds + digit_val c"
  by (simp add: digits_val_def)

lemma digits_val_Nil [simp]: "digits_val [] = 0"
  by (simp add: digits_val_def)

lemma digits_val_to_string_nat [simp]: "digits_val (to_string_nat n) = n"
proof (induction n rule: to_string_nat.induct)
  case (1 n)
  show ?case
  proof (cases "n < 10")
    case True
    then show ?thesis by (subst to_string_nat.simps) (simp add: digits_val_def)
  next
    case False
    with "1.IH" show ?thesis by (subst to_string_nat.simps) simp
  qed
qed

lemma to_string_nat_digits: "c \<in> set (to_string_nat n) \<Longrightarrow> isdigit c"
proof (induction n rule: to_string_nat.induct)
  case (1 n)
  then show ?case
    by (cases "n < 10") (auto simp: to_string_nat.simps [of n])
qed

lemma to_string_nat_not_Nil [simp]: "to_string_nat n \<noteq> []"
  by (subst to_string_nat.simps) simp

lemma takeWhile_digits [simp]: "takeWhile isdigit (to_string_nat n) = to_string_nat n"
  by (simp add: takeWhile_eq_all_conv to_string_nat_digits)

lemma split_sign_digits [simp]: "split_sign (to_string_nat n) = (False, to_string_nat n)"
  using to_string_nat_digits [of "hd (to_string_nat n)" n]
  by (cases "to_string_nat n") (auto dest: isdigit_not_space)

lemma dropWhile_space_digits [simp]: "dropWhile isspace (to_string_nat n) = to_string_nat n"
  using to_string_nat_digits [of "hd (to_string_nat n)" n]
  by (cases "to_string_nat n") (auto dest: isdigit_not_space)

text \<open>\<^verbatim>\<open>std::stoi\<close> inverts \<^verbatim>\<open>std::to_string\<close>.\<close>

lemma stoi_to_string: "in_int i \<Longrightarrow> stoi (to_string i) = Inr i"
proof (cases "i < 0")
  case True
  moreover assume "in_int i"
  moreover have "\<not> isspace (CHR ''-'')" by (simp add: isspace_def)
  ultimately show ?thesis by (simp add: stoi_def to_string_def)
next
  case False
  moreover assume "in_int i"
  ultimately show ?thesis by (simp add: stoi_def to_string_def)
qed

text \<open>The value of a two-character slice of digits, as the client reads hours and minutes.\<close>

lemma stoi_two_digits:
  assumes "isdigit a" and "isdigit b"
  shows "stoi [a, b] = Inr (int (10 * digit_val a + digit_val b))"
proof -
  have "10 * digit_val a + digit_val b < 100"
    using digit_val_less [OF assms(1)] digit_val_less [OF assms(2)] by simp
  then have "in_int (int (10 * digit_val a + digit_val b))"
    by (simp add: in_int_def INT_MIN_def INT_MAX_def)
  with assms isdigit_not_space [OF assms(1)] show ?thesis
    by (simp add: stoi_def digits_val_def)
qed

lemma to_string_no_comma: "CHR '','' \<notin> set (to_string i)"
  by (auto simp: to_string_def dest!: to_string_nat_digits isdigit_not_space)

lemma to_string_not_Nil [simp]: "to_string i \<noteq> []"
  by (simp add: to_string_def)

end
