(* ===== verification/Std_Streams.thy ===== *)
theory Std_Streams
  imports Std_Strings
begin

text \<open>
  Input streams (\<^verbatim>\<open>std::cin\<close>, \<^verbatim>\<open>std::istringstream\<close>) as the unread characters and the two
  state bits the client's code depends on, with the extraction operations it calls. The
  input is finite: when it is used up the stream is at end of file.
\<close>

section \<open>The stream state\<close>

record istream =
  unread :: string
  eofbit :: bool
  failbit :: bool

definition good :: "istream \<Rightarrow> bool" where
  "good st \<longleftrightarrow> \<not> eofbit st \<and> \<not> failbit st"

definition istringstream :: "string \<Rightarrow> istream" where
  "istringstream s = \<lparr>unread = s, eofbit = False, failbit = False\<rparr>"

section \<open>Unformatted input\<close>

text \<open>
  \<^verbatim>\<open>std::getline(st, line, d)\<close>: whether the stream is still true, the new value of
  \<^verbatim>\<open>line\<close> (unchanged when the stream was not good) and the stream.
\<close>

definition getline :: "char \<Rightarrow> string \<Rightarrow> istream \<Rightarrow> bool \<times> string \<times> istream" where
  "getline d line st =
     (if \<not> good st then (False, line, st\<lparr>failbit := True\<rparr>)
      else let tok = takeWhile (\<lambda>c. c \<noteq> d) (unread st) in
        case dropWhile (\<lambda>c. c \<noteq> d) (unread st) of
          [] \<Rightarrow> (tok \<noteq> [], tok, st\<lparr>unread := [], eofbit := True, failbit := (tok = [])\<rparr>)
        | c # cs \<Rightarrow> (True, tok, st\<lparr>unread := cs\<rparr>))"

text \<open>\<^verbatim>\<open>st.ignore()\<close>: one character is skipped.\<close>

definition ignore_one :: "istream \<Rightarrow> istream" where
  "ignore_one st =
     (if \<not> good st then st\<lparr>failbit := True\<rparr>
      else case unread st of [] \<Rightarrow> st\<lparr>eofbit := True\<rparr> | c # cs \<Rightarrow> st\<lparr>unread := cs\<rparr>)"

text \<open>\<^verbatim>\<open>st.ignore(max, '\n')\<close>: everything up to and including the next newline.\<close>

definition ignore_line :: "istream \<Rightarrow> istream" where
  "ignore_line st =
     (if \<not> good st then st\<lparr>failbit := True\<rparr>
      else case dropWhile (\<lambda>c. c \<noteq> newline) (unread st) of
        [] \<Rightarrow> st\<lparr>unread := [], eofbit := True\<rparr>
      | c # cs \<Rightarrow> st\<lparr>unread := cs\<rparr>)"

definition clear :: "istream \<Rightarrow> istream" where
  "clear st = st\<lparr>eofbit := False, failbit := False\<rparr>"

section \<open>Formatted input\<close>

text \<open>
  The sentry of a formatted extraction skips white space; meeting the end there fails the
  stream and leaves the variable as it was.
\<close>

definition extract_string :: "string \<Rightarrow> istream \<Rightarrow> string \<times> istream" where
  "extract_string old st =
     (if \<not> good st then (old, st\<lparr>failbit := True\<rparr>)
      else case dropWhile isspace (unread st) of
        [] \<Rightarrow> (old, st\<lparr>unread := [], eofbit := True, failbit := True\<rparr>)
      | c # cs \<Rightarrow>
          (takeWhile (\<lambda>c. \<not> isspace c) (c # cs),
           (case dropWhile (\<lambda>c. \<not> isspace c) (c # cs) of
              [] \<Rightarrow> st\<lparr>unread := [], eofbit := True\<rparr>
            | d # ds \<Rightarrow> st\<lparr>unread := d # ds\<rparr>)))"

text \<open>
  \<^verbatim>\<open>st >> i\<close> for an \<^verbatim>\<open>int\<close>: an optional sign and as many digits as follow. No digit, or a
  value outside the \<^verbatim>\<open>int\<close> range, fails the stream.
\<close>

definition extract_int :: "int \<Rightarrow> istream \<Rightarrow> int \<times> istream" where
  "extract_int old st =
     (if \<not> good st then (old, st\<lparr>failbit := True\<rparr>)
      else case dropWhile isspace (unread st) of
        [] \<Rightarrow> (old, st\<lparr>unread := [], eofbit := True, failbit := True\<rparr>)
      | c # cs \<Rightarrow>
          let (neg, t) = split_sign (c # cs); ds = takeWhile isdigit t; r = dropWhile isdigit t;
              st' = st\<lparr>unread := r, eofbit := (r = [])\<rparr>;
              v = (if neg then - int (digits_val ds) else int (digits_val ds))
          in if ds = [] then (0, st'\<lparr>failbit := True\<rparr>)
             else if in_int v then (v, st')
             else (if neg then INT_MIN else INT_MAX, st'\<lparr>failbit := True\<rparr>))"

section \<open>Loops over lines\<close>

text \<open>
  \<^verbatim>\<open>while (std::getline(st, line, d)) body\<close>, the body being a function of the line and of
  the variables it updates.
\<close>

lemma getline_shorter:
  "getline d l st = (True, l', st') \<Longrightarrow> length (unread st') < length (unread st)"
proof -
  assume *: "getline d l st = (True, l', st')"
  have "length (dropWhile (\<lambda>c. c \<noteq> d) (unread st)) \<le> length (unread st)"
    by (simp add: length_dropWhile_le)
  with * show ?thesis
    by (auto simp: getline_def Let_def split: if_splits list.splits)
qed

function getline_loop :: "char \<Rightarrow> (string \<Rightarrow> 'a \<Rightarrow> 'a) \<Rightarrow> 'a \<Rightarrow> istream \<Rightarrow> 'a" where
  "getline_loop d body acc st =
     (case getline d [] st of
        (True, line, st') \<Rightarrow> getline_loop d body (body line acc) st'
      | (False, line, st') \<Rightarrow> acc)"
  by pat_completeness auto
termination
  by (relation "measure (\<lambda>(d, body, acc, st). length (unread st))")
    (auto dest: getline_shorter [OF sym])

declare getline_loop.simps [simp del]

text \<open>The lines of a text: what a loop over it sees.\<close>

function lines_of :: "char \<Rightarrow> string \<Rightarrow> string list" where
  "lines_of d s = (if s = [] then [] else
     takeWhile (\<lambda>c. c \<noteq> d) s # lines_of d (drop 1 (dropWhile (\<lambda>c. c \<noteq> d) s)))"
  by pat_completeness auto
termination
proof (relation "measure (\<lambda>(d, s). length s)")
  fix d and s :: string assume "s \<noteq> []"
  moreover have "length (dropWhile (\<lambda>c. c \<noteq> d) s) \<le> length s" by (rule length_dropWhile_le)
  ultimately have "length (drop 1 (dropWhile (\<lambda>c. c \<noteq> d) s)) < length s"
    by (cases s) auto
  then show "((d, drop 1 (dropWhile (\<lambda>c. c \<noteq> d) s)), (d, s)) \<in> measure (\<lambda>(d, s). length s)"
    by simp
qed simp

declare lines_of.simps [simp del]

lemma lines_of_Nil [simp]: "lines_of d [] = []"
  by (simp add: lines_of.simps)

lemma lines_of_cons [simp]: "d \<notin> set l \<Longrightarrow> lines_of d (l @ d # r) = l # lines_of d r"
proof -
  assume "d \<notin> set l"
  then have "takeWhile (\<lambda>c. c \<noteq> d) (l @ d # r) = l" and "dropWhile (\<lambda>c. c \<noteq> d) (l @ d # r) = d # r"
    by (induction l) auto
  then show ?thesis by (subst lines_of.simps) (simp del: dropWhile_eq_Nil_conv)
qed

lemma lines_of_last [simp]: "d \<notin> set l \<Longrightarrow> l \<noteq> [] \<Longrightarrow> lines_of d l = [l]"
proof -
  assume "d \<notin> set l" and "l \<noteq> []"
  moreover from this have "takeWhile (\<lambda>c. c \<noteq> d) l = l" and "dropWhile (\<lambda>c. c \<noteq> d) l = []"
    by (auto simp: takeWhile_eq_all_conv)
  ultimately show ?thesis by (subst lines_of.simps) (simp del: dropWhile_eq_Nil_conv)
qed

lemma lines_of_no_delim: "l \<in> set (lines_of d s) \<Longrightarrow> d \<notin> set l"
proof (induction d s rule: lines_of.induct)
  case (1 d s)
  then show ?case
    by (cases "s = []") (auto simp: lines_of.simps [of d s] dest: set_takeWhileD)
qed

text \<open>The loop is a fold over the lines.\<close>

lemma getline_good:
  assumes "good st"
  shows "getline d l st =
    (unread st \<noteq> [], takeWhile (\<lambda>c. c \<noteq> d) (unread st),
      (if dropWhile (\<lambda>c. c \<noteq> d) (unread st) = []
       then st\<lparr>unread := [], eofbit := True, failbit := (unread st = [])\<rparr>
       else st\<lparr>unread := drop 1 (dropWhile (\<lambda>c. c \<noteq> d) (unread st))\<rparr>))"
proof (cases "dropWhile (\<lambda>c. c \<noteq> d) (unread st)")
  case Nil
  then have "takeWhile (\<lambda>c. c \<noteq> d) (unread st) = unread st"
    by (simp add: takeWhile_eq_all_conv)
  with Nil assms show ?thesis
    by (simp add: getline_def Let_def del: dropWhile_eq_Nil_conv takeWhile_eq_all_conv)
next
  case (Cons c cs)
  then have "unread st \<noteq> []" by auto
  with Cons assms show ?thesis by (simp add: getline_def)
qed

lemma getline_loop_not_good [simp]: "\<not> good st \<Longrightarrow> getline_loop d body acc st = acc"
  by (simp add: getline_loop.simps getline_def)

lemma getline_loop_good:
  "good st \<Longrightarrow> getline_loop d body acc st = fold body (lines_of d (unread st)) acc"
proof (induction "length (unread st)" arbitrary: acc st rule: less_induct)
  case less
  let ?t = "takeWhile (\<lambda>c. c \<noteq> d) (unread st)" and ?r = "dropWhile (\<lambda>c. c \<noteq> d) (unread st)"
  note g = getline_good [OF less.prems, of d "[]"]
  consider "unread st = []" | "unread st \<noteq> []" "?r = []" | "unread st \<noteq> []" "?r \<noteq> []" by blast
  then show ?case
  proof cases
    case 1
    with g show ?thesis by (simp add: getline_loop.simps [of d body acc st])
  next
    case 2
    with g show ?thesis
      by (simp add: getline_loop.simps [of d body acc st] lines_of.simps [of d "unread st"] good_def
          del: dropWhile_eq_Nil_conv)
  next
    case 3
    let ?st = "st\<lparr>unread := drop 1 ?r\<rparr>"
    have g': "getline d [] st = (True, ?t, ?st)"
      using g 3 by (simp del: dropWhile_eq_Nil_conv)
    from getline_shorter [OF g'] less.prems
    have "getline_loop d body (body ?t acc) ?st = fold body (lines_of d (unread ?st)) (body ?t acc)"
      by (intro less.hyps) (simp_all add: good_def)
    with g' 3 show ?thesis
      by (simp add: getline_loop.simps [of d body acc st] lines_of.simps [of d "unread st"])
  qed
qed

lemma getline_loop_istringstream [simp]:
  "getline_loop d body acc (istringstream s) = fold body (lines_of d s) acc"
  by (simp add: getline_loop_good istringstream_def good_def)

section \<open>Texts of lines\<close>

text \<open>Every piece ended by the delimiter, and pieces with a separator between them.\<close>

definition terminated :: "char \<Rightarrow> string list \<Rightarrow> string" where
  "terminated d ls = concat (map (\<lambda>l. l @ [d]) ls)"

fun join :: "string \<Rightarrow> string list \<Rightarrow> string" where
  "join sep [] = ''''"
| "join sep [x] = x"
| "join sep (x # y # xs) = x @ sep @ join sep (y # xs)"

lemma terminated_simps [simp]:
  "terminated d [] = []" "terminated d (l # ls) = l @ d # terminated d ls"
  by (simp_all add: terminated_def)

lemma lines_of_terminated:
  "\<forall>l\<in>set ls. d \<notin> set l \<Longrightarrow> d \<notin> set e \<Longrightarrow>
   lines_of d (terminated d ls @ e) = ls @ (if e = [] then [] else [e])"
  by (induction ls) auto

lemma lines_of_join:
  "ls \<noteq> [] \<Longrightarrow> \<forall>l\<in>set ls. d \<notin> set l \<and> l \<noteq> [] \<Longrightarrow> lines_of d (join [d] ls) = ls"
  by (induction "[d]" ls rule: join.induct) auto

lemma concat_sep: "ls \<noteq> [] \<Longrightarrow> concat (map (\<lambda>l. l @ sep) ls) = join sep ls @ sep"
  by (induction sep ls rule: join.induct) auto

lemma join_not_Nil: "ls \<noteq> [] \<Longrightarrow> \<forall>l\<in>set ls. l \<noteq> [] \<Longrightarrow> join sep ls \<noteq> []"
  by (induction sep ls rule: join.induct) auto

end
