(* ===== verification/Std_Float.thy ===== *)
theory Std_Float
  imports Std_Streams "HOL-Library.Log_Nat"
begin

text \<open>
  The C++ type \<^verbatim>\<open>float\<close> as far as the client uses it: reading one from a stream, comparing it
  with integers and printing it with \<^verbatim>\<open>std::to_string\<close>. A finite \<^verbatim>\<open>float\<close> is the rational
  number it stands for (the sign of zero is not kept).
\<close>

section \<open>Rounding\<close>

text \<open>To the nearest integer, ties to even.\<close>

definition round_half_even :: "rat \<Rightarrow> int" where
  "round_half_even x = (let f = floor x; d = x - of_int f in
     if 2 * d < 1 then f else if 1 < 2 * d then f + 1 else if even f then f else f + 1)"

definition pow2 :: "int \<Rightarrow> rat" where
  "pow2 e = (if 0 \<le> e then 2 ^ nat e else 1 / 2 ^ nat (- e))"

text \<open>The exponent of the binade of a positive rational.\<close>

definition binade :: "rat \<Rightarrow> int" where
  "binade x = (case quotient_of x of (p, q) \<Rightarrow>
     let e = int (floorlog 2 (nat p)) - int (floorlog 2 (nat q)) in
     if pow2 e \<le> x then e else e - 1)"

text \<open>
  The nearest IEEE single precision number: 24 significant bits, spacing never below \<open>2\<^sup>-\<^sup>1\<^sup>4\<^sup>9\<close>;
  \<^const>\<open>None\<close> when it overflows.
\<close>

definition to_single :: "rat \<Rightarrow> rat option" where
  "to_single x = (if x = 0 then Some 0 else
     let ulp = pow2 (max (binade \<bar>x\<bar>) (-126) - 23);
         y = of_int (round_half_even (\<bar>x\<bar> / ulp)) * ulp
     in if pow2 128 \<le> y then None else Some (if x < 0 then - y else y))"

definition FLT_MAX :: rat where
  "FLT_MAX = pow2 128 - pow2 104"

section \<open>Reading\<close>

text \<open>
  \<^verbatim>\<open>st >> f\<close> for a \<^verbatim>\<open>float\<close>: a sign, digits with at most one decimal point, an exponent
  when a digit has been seen. No mantissa digit, or an exponent mark without digits, fails
  the stream with the value 0; an overflow fails it with the largest number.
\<close>

definition split_fraction :: "string \<Rightarrow> string \<times> string \<times> string" where
  "split_fraction t = (let i = takeWhile isdigit t; r = dropWhile isdigit t in
     case r of
       c # cs \<Rightarrow> if c = CHR ''.'' then (i, takeWhile isdigit cs, dropWhile isdigit cs) else (i, '''', r)
     | [] \<Rightarrow> (i, '''', r))"

definition split_exponent :: "string \<Rightarrow> (bool \<times> string) option \<times> string" where
  "split_exponent t = (case t of
       c # cs \<Rightarrow> if c = CHR ''e'' \<or> c = CHR ''E''
         then (case split_sign cs of (neg, u) \<Rightarrow> (Some (neg, takeWhile isdigit u), dropWhile isdigit u))
         else (None, t)
     | [] \<Rightarrow> (None, t))"

fun exponent_val :: "(bool \<times> string) option \<Rightarrow> int" where
  "exponent_val None = 0"
| "exponent_val (Some (neg, ds)) = (if neg then - int (digits_val ds) else int (digits_val ds))"

fun exponent_missing :: "(bool \<times> string) option \<Rightarrow> bool" where
  "exponent_missing None = False"
| "exponent_missing (Some (neg, ds)) = (ds = [])"

definition pow10 :: "int \<Rightarrow> rat" where
  "pow10 e = (if 0 \<le> e then 10 ^ nat e else 1 / 10 ^ nat (- e))"

definition extract_float :: "rat \<Rightarrow> istream \<Rightarrow> rat \<times> istream" where
  "extract_float old st =
     (if \<not> good st then (old, st\<lparr>failbit := True\<rparr>)
      else case dropWhile isspace (unread st) of
        [] \<Rightarrow> (old, st\<lparr>unread := [], eofbit := True, failbit := True\<rparr>)
      | c # cs \<Rightarrow>
          let (neg, t) = split_sign (c # cs);
              (i, f, r) = split_fraction t;
              (ex, r') = (if i = [] \<and> f = [] then (None, r) else split_exponent r);
              st' = st\<lparr>unread := r', eofbit := (r' = [])\<rparr>;
              v = of_nat (digits_val (i @ f)) * pow10 (exponent_val ex - int (length f));
              signed = (\<lambda>x. if neg then - x else x)
          in if (i = [] \<and> f = []) \<or> exponent_missing ex
             then (0, st'\<lparr>failbit := True\<rparr>)
             else case to_single v of
               Some y \<Rightarrow> (signed y, st')
             | None \<Rightarrow> (signed FLT_MAX, st'\<lparr>failbit := True\<rparr>))"

section \<open>Printing\<close>

text \<open>\<^verbatim>\<open>std::to_string\<close> of a \<^verbatim>\<open>float\<close> is \<^verbatim>\<open>printf\<close>'s \<^verbatim>\<open>\%f\<close>: six decimals, correctly rounded.\<close>

definition pad_zeros :: "nat \<Rightarrow> string \<Rightarrow> string" where
  "pad_zeros n s = replicate (n - length s) (CHR ''0'') @ s"

definition to_string_float :: "rat \<Rightarrow> string" where
  "to_string_float x = (let n = nat (round_half_even (\<bar>x\<bar> * 10 ^ 6)) in
     (if x < 0 then ''-'' else '''') @ to_string_nat (n div 10 ^ 6) @ ''.'' @
     pad_zeros 6 (to_string_nat (n mod 10 ^ 6)))"

text \<open>The whole part and the six decimals give the value to within half a millionth.\<close>

lemma round_half_even_error: "\<bar>of_int (round_half_even x) - x\<bar> \<le> 1 / 2"
proof -
  have "of_int \<lfloor>x\<rfloor> \<le> x" and "x < of_int \<lfloor>x\<rfloor> + 1" by (rule of_int_floor_le, rule floor_less_cancel) simp
  then show ?thesis by (auto simp: round_half_even_def Let_def)
qed

end
