(* ===== verification/Constants.thy ===== *)
theory Constants
  imports Std_Strings
begin

text \<open>
  The constants of the client (\<^verbatim>\<open>Client/include/Constants.hpp\<close>).
\<close>

definition TIMEOUT_SEC :: int where
  "TIMEOUT_SEC = 5"

definition MAX_RETRIES :: nat where
  "MAX_RETRIES = 5"

definition BUFFER_SIZE :: nat where
  "BUFFER_SIZE = 1024"

definition DAYS_OF_WEEK :: "string list" where
  "DAYS_OF_WEEK =
     [''MONDAY'', ''TUESDAY'', ''WEDNESDAY'', ''THURSDAY'', ''FRIDAY'', ''SATURDAY'', ''SUNDAY'']"

definition MAIN_MENU :: "string list" where
  "MAIN_MENU =
     [''Facility Booking System'',
      ''1. Query Facility Names'',
      ''2. Query Facility Availability'',
      ''3. Book Facility'',
      ''4. Query Existing Booking'',
      ''5. Update Existing Booking'',
      ''6. Delete Existing Booking'',
      ''7. Monitor Facility Availability'',
      ''8. Rate Facility'',
      ''9. Query Facility Rating'',
      ''10. Echo Message'',
      ''11. Exit'']"

definition DAYS_OF_WEEK_MENU :: "string list" where
  "DAYS_OF_WEEK_MENU =
     [''Day of Week'',
      ''1. MONDAY'',
      ''2. TUESDAY'',
      ''3. WEDNESDAY'',
      ''4. THURSDAY'',
      ''5. FRIDAY'',
      ''6. SATURDAY'',
      ''7. SUNDAY'']"

definition STATUS_SUCCESS :: string where
  "STATUS_SUCCESS = ''status:SUCCESS''"

definition STATUS_ERROR :: string where
  "STATUS_ERROR = ''status:ERROR''"

end
