(* ===== verification/Byte_Buffer.thy ===== *)
theory Byte_Buffer
  imports Std_Strings
begin

text \<open>
  The client's byte buffer (\<^verbatim>\<open>Client/include/ByteBuffer.hpp\<close>, \<^verbatim>\<open>Client/src/ByteBuffer.cpp\<close>):
  values are appended in big-endian order. Every write is a function of the buffer, and the
  lemmas say which bytes it appends.
\<close>

unbundle bit_operations_syntax

section \<open>The buffer and its operations\<close>

record ByteBuffer =
  bb_buffer :: "byte list"

text \<open>The constructor reserves capacity, which no operation can observe.\<close>

definition ByteBuffer_new :: ByteBuffer where
  "ByteBuffer_new = \<lparr>bb_buffer = []\<rparr>"

definition writeByte :: "byte \<Rightarrow> ByteBuffer \<Rightarrow> ByteBuffer" where
  "writeByte value b = b\<lparr>bb_buffer := bb_buffer b @ [value]\<rparr>"

definition writeInt :: "int32 \<Rightarrow> ByteBuffer \<Rightarrow> ByteBuffer" where
  "writeInt value =
     writeByte (ucast (value AND 0xFF)) \<circ>
     writeByte (ucast (signed_drop_bit 8 value AND 0xFF)) \<circ>
     writeByte (ucast (signed_drop_bit 16 value AND 0xFF)) \<circ>
     writeByte (ucast (signed_drop_bit 24 value AND 0xFF))"

definition writeLong :: "int64 \<Rightarrow> ByteBuffer \<Rightarrow> ByteBuffer" where
  "writeLong value =
     writeByte (ucast (value AND 0xFF)) \<circ>
     writeByte (ucast (signed_drop_bit 8 value AND 0xFF)) \<circ>
     writeByte (ucast (signed_drop_bit 16 value AND 0xFF)) \<circ>
     writeByte (ucast (signed_drop_bit 24 value AND 0xFF)) \<circ>
     writeByte (ucast (signed_drop_bit 32 value AND 0xFF)) \<circ>
     writeByte (ucast (signed_drop_bit 40 value AND 0xFF)) \<circ>
     writeByte (ucast (signed_drop_bit 48 value AND 0xFF)) \<circ>
     writeByte (ucast (signed_drop_bit 56 value AND 0xFF))"

text \<open>
  A \<^verbatim>\<open>double\<close> is its 64-bit object representation: the code only copies it in and out of a
  64-bit integer with \<^verbatim>\<open>memcpy\<close>.
\<close>

datatype double = Double (double_bits: int64)

definition writeDouble :: "double \<Rightarrow> ByteBuffer \<Rightarrow> ByteBuffer" where
  "writeDouble value = writeLong (double_bits value)"

definition byte_of_char :: "char \<Rightarrow> byte" where
  "byte_of_char c = word_of_nat (of_char c)"

definition char_of_byte :: "byte \<Rightarrow> char" where
  "char_of_byte w = char_of (unat w)"

definition writeString :: "string \<Rightarrow> ByteBuffer \<Rightarrow> ByteBuffer" where
  "writeString str b =
     fold (\<lambda>c. writeByte (byte_of_char c)) str (writeInt (word_of_nat (length str)) b)"

definition ByteBuffer_getBuffer :: "ByteBuffer \<Rightarrow> byte list" where
  "ByteBuffer_getBuffer b = bb_buffer b"

section \<open>What each write appends\<close>

named_theorems appends \<open>the bytes a write appends\<close>

definition int_bytes :: "int32 \<Rightarrow> byte list" where
  "int_bytes v = [ucast (drop_bit 24 v), ucast (drop_bit 16 v), ucast (drop_bit 8 v), ucast v]"

definition long_bytes :: "int64 \<Rightarrow> byte list" where
  "long_bytes v = [ucast (drop_bit 56 v), ucast (drop_bit 48 v), ucast (drop_bit 40 v), ucast (drop_bit 32 v),
     ucast (drop_bit 24 v), ucast (drop_bit 16 v), ucast (drop_bit 8 v), ucast v]"

definition string_bytes :: "string \<Rightarrow> byte list" where
  "string_bytes s = int_bytes (word_of_nat (length s)) @ map byte_of_char s"

text \<open>
  The arithmetic shift fills with sign bits, which the mask and the 8-bit result drop.
\<close>

lemma mask_FF: "(0xFF :: 'a::len word) = mask 8"
  by (simp add: mask_eq_exp_minus_1)

lemma low_byte_shift32:
  "n \<le> 24 \<Longrightarrow> (ucast (signed_drop_bit n (v :: int32)) :: byte) = ucast (drop_bit n v)"
  by (rule bit_word_eqI) (auto simp: bit_simps)

lemma low_byte_shift64:
  "n \<le> 56 \<Longrightarrow> (ucast (signed_drop_bit n (v :: int64)) :: byte) = ucast (drop_bit n v)"
  by (rule bit_word_eqI) (auto simp: bit_simps)

lemma low_byte: "(ucast ((v :: 'a::len word) AND 0xFF) :: byte) = ucast v"
  unfolding mask_FF by (rule bit_word_eqI) (auto simp: bit_simps dest: bit_imp_le_length)

text \<open>The bits of a word that one of its bytes carries, at their place in the word.\<close>

definition octet :: "nat \<Rightarrow> 'a::len word \<Rightarrow> 'a word" where
  "octet k v = push_bit k (ucast (ucast (drop_bit k v) :: byte))"

lemma bit_octet:
  "k + 8 \<le> LENGTH('a) \<Longrightarrow> bit (octet k (v :: 'a::len word)) n \<longleftrightarrow> k \<le> n \<and> n < k + 8 \<and> bit v n"
  by (auto simp: octet_def bit_simps)

lemma octets_int32: "octet 24 v OR octet 16 v OR octet 8 v OR octet 0 v = (v :: int32)"
  by (rule bit_word_eqI) (simp add: bit_or_iff bit_octet, arith)

lemma octets_int64:
  "octet 56 v OR octet 48 v OR octet 40 v OR octet 32 v OR
   octet 24 v OR octet 16 v OR octet 8 v OR octet 0 v = (v :: int64)"
  by (rule bit_word_eqI) (simp add: bit_or_iff bit_octet, arith)

lemma writeByte_appends [appends]: "bb_buffer (writeByte v b) = bb_buffer b @ [v]"
  by (simp add: writeByte_def)

lemma writeInt_appends [appends]: "bb_buffer (writeInt v b) = bb_buffer b @ int_bytes v"
  by (simp add: writeInt_def int_bytes_def appends low_byte low_byte_shift32)

lemma writeLong_appends [appends]: "bb_buffer (writeLong v b) = bb_buffer b @ long_bytes v"
  by (simp add: writeLong_def long_bytes_def appends low_byte low_byte_shift64)

lemma writeDouble_appends [appends]:
  "bb_buffer (writeDouble v b) = bb_buffer b @ long_bytes (double_bits v)"
  by (simp add: writeDouble_def appends)

lemma fold_writeByte [appends]:
  "bb_buffer (fold (\<lambda>c. writeByte (byte_of_char c)) s b) = bb_buffer b @ map byte_of_char s"
  by (induction s arbitrary: b) (simp_all add: appends)

lemma writeString_appends [appends]: "bb_buffer (writeString s b) = bb_buffer b @ string_bytes s"
  by (simp add: writeString_def string_bytes_def appends)

lemma length_int_bytes [simp]: "length (int_bytes v) = 4"
  by (simp add: int_bytes_def)

lemma length_long_bytes [simp]: "length (long_bytes v) = 8"
  by (simp add: long_bytes_def)

lemma length_string_bytes [simp]: "length (string_bytes s) = 4 + length s"
  by (simp add: string_bytes_def)

section \<open>Characters and bytes\<close>

lemma char_of_byte_of_char [simp]: "char_of_byte (byte_of_char c) = c"
proof -
  have "(of_char c :: nat) < 2 ^ LENGTH(8)" by simp
  then have "unat (byte_of_char c) = of_char c"
    by (simp add: byte_of_char_def unat_of_nat take_bit_nat_eq_self)
  then show ?thesis by (simp add: char_of_byte_def)
qed

section \<open>Big-endian order\<close>

text \<open>The number a list of bytes denotes, most significant byte first.\<close>

definition be_value :: "byte list \<Rightarrow> nat" where
  "be_value bs = foldl (\<lambda>a b. 256 * a + unat b) 0 bs"

lemma unat_octet: "unat (ucast (drop_bit k (v :: 'a::len word)) :: byte) = unat v div 2 ^ k mod 256"
  by (simp add: unsigned_ucast_eq take_bit_eq_mod unat_drop_bit_eq flip: drop_bit_eq_div)

lemma unat_octet0: "unat (ucast (v :: 'a::len word) :: byte) = unat v mod 256"
  by (simp add: unsigned_ucast_eq take_bit_eq_mod)

lemma base256: "256 * (n div 2 ^ (k + 8)) + n div 2 ^ k mod 256 = (n :: nat) div 2 ^ k"
proof -
  have "n div 2 ^ (k + 8) = n div 2 ^ k div 256"
    by (simp add: power_add flip: div_mult2_eq)
  then show ?thesis by simp
qed

lemma be_value_int_bytes: "be_value (int_bytes v) = unat v"
proof -
  have "unat v < 2 ^ 32" using unsigned_less [of v] by simp
  then have "unat v div 2 ^ 24 mod 256 = unat v div 2 ^ 24" by (simp add: less_mult_imp_div_less)
  with base256 [of "unat v" 16] base256 [of "unat v" 8] base256 [of "unat v" 0] show ?thesis
    by (simp add: be_value_def int_bytes_def unat_octet unat_octet0 unat_drop_bit_eq drop_bit_eq_div [where 'a = nat])
qed

lemma be_value_long_bytes: "be_value (long_bytes v) = unat v"
proof -
  have "unat v < 2 ^ 64" using unsigned_less [of v] by simp
  then have "unat v div 2 ^ 56 mod 256 = unat v div 2 ^ 56" by (simp add: less_mult_imp_div_less)
  with base256 [of "unat v" 48] base256 [of "unat v" 40] base256 [of "unat v" 32] base256 [of "unat v" 24]
    base256 [of "unat v" 16] base256 [of "unat v" 8] base256 [of "unat v" 0]
  show ?thesis
    by (simp add: be_value_def long_bytes_def unat_octet unat_octet0 unat_drop_bit_eq drop_bit_eq_div [where 'a = nat])
qed

section \<open>Properties\<close>

text \<open>
  \<^verbatim>\<open>writeInt\<close> appends exactly four bytes, which read as a big-endian number are the
  unsigned value of the integer, whatever is in the buffer already; \<^verbatim>\<open>writeLong\<close> appends eight.
\<close>

theorem integers_are_big_endian:
  "bb_buffer (writeInt v b) = bb_buffer b @ drop (length (bb_buffer b)) (bb_buffer (writeInt v b)) \<and>
   be_value (drop (length (bb_buffer b)) (bb_buffer (writeInt v b))) = unat v \<and>
   length (bb_buffer (writeInt v b)) = length (bb_buffer b) + 4 \<and>
   be_value (drop (length (bb_buffer b)) (bb_buffer (writeLong w b))) = unat w \<and>
   length (bb_buffer (writeLong w b)) = length (bb_buffer b) + 8"
  by (simp add: appends be_value_int_bytes be_value_long_bytes)

end
