(* ===== verification/Byte_Reader.thy ===== *)
theory Byte_Reader
  imports Byte_Buffer
begin

text \<open>
  The client's byte reader (\<^verbatim>\<open>Client/include/ByteReader.hpp\<close>,
  \<^verbatim>\<open>Client/src/ByteReader.cpp\<close>), the contract that ties a write of the byte buffer to the
  read that inverts it (locale \<open>codec\<close>), and two facts about every read: more bytes at the
  end of the buffer do not change a successful read, and a failing read throws.
\<close>

unbundle bit_operations_syntax

section \<open>The reader and its operations\<close>

record ByteReader =
  br_buffer :: "byte list"
  br_position :: nat

definition ByteReader_new :: "byte list \<Rightarrow> ByteReader" where
  "ByteReader_new data = \<lparr>br_buffer = data, br_position = 0\<rparr>"

text \<open>The unread part of the buffer.\<close>

definition ByteReader_getBuffer :: "ByteReader \<Rightarrow> byte list" where
  "ByteReader_getBuffer r = drop (br_position r) (br_buffer r)"

text \<open>
  Element access of \<^verbatim>\<open>std::vector\<close>: \<^verbatim>\<open>v[i]\<close> and \<^verbatim>\<open>v.back()\<close> check nothing, so
  outside the vector their behaviour is undefined.
\<close>

definition vector_at :: "'a list \<Rightarrow> nat \<Rightarrow> failure + 'a" where
  "vector_at v i = (if i < length v then Inr (v ! i) else Inl (Undefined ''vector index out of range''))"

definition vector_back :: "'a list \<Rightarrow> failure + 'a" where
  "vector_back v = (if v = [] then Inl (Undefined ''back of an empty vector'') else Inr (last v))"

text \<open>
  \<^verbatim>\<open>std::vector(v.begin(), v.end() - 1)\<close>, undefined for an empty vector, which has no iterator
  before its end.
\<close>

definition vector_init :: "'a list \<Rightarrow> failure + 'a list" where
  "vector_init v = (if v = [] then Inl (Undefined ''iterator before the begin'') else Inr (butlast v))"

text \<open>The guard, and then the unchecked access \<^verbatim>\<open>buffer[position++]\<close>.\<close>

definition readByte :: "(ByteReader, byte) prog" where
  "readByte r =
     (if length (br_buffer r) \<le> br_position r
      then (Inl (Throws (Runtime_Error ''Buffer overflow'')), r)
      else (vector_at (br_buffer r) (br_position r), r\<lparr>br_position := br_position r + 1\<rparr>))"

definition readInt :: "(ByteReader, int32) prog" where
  "readInt =
     bnd readByte (\<lambda>b3. bnd readByte (\<lambda>b2. bnd readByte (\<lambda>b1. bnd readByte (\<lambda>b0.
     ret (push_bit 24 (ucast b3) OR push_bit 16 (ucast b2) OR push_bit 8 (ucast b1) OR ucast b0)))))"

definition readLong :: "(ByteReader, int64) prog" where
  "readLong =
     bnd readByte (\<lambda>b7. bnd readByte (\<lambda>b6. bnd readByte (\<lambda>b5. bnd readByte (\<lambda>b4.
     bnd readByte (\<lambda>b3. bnd readByte (\<lambda>b2. bnd readByte (\<lambda>b1. bnd readByte (\<lambda>b0.
     ret (push_bit 56 (ucast b7) OR push_bit 48 (ucast b6) OR push_bit 40 (ucast b5) OR
          push_bit 32 (ucast b4) OR push_bit 24 (ucast b3) OR push_bit 16 (ucast b2) OR
          push_bit 8 (ucast b1) OR ucast b0)))))))))"

definition readDouble :: "(ByteReader, double) prog" where
  "readDouble = bnd readLong (\<lambda>bits. ret (Double bits))"

text \<open>
  \<^verbatim>\<open>for (int i = 0; i < length; i++)\<close>: the loop that appends one character per byte.
\<close>

fun readChars :: "nat \<Rightarrow> string \<Rightarrow> (ByteReader, string) prog" where
  "readChars 0 str = ret str"
| "readChars (Suc n) str = bnd readByte (\<lambda>b. readChars n (str @ [char_of_byte b]))"

text \<open>
  \<^verbatim>\<open>str.reserve(length)\<close> converts a negative length to a \<^verbatim>\<open>size_t\<close> above
  \<^verbatim>\<open>max_size()\<close> and throws \<^verbatim>\<open>std::length_error\<close>. A non-negative length is below 2 GiB, and
  memory for it is taken to be available.
\<close>

definition readString :: "(ByteReader, string) prog" where
  "readString =
     bnd readInt (\<lambda>length.
       if sint length < 0 then fail (Throws Length_Error)
       else readChars (nat (sint length)) [])"

section \<open>Reading from the front of the unread bytes\<close>

definition advance :: "nat \<Rightarrow> ByteReader \<Rightarrow> ByteReader" where
  "advance n r = r\<lparr>br_position := br_position r + n\<rparr>"

lemma advance_0 [simp]: "advance 0 r = r"
  by (simp add: advance_def)

lemma advance_advance [simp]: "advance m (advance n r) = advance (n + m) r"
  by (simp add: advance_def)

lemma unread_advance [simp]: "ByteReader_getBuffer (advance n r) = drop n (ByteReader_getBuffer r)"
  by (simp add: ByteReader_getBuffer_def advance_def add.commute)

lemma unread_after:
  "ByteReader_getBuffer r = xs @ ys \<Longrightarrow> ByteReader_getBuffer (advance (length xs) r) = ys"
  by simp

lemma unread_new [simp]: "ByteReader_getBuffer (ByteReader_new data) = data"
  by (simp add: ByteReader_getBuffer_def ByteReader_new_def)

lemma readByte_Cons:
  "ByteReader_getBuffer r = b # bs \<Longrightarrow> readByte r = (Inr b, advance 1 r)"
  by (auto simp: ByteReader_getBuffer_def readByte_def vector_at_def advance_def nth_via_drop
      simp del: drop_eq_Nil dest: drop_eq_Nil [THEN iffD2])

lemma readByte_Nil:
  "ByteReader_getBuffer r = [] \<Longrightarrow> readByte r = (Inl (Throws (Runtime_Error ''Buffer overflow'')), r)"
  by (simp add: ByteReader_getBuffer_def readByte_def)

section \<open>Codecs\<close>

text \<open>
  The contract between a write of the buffer and the read that inverts it: the write appends
  an encoding of its argument, and the read consumes exactly this encoding, whatever follows.
\<close>

locale codec =
  fixes wr :: "'a \<Rightarrow> ByteBuffer \<Rightarrow> ByteBuffer"
    and rd :: "(ByteReader, 'a) prog"
    and enc :: "'a \<Rightarrow> byte list"
    and valid :: "'a \<Rightarrow> bool"
  assumes write_enc: "bb_buffer (wr x b) = bb_buffer b @ enc x"
    and read_enc: "valid x \<Longrightarrow> ByteReader_getBuffer r = enc x @ rest \<Longrightarrow>
      rd r = (Inr x, advance (length (enc x)) r)"
begin

text \<open>What is written behind some bytes and before others is read back from between them.\<close>

lemma write_read:
  assumes "valid x"
  shows "rd \<lparr>br_buffer = bb_buffer (wr x b) @ rest, br_position = length (bb_buffer b)\<rparr>
    = (Inr x, \<lparr>br_buffer = bb_buffer (wr x b) @ rest, br_position = length (bb_buffer (wr x b))\<rparr>)"
  using assms by (subst read_enc [where x = x and rest = rest])
    (simp_all add: write_enc ByteReader_getBuffer_def advance_def)

text \<open>The encoding is a prefix code.\<close>

lemma enc_prefix_free:
  assumes "valid x" and "valid y" and "enc x @ r = enc y @ s"
  shows "x = y \<and> r = s"
proof -
  have "rd (ByteReader_new (enc x @ r)) = (Inr x, advance (length (enc x)) (ByteReader_new (enc x @ r)))"
    using assms(1) by (rule read_enc) simp
  moreover have "rd (ByteReader_new (enc y @ s)) = (Inr y, advance (length (enc y)) (ByteReader_new (enc y @ s)))"
    using assms(2) by (rule read_enc) simp
  ultimately have "x = y" using assms(3) by simp
  with assms(3) show ?thesis by simp
qed

end

lemma readInt_enc:
  assumes "ByteReader_getBuffer r = int_bytes v @ rest"
  shows "readInt r = (Inr v, advance 4 r)"
proof -
  have "readInt r = (Inr (octet 24 v OR octet 16 v OR octet 8 v OR octet 0 v), advance (Suc (Suc (Suc (Suc 0)))) r)"
    using assms by (simp add: readInt_def int_bytes_def octet_def readByte_Cons)
  then show ?thesis unfolding octets_int32 by (simp add: numeral_eq_Suc)
qed

lemma readLong_enc:
  assumes "ByteReader_getBuffer r = long_bytes v @ rest"
  shows "readLong r = (Inr v, advance 8 r)"
proof -
  have "readLong r = (Inr (octet 56 v OR octet 48 v OR octet 40 v OR octet 32 v OR
      octet 24 v OR octet 16 v OR octet 8 v OR octet 0 v),
      advance (Suc (Suc (Suc (Suc (Suc (Suc (Suc (Suc 0)))))))) r)"
    using assms by (simp add: readLong_def long_bytes_def octet_def readByte_Cons)
  then show ?thesis unfolding octets_int64 by (simp add: numeral_eq_Suc)
qed

lemma readChars_enc:
  "ByteReader_getBuffer r = map byte_of_char s @ rest \<Longrightarrow>
   readChars (length s) acc r = (Inr (acc @ s), advance (length s) r)"
  by (induction s arbitrary: acc r) (simp_all add: readByte_Cons)

text \<open>A length the code can write: the \<^verbatim>\<open>int32_t\<close> cast of the size keeps it non-negative.\<close>

definition string_fits :: "string \<Rightarrow> bool" where
  "string_fits s \<longleftrightarrow> length s < 2 ^ 31"

lemma sint_of_length: "string_fits s \<Longrightarrow> sint (word_of_nat (length s) :: int32) = int (length s)"
  by (simp add: string_fits_def signed_of_nat signed_take_bit_int_eq_self)

lemma readString_enc:
  assumes "string_fits s" and "ByteReader_getBuffer r = string_bytes s @ rest"
  shows "readString r = (Inr s, advance (4 + length s) r)"
  using assms
  by (simp add: readString_def string_bytes_def readInt_enc sint_of_length readChars_enc)

interpretation byte_codec: codec writeByte readByte "\<lambda>b. [b]" "\<lambda>_. True"
  by unfold_locales (simp_all add: appends readByte_Cons)

interpretation int_codec: codec writeInt readInt int_bytes "\<lambda>_. True"
  by unfold_locales (simp_all add: appends readInt_enc)

interpretation long_codec: codec writeLong readLong long_bytes "\<lambda>_. True"
  by unfold_locales (simp_all add: appends readLong_enc)

interpretation double_codec: codec writeDouble readDouble "long_bytes \<circ> double_bits" "\<lambda>_. True"
  by unfold_locales (simp_all add: appends readDouble_def readLong_enc)

interpretation string_codec: codec writeString readString string_bytes string_fits
  by unfold_locales (simp_all add: appends readString_enc)

section \<open>Robustness\<close>

text \<open>
  Every read keeps the position inside the buffer, never moves it back and leaves the buffer
  alone; a read that succeeds does the same when more bytes follow; a read that fails throws
  (it never leaves the defined part of C++). The predicate is stated for programs over any
  state that holds a reader.
\<close>

definition in_bounds :: "ByteReader \<Rightarrow> bool" where
  "in_bounds r \<longleftrightarrow> br_position r \<le> length (br_buffer r)"

definition more_bytes :: "byte list \<Rightarrow> ByteReader \<Rightarrow> ByteReader" where
  "more_bytes ys r = r\<lparr>br_buffer := br_buffer r @ ys\<rparr>"

definition robust_on ::
  "('s \<Rightarrow> ByteReader) \<Rightarrow> (ByteReader \<Rightarrow> 's \<Rightarrow> 's) \<Rightarrow> ('s, 'a) prog \<Rightarrow> bool" where
  "robust_on view upd p \<longleftrightarrow> (\<forall>s. in_bounds (view s) \<longrightarrow>
     (case p s of
        (Inr x, s') \<Rightarrow> in_bounds (view s') \<and> br_buffer (view s') = br_buffer (view s) \<and>
          br_position (view s) \<le> br_position (view s') \<and>
          (\<forall>ys. p (upd (more_bytes ys (view s)) s) = (Inr x, upd (more_bytes ys (view s')) s'))
      | (Inl e, s') \<Rightarrow> (\<exists>x. e = Throws x)))"

abbreviation robust :: "(ByteReader, 'a) prog \<Rightarrow> bool" where
  "robust \<equiv> robust_on (\<lambda>r. r) (\<lambda>r _. r)"

named_theorems robust_intros \<open>programs that are robust\<close>

lemma robust_InrD:
  assumes "robust_on view upd p" and "in_bounds (view s)" and "p s = (Inr x, s')"
  shows "in_bounds (view s')" and "br_buffer (view s') = br_buffer (view s)"
    and "br_position (view s) \<le> br_position (view s')"
    and "p (upd (more_bytes ys (view s)) s) = (Inr x, upd (more_bytes ys (view s')) s')"
  using assms by (auto simp: robust_on_def dest!: spec [of _ s])

lemma robust_InlD:
  "robust_on view upd p \<Longrightarrow> in_bounds (view s) \<Longrightarrow> p s = (Inl e, s') \<Longrightarrow> \<exists>x. e = Throws x"
  by (auto simp: robust_on_def dest!: spec [of _ s])

lemma robustI:
  assumes "\<And>s x s'. in_bounds (view s) \<Longrightarrow> p s = (Inr x, s') \<Longrightarrow>
      in_bounds (view s') \<and> br_buffer (view s') = br_buffer (view s) \<and>
      br_position (view s) \<le> br_position (view s') \<and>
      (\<forall>ys. p (upd (more_bytes ys (view s)) s) = (Inr x, upd (more_bytes ys (view s')) s'))"
    and "\<And>s e s'. in_bounds (view s) \<Longrightarrow> p s = (Inl e, s') \<Longrightarrow> \<exists>x. e = Throws x"
  shows "robust_on view upd p"
  unfolding robust_on_def
proof (intro allI impI)
  fix s assume s: "in_bounds (view s)"
  obtain v s' where p: "p s = (v, s')" by (cases "p s")
  show "case p s of
      (Inr x, s') \<Rightarrow> in_bounds (view s') \<and> br_buffer (view s') = br_buffer (view s) \<and>
        br_position (view s) \<le> br_position (view s') \<and>
        (\<forall>ys. p (upd (more_bytes ys (view s)) s) = (Inr x, upd (more_bytes ys (view s')) s'))
    | (Inl e, s') \<Rightarrow> \<exists>x. e = Throws x"
  proof (cases v)
    case (Inl e)
    with p assms(2) [OF s] show ?thesis by simp
  next
    case (Inr x)
    with p assms(1) [OF s] show ?thesis by simp
  qed
qed

lemma robust_ret [robust_intros]: "robust_on view upd (ret x)"
  by (rule robustI) auto

lemma robust_throw [robust_intros]: "robust_on view upd (fail (Throws x))"
  by (rule robustI) auto

lemma robust_bnd [robust_intros]:
  assumes "robust_on view upd m" and "\<And>x. robust_on view upd (k x)"
  shows "robust_on view upd (bnd m k)"
proof (rule robustI)
  fix r y r'' assume r: "in_bounds (view r)" and "bnd m k r = (Inr y, r'')"
  then obtain x r' where m: "m r = (Inr x, r')" and k: "k x r' = (Inr y, r'')" by (elim bnd_InrE)
  note M = robust_InrD [OF assms(1) r m]
  note K = robust_InrD [OF assms(2) M(1) k]
  show "in_bounds (view r'') \<and> br_buffer (view r'') = br_buffer (view r) \<and>
      br_position (view r) \<le> br_position (view r'') \<and>
      (\<forall>ys. bnd m k (upd (more_bytes ys (view r)) r) = (Inr y, upd (more_bytes ys (view r'')) r''))"
    using M K by simp
next
  fix r e r'' assume r: "in_bounds (view r)" and b: "bnd m k r = (Inl e, r'')"
  obtain v r' where m: "m r = (v, r')" by (cases "m r")
  show "\<exists>x. e = Throws x"
  proof (cases v)
    case (Inl a)
    with m b have "a = e" by simp
    with m Inl r show ?thesis using robust_InlD [OF assms(1) r] by auto
  next
    case (Inr x)
    with m b have "k x r' = (Inl e, r'')" by simp
    moreover have "in_bounds (view r')" using robust_InrD(1) [OF assms(1) r] m Inr by auto
    ultimately show ?thesis using robust_InlD [OF assms(2)] by blast
  qed
qed

lemma robust_if [robust_intros]:
  "(b \<Longrightarrow> robust_on view upd p) \<Longrightarrow> (\<not> b \<Longrightarrow> robust_on view upd q) \<Longrightarrow>
   robust_on view upd (if b then p else q)"
  by simp

lemma robust_readByte [robust_intros]: "robust readByte"
  by (rule robustI) (auto simp: readByte_def vector_at_def in_bounds_def more_bytes_def nth_append split: if_splits)

lemma robust_readInt [robust_intros]: "robust readInt"
  unfolding readInt_def by (intro robust_intros)

lemma robust_readLong [robust_intros]: "robust readLong"
  unfolding readLong_def by (intro robust_intros)

lemma robust_readDouble [robust_intros]: "robust readDouble"
  unfolding readDouble_def by (intro robust_intros)

lemma robust_readChars [robust_intros]: "robust (readChars n acc)"
  by (induction n arbitrary: acc) (auto intro: robust_intros)

lemma robust_readString [robust_intros]: "robust readString"
  unfolding readString_def by (intro robust_intros)

section \<open>Properties\<close>

text \<open>
  An integer written at the end of any buffer, with any bytes after it, is read back by
  \<^verbatim>\<open>readInt\<close> at that position, and the reader stands right behind it; the same for a byte, a
  \<^verbatim>\<open>long\<close> and a \<^verbatim>\<open>double\<close>.
\<close>

theorem numbers_read_back:
  "readByte \<lparr>br_buffer = bb_buffer (writeByte w b) @ rest, br_position = length (bb_buffer b)\<rparr> =
     (Inr w, \<lparr>br_buffer = bb_buffer (writeByte w b) @ rest, br_position = length (bb_buffer b) + 1\<rparr>) \<and>
   readInt \<lparr>br_buffer = bb_buffer (writeInt v b) @ rest, br_position = length (bb_buffer b)\<rparr> =
     (Inr v, \<lparr>br_buffer = bb_buffer (writeInt v b) @ rest, br_position = length (bb_buffer b) + 4\<rparr>) \<and>
   readLong \<lparr>br_buffer = bb_buffer (writeLong l b) @ rest, br_position = length (bb_buffer b)\<rparr> =
     (Inr l, \<lparr>br_buffer = bb_buffer (writeLong l b) @ rest, br_position = length (bb_buffer b) + 8\<rparr>) \<and>
   readDouble \<lparr>br_buffer = bb_buffer (writeDouble x b) @ rest, br_position = length (bb_buffer b)\<rparr> =
     (Inr x, \<lparr>br_buffer = bb_buffer (writeDouble x b) @ rest, br_position = length (bb_buffer b) + 8\<rparr>)"
  using byte_codec.write_read [of w b rest] int_codec.write_read [of v b rest]
    long_codec.write_read [of l b rest] double_codec.write_read [of x b rest]
  by (simp add: appends)

text \<open>
  A string whose length fits the wire's 32-bit length field is read back from the end of any
  buffer.
\<close>

theorem string_reads_back:
  assumes "string_fits s"
  shows "readString \<lparr>br_buffer = bb_buffer (writeString s b) @ rest, br_position = length (bb_buffer b)\<rparr> =
    (Inr s, \<lparr>br_buffer = bb_buffer (writeString s b) @ rest,
             br_position = length (bb_buffer b) + 4 + length s\<rparr>)"
  using string_codec.write_read [OF assms, of b rest] by (simp add: appends)

theorem string_reads_back_witness:
  "readString \<lparr>br_buffer = bb_buffer (writeString ''ab'' ByteBuffer_new) @ [7], br_position = 0\<rparr> =
    (Inr ''ab'', \<lparr>br_buffer = bb_buffer (writeString ''ab'' ByteBuffer_new) @ [7], br_position = 6\<rparr>)"
  using string_reads_back [of "''ab''" ByteBuffer_new "[7]"]
  by (simp add: string_fits_def ByteBuffer_new_def)

text \<open>
  Strings on the wire are self-delimiting: when two strings followed by anything give the
  same bytes, the strings and what follows them are the same.
\<close>

theorem strings_are_self_delimiting:
  assumes "string_fits s" and "string_fits t"
    and "bb_buffer (writeString s b) @ r = bb_buffer (writeString t b) @ u"
  shows "s = t \<and> r = u"
  using string_codec.enc_prefix_free [OF assms(1,2), of r u] assms(3) by (simp add: appends)

theorem strings_are_self_delimiting_witness:
  "''a'' = ''a'' \<and> [1 :: byte] = [1]"
  using strings_are_self_delimiting [of "''a''" "''a''" ByteBuffer_new "[1]" "[1]"]
  by (simp add: string_fits_def)

end
