(* ===== verification/Parity_Bit.thy ===== *)
theory Parity_Bit
  imports Byte_Buffer
begin

text \<open>
  The even parity bit of a message (\<^verbatim>\<open>Client/include/Parity.hpp\<close>,
  \<^verbatim>\<open>Client/src/Parity.cpp\<close>): the loops of the code, the number of one bits they count, and
  what a parity check detects.
\<close>

unbundle bit_operations_syntax

section \<open>The code's loops\<close>

text \<open>\<^verbatim>\<open>while (temp)\<close>: the lowest bit is xored into the parity and shifted out.\<close>

function parity_byte :: "byte \<Rightarrow> byte \<Rightarrow> byte" where
  "parity_byte temp parityBit =
     (if temp = 0 then parityBit else parity_byte (drop_bit 1 temp) (parityBit XOR (temp AND 1)))"
  by pat_completeness auto
termination
proof (relation "measure (\<lambda>(temp, parityBit). unat temp)")
  fix temp :: byte assume "temp \<noteq> 0"
  then have "unat temp div 2 < unat temp" by (simp add: unat_gt_0)
  then show "((drop_bit 1 temp, p XOR (temp AND 1)), temp, p) \<in> measure (\<lambda>(temp, parityBit). unat temp)" for p
    by (simp add: unat_drop_bit_eq drop_bit_eq_div [where 'a = nat])
qed simp

declare parity_byte.simps [simp del]

definition calculateEvenParityBit :: "byte list \<Rightarrow> byte" where
  "calculateEvenParityBit data = fold parity_byte data 0"

definition verifyEvenParity :: "byte list \<Rightarrow> byte \<Rightarrow> bool" where
  "verifyEvenParity data parityBit \<longleftrightarrow> calculateEvenParityBit data = parityBit"

section \<open>What the loops compute\<close>

text \<open>The number of one bits of a byte and of a message.\<close>

definition ones :: "byte \<Rightarrow> nat" where
  "ones w = (\<Sum>n\<leftarrow>[0, 1, 2, 3, 4, 5, 6, 7]. of_bool (bit w n))"

definition ones_of :: "byte list \<Rightarrow> nat" where
  "ones_of bs = sum_list (map ones bs)"

lemma ones_of_simps [simp]: "ones_of [] = 0" "ones_of (b # bs) = ones b + ones_of bs"
  "ones_of (bs @ cs) = ones_of bs + ones_of cs"
  by (simp_all add: ones_of_def)

lemma ones_sum:
  "ones w = of_bool (bit w 0) + of_bool (bit w 1) + of_bool (bit w 2) + of_bool (bit w 3) +
     of_bool (bit w 4) + of_bool (bit w 5) + of_bool (bit w 6) + of_bool (bit w 7)"
  by (simp add: ones_def)

lemma ones_0 [simp]: "ones 0 = 0"
  by (simp add: ones_sum)

lemma ones_1 [simp]: "ones 1 = 1"
  by (simp add: ones_sum bit_1_iff)

lemma ones_shift: "ones w = of_bool (bit w 0) + ones (drop_bit 1 w)"
proof -
  have "\<not> bit w 8" using bit_imp_le_length [of w 8] by auto
  then show ?thesis by (simp add: ones_sum bit_drop_bit_eq eval_nat_numeral)
qed

text \<open>Exclusive or counts the differing bits; common ones cancel in pairs.\<close>

lemma ones_xor: "ones (a XOR b) + 2 * ones (a AND b) = ones a + ones b"
  by (simp add: ones_sum bit_xor_iff bit_and_iff of_bool_def)

lemma even_ones_xor: "even (ones (a XOR b)) \<longleftrightarrow> (even (ones a) \<longleftrightarrow> even (ones b))"
  using ones_xor [of a b] by presburger

lemma parity_byte_eq: "parity_byte temp p = p XOR of_bool (odd (ones temp))"
proof (induction temp p rule: parity_byte.induct)
  case (1 temp p)
  show ?case
  proof (cases "temp = 0")
    case True
    then show ?thesis by (simp add: parity_byte.simps)
  next
    case False
    have "temp AND 1 = of_bool (bit temp 0)" by (simp add: and_one_eq mod_2_eq_odd bit_0)
    with False 1 show ?thesis
      by (simp add: parity_byte.simps [of temp p] ones_shift [of temp] xor.assoc)
  qed
qed

lemma fold_parity_byte: "fold parity_byte data (of_bool b) = of_bool (b \<noteq> odd (ones_of data))"
proof (induction data arbitrary: b)
  case Nil
  then show ?case by simp
next
  case (Cons w data)
  have "parity_byte w (of_bool b) = of_bool (b \<noteq> odd (ones w))"
    by (simp add: parity_byte_eq)
  with Cons [of "b \<noteq> odd (ones w)"] show ?case by auto
qed

lemma calculateEvenParityBit_eq: "calculateEvenParityBit data = of_bool (odd (ones_of data))"
  using fold_parity_byte [of data False] by (simp add: calculateEvenParityBit_def)

section \<open>What a parity check detects\<close>

text \<open>
  A message on the wire ends with its parity byte. The check of a received message compares
  the parity of everything before the last byte with the last byte.
\<close>

definition parity_checked :: "byte list \<Rightarrow> bool" where
  "parity_checked msg \<longleftrightarrow> msg \<noteq> [] \<and> verifyEvenParity (butlast msg) (last msg)"

text \<open>The number of bits in which two messages of the same length differ.\<close>

definition bit_errors :: "byte list \<Rightarrow> byte list \<Rightarrow> nat" where
  "bit_errors sent received = sum_list (map2 (\<lambda>a b. ones (a XOR b)) sent received)"

lemma bit_errors_Cons [simp]: "bit_errors (a # s) (b # r) = ones (a XOR b) + bit_errors s r"
  by (simp add: bit_errors_def)

lemma bit_errors_self [simp]: "bit_errors s s = 0"
  by (induction s) (simp_all add: bit_errors_def)

lemma even_bit_errors:
  "length sent = length received \<Longrightarrow>
   even (bit_errors sent received) \<longleftrightarrow> (even (ones_of sent) \<longleftrightarrow> even (ones_of received))"
  by (induction sent received rule: list_induct2) (auto simp: bit_errors_def even_ones_xor)

lemma parity_checked_iff:
  "parity_checked msg \<longleftrightarrow> msg \<noteq> [] \<and> last msg \<in> {0, 1} \<and> even (ones_of msg)"
proof (cases msg rule: rev_cases)
  case Nil
  then show ?thesis by (simp add: parity_checked_def)
next
  case (snoc data p)
  then show ?thesis
    by (auto simp: parity_checked_def verifyEvenParity_def calculateEvenParityBit_eq)
qed

lemma parity_checked_append:
  "parity_checked (data @ [calculateEvenParityBit data])"
  by (simp add: parity_checked_def verifyEvenParity_def)

lemma odd_errors_detected:
  assumes "parity_checked sent" and "length received = length sent" and "odd (bit_errors sent received)"
  shows "\<not> parity_checked received"
  using assms even_bit_errors [of sent received] by (auto simp: parity_checked_iff)

section \<open>Properties\<close>

text \<open>
  The parity bit is 1 exactly when the number of one bits in the data is odd, so the data
  together with it has even parity; the check of a received bit accepts this value only.
\<close>

theorem parity_bit_counts_ones:
  "calculateEvenParityBit data = (if odd (ones_of data) then 1 else 0) \<and>
   even (ones_of (data @ [calculateEvenParityBit data])) \<and>
   (verifyEvenParity data p \<longleftrightarrow> p = (if odd (ones_of data) then 1 else 0))"
proof -
  have "ones_of (data @ [x]) = ones_of data + ones x" for x
    by (simp add: ones_of_def)
  then show ?thesis by (auto simp: calculateEvenParityBit_eq verifyEvenParity_def)
qed

end
