(* ===== verification/Serializer.thy ===== *)
theory Serializer
  imports Byte_Reader Parity_Bit
begin

text \<open>
  The client's serialisation layer (\<^verbatim>\<open>Client/include/Serializer.hpp\<close>,
  \<^verbatim>\<open>Client/src/Serializer.cpp\<close>): the \<^verbatim>\<open>JavaSerializable\<close> interface as a table of virtual
  methods, \<^verbatim>\<open>JavaSerializer\<close>, \<^verbatim>\<open>ObjectFactory\<close> and \<^verbatim>\<open>JavaDeserializer\<close> with their static
  maps. The locale \<open>java_serializable\<close> states what a class must guarantee; the round trip,
  the rejection of truncated messages and the detection of bit errors are proved from it once.
\<close>

section \<open>The interface JavaSerializable\<close>

text \<open>
  The virtual methods of a class whose objects are of type \<open>'o\<close>. Writing the fields is a
  function of the object and the buffer; reading them overwrites the fields of an object.
\<close>

record 'o JavaSerializable =
  getJavaClassName :: "'o \<Rightarrow> string"
  getFieldMetadata :: "'o \<Rightarrow> (string \<times> string) list"
  serializeFieldValues :: "'o \<Rightarrow> ByteBuffer \<Rightarrow> ByteBuffer"
  deserializeFields :: "'o \<Rightarrow> (ByteReader, 'o) prog"

section \<open>JavaSerializer\<close>

text \<open>A \<^verbatim>\<open>const JavaSerializable *\<close>: null, or an address and the object found there.\<close>

datatype 'o ptr = Null | Ref nat 'o

text \<open>The static members: the addresses already written, with their numbers.\<close>

record JavaSerializer =
  serializedObjects :: "nat \<rightharpoonup> int32"
  js_objectCounter :: int32

definition JavaSerializer_init :: JavaSerializer where
  "JavaSerializer_init = \<lparr>serializedObjects = Map.empty, js_objectCounter = 0\<rparr>"

definition writeFields :: "(string \<times> string) list \<Rightarrow> ByteBuffer \<Rightarrow> ByteBuffer" where
  "writeFields = fold (\<lambda>field. writeString (snd field) \<circ> writeString (fst field))"

definition serializeObject ::
  "'o JavaSerializable \<Rightarrow> 'o ptr \<Rightarrow> ByteBuffer \<Rightarrow> JavaSerializer \<Rightarrow> ByteBuffer \<times> JavaSerializer" where
  "serializeObject cls obj buffer js =
     (case obj of
        Null \<Rightarrow> (writeByte 0 buffer, js)
      | Ref a x \<Rightarrow>
          let buffer = writeByte 1 buffer in
          (case serializedObjects js a of
             Some i \<Rightarrow> (writeInt i (writeByte 1 buffer), js)
           | None \<Rightarrow>
               let buffer = writeByte 0 buffer;
                   js = js\<lparr>serializedObjects := (serializedObjects js)(a \<mapsto> js_objectCounter js),
                           js_objectCounter := js_objectCounter js + 1\<rparr>;
                   buffer = writeString (getJavaClassName cls x) buffer;
                   meta = getFieldMetadata cls x;
                   buffer = writeInt (word_of_nat (length meta)) buffer;
                   buffer = writeFields meta buffer
               in (serializeFieldValues cls x buffer, js)))"

definition serialize ::
  "'o JavaSerializable \<Rightarrow> 'o ptr \<Rightarrow> JavaSerializer \<Rightarrow> byte list \<times> JavaSerializer" where
  "serialize cls obj js =
     (let js = js\<lparr>serializedObjects := Map.empty, js_objectCounter := 0\<rparr>;
          (buffer, js) = serializeObject cls obj ByteBuffer_new js;
          parityBit = calculateEvenParityBit (ByteBuffer_getBuffer buffer);
          buffer = writeByte parityBit buffer
      in (ByteBuffer_getBuffer buffer, js))"

section \<open>ObjectFactory\<close>

text \<open>
  A registered creator makes a default-constructed object; \<open>creators\<close> maps a class name to
  that object.
\<close>

definition registerClass :: "'o \<Rightarrow> string \<Rightarrow> (string \<rightharpoonup> 'o) \<Rightarrow> (string \<rightharpoonup> 'o)" where
  "registerClass prototype className creators = creators(className \<mapsto> prototype)"

definition createObject :: "(string \<rightharpoonup> 'o) \<Rightarrow> string \<Rightarrow> failure + 'o" where
  "createObject creators className =
     (case creators className of
        None \<Rightarrow> Inl (Throws (Runtime_Error (''Unknown class: '' @ className)))
      | Some obj \<Rightarrow> Inr obj)"

section \<open>JavaDeserializer\<close>

text \<open>
  The static members, and the objects the factory has made so far: a \<^verbatim>\<open>shared_ptr\<close> is an
  index into \<open>jd_heap\<close> (or \<^const>\<open>None\<close> for null), so an object registered before its fields
  are read is the same object afterwards.
\<close>

record 'o JavaDeserializer =
  deserializedObjects :: "int32 \<rightharpoonup> nat"
  jd_objectCounter :: int32
  jd_heap :: "'o list"

definition JavaDeserializer_init :: "'o JavaDeserializer" where
  "JavaDeserializer_init = \<lparr>deserializedObjects = Map.empty, jd_objectCounter = 0, jd_heap = []\<rparr>"

type_synonym ('o, 'a) deser = "(ByteReader \<times> 'o JavaDeserializer, 'a) prog"

definition on_reader :: "(ByteReader, 'a) prog \<Rightarrow> ('o, 'a) deser" where
  "on_reader p = zoom fst (\<lambda>r s. (r, snd s)) p"

text \<open>\<^verbatim>\<open>deserializedObjects[objectCounter++] = obj\<close> for a new object.\<close>

definition registerObject :: "'o \<Rightarrow> ('o, nat) deser" where
  "registerObject obj = (\<lambda>(r, d). (Inr (length (jd_heap d)),
     (r, d\<lparr>deserializedObjects := (deserializedObjects d)(jd_objectCounter d \<mapsto> length (jd_heap d)),
          jd_objectCounter := jd_objectCounter d + 1, jd_heap := jd_heap d @ [obj]\<rparr>)))"

definition storeObject :: "nat \<Rightarrow> 'o \<Rightarrow> ('o, unit) deser" where
  "storeObject a obj = (\<lambda>(r, d). (Inr (), (r, d\<lparr>jd_heap := (jd_heap d)[a := obj]\<rparr>)))"

definition findObject :: "int32 \<Rightarrow> ('o, nat option) deser" where
  "findObject objectId = (\<lambda>(r, d).
     (case deserializedObjects d objectId of
        None \<Rightarrow> (Inl (Throws (Runtime_Error ''Invalid object reference'')), (r, d))
      | Some a \<Rightarrow> (Inr (Some a), (r, d))))"

text \<open>
  The loop over the field metadata, from index \<open>i\<close> with \<open>n\<close> rounds to go. The access
  \<^verbatim>\<open>expectedFields[i]\<close> is unchecked; that \<^verbatim>\<open>fieldCount\<close> rounds stay inside the vector rests on
  the comparison in front of the loop.
\<close>

fun verifyFields :: "(string \<times> string) list \<Rightarrow> nat \<Rightarrow> nat \<Rightarrow> (ByteReader, unit) prog" where
  "verifyFields expectedFields i 0 = ret ()"
| "verifyFields expectedFields i (Suc n) =
     bnd readString (\<lambda>fieldName. bnd readString (\<lambda>fieldType.
     bnd (of_result (vector_at expectedFields i)) (\<lambda>expected.
     if fieldName \<noteq> fst expected \<or> fieldType \<noteq> snd expected
     then fail (Throws (Runtime_Error ''Field metadata mismatch''))
     else verifyFields expectedFields (i + 1) n)))"

definition deserializeObject ::
  "'o JavaSerializable \<Rightarrow> (string \<rightharpoonup> 'o) \<Rightarrow> ('o, nat option) deser" where
  "deserializeObject cls creators =
     bnd (on_reader readByte) (\<lambda>nullMarker.
     if nullMarker = 0 then ret None else
     bnd (on_reader readByte) (\<lambda>referenceMarker.
     if referenceMarker = 1 then
       bnd (on_reader readInt) (\<lambda>objectId. findObject objectId)
     else
       bnd (on_reader readString) (\<lambda>className.
       bnd (of_result (createObject creators className)) (\<lambda>obj.
       bnd (registerObject obj) (\<lambda>a.
       bnd (on_reader readInt) (\<lambda>fieldCount.
       if (scast fieldCount :: int64) \<noteq> word_of_nat (length (getFieldMetadata cls obj))
       then fail (Throws (Runtime_Error ''Field count mismatch'')) else
       bnd (on_reader (verifyFields (getFieldMetadata cls obj) 0 (nat (sint fieldCount)))) (\<lambda>_.
       bnd (on_reader (deserializeFields cls obj)) (\<lambda>obj'.
       bnd (storeObject a obj') (\<lambda>_.
       ret (Some a))))))))))"

text \<open>
  The parity is checked on everything but the last byte; the reader is then set up on the
  whole message, parity byte included.
\<close>

definition deserialize ::
  "'o JavaSerializable \<Rightarrow> (string \<rightharpoonup> 'o) \<Rightarrow> byte list \<Rightarrow> ('o JavaDeserializer, nat option) prog" where
  "deserialize cls creators data d =
     (if data = []
      then (Inl (Throws (Runtime_Error ''Empty data received for deserialization'')), d)
      else
        bnd (of_result (vector_init data)) (\<lambda>serializedData.
        bnd (of_result (vector_back data)) (\<lambda>receivedParityBit.
        if \<not> verifyEvenParity serializedData receivedParityBit
        then fail (Throws (Runtime_Error ''Message parity check failed during deserialization''))
        else (\<lambda>d.
          let d = d\<lparr>deserializedObjects := Map.empty, jd_objectCounter := 0\<rparr> in
          (case deserializeObject cls creators (ByteReader_new data, d) of (res, (r, d')) \<Rightarrow> (res, d'))))) d)"

lemma deserialize_eq:
  "deserialize cls creators data d =
     (if data = []
      then (Inl (Throws (Runtime_Error ''Empty data received for deserialization'')), d)
      else if \<not> parity_checked data
      then (Inl (Throws (Runtime_Error ''Message parity check failed during deserialization'')), d)
      else case deserializeObject cls creators
          (ByteReader_new data, d\<lparr>deserializedObjects := Map.empty, jd_objectCounter := 0\<rparr>)
        of (res, (r, d')) \<Rightarrow> (res, d'))"
  by (simp add: deserialize_def vector_init_def vector_back_def parity_checked_def)

section \<open>The bytes of an object\<close>

definition fields_bytes :: "(string \<times> string) list \<Rightarrow> byte list" where
  "fields_bytes fs = concat (map (\<lambda>f. string_bytes (fst f) @ string_bytes (snd f)) fs)"

definition fields_fit :: "(string \<times> string) list \<Rightarrow> bool" where
  "fields_fit fs \<longleftrightarrow> length fs < 2 ^ 31 \<and> (\<forall>f\<in>set fs. string_fits (fst f) \<and> string_fits (snd f))"

lemma writeFields_appends [appends]: "bb_buffer (writeFields fs b) = bb_buffer b @ fields_bytes fs"
  by (induction fs arbitrary: b) (simp_all add: writeFields_def fields_bytes_def appends)

lemma verifyFields_enc:
  "\<forall>f\<in>set fs. string_fits (fst f) \<and> string_fits (snd f) \<Longrightarrow>
   ByteReader_getBuffer r = fields_bytes fs @ rest \<Longrightarrow>
   verifyFields (pre @ fs) (length pre) (length fs) r = (Inr (), advance (length (fields_bytes fs)) r)"
proof (induction fs arbitrary: pre r)
  case Nil
  then show ?case by (simp add: fields_bytes_def)
next
  case (Cons f fs)
  let ?r1 = "advance (4 + length (fst f)) r" and ?n = "8 + length (fst f) + length (snd f)"
  have n: "readString r = (Inr (fst f), ?r1)"
    using Cons.prems by (intro readString_enc) (auto simp: fields_bytes_def)
  have t: "readString ?r1 = (Inr (snd f), advance (4 + length (snd f)) ?r1)"
    using Cons.prems by (intro readString_enc) (auto simp: fields_bytes_def)
  have "verifyFields ((pre @ [f]) @ fs) (length (pre @ [f])) (length fs) (advance ?n r) =
      (Inr (), advance (length (fields_bytes fs)) (advance ?n r))"
    using Cons.prems by (intro Cons.IH) (auto simp: fields_bytes_def)
  moreover have "advance (4 + length (snd f)) ?r1 = advance ?n r"
    by (simp add: ac_simps)
  moreover have "vector_at (pre @ f # fs) (length pre) = Inr f"
    by (simp add: vector_at_def)
  ultimately show ?case using n t by (simp add: fields_bytes_def ac_simps)
qed

lemma scast_length:
  assumes "n < 2 ^ 31"
  shows "(scast (word_of_nat n :: int32) :: int64) = word_of_nat n"
proof -
  have "sint (word_of_nat n :: int32) = int n"
    using assms by (simp add: signed_of_nat signed_take_bit_int_eq_self)
  then show ?thesis by (metis of_int_of_nat_eq of_int_sint scast_eq)
qed

text \<open>
  A new object on the wire: the two markers, the class name, the field count, the field
  metadata and the field values.
\<close>

definition object_bytes :: "'o JavaSerializable \<Rightarrow> ('o \<Rightarrow> byte list) \<Rightarrow> 'o \<Rightarrow> byte list" where
  "object_bytes cls fields_enc x =
     [1, 0] @ string_bytes (getJavaClassName cls x) @
     int_bytes (word_of_nat (length (getFieldMetadata cls x))) @
     fields_bytes (getFieldMetadata cls x) @ fields_enc x"

definition with_parity :: "byte list \<Rightarrow> byte list" where
  "with_parity data = data @ [calculateEvenParityBit data]"

lemma with_parity_simps [simp]:
  "with_parity data \<noteq> []" "butlast (with_parity data) = data"
  "last (with_parity data) = calculateEvenParityBit data"
  "length (with_parity data) = Suc (length data)"
  by (simp_all add: with_parity_def)

section \<open>Programs over the deserialiser's state\<close>

abbreviation robust_deser :: "('o, 'a) deser \<Rightarrow> bool" where
  "robust_deser \<equiv> robust_on fst (\<lambda>r s. (r, snd s))"

lemma run_on_reader [simp]: "p r = (v, r') \<Longrightarrow> on_reader p (r, d) = (v, (r', d))"
  by (simp add: on_reader_def)

lemma robust_on_reader [robust_intros]:
  assumes "robust p"
  shows "robust_deser (on_reader p)"
proof (rule robustI)
  fix s x s' assume b: "in_bounds (fst s)" and p: "on_reader p s = (Inr x, s')"
  from p obtain r' where r': "p (fst s) = (Inr x, r')" and s': "s' = (r', snd s)"
    by (auto simp: on_reader_def zoom_def split: prod.splits)
  show "in_bounds (fst s') \<and> br_buffer (fst s') = br_buffer (fst s) \<and>
      br_position (fst s) \<le> br_position (fst s') \<and>
      (\<forall>ys. on_reader p (more_bytes ys (fst s), snd s) = (Inr x, (more_bytes ys (fst s'), snd s')))"
    using robust_InrD [OF assms b r'] s' by simp
next
  fix s e s' assume "in_bounds (fst s)" and "on_reader p s = (Inl e, s')"
  then show "\<exists>x. e = Throws x"
    using robust_InlD [OF assms] by (auto simp: on_reader_def zoom_def split: prod.splits)
qed

lemma robust_deser_ops [robust_intros]:
  "robust_deser (registerObject obj)" "robust_deser (storeObject a obj)"
  by (rule robustI; auto simp: registerObject_def storeObject_def)+

lemma robust_findObject [robust_intros]: "robust_deser (findObject i)"
  by (auto simp: robust_on_def findObject_def split: option.split)

lemma robust_createObject [robust_intros]: "robust_deser (of_result (createObject creators n))"
  by (rule robustI) (auto simp: createObject_def split: option.splits)

lemma robust_vector_at: "i < length v \<Longrightarrow> robust_on view upd (of_result (vector_at v i))"
  by (rule robustI) (auto simp: vector_at_def)

lemma robust_verifyFields: "i + n \<le> length fs \<Longrightarrow> robust (verifyFields fs i n)"
  by (induction n arbitrary: i) (auto intro!: robust_intros robust_vector_at simp del: run_ret)

text \<open>
  The comparison of \<^verbatim>\<open>fieldCount\<close>, sign extended to \<^verbatim>\<open>size_t\<close>, with the size keeps the loop inside
  the vector.
\<close>

lemma field_count_in_range:
  assumes "(scast (w :: int32) :: int64) = word_of_nat n"
  shows "nat (sint w) \<le> n"
proof (cases "n < 2 ^ 31")
  case True
  have "sint w = sint (scast w :: int64)"
    using sint_greater_eq [of w] sint_less [of w]
    by (simp add: signed_scast_eq signed_take_bit_int_eq_self)
  also have "\<dots> = int n" unfolding assms using True
    by (simp add: signed_of_nat signed_take_bit_int_eq_self)
  finally show ?thesis by simp
next
  case False
  then show ?thesis using sint_less [of w] by simp
qed

lemma robust_checked_fields [robust_intros]:
  "\<not> (scast (w :: int32) :: int64) \<noteq> word_of_nat (length fs) \<Longrightarrow> robust (verifyFields fs 0 (nat (sint w)))"
  by (rule robust_verifyFields) (simp add: field_count_in_range)

lemma robust_deserializeObject:
  assumes "\<And>x. robust (deserializeFields cls x)"
  shows "robust_deser (deserializeObject cls creators)"
  unfolding deserializeObject_def by (intro robust_intros assms)

section \<open>The contract of a serialisable class\<close>

text \<open>
  What the serialiser relies on: the class name and the field metadata do not depend on the
  object and fit the wire's length fields, and reading the field values inverts writing them.
  The clients of the contract are the lemmas below; the classes of the program interpret it.
\<close>

locale java_serializable =
  fixes cls :: "'o JavaSerializable"
    and prototype :: 'o
    and fields_enc :: "'o \<Rightarrow> byte list"
    and valid :: "'o \<Rightarrow> bool"
  assumes name_fits: "string_fits (getJavaClassName cls x)"
    and name_same: "getJavaClassName cls x = getJavaClassName cls prototype"
    and meta_fits: "fields_fit (getFieldMetadata cls x)"
    and meta_same: "getFieldMetadata cls x = getFieldMetadata cls prototype"
    and serialize_enc: "bb_buffer (serializeFieldValues cls x b) = bb_buffer b @ fields_enc x"
    and deserialize_enc: "valid x \<Longrightarrow> ByteReader_getBuffer r = fields_enc x @ rest \<Longrightarrow>
      deserializeFields cls prototype r = (Inr x, advance (length (fields_enc x)) r)"
    and deserialize_robust: "robust (deserializeFields cls y)"
begin

text \<open>What \<^verbatim>\<open>JavaSerializer::serialize\<close> puts on the wire, whatever the static members hold.\<close>

lemma serialize_bytes:
  "serialize cls (Ref a x) js =
    (with_parity (object_bytes cls fields_enc x),
     js\<lparr>serializedObjects := [a \<mapsto> 0], js_objectCounter := 1\<rparr>)"
  by (simp add: serialize_def serializeObject_def object_bytes_def with_parity_def Let_def
      ByteBuffer_getBuffer_def ByteBuffer_new_def appends serialize_enc)

text \<open>Reading an object back, from anywhere in a buffer.\<close>

lemma deserializeObject_bytes:
  assumes "valid x" and "creators (getJavaClassName cls prototype) = Some prototype"
    and "ByteReader_getBuffer r = object_bytes cls fields_enc x @ rest"
  shows "deserializeObject cls creators (r, d) =
    (Inr (Some (length (jd_heap d))),
      (advance (length (object_bytes cls fields_enc x)) r,
       d\<lparr>deserializedObjects := (deserializedObjects d)(jd_objectCounter d \<mapsto> length (jd_heap d)),
         jd_objectCounter := jd_objectCounter d + 1, jd_heap := jd_heap d @ [x]\<rparr>))"
proof -
  let ?name = "getJavaClassName cls prototype" and ?meta = "getFieldMetadata cls prototype"
  let ?r2 = "advance 2 r"
  let ?r3 = "advance (length (string_bytes ?name)) ?r2"
  let ?r4 = "advance (length (int_bytes (word_of_nat (length ?meta)))) ?r3"
  let ?r5 = "advance (length (fields_bytes ?meta)) ?r4"
  let ?r6 = "advance (length (fields_enc x)) ?r5"
  have u: "ByteReader_getBuffer r = [1, 0] @ string_bytes ?name @ int_bytes (word_of_nat (length ?meta)) @
      fields_bytes ?meta @ fields_enc x @ rest"
    using assms(3) name_same [of x] meta_same [of x] by (simp add: object_bytes_def)
  have u2: "ByteReader_getBuffer ?r2 = string_bytes ?name @ int_bytes (word_of_nat (length ?meta)) @
      fields_bytes ?meta @ fields_enc x @ rest"
    using u by simp
  note u3 = unread_after [OF u2]
  note u4 = unread_after [OF u3]
  note u5 = unread_after [OF u4]
  have b1: "readByte r = (Inr 1, advance 1 r)" and b2: "readByte (advance 1 r) = (Inr 0, ?r2)"
    using u by (simp_all add: readByte_Cons numeral_2_eq_2)
  have s: "readString ?r2 = (Inr ?name, ?r3)"
    using readString_enc [OF name_fits u2] by simp
  have c: "readInt ?r3 = (Inr (word_of_nat (length ?meta)), ?r4)"
    using readInt_enc [OF u3] by simp
  have v: "verifyFields ?meta 0 (nat (sint (word_of_nat (length ?meta) :: int32))) ?r4 = (Inr (), ?r5)"
    using meta_fits [of prototype] verifyFields_enc [OF _ u4, where pre = "[]"]
    by (simp add: fields_fit_def signed_of_nat signed_take_bit_int_eq_self)
  have f: "deserializeFields cls prototype ?r5 = (Inr x, ?r6)"
    using assms(1) u5 by (rule deserialize_enc)
  have n: "(scast (word_of_nat (length ?meta) :: int32) :: int64) = word_of_nat (length ?meta)"
    using meta_fits [of prototype] by (simp add: fields_fit_def scast_length)
  have l: "?r6 = advance (length (object_bytes cls fields_enc x)) r"
    using name_same [of x] meta_same [of x] by (simp add: object_bytes_def ac_simps)
  have "deserializeObject cls creators (r, d) = (Inr (Some (length (jd_heap d))), (?r6,
       d\<lparr>deserializedObjects := (deserializedObjects d)(jd_objectCounter d \<mapsto> length (jd_heap d)),
         jd_objectCounter := jd_objectCounter d + 1, jd_heap := jd_heap d @ [x]\<rparr>))"
    unfolding deserializeObject_def
    by (simp add: b1 b2 s c v f n createObject_def assms(2) registerObject_def storeObject_def
        del: One_nat_def advance_advance length_int_bytes length_string_bytes)
  then show ?thesis by (simp only: l)
qed

lemma deserializeObject_message:
  assumes "valid x" and "creators (getJavaClassName cls prototype) = Some prototype"
  shows "deserializeObject cls creators (ByteReader_new (object_bytes cls fields_enc x @ rest), d) =
    (Inr (Some (length (jd_heap d))),
      (\<lparr>br_buffer = object_bytes cls fields_enc x @ rest, br_position = length (object_bytes cls fields_enc x)\<rparr>,
       d\<lparr>deserializedObjects := (deserializedObjects d)(jd_objectCounter d \<mapsto> length (jd_heap d)),
         jd_objectCounter := jd_objectCounter d + 1, jd_heap := jd_heap d @ [x]\<rparr>))"
  using deserializeObject_bytes [where x = x and creators = creators and rest = rest
      and r = "ByteReader_new (object_bytes cls fields_enc x @ rest)" and d = d, OF assms]
  by (simp add: advance_def ByteReader_new_def ByteReader_getBuffer_def)

text \<open>A message that passes the parity check and starts with the bytes of an object.\<close>

lemma deserialize_message:
  assumes "valid x" and "creators (getJavaClassName cls prototype) = Some prototype"
    and "parity_checked (object_bytes cls fields_enc x @ rest)"
  shows "deserialize cls creators (object_bytes cls fields_enc x @ rest) d =
    (Inr (Some (length (jd_heap d))),
     d\<lparr>deserializedObjects := [0 \<mapsto> length (jd_heap d)], jd_objectCounter := 1, jd_heap := jd_heap d @ [x]\<rparr>)"
  using assms(3) deserializeObject_message [where x = x and creators = creators and rest = rest
      and d = "d\<lparr>deserializedObjects := Map.empty, jd_objectCounter := 0\<rparr>", OF assms(1,2)]
  by (simp add: deserialize_eq) (auto simp: parity_checked_def)

text \<open>The round trip: the message of an object is read back as that object.\<close>

lemma deserialize_serialize:
  assumes "valid x" and "creators (getJavaClassName cls prototype) = Some prototype"
  shows "deserialize cls creators (with_parity (object_bytes cls fields_enc x)) d =
    (Inr (Some (length (jd_heap d))),
     d\<lparr>deserializedObjects := [0 \<mapsto> length (jd_heap d)], jd_objectCounter := 1, jd_heap := jd_heap d @ [x]\<rparr>)"
  unfolding with_parity_def
  by (rule deserialize_message) (simp_all add: assms parity_checked_append)

text \<open>
  A message cut anywhere before the last byte of the object is rejected by an exception: the
  reader would have to succeed on fewer bytes than it consumes of the whole message.
\<close>

lemma deserialize_truncated:
  assumes "valid x" and "creators (getJavaClassName cls prototype) = Some prototype"
    and "k < length (object_bytes cls fields_enc x)"
  shows "\<exists>e d'. deserialize cls creators (take k (with_parity (object_bytes cls fields_enc x))) d =
    (Inl (Throws e), d')"
proof -
  let ?msg = "with_parity (object_bytes cls fields_enc x)"
  let ?s = "(ByteReader_new (take k ?msg), d\<lparr>deserializedObjects := Map.empty, jd_objectCounter := 0\<rparr>)"
  have rob: "robust_deser (deserializeObject cls creators)"
    by (rule robust_deserializeObject) (rule deserialize_robust)
  have b: "in_bounds (fst ?s)" by (simp add: in_bounds_def ByteReader_new_def)
  obtain v s' where p: "deserializeObject cls creators ?s = (v, s')"
    by (cases "deserializeObject cls creators ?s")
  have "\<exists>e. v = Inl (Throws e)"
  proof (cases v)
    case (Inl e)
    with robust_InlD [OF rob b] p show ?thesis by blast
  next
    case (Inr a)
    with p have p': "deserializeObject cls creators ?s = (Inr a, s')" by simp
    note R = robust_InrD [OF rob b p']
    have "more_bytes (drop k ?msg) (fst ?s) = ByteReader_new ?msg"
      by (simp add: more_bytes_def ByteReader_new_def)
    with R(4) [of "drop k ?msg"]
    have "deserializeObject cls creators (ByteReader_new ?msg, snd ?s) =
        (Inr a, (more_bytes (drop k ?msg) (fst s'), snd s'))" by simp
    with deserializeObject_message [where x = x and creators = creators and d = "snd ?s"
        and rest = "[calculateEvenParityBit (object_bytes cls fields_enc x)]", OF assms(1,2)]
    have "br_position (more_bytes (drop k ?msg) (fst s')) = length (object_bytes cls fields_enc x)"
      by (auto simp: with_parity_def dest: arg_cong [where f = br_position])
    then have "br_position (fst s') = length (object_bytes cls fields_enc x)"
      by (simp add: more_bytes_def)
    moreover have "br_position (fst s') \<le> k"
      using R(1,2) by (simp add: in_bounds_def ByteReader_new_def)
    ultimately show ?thesis using assms(3) by simp
  qed
  with p show ?thesis
    by (auto simp: deserialize_eq split: prod.split)
qed

end

section \<open>Messages that are not accepted\<close>

lemma deserialize_empty [simp]:
  "deserialize cls creators [] d =
     (Inl (Throws (Runtime_Error ''Empty data received for deserialization'')), d)"
  by (simp add: deserialize_eq)

lemma deserialize_parity_error:
  "data \<noteq> [] \<Longrightarrow> \<not> parity_checked data \<Longrightarrow>
   deserialize cls creators data d =
     (Inl (Throws (Runtime_Error ''Message parity check failed during deserialization'')), d)"
  by (simp add: deserialize_eq)

text \<open>
  What \<^verbatim>\<open>deserializeObject\<close> leaves of the heap: with no object registered it returns null and
  creates nothing, or it returns the object it has created.
\<close>

lemma on_reader_InrD: "on_reader p s = (Inr x, s') \<Longrightarrow> snd s' = snd s"
  by (auto simp: on_reader_def zoom_def split: prod.splits)

lemma deserializeObject_result:
  assumes "deserializeObject cls creators s = (Inr p, s')" and "deserializedObjects (snd s) = Map.empty"
  shows "p = None \<and> jd_heap (snd s') = jd_heap (snd s) \<or>
    p = Some (length (jd_heap (snd s))) \<and> (\<exists>x. jd_heap (snd s') = jd_heap (snd s) @ [x])"
  using assms unfolding deserializeObject_def
  by (auto elim!: bnd_InrE dest!: on_reader_InrD split: if_splits
      simp: findObject_def registerObject_def storeObject_def prod.case_eq_if)

lemma deserialize_never_undefined:
  assumes "\<And>x. robust (deserializeFields cls x)"
  shows "fst (deserialize cls creators data d) = Inl e \<Longrightarrow> \<exists>x. e = Throws x"
proof -
  let ?s = "(ByteReader_new data, d\<lparr>deserializedObjects := Map.empty, jd_objectCounter := 0\<rparr>)"
  assume *: "fst (deserialize cls creators data d) = Inl e"
  have b: "in_bounds (fst ?s)" by (simp add: in_bounds_def ByteReader_new_def)
  note R = robust_InlD [OF robust_deserializeObject [OF assms] b]
  obtain v r d' where p: "deserializeObject cls creators ?s = (v, (r, d'))"
    by (cases "deserializeObject cls creators ?s") (metis surj_pair)
  show ?thesis
    using * p R by (auto simp: deserialize_eq split: if_splits)
qed

lemma deserialize_result:
  assumes "deserialize cls creators data d = (Inr p, d')"
  shows "p = None \<and> jd_heap d' = jd_heap d \<or>
    p = Some (length (jd_heap d)) \<and> (\<exists>x. jd_heap d' = jd_heap d @ [x])"
  using assms deserializeObject_result [of cls creators
      "(ByteReader_new data, d\<lparr>deserializedObjects := Map.empty, jd_objectCounter := 0\<rparr>)" p]
  by (auto simp: deserialize_eq split: if_splits prod.splits)

end
