(* ===== verification/Request_Message.thy ===== *)
theory Request_Message
  imports Serializer
begin

text \<open>
  The message both sides exchange (\<^verbatim>\<open>Client/include/RequestMessage.hpp\<close>,
  \<^verbatim>\<open>Client/src/RequestMessage.cpp\<close>), the only class of the client that implements
  \<^verbatim>\<open>JavaSerializable\<close>, and the properties of its wire format, obtained by interpreting the
  serialiser's contract.
\<close>

section \<open>The class\<close>

record RequestMessage =
  rm_requestType :: int32
  rm_requestID :: int32
  rm_data :: string

datatype RequestType = INVALID | READ | WRITE | UPDATE | DELETE_REQUEST | MONITOR | ECHO

fun enumerator :: "RequestType \<Rightarrow> int32" where
  "enumerator INVALID = -1"
| "enumerator READ = 0"
| "enumerator WRITE = 1"
| "enumerator UPDATE = 2"
| "enumerator DELETE_REQUEST = 3"
| "enumerator MONITOR = 4"
| "enumerator ECHO = 5"

definition RequestMessage_default :: RequestMessage where
  "RequestMessage_default = \<lparr>rm_requestType = 0, rm_requestID = 0, rm_data = ''''\<rparr>"

definition RequestMessage_new :: "RequestType \<Rightarrow> int32 \<Rightarrow> string \<Rightarrow> RequestMessage" where
  "RequestMessage_new requestType requestID data =
     \<lparr>rm_requestType = enumerator requestType, rm_requestID = requestID, rm_data = data\<rparr>"

definition RequestMessage_getJavaClassName :: "RequestMessage \<Rightarrow> string" where
  "RequestMessage_getJavaClassName m = ''Server.RequestMessage''"

definition RequestMessage_getFieldMetadata :: "RequestMessage \<Rightarrow> (string \<times> string) list" where
  "RequestMessage_getFieldMetadata m =
     [(''requestType'', ''int''), (''requestID'', ''int''), (''data'', ''java.lang.String'')]"

definition RequestMessage_serializeFieldValues :: "RequestMessage \<Rightarrow> ByteBuffer \<Rightarrow> ByteBuffer" where
  "RequestMessage_serializeFieldValues m buffer =
     (let buffer = writeInt (rm_requestType m) buffer;
          buffer = writeInt (rm_requestID m) buffer
      in if rm_data m = [] then writeByte 0 buffer
         else writeString (rm_data m) (writeByte 1 buffer))"

definition RequestMessage_deserializeFields :: "RequestMessage \<Rightarrow> (ByteReader, RequestMessage) prog" where
  "RequestMessage_deserializeFields m =
     bnd readInt (\<lambda>requestType.
     bnd readInt (\<lambda>requestID.
     bnd readByte (\<lambda>dataNullMarker.
     if dataNullMarker = 1 then
       bnd readString (\<lambda>data.
       ret (m\<lparr>rm_requestType := requestType, rm_requestID := requestID, rm_data := data\<rparr>))
     else
       ret (m\<lparr>rm_requestType := requestType, rm_requestID := requestID, rm_data := ''''\<rparr>))))"

definition getRequestType :: "RequestMessage \<Rightarrow> int32" where
  "getRequestType m = rm_requestType m"

definition getRequestID :: "RequestMessage \<Rightarrow> int32" where
  "getRequestID m = rm_requestID m"

definition getData :: "RequestMessage \<Rightarrow> string" where
  "getData m = rm_data m"

definition setRequestType :: "int32 \<Rightarrow> RequestMessage \<Rightarrow> RequestMessage" where
  "setRequestType type m = m\<lparr>rm_requestType := type\<rparr>"

definition setRequestID :: "int32 \<Rightarrow> RequestMessage \<Rightarrow> RequestMessage" where
  "setRequestID i m = m\<lparr>rm_requestID := i\<rparr>"

definition setData :: "string \<Rightarrow> RequestMessage \<Rightarrow> RequestMessage" where
  "setData d m = m\<lparr>rm_data := d\<rparr>"

text \<open>Its table of virtual methods, and the creators \<^verbatim>\<open>main\<close> registers.\<close>

definition RequestMessage_class :: "RequestMessage JavaSerializable" where
  "RequestMessage_class =
     \<lparr>getJavaClassName = RequestMessage_getJavaClassName,
      getFieldMetadata = RequestMessage_getFieldMetadata,
      serializeFieldValues = RequestMessage_serializeFieldValues,
      deserializeFields = RequestMessage_deserializeFields\<rparr>"

definition registerClasses :: "(string \<rightharpoonup> RequestMessage) \<Rightarrow> (string \<rightharpoonup> RequestMessage)" where
  "registerClasses creators = creators(''Server.RequestMessage'' \<mapsto> RequestMessage_default)"

section \<open>The class meets the serialiser's contract\<close>

definition request_fields :: "RequestMessage \<Rightarrow> byte list" where
  "request_fields m = int_bytes (rm_requestType m) @ int_bytes (rm_requestID m) @
     (if rm_data m = [] then [0] else 1 # string_bytes (rm_data m))"

lemma deserializeFields_enc:
  assumes "string_fits (rm_data m)" and u: "ByteReader_getBuffer r = request_fields m @ rest"
  shows "RequestMessage_deserializeFields m0 r = (Inr m, advance (length (request_fields m)) r)"
proof -
  let ?r1 = "advance 4 r" and ?r2 = "advance 8 r"
  have i1: "readInt r = (Inr (rm_requestType m), ?r1)"
    using u by (intro readInt_enc) (simp add: request_fields_def)
  have i2: "readInt ?r1 = (Inr (rm_requestID m), ?r2)"
    using u by (subst readInt_enc) (auto simp: request_fields_def)
  show ?thesis
  proof (cases "rm_data m = []")
    case True
    then have "readByte ?r2 = (Inr 0, advance 9 r)"
      using u by (subst readByte_Cons) (auto simp: request_fields_def)
    with i1 i2 True show ?thesis
      by (simp add: RequestMessage_deserializeFields_def request_fields_def)
  next
    case False
    then have b: "readByte ?r2 = (Inr 1, advance 9 r)"
      using u by (subst readByte_Cons) (auto simp: request_fields_def)
    have "readString (advance 9 r) = (Inr (rm_data m), advance (4 + length (rm_data m)) (advance 9 r))"
      using u False assms(1) by (intro readString_enc) (auto simp: request_fields_def)
    with i1 i2 b False show ?thesis
      by (simp add: RequestMessage_deserializeFields_def request_fields_def)
  qed
qed

interpretation rm: java_serializable RequestMessage_class RequestMessage_default request_fields
  "\<lambda>m. string_fits (rm_data m)"
proof (unfold_locales, goal_cases)
  case (7 y)
  show ?case
    by (simp add: RequestMessage_class_def RequestMessage_deserializeFields_def del: run_ret)
      (intro robust_intros)
next
  case (6 x r rest)
  then show ?case by (simp add: RequestMessage_class_def deserializeFields_enc)
qed (simp_all add: RequestMessage_class_def RequestMessage_getJavaClassName_def string_fits_def
    RequestMessage_getFieldMetadata_def fields_fit_def RequestMessage_serializeFieldValues_def
    request_fields_def appends)

section \<open>Properties\<close>

text \<open>The bytes \<^verbatim>\<open>JavaSerializer::serialize\<close> makes of a message do not depend on its state.\<close>

lemma serialize_request_bytes:
  "fst (serialize RequestMessage_class (Ref a m) js) =
     with_parity (object_bytes RequestMessage_class request_fields m)"
  by (simp add: rm.serialize_bytes)

lemma length_object_bytes:
  "length (object_bytes RequestMessage_class request_fields m) =
    (if rm_data m = [] then 110 else 114 + length (rm_data m))"
  by (simp add: object_bytes_def fields_bytes_def request_fields_def RequestMessage_class_def
      RequestMessage_getJavaClassName_def RequestMessage_getFieldMetadata_def)

lemma parity_checked_serialize: "parity_checked (fst (serialize RequestMessage_class (Ref a m) js))"
  by (simp add: serialize_request_bytes with_parity_def parity_checked_append)

lemma known_class: "creators = registerClasses other \<Longrightarrow>
  creators (getJavaClassName RequestMessage_class RequestMessage_default) = Some RequestMessage_default"
  by (simp add: registerClasses_def RequestMessage_class_def RequestMessage_getJavaClassName_def)

text \<open>
  The size of a message on the wire: 111 bytes when its text is empty, otherwise 115 bytes and
  one for each character; it always carries a correct parity bit.
\<close>

theorem message_size:
  "length (fst (serialize RequestMessage_class (Ref a m) js)) =
     (if rm_data m = [] then 111 else 115 + length (rm_data m)) \<and>
   verifyEvenParity (butlast (fst (serialize RequestMessage_class (Ref a m) js)))
     (last (fst (serialize RequestMessage_class (Ref a m) js)))"
  using parity_checked_serialize [of a m js]
  by (simp add: serialize_request_bytes length_object_bytes parity_checked_def)

text \<open>
  C8. Every message whose text fits the length field survives the wire: what \<^verbatim>\<open>serialize\<close> writes,
  \<^verbatim>\<open>deserialize\<close> reads back as an object with the same type, ID and data, whatever the static
  members of both hold and whatever other classes are registered.
\<close>

theorem message_round_trip:
  assumes "string_fits (rm_data m)"
  shows "\<exists>d'. deserialize RequestMessage_class (registerClasses other)
      (fst (serialize RequestMessage_class (Ref a m) js)) d = (Inr (Some (length (jd_heap d))), d') \<and>
    jd_heap d' = jd_heap d @ [m]"
  using rm.deserialize_serialize [where creators = "registerClasses other", OF assms known_class [OF refl], of d]
  by (simp add: serialize_request_bytes)

theorem message_round_trip_witness:
  "\<exists>d'. deserialize RequestMessage_class (registerClasses Map.empty)
      (fst (serialize RequestMessage_class (Ref 3 (RequestMessage_new WRITE 7 ''Room1,MONDAY,09,00,10,00'')) JavaSerializer_init))
      JavaDeserializer_init = (Inr (Some 0), d') \<and>
    jd_heap d' = [RequestMessage_new WRITE 7 ''Room1,MONDAY,09,00,10,00'']"
  using message_round_trip [of "RequestMessage_new WRITE 7 ''Room1,MONDAY,09,00,10,00''" Map.empty 3
      JavaSerializer_init JavaDeserializer_init]
  by (simp add: string_fits_def RequestMessage_new_def JavaDeserializer_init_def)

text \<open>
  C19. A serialised message that arrives without its parity byte and without at least one byte
  before it is rejected with an exception, wherever it is cut.
\<close>

theorem truncated_message_rejected:
  assumes "string_fits (rm_data m)"
    and "Suc k < length (fst (serialize RequestMessage_class (Ref a m) js))"
  shows "\<exists>e d'. deserialize RequestMessage_class (registerClasses other)
    (take k (fst (serialize RequestMessage_class (Ref a m) js))) d = (Inl (Throws e), d')"
  using rm.deserialize_truncated [where creators = "registerClasses other", OF assms(1) known_class [OF refl], of k d]
    assms(2)
  by (simp add: serialize_request_bytes)

theorem truncated_message_rejected_witness:
  "\<exists>e d'. deserialize RequestMessage_class (registerClasses Map.empty)
    (take 100 (fst (serialize RequestMessage_class (Ref 0 RequestMessage_default) JavaSerializer_init)))
    JavaDeserializer_init = (Inl (Throws e), d')"
  using truncated_message_rejected [of RequestMessage_default 100 0 JavaSerializer_init Map.empty JavaDeserializer_init]
  by (simp add: string_fits_def serialize_request_bytes length_object_bytes RequestMessage_default_def)

text \<open>
  C18. A message received with an odd number of wrong bits is never accepted: the deserialiser
  throws its parity error and changes nothing.
\<close>

theorem odd_bit_errors_rejected:
  assumes "length received = length (fst (serialize RequestMessage_class (Ref a m) js))"
    and "odd (bit_errors (fst (serialize RequestMessage_class (Ref a m) js)) received)"
  shows "deserialize RequestMessage_class creators received d =
    (Inl (Throws (Runtime_Error ''Message parity check failed during deserialization'')), d)"
proof (rule deserialize_parity_error)
  show "received \<noteq> []" using assms(1) by (auto simp: serialize_request_bytes)
  show "\<not> parity_checked received"
    using odd_errors_detected [OF parity_checked_serialize assms] .
qed

theorem odd_bit_errors_rejected_witness:
  "deserialize RequestMessage_class (registerClasses Map.empty)
    (0 # tl (fst (serialize RequestMessage_class (Ref 0 RequestMessage_default) JavaSerializer_init)))
    JavaDeserializer_init =
    (Inl (Throws (Runtime_Error ''Message parity check failed during deserialization'')), JavaDeserializer_init)"
proof (rule odd_bit_errors_rejected)
  let ?s = "fst (serialize RequestMessage_class (Ref 0 RequestMessage_default) JavaSerializer_init)"
  obtain t where t: "?s = 1 # t"
    by (simp add: serialize_request_bytes with_parity_def object_bytes_def)
  show "odd (bit_errors ?s (0 # tl ?s))" by (simp add: t)
  show "length (0 # tl ?s) = length ?s" by (simp add: t)
qed

text \<open>
  C27. Whatever bytes arrive, and whatever the static members hold, the deserialiser stays in the
  defined part of the language: none of its unchecked vector accesses is out of range. It throws a
  C++ exception, or returns null and creates no object, or returns the one object it has created,
  and the objects that earlier calls created are not touched.
\<close>

theorem deserialize_is_safe:
  "case deserialize RequestMessage_class creators data d of
     (Inl e, d') \<Rightarrow> \<exists>x. e = Throws x
   | (Inr None, d') \<Rightarrow> jd_heap d' = jd_heap d
   | (Inr (Some a), d') \<Rightarrow> a = length (jd_heap d) \<and> (\<exists>m. jd_heap d' = jd_heap d @ [m])"
  using deserialize_never_undefined [of RequestMessage_class creators data d, OF rm.deserialize_robust]
    deserialize_result [of RequestMessage_class creators data d]
  by (cases "deserialize RequestMessage_class creators data d")
    (auto split: sum.split option.split)

text \<open>
  C39. The reader is set up on the whole datagram, parity byte included, so the parity byte can be
  taken for payload: the one-byte datagram 0 is a parity-correct message and read as a null
  object, and a message with an empty text is accepted without its parity byte when its last
  byte, the null marker of the text, happens to be the right parity.
\<close>

theorem parity_byte_read_as_payload:
  "deserialize RequestMessage_class creators [0] d =
     (Inr None, d\<lparr>deserializedObjects := Map.empty, jd_objectCounter := 0\<rparr>) \<and>
   (\<exists>d'. deserialize RequestMessage_class (registerClasses other)
      (butlast (fst (serialize RequestMessage_class (Ref a (RequestMessage_new ECHO 0 '''')) js))) d =
        (Inr (Some (length (jd_heap d))), d') \<and> jd_heap d' = jd_heap d @ [RequestMessage_new ECHO 0 ''''])"
proof
  have p: "verifyEvenParity [] 0" by (simp add: verifyEvenParity_def calculateEvenParityBit_eq)
  have "readByte (ByteReader_new [0]) = (Inr 0, advance 1 (ByteReader_new [0]))"
    by (rule readByte_Cons) simp
  with p show "deserialize RequestMessage_class creators [0] d =
     (Inr None, d\<lparr>deserializedObjects := Map.empty, jd_objectCounter := 0\<rparr>)"
    by (simp add: deserialize_eq parity_checked_def deserializeObject_def)
  let ?m = "RequestMessage_new ECHO 0 ''''" and ?c = "registerClasses other"
  have "string_fits (rm_data ?m)" by (simp add: string_fits_def RequestMessage_new_def)
  moreover have "parity_checked (object_bytes RequestMessage_class request_fields ?m)"
    by (simp add: parity_checked_iff object_bytes_def) code_simp
  ultimately have "deserialize RequestMessage_class ?c (object_bytes RequestMessage_class request_fields ?m) d =
    (Inr (Some (length (jd_heap d))),
     d\<lparr>deserializedObjects := [0 \<mapsto> length (jd_heap d)], jd_objectCounter := 1, jd_heap := jd_heap d @ [?m]\<rparr>)"
    using rm.deserialize_message [where creators = ?c and rest = "[]", OF _ known_class [OF refl]] by simp
  then show "\<exists>d'. deserialize RequestMessage_class ?c
      (butlast (fst (serialize RequestMessage_class (Ref a ?m) js))) d = (Inr (Some (length (jd_heap d))), d') \<and>
      jd_heap d' = jd_heap d @ [?m]"
    by (simp add: serialize_request_bytes)
qed

end
