(* ===== verification/Socket.thy ===== *)
theory Socket
  imports Constants Byte_Buffer
begin

text \<open>
  The socket wrapper (\<^verbatim>\<open>Client/include/Socket.hpp\<close>, \<^verbatim>\<open>Client/src/Socket.cpp\<close>, the POSIX
  branches) over the operating system, which is the environment of the model: its state
  fixes in advance what each system call will report, and records the calls made.
\<close>

section \<open>The operating system\<close>

text \<open>
  Addresses as the code fills them in; \<^verbatim>\<open>htons\<close> and \<^verbatim>\<open>ntohs\<close> are inverse conversions, so a
  port is kept as its number.
\<close>

record sockaddr_in =
  sin_port :: "16 word"
  sin_addr :: "32 word"

datatype syscall =
    Sys_socket int int int
  | Sys_bind int sockaddr_in
  | Sys_rcvtimeo int int
  | Sys_sendto int "byte list" sockaddr_in
  | Sys_recvfrom int nat
  | Sys_getsockname int
  | Sys_close int

datatype recv_event =
    Datagram "byte list" sockaddr_in
  | Recv_Error int

text \<open>
  \<open>k_recv\<close> lists what the next calls of \<^verbatim>\<open>recvfrom\<close> deliver, each with the time in
  milliseconds until it arrives; when it is used up the network is silent and a receive times
  out (the timeouts the client sets are positive, so no call blocks forever). \<open>k_errnos\<close> lists what the other calls report (0 for success); when it is used up they
  succeed. The texts of the error numbers and the host names are the C library's.
\<close>

record kernel =
  k_recv :: "(nat \<times> recv_event) list"
  k_errnos :: "int list"
  k_trace :: "syscall list"
  k_clock :: nat
  k_timeout :: int
  k_fd :: int
  k_local :: sockaddr_in
  k_strerror :: "int \<Rightarrow> string"
  k_inet_addr :: "string \<Rightarrow> 32 word"
  k_gethostbyname :: "string \<Rightarrow> 32 word option"
  k_inet_ntop :: "32 word \<Rightarrow> string"
  k_cout :: string
  k_cerr :: string

definition EAGAIN :: int where
  "EAGAIN = 11"

definition traced :: "syscall \<Rightarrow> 'k kernel_scheme \<Rightarrow> 'k kernel_scheme" where
  "traced c s = s\<lparr>k_trace := k_trace s @ [c]\<rparr>"

text \<open>A call other than \<^verbatim>\<open>recvfrom\<close>: 0, or the error number.\<close>

definition sys_call :: "syscall \<Rightarrow> ('k kernel_scheme, int) prog" where
  "sys_call c = (\<lambda>s. case k_errnos s of
     [] \<Rightarrow> (Inr 0, traced c s)
   | e # es \<Rightarrow> (Inr e, traced c (s\<lparr>k_errnos := es\<rparr>)))"

text \<open>
  \<^verbatim>\<open>recvfrom\<close> with a buffer of \<open>cap\<close> bytes: a longer datagram is cut off. When nothing arrives
  within the receive timeout the call fails with \<^verbatim>\<open>EAGAIN\<close>, and what is under way arrives
  that much sooner for the next call.
\<close>

definition time_limit :: "'k kernel_scheme \<Rightarrow> nat" where
  "time_limit s = nat (1000 * k_timeout s)"

fun cut_off :: "nat \<Rightarrow> recv_event \<Rightarrow> recv_event" where
  "cut_off cap (Datagram bytes addr) = Datagram (take cap bytes) addr"
| "cut_off cap (Recv_Error errno) = Recv_Error errno"

definition sys_recvfrom :: "int \<Rightarrow> nat \<Rightarrow> ('k kernel_scheme, recv_event) prog" where
  "sys_recvfrom fd cap = (\<lambda>s.
     let s' = traced (Sys_recvfrom fd cap) s; limit = time_limit s in
     case k_recv s of
       [] \<Rightarrow> (Inr (Recv_Error EAGAIN), s'\<lparr>k_clock := k_clock s + limit, k_recv := []\<rparr>)
     | (t, e) # es \<Rightarrow>
         if t < limit
         then (Inr (cut_off cap e), s'\<lparr>k_clock := k_clock s + t, k_recv := es\<rparr>)
         else (Inr (Recv_Error EAGAIN), s'\<lparr>k_clock := k_clock s + limit, k_recv := (t - limit, e) # es\<rparr>))"

definition cout :: "string \<Rightarrow> ('k kernel_scheme, unit) prog" where
  "cout text = modify (\<lambda>s. s\<lparr>k_cout := k_cout s @ text\<rparr>)"

text \<open>A line on \<^verbatim>\<open>std::cerr\<close>.\<close>

definition cerr :: "string \<Rightarrow> ('k kernel_scheme, unit) prog" where
  "cerr text = modify (\<lambda>s. s\<lparr>k_cerr := k_cerr s @ text @ [newline]\<rparr>)"

lemma run_cout [simp]: "cout text s = (Inr (), s\<lparr>k_cout := k_cout s @ text\<rparr>)"
  by (simp add: cout_def)

lemma run_cerr [simp]: "cerr text s = (Inr (), s\<lparr>k_cerr := k_cerr s @ text @ [newline]\<rparr>)"
  by (simp add: cerr_def)

section \<open>The class Socket\<close>

record socket_state = kernel +
  sockfd :: int

definition throw_errno :: "string \<Rightarrow> int \<Rightarrow> ('k kernel_scheme, 'a) prog" where
  "throw_errno text e = (\<lambda>s. fail (Throws (Runtime_Error (text @ k_strerror s e))) s)"

text \<open>The constructor \<^verbatim>\<open>Socket()\<close> (POSIX).\<close>

definition Socket_new :: "('k socket_state_scheme, unit) prog" where
  "Socket_new = modify (\<lambda>s. s\<lparr>sockfd := -1\<rparr>)"

definition Socket_create :: "int \<Rightarrow> int \<Rightarrow> int \<Rightarrow> ('k socket_state_scheme, unit) prog" where
  "Socket_create domain type protocol =
     bnd (sys_call (Sys_socket domain type protocol)) (\<lambda>e.
     bnd (modify (\<lambda>s. s\<lparr>sockfd := (if e = 0 then k_fd s else -1)\<rparr>)) (\<lambda>_.
     if e \<noteq> 0 then throw_errno ''Socket creation failed! Error: '' e else ret ()))"

definition INADDR_ANY :: "32 word" where
  "INADDR_ANY = 0"

definition Socket_bind :: "int \<Rightarrow> ('k socket_state_scheme, unit) prog" where
  "Socket_bind port = (\<lambda>s.
     bnd (sys_call (Sys_bind (sockfd s) \<lparr>sin_port = word_of_int port, sin_addr = INADDR_ANY\<rparr>)) (\<lambda>e.
     if e \<noteq> 0 then throw_errno ''Bind failed! Error: '' e else ret ()) s)"

definition setReceiveTimeout :: "int \<Rightarrow> ('k socket_state_scheme, unit) prog" where
  "setReceiveTimeout seconds = (\<lambda>s.
     bnd (sys_call (Sys_rcvtimeo (sockfd s) seconds)) (\<lambda>e.
     if e \<noteq> 0 then throw_errno ''Set receive timeout failed! Error: '' e
     else modify (\<lambda>s. s\<lparr>k_timeout := seconds\<rparr>)) s)"

definition sendDataTo :: "byte list \<Rightarrow> sockaddr_in \<Rightarrow> ('k socket_state_scheme, unit) prog" where
  "sendDataTo data addr = (\<lambda>s.
     bnd (sys_call (Sys_sendto (sockfd s) data addr)) (\<lambda>e.
     if e \<noteq> 0 then throw_errno ''Send failed! Error: '' e else ret ()) s)"

text \<open>The received bytes stand for the filled part of \<^verbatim>\<open>buffer\<close> and for the count.\<close>

definition receiveDataFrom :: "('k socket_state_scheme, byte list \<times> sockaddr_in) prog" where
  "receiveDataFrom = (\<lambda>s.
     bnd (sys_recvfrom (sockfd s) BUFFER_SIZE) (\<lambda>ev.
     case ev of
       Datagram bytes addr \<Rightarrow> ret (bytes, addr)
     | Recv_Error errno \<Rightarrow>
         if errno = EAGAIN then fail (Throws (Runtime_Error ''Receive failed! Error: Timeout occurred''))
         else fail (Throws (Runtime_Error (''Receive failed! Error code: '' @ to_string errno)))) s)"

definition getSocketName :: "('k socket_state_scheme, sockaddr_in) prog" where
  "getSocketName = (\<lambda>s.
     bnd (sys_call (Sys_getsockname (sockfd s))) (\<lambda>e.
     if e \<noteq> 0 then throw_errno ''Get socket name failed! Error: '' e else ret (k_local s)) s)"

definition closeSocket :: "('k socket_state_scheme, unit) prog" where
  "closeSocket = (\<lambda>s. bnd (sys_call (Sys_close (sockfd s))) (\<lambda>e. ret ()) s)"

text \<open>The destructor \<^verbatim>\<open>~Socket\<close> (POSIX).\<close>

definition Socket_destroy :: "('k socket_state_scheme, unit) prog" where
  "Socket_destroy = closeSocket"

end
