(* ===== verification/Box.thy ===== *)
theory Box
  imports Constants Std_Streams
begin

text \<open>
  The boxes the client prints (\<^verbatim>\<open>UserInterface::generateBox\<close> in
  \<^verbatim>\<open>Client/src/UserInterface.cpp\<close>). The client constructor prints one too, so the function
  has a theory of its own below the client's.
\<close>

definition max_length :: "string list \<Rightarrow> nat" where
  "max_length content = fold (\<lambda>line m. max m (length line)) content 0"

definition spaces :: "nat \<Rightarrow> string" where
  "spaces n = replicate n (CHR '' '')"

definition border :: "nat \<Rightarrow> string" where
  "border n = ''+-'' @ replicate n (CHR ''-'') @ ''-+'' @ [newline]"

text \<open>
  The subtractions are of \<^verbatim>\<open>size_t\<close> values and never wrap: no line is longer than the longest.
\<close>

definition generateBox :: "string list \<Rightarrow> string" where
  "generateBox content =
     (case content of
        [] \<Rightarrow> ''''
      | header # rows \<Rightarrow>
          let maxLength = max_length content;
              leftPadding = (maxLength - length header) div 2;
              rightPadding = maxLength - length header - leftPadding
          in border maxLength @
             (''| '' @ spaces leftPadding @ header @ spaces rightPadding @ '' |'' @ [newline]) @
             border maxLength @
             concat (map (\<lambda>row. ''| '' @ row @ spaces (maxLength - length row) @ '' |'' @ [newline]) rows) @
             border maxLength)"

section \<open>Its shape\<close>

lemma length_max_length: "l \<in> set content \<Longrightarrow> length l \<le> max_length content"
proof -
  have "m \<le> fold (\<lambda>l m. max m (length l)) ls m \<and>
      (\<forall>l\<in>set ls. length l \<le> fold (\<lambda>l m. max m (length l)) ls m)" for ls :: "string list" and m
  proof (induction ls arbitrary: m)
    case (Cons l ls)
    from Cons [of "max m (length l)"] show ?case by simp
  qed simp
  then show "l \<in> set content \<Longrightarrow> ?thesis" by (simp add: max_length_def)
qed

definition row :: "nat \<Rightarrow> string \<Rightarrow> string" where
  "row width line = ''| '' @ line @ spaces (width - length line) @ '' |''"

definition centred :: "nat \<Rightarrow> string \<Rightarrow> string" where
  "centred width line = spaces ((width - length line) div 2) @ line @
     spaces (width - length line - (width - length line) div 2)"

definition rule_line :: "nat \<Rightarrow> string" where
  "rule_line width = ''+'' @ replicate (width + 2) (CHR ''-'') @ ''+''"

lemma border_rule_line: "border w = rule_line w @ [newline]"
  by (simp add: border_def rule_line_def replicate_append_same)

lemma box_lines:
  "generateBox (header # rows) = terminated newline
     ([rule_line w, row w (centred w header), rule_line w] @ map (row w) rows @ [rule_line w])"
  if "w = max_length (header # rows)"
proof -
  have "length (centred w header) = w"
    using length_max_length [of header "header # rows"] that by (simp add: centred_def spaces_def)
  then have "row w (centred w header) = ''| '' @ centred w header @ '' |''"
    by (simp add: row_def spaces_def)
  then show ?thesis
    by (simp add: generateBox_def Let_def border_rule_line terminated_def row_def centred_def comp_def that)
qed

text \<open>
  A box is a rectangle: for content without line breaks, every line printed is four characters
  wider than the longest line of the content, the header stands between two rules, each other
  line has a row of its own in the order given, and a rule closes the box.
\<close>

theorem box_is_rectangular:
  assumes "\<forall>line\<in>set (header # rows). newline \<notin> set line" and w: "w = max_length (header # rows)"
  shows "lines_of newline (generateBox (header # rows)) =
      [rule_line w, row w (centred w header), rule_line w] @ map (row w) rows @ [rule_line w] \<and>
    (\<forall>line\<in>set (lines_of newline (generateBox (header # rows))). length line = w + 4)"
proof -
  let ?ls = "[rule_line w, row w (centred w header), rule_line w] @ map (row w) rows @ [rule_line w]"
  have n: "newline \<noteq> CHR ''+''" "newline \<noteq> CHR ''-''" "newline \<noteq> CHR ''|''" "newline \<noteq> CHR '' ''"
    by (simp_all add: newline_def)
  have le: "length line \<le> w" if "line \<in> set (header # rows)" for line
    using length_max_length [OF that] by (simp add: w)
  have c: "length (centred w header) = w" "newline \<notin> set (centred w header)"
    using le [of header] assms(1) n by (simp_all add: centred_def spaces_def)
  have "newline \<notin> set (rule_line w)" using n by (simp add: rule_line_def)
  moreover have "newline \<notin> set (row w line)" if "newline \<notin> set line" for line
    using that n by (simp add: row_def spaces_def)
  ultimately have "\<forall>l\<in>set ?ls. newline \<notin> set l" using c(2) assms(1) by simp
  from lines_of_terminated [OF this, of "[]"] have "lines_of newline (generateBox (header # rows)) = ?ls"
    by (simp add: box_lines [OF w])
  moreover have "length (row w line) = w + 4" if "length line \<le> w" for line
    using that by (simp add: row_def spaces_def)
  moreover have "length (rule_line w) = w + 4" by (simp add: rule_line_def)
  ultimately show ?thesis using c(1) le by simp
qed

theorem box_is_rectangular_witness:
  "lines_of newline (generateBox [''Rating'', ''4'', ''good'']) =
     [''+--------+'', ''| Rating |'', ''+--------+'', ''| 4      |'', ''| good   |'', ''+--------+'']"
proof -
  have w: "max_length [''Rating'', ''4'', ''good''] = 6" by (simp add: max_length_def)
  have "row 6 (centred 6 ''Rating'') = ''| Rating |''" "row 6 ''4'' = ''| 4      |''" "row 6 ''good'' = ''| good   |''"
    "rule_line 6 = ''+--------+''"
    by (simp_all add: row_def centred_def spaces_def rule_line_def eval_nat_numeral)
  with box_is_rectangular [of "''Rating''" "[''4'', ''good'']"] w show ?thesis by (simp add: newline_def)
qed

end
