(* ===== verification/Client.thy ===== *)
theory Client
  imports Request_Message Socket Box Std_Streams
begin

text \<open>
  The client's connection to the server (\<^verbatim>\<open>Client/include/Client.hpp\<close>,
  \<^verbatim>\<open>Client/src/Client.cpp\<close>): construction, sending a request, receiving and checking a
  response, and the retry loop every operation ends in. The lemmas say what one attempt does
  to the kernel's log, and what the loop makes of the events the network delivers.
\<close>

section \<open>The state of the client\<close>

text \<open>
  The client's members, together with the static members of the (de)serialiser it uses.
\<close>

record client = socket_state +
  clientAddr :: sockaddr_in
  serverAddr :: sockaddr_in
  requestID :: int32
  c_serializer :: JavaSerializer
  c_deserializer :: "RequestMessage JavaDeserializer"

definition creators :: "string \<rightharpoonup> RequestMessage" where
  "creators = registerClasses Map.empty"

section \<open>Construction and destruction\<close>

definition INADDR_NONE :: "32 word" where
  "INADDR_NONE = 0xFFFFFFFF"

text \<open>The local address is filled in but never used: the socket is bound to any free port.\<close>

definition makeLocalSocketAddress :: "('k client_scheme, unit) prog" where
  "makeLocalSocketAddress = modify (\<lambda>s. s\<lparr>clientAddr := \<lparr>sin_port = 8000, sin_addr = INADDR_ANY\<rparr>\<rparr>)"

definition makeRemoteSocketAddress :: "string \<Rightarrow> int \<Rightarrow> ('k client_scheme, unit) prog" where
  "makeRemoteSocketAddress hostname port = (\<lambda>s.
     let addr = k_inet_addr s hostname in
     if addr = INADDR_NONE then
       (case k_gethostbyname s hostname of
          None \<Rightarrow> bnd (cerr ''Unknown host'') (\<lambda>_. fail (Exits (-1))) s
        | Some a \<Rightarrow> modify (\<lambda>s. s\<lparr>serverAddr := \<lparr>sin_port = word_of_int port, sin_addr = a\<rparr>\<rparr>) s)
     else modify (\<lambda>s. s\<lparr>serverAddr := \<lparr>sin_port = word_of_int port, sin_addr = addr\<rparr>\<rparr>) s)"

text \<open>\<^verbatim>\<open>UserInterface::displayConnectionInfo\<close>, which the constructor calls.\<close>

definition displayConnectionInfo :: "('k client_scheme, unit) prog" where
  "displayConnectionInfo =
     bnd getSocketName (\<lambda>clientAddr. \<lambda>s.
       let connectionInfo =
         [''Connection Information'',
          ''Client socket has been successfully bound.'',
          ''Client IP Address: '' @ k_inet_ntop s (sin_addr clientAddr),
          ''Client Port: '' @ to_string (uint (sin_port clientAddr)),
          '''',
          ''Client is connected to the server.'',
          ''Server IP Address: '' @ k_inet_ntop s (sin_addr (serverAddr s)),
          ''Server Port: '' @ to_string (uint (sin_port (serverAddr s)))]
       in cout ([newline] @ generateBox connectionInfo) s)"

text \<open>
  \<^verbatim>\<open>AF_INET\<close>, \<^verbatim>\<open>SOCK_DGRAM\<close> and \<^verbatim>\<open>IPPROTO_UDP\<close> with their values on Linux. The member
  \<^verbatim>\<open>socket\<close> is constructed before \<^verbatim>\<open>requestID\<close> and before the body.
\<close>

definition exit_on_error :: "string \<Rightarrow> ('k client_scheme, unit) prog \<Rightarrow> ('k client_scheme, unit) prog" where
  "exit_on_error text p = try_catch p (\<lambda>e. bnd (cerr (text @ what e)) (\<lambda>_. fail (Exits 1)))"

definition Client_new :: "string \<Rightarrow> int \<Rightarrow> ('k client_scheme, unit) prog" where
  "Client_new serverIp serverPort =
     bnd Socket_new (\<lambda>_.
     bnd (modify (\<lambda>s. s\<lparr>requestID := 0\<rparr>)) (\<lambda>_.
     bnd (exit_on_error ''Error creating socket: '' (Socket_create 2 2 17)) (\<lambda>_.
     bnd makeLocalSocketAddress (\<lambda>_.
     bnd (exit_on_error ''Error binding socket: '' (Socket_bind 0)) (\<lambda>_.
     bnd (makeRemoteSocketAddress serverIp serverPort) (\<lambda>_.
     bnd (setReceiveTimeout TIMEOUT_SEC) (\<lambda>_.
     displayConnectionInfo)))))))"

text \<open>\<^verbatim>\<open>~Client\<close> runs its body and then the destructor of the member \<^verbatim>\<open>socket\<close>.\<close>

definition Client_destroy :: "('k client_scheme, unit) prog" where
  "Client_destroy = bnd closeSocket (\<lambda>_. Socket_destroy)"

section \<open>Sending and receiving\<close>

text \<open>\<^verbatim>\<open>requestID++\<close> on a signed \<^verbatim>\<open>int\<close>.\<close>

definition increment_requestID :: "('k client_scheme, unit) prog" where
  "increment_requestID = (\<lambda>s.
     if sint (requestID s) = INT_MAX then fail (Undefined ''signed integer overflow'') s
     else (Inr (), s\<lparr>requestID := requestID s + 1\<rparr>))"

text \<open>The address of the request, a local variable of the caller, is the key 0.\<close>

definition serialize_request :: "RequestMessage \<Rightarrow> ('k client_scheme, byte list) prog" where
  "serialize_request request = (\<lambda>s.
     case serialize RequestMessage_class (Ref 0 request) (c_serializer s) of
       (bytes, js) \<Rightarrow> (Inr bytes, s\<lparr>c_serializer := js\<rparr>))"

definition sendRequest :: "RequestMessage \<Rightarrow> bool \<Rightarrow> ('k client_scheme, unit) prog" where
  "sendRequest request retry =
     bnd (if \<not> retry then increment_requestID else ret ()) (\<lambda>_.
     bnd (serialize_request request) (\<lambda>serializedData. \<lambda>s.
     exit_on_error ''Error sending data: '' (sendDataTo serializedData (serverAddr s)) s))"

definition deserialize_response :: "byte list \<Rightarrow> ('k client_scheme, nat option) prog" where
  "deserialize_response bytes =
     zoom c_deserializer (\<lambda>d s. s\<lparr>c_deserializer := d\<rparr>) (deserialize RequestMessage_class creators bytes)"

text \<open>
  The request ID is compared as \<^verbatim>\<open>uint32_t\<close>. Calling a method on a null response pointer is
  undefined.
\<close>

definition receiveResponse :: "int32 \<Rightarrow> ('k client_scheme, string) prog" where
  "receiveResponse expectedRequestID =
     try_catch
       (bnd receiveDataFrom (\<lambda>(receivedData, senderAddr).
        bnd (deserialize_response receivedData) (\<lambda>p.
        case p of
          None \<Rightarrow> fail (Undefined ''method call on a null pointer'')
        | Some a \<Rightarrow> (\<lambda>s.
            let responseMessage = jd_heap (c_deserializer s) ! a in
            if getRequestID responseMessage \<noteq> expectedRequestID then
              bnd (cerr (''Received response for request ID '' @ to_string (sint (getRequestID responseMessage)) @
                '' but expected '' @ to_string (uint expectedRequestID))) (\<lambda>_. ret '''') s
            else ret (getData responseMessage) s))))
       (\<lambda>e. bnd (cerr (what e)) (\<lambda>_. ret ''''))"

function retry_loop :: "RequestMessage \<Rightarrow> nat \<Rightarrow> ('k client_scheme, string) prog" where
  "retry_loop request attempt =
     (if attempt < MAX_RETRIES then
        bnd (sendRequest request (attempt > 0)) (\<lambda>_.
        bnd (receiveResponse (getRequestID request)) (\<lambda>response.
        if response \<noteq> [] then ret response
        else bnd (cerr (''No response received. Retrying... ('' @ to_string (int attempt + 1) @ ''/'' @
               to_string (int MAX_RETRIES) @ '')'')) (\<lambda>_.
             retry_loop request (attempt + 1))))
      else ret (STATUS_ERROR @ [newline] @ ''message:Request failed after '' @
             to_string (int MAX_RETRIES) @ '' attempts.''))"
  by pat_completeness auto
termination
  by (relation "measure (\<lambda>(request, attempt). MAX_RETRIES - attempt)") auto

declare retry_loop.simps [simp del]

definition sendWithRetry :: "RequestMessage \<Rightarrow> ('k client_scheme, string) prog" where
  "sendWithRetry request = retry_loop request 0"

section \<open>One attempt\<close>

text \<open>The datagram a request is sent as.\<close>

definition datagram :: "RequestMessage \<Rightarrow> byte list" where
  "datagram m = with_parity (object_bytes RequestMessage_class request_fields m)"

lemma serialize_request_run [simp]:
  "serialize_request m s =
    (Inr (datagram m), s\<lparr>c_serializer := (c_serializer s)\<lparr>serializedObjects := [0 \<mapsto> 0], js_objectCounter := 1\<rparr>\<rparr>)"
  by (simp add: serialize_request_def datagram_def rm.serialize_bytes)

text \<open>The state after a successful send.\<close>

definition after_send :: "RequestMessage \<Rightarrow> bool \<Rightarrow> 'k client_scheme \<Rightarrow> 'k client_scheme" where
  "after_send m retry s = s\<lparr>k_errnos := tl (k_errnos s),
     k_trace := k_trace s @ [Sys_sendto (sockfd s) (datagram m) (serverAddr s)],
     requestID := (if retry then requestID s else requestID s + 1),
     c_serializer := (c_serializer s)\<lparr>serializedObjects := [0 \<mapsto> 0], js_objectCounter := 1\<rparr>\<rparr>"

definition may_send :: "bool \<Rightarrow> 'k client_scheme \<Rightarrow> bool" where
  "may_send retry s \<longleftrightarrow> (retry \<or> sint (requestID s) \<noteq> INT_MAX) \<and> (k_errnos s = [] \<or> hd (k_errnos s) = 0)"

lemma sendRequest_run [simp]: "may_send retry s \<Longrightarrow> sendRequest m retry s = (Inr (), after_send m retry s)"
  by (auto simp: may_send_def sendRequest_def increment_requestID_def exit_on_error_def sendDataTo_def
      sys_call_def traced_def after_send_def throw_errno_def prog_defs split: list.splits)

lemma sendRequest_fails:
  "\<not> may_send retry s \<Longrightarrow> \<exists>e s'. sendRequest m retry s = (Inl e, s') \<and> (e = Exits 1 \<or> (\<exists>t. e = Undefined t))"
  by (auto simp: may_send_def sendRequest_def increment_requestID_def exit_on_error_def sendDataTo_def
      sys_call_def traced_def throw_errno_def prog_defs split: list.splits)

lemma sendRequest_InrD: "sendRequest m retry s = (Inr u, s') \<Longrightarrow> may_send retry s \<and> s' = after_send m retry s"
  using sendRequest_fails [of retry s m] by (cases "may_send retry s") auto

text \<open>The deserialiser never fails other than by an exception on a received datagram.\<close>

lemma RequestMessage_robust: "robust (deserializeFields RequestMessage_class x)"
  by (rule rm.deserialize_robust)

lemma deserialize_response_frame:
  "deserialize_response bytes s = (r, s') \<Longrightarrow> \<exists>d. s' = s\<lparr>c_deserializer := d\<rparr>"
  by (auto simp: deserialize_response_def zoom_def split: prod.splits)

lemma deserialize_response_Inl:
  "deserialize_response bytes s = (Inl e, s') \<Longrightarrow> \<exists>x. e = Throws x"
  using deserialize_never_undefined [OF RequestMessage_robust]
  by (auto simp: deserialize_response_def zoom_def split: prod.splits) (metis fst_conv)

text \<open>
  What a receive changes: the network's queue, the clock, the log, the deserialiser's state
  and the error output.
\<close>

definition received_from :: "'k client_scheme \<Rightarrow> 'k client_scheme \<Rightarrow> bool" where
  "received_from s s' \<longleftrightarrow>
     k_trace s' = k_trace s @ [Sys_recvfrom (sockfd s) BUFFER_SIZE] \<and>
     k_clock s \<le> k_clock s' \<and> k_clock s' \<le> k_clock s + time_limit s \<and>
     requestID s' = requestID s \<and> serverAddr s' = serverAddr s \<and> sockfd s' = sockfd s \<and>
     k_errnos s' = k_errnos s \<and> k_timeout s' = k_timeout s \<and> k_cout s' = k_cout s"

lemma receiveDataFrom_frame:
  assumes "receiveDataFrom s = (r, s')"
  obtains q c where "k_clock s \<le> c" and "c \<le> k_clock s + time_limit s"
    and "s' = s\<lparr>k_recv := q, k_clock := c, k_trace := k_trace s @ [Sys_recvfrom (sockfd s) BUFFER_SIZE]\<rparr>"
    and "\<And>e. r = Inl e \<Longrightarrow> \<exists>x. e = Throws x"
proof (cases "k_recv s")
  case Nil
  then show thesis
    using assms that [of "k_clock s + time_limit s" "[]"]
    by (auto simp: receiveDataFrom_def sys_recvfrom_def traced_def Let_def prog_defs)
next
  case (Cons e es)
  obtain t ev where e: "e = (t, ev)" by (cases e)
  show thesis
  proof (cases "t < time_limit s")
    case True
    then show thesis
      using Cons e assms that [of "k_clock s + t" es]
      by (cases ev) (auto simp: receiveDataFrom_def sys_recvfrom_def traced_def Let_def prog_defs split: if_splits)
  next
    case False
    then show thesis
      using Cons e assms that [of "k_clock s + time_limit s" "(t - time_limit s, ev) # es"]
      by (auto simp: receiveDataFrom_def sys_recvfrom_def traced_def Let_def prog_defs)
  qed
qed

text \<open>Every outcome of \<^verbatim>\<open>receiveResponse\<close>: a text, or the call on a null pointer.\<close>

lemma receiveResponse_frame:
  assumes "receiveResponse i s = (r, s')"
  shows "received_from s s'" and "r = Inl e \<Longrightarrow> e = Undefined ''method call on a null pointer''"
proof -
  obtain r1 s1 where 1: "receiveDataFrom s = (r1, s1)" by (cases "receiveDataFrom s")
  obtain q c where s1: "k_clock s \<le> c" "c \<le> k_clock s + time_limit s"
    "s1 = s\<lparr>k_recv := q, k_clock := c, k_trace := k_trace s @ [Sys_recvfrom (sockfd s) BUFFER_SIZE]\<rparr>"
    "\<And>e. r1 = Inl e \<Longrightarrow> \<exists>x. e = Throws x"
    using receiveDataFrom_frame [OF 1] by blast
  have "received_from s s' \<and> (\<forall>e. r = Inl e \<longrightarrow> e = Undefined ''method call on a null pointer'')"
  proof (cases r1)
    case (Inl e)
    with s1(4) obtain x where "e = Throws x" by blast
    with 1 Inl assms s1(1-3) show ?thesis
      by (auto simp: receiveResponse_def try_catch_def received_from_def)
  next
    case (Inr ba)
    then obtain bytes addr where r1: "r1 = Inr (bytes, addr)" by (cases ba) auto
    obtain r2 s2 where 2: "deserialize_response bytes s1 = (r2, s2)"
      by (cases "deserialize_response bytes s1")
    obtain d where s2: "s2 = s1\<lparr>c_deserializer := d\<rparr>"
      using deserialize_response_frame [OF 2] by blast
    show ?thesis
    proof (cases r2)
      case (Inl e)
      then obtain x where "e = Throws x" using 2 deserialize_response_Inl by blast
      with 1 2 Inl r1 s2 assms s1(1-3) show ?thesis
        by (auto simp: receiveResponse_def try_catch_def received_from_def)
    next
      case (Inr p)
      with 1 2 r1 s2 assms s1(1-3) show ?thesis
        by (cases p) (auto simp: receiveResponse_def try_catch_def received_from_def Let_def split: if_splits)
    qed
  qed
  then show "received_from s s'" and "r = Inl e \<Longrightarrow> e = Undefined ''method call on a null pointer''"
    by auto
qed

text \<open>Whatever a client is extended with, here the user's input, is left alone.\<close>

lemma more_updates [simp]:
  "client.more (s\<lparr>k_recv := a\<rparr>) = client.more s" "client.more (s\<lparr>k_clock := b\<rparr>) = client.more s"
  "client.more (s\<lparr>k_trace := c\<rparr>) = client.more s" "client.more (s\<lparr>k_errnos := d\<rparr>) = client.more s"
  "client.more (s\<lparr>k_cerr := e\<rparr>) = client.more s" "client.more (s\<lparr>k_cout := f\<rparr>) = client.more s"
  "client.more (s\<lparr>k_timeout := g\<rparr>) = client.more s" "client.more (s\<lparr>c_deserializer := h\<rparr>) = client.more s"
  "client.more (s\<lparr>c_serializer := i\<rparr>) = client.more s" "client.more (s\<lparr>requestID := j\<rparr>) = client.more s"
  by simp_all

lemma receiveResponse_more:
  assumes "receiveResponse i s = (r, s')"
  shows "client.more s' = client.more s"
proof -
  obtain r1 s1 where 1: "receiveDataFrom s = (r1, s1)" by (cases "receiveDataFrom s")
  obtain q c where s1: "s1 = s\<lparr>k_recv := q, k_clock := c, k_trace := k_trace s @ [Sys_recvfrom (sockfd s) BUFFER_SIZE]\<rparr>"
    and e: "\<And>e. r1 = Inl e \<Longrightarrow> \<exists>x. e = Throws x"
    using receiveDataFrom_frame [OF 1] by blast
  show ?thesis
  proof (cases r1)
    case (Inl e)
    with e obtain x where "e = Throws x" by blast
    with 1 Inl assms s1 show ?thesis by (auto simp: receiveResponse_def try_catch_def)
  next
    case (Inr ba)
    then obtain bytes addr where r1: "r1 = Inr (bytes, addr)" by (cases ba) auto
    obtain r2 s2 where 2: "deserialize_response bytes s1 = (r2, s2)"
      by (cases "deserialize_response bytes s1")
    obtain d where s2: "s2 = s1\<lparr>c_deserializer := d\<rparr>"
      using deserialize_response_frame [OF 2] by blast
    show ?thesis
    proof (cases r2)
      case (Inl e)
      then obtain x where "e = Throws x" using 2 deserialize_response_Inl by blast
      with 1 2 Inl r1 s2 assms s1 show ?thesis by (auto simp: receiveResponse_def try_catch_def)
    next
      case (Inr p)
      with 1 2 r1 s2 assms s1 show ?thesis
        by (cases p) (auto simp: receiveResponse_def try_catch_def Let_def split: if_splits)
    qed
  qed
qed

section \<open>The retry loop\<close>

text \<open>
  \<open>n\<close> attempts at the same request: each sends the same datagram to the server and waits for
  one reply; the request ID has gone up when the first attempt was among them.
\<close>

definition attempts :: "RequestMessage \<Rightarrow> nat \<Rightarrow> 'k client_scheme \<Rightarrow> syscall list" where
  "attempts m n s = concat (replicate n
     [Sys_sendto (sockfd s) (datagram m) (serverAddr s), Sys_recvfrom (sockfd s) BUFFER_SIZE])"

definition exchanged :: "RequestMessage \<Rightarrow> nat \<Rightarrow> int32 \<Rightarrow> 'k client_scheme \<Rightarrow> 'k client_scheme \<Rightarrow> bool" where
  "exchanged m n i s s' \<longleftrightarrow>
     k_trace s' = k_trace s @ attempts m n s \<and>
     k_clock s \<le> k_clock s' \<and> k_clock s' \<le> k_clock s + n * time_limit s \<and>
     requestID s' = i \<and> serverAddr s' = serverAddr s \<and> sockfd s' = sockfd s \<and>
     k_timeout s' = k_timeout s \<and> k_cout s' = k_cout s"

lemma exchanged_0: "exchanged m 0 (requestID s) s s"
  by (simp add: exchanged_def attempts_def)

lemma exchanged_Suc:
  assumes "may_send retry s" and "received_from (after_send m retry s) s1"
    and "exchanged m n (requestID s1) (s1\<lparr>k_cerr := msg\<rparr>) s2"
  shows "exchanged m (Suc n) (if retry then requestID s else requestID s + 1) s s2"
proof -
  have "time_limit (after_send m retry s) = time_limit s" "time_limit (s1\<lparr>k_cerr := msg\<rparr>) = time_limit s"
    using assms(2) by (simp_all add: time_limit_def after_send_def received_from_def)
  with assms(2,3) show ?thesis
    by (auto simp: exchanged_def received_from_def after_send_def attempts_def)
qed

lemma exchanged_1:
  assumes "may_send retry s" and "received_from (after_send m retry s) s1"
  shows "exchanged m 1 (if retry then requestID s else requestID s + 1) s s1"
  using exchanged_Suc [OF assms, of 0 "k_cerr s1" s1] by (simp add: exchanged_0)

definition gave_up :: string where
  "gave_up = STATUS_ERROR @ [newline] @ ''message:Request failed after '' @ to_string (int MAX_RETRIES) @ '' attempts.''"

lemma retry_loop_InrD:
  "retry_loop m attempt s = (Inr response, s') \<Longrightarrow> \<exists>n. n \<le> MAX_RETRIES - attempt \<and>
     (attempt < MAX_RETRIES \<longrightarrow> 0 < n) \<and> response \<noteq> [] \<and>
     exchanged m n (if attempt < MAX_RETRIES \<and> attempt = 0 then requestID s + 1 else requestID s) s s'"
proof (induction m attempt arbitrary: s rule: retry_loop.induct)
  case (1 m attempt)
  show ?case
  proof (cases "attempt < MAX_RETRIES")
    case False
    with 1(2) show ?thesis
      by (auto simp: retry_loop.simps [of m attempt] exchanged_0 STATUS_ERROR_def)
  next
    case True
    note loop = retry_loop.simps [of m attempt]
    let ?s = "after_send m (0 < attempt) s"
    from 1(2) True have may: "may_send (0 < attempt) s"
      by (auto simp: loop elim!: bnd_InrE dest: sendRequest_InrD)
    obtain r s1 where r: "receiveResponse (getRequestID m) ?s = (r, s1)"
      by (cases "receiveResponse (getRequestID m) ?s")
    note rf = receiveResponse_frame(1) [OF r]
    from 1(2) True may r obtain t where t: "r = Inr t"
      by (cases r) (auto simp: loop)
    show ?thesis
    proof (cases "t = []")
      case False
      with 1(2) True may r t have "response = t" "s' = s1" by (auto simp: loop)
      with False True exchanged_1 [OF may rf] show ?thesis by (intro exI [of _ 1]) auto
    next
      case nil: True
      define s2 where "s2 = s1\<lparr>k_cerr := k_cerr s1 @ ''No response received. Retrying... ('' @
        to_string (int attempt + 1) @ ''/'' @ to_string (int MAX_RETRIES) @ '')'' @ [newline]\<rparr>"
      have "retry_loop m (attempt + 1) s2 = (Inr response, s')"
        using 1(2) True may r t nil by (simp add: loop s2_def)
      from 1(1) [OF True _ this, of "[]"] obtain n where n: "n \<le> MAX_RETRIES - (attempt + 1)" "response \<noteq> []"
        "exchanged m n (requestID s1) s2 s'" by (auto simp: s2_def)
      from n(3) have "exchanged m (Suc n) (if 0 < attempt then requestID s else requestID s + 1) s s'"
        unfolding s2_def by (rule exchanged_Suc [OF may rf])
      with n True show ?thesis by (intro exI [of _ "Suc n"]) auto
    qed
  qed
qed

text \<open>A request that returns has left the extension alone, and system calls go on succeeding.\<close>

lemma retry_loop_frame:
  "retry_loop m attempt s = (Inr response, s') \<Longrightarrow>
   client.more s' = client.more s \<and> (k_errnos s = [] \<longrightarrow> k_errnos s' = [])"
proof (induction m attempt arbitrary: s rule: retry_loop.induct)
  case (1 m attempt)
  note loop = retry_loop.simps [of m attempt]
  show ?case
  proof (cases "attempt < MAX_RETRIES")
    case False
    with "1.prems" show ?thesis by (simp add: loop)
  next
    case True
    let ?s = "after_send m (0 < attempt) s"
    from "1.prems" True have may: "may_send (0 < attempt) s"
      by (auto simp: loop elim!: bnd_InrE dest: sendRequest_InrD)
    obtain r s1 where r: "receiveResponse (getRequestID m) ?s = (r, s1)"
      by (cases "receiveResponse (getRequestID m) ?s")
    have s1: "client.more s1 = client.more s" "k_errnos s = [] \<longrightarrow> k_errnos s1 = []"
      using receiveResponse_more [OF r] receiveResponse_frame(1) [OF r]
      by (simp_all add: after_send_def received_from_def)
    from "1.prems" True may r obtain t where t: "r = Inr t" by (cases r) (auto simp: loop)
    show ?thesis
    proof (cases "t = []")
      case False
      with "1.prems" True may r t s1 show ?thesis by (auto simp: loop)
    next
      case nil: True
      obtain err where "retry_loop m (attempt + 1) (s1\<lparr>k_cerr := err\<rparr>) = (Inr response, s')"
        using "1.prems" True may r t nil by (auto simp: loop)
      from "1.IH" [OF True _ this, of "[]"] s1 show ?thesis by simp
    qed
  qed
qed

lemma retry_loop_InlD:
  "retry_loop m attempt s = (Inl e, s') \<Longrightarrow> e = Exits 1 \<or> (\<exists>t. e = Undefined t)"
proof (induction m attempt arbitrary: s rule: retry_loop.induct)
  case (1 m attempt)
  note loop = retry_loop.simps [of m attempt]
  let ?s = "after_send m (0 < attempt) s"
  obtain r s1 where r: "receiveResponse (getRequestID m) ?s = (r, s1)"
    by (cases "receiveResponse (getRequestID m) ?s")
  consider "attempt < MAX_RETRIES" "may_send (0 < attempt) s" | "attempt < MAX_RETRIES" "\<not> may_send (0 < attempt) s"
    | "\<not> attempt < MAX_RETRIES" by blast
  then show ?case
  proof cases
    case 1: 1
    with "1.prems" "1.IH" [OF 1(1)] r receiveResponse_frame(2) [OF r] show ?thesis
      by (cases r) (auto simp: loop split: if_splits)
  next
    case 2
    then obtain e' s'' where "sendRequest m (0 < attempt) s = (Inl e', s'')" "e' = Exits 1 \<or> (\<exists>t. e' = Undefined t)"
      using sendRequest_fails [of "0 < attempt" s m] by blast
    with 2 "1.prems" show ?thesis by (auto simp: loop)
  next
    case 3
    with "1.prems" show ?thesis by (simp add: loop)
  qed
qed

section \<open>What the network delivers\<close>

lemma length_datagram:
  "length (datagram m) = (if rm_data m = [] then 111 else 115 + length (rm_data m))"
  by (simp add: datagram_def length_object_bytes)

lemma creators_RequestMessage [simp]:
  "creators (getJavaClassName RequestMessage_class RequestMessage_default) = Some RequestMessage_default"
  by (simp add: creators_def registerClasses_def RequestMessage_class_def RequestMessage_getJavaClassName_def)

text \<open>
  What a received event makes of an attempt at request \<open>i\<close>: the data of a reply with that ID,
  or the empty string, which means trying again. A message too long for the buffer arrives
  cut off.
\<close>

inductive delivers :: "int32 \<Rightarrow> recv_event \<Rightarrow> string \<Rightarrow> bool" for i :: int32 where
  socket_error: "delivers i (Recv_Error errno) ''''"
| corrupted: "\<not> parity_checked (take BUFFER_SIZE bytes) \<Longrightarrow> delivers i (Datagram bytes addr) ''''"
| too_long: "string_fits (rm_data m) \<Longrightarrow> BUFFER_SIZE < length (object_bytes RequestMessage_class request_fields m) \<Longrightarrow>
    delivers i (Datagram (datagram m) addr) ''''"
| stale: "length (datagram m) \<le> BUFFER_SIZE \<Longrightarrow> rm_requestID m \<noteq> i \<Longrightarrow> delivers i (Datagram (datagram m) addr) ''''"
| reply: "length (datagram m) \<le> BUFFER_SIZE \<Longrightarrow> rm_requestID m = i \<Longrightarrow> delivers i (Datagram (datagram m) addr) (rm_data m)"

lemma deserialize_corrupted:
  "\<not> parity_checked bytes \<Longrightarrow> \<exists>x. deserialize_response bytes s = (Inl (Throws x), s)"
  by (cases "bytes = []")
    (auto simp: deserialize_response_def zoom_def deserialize_parity_error)

lemma deserialize_too_long:
  assumes "string_fits (rm_data m)" and "k < length (object_bytes RequestMessage_class request_fields m)"
  shows "\<exists>x d. deserialize_response (take k (datagram m)) s = (Inl (Throws x), s\<lparr>c_deserializer := d\<rparr>)"
  using rm.deserialize_truncated [where creators = creators, OF assms(1) creators_RequestMessage assms(2), of "c_deserializer s"]
  by (auto simp: deserialize_response_def datagram_def zoom_def)

lemma deserialize_reply:
  assumes "string_fits (rm_data m)"
  shows "\<exists>a d. deserialize_response (datagram m) s = (Inr (Some a), s\<lparr>c_deserializer := d\<rparr>) \<and> jd_heap d ! a = m"
  using rm.deserialize_serialize [where creators = creators, OF assms creators_RequestMessage, of "c_deserializer s"]
  by (auto simp: deserialize_response_def datagram_def zoom_def)

lemma datagram_fits: "length (datagram m) \<le> BUFFER_SIZE \<Longrightarrow> string_fits (rm_data m)"
  by (auto simp: length_datagram BUFFER_SIZE_def string_fits_def split: if_splits)

lemma receiveDataFrom_in_time:
  assumes "k_recv s = (t, ev) # es" and "t < time_limit s"
  shows "\<exists>s'. k_recv s' = es \<and> k_clock s' = k_clock s + t \<and>
    receiveDataFrom s = ((case ev of Datagram bytes addr \<Rightarrow> Inr (take BUFFER_SIZE bytes, addr)
      | Recv_Error errno \<Rightarrow> Inl (Throws (Runtime_Error
          (if errno = EAGAIN then ''Receive failed! Error: Timeout occurred''
           else ''Receive failed! Error code: '' @ to_string errno)))), s')"
  using assms
  by (auto simp: receiveDataFrom_def sys_recvfrom_def traced_def Let_def prog_defs split: recv_event.splits)

lemma receiveResponse_delivers:
  assumes "delivers i ev text" and "k_recv s = (t, ev) # es" and "t < time_limit s"
  shows "\<exists>s'. receiveResponse i s = (Inr text, s') \<and> k_recv s' = es \<and> k_clock s' = k_clock s + t"
proof -
  obtain s1 where s1: "k_recv s1 = es" "k_clock s1 = k_clock s + t"
    "receiveDataFrom s = ((case ev of Datagram bytes addr \<Rightarrow> Inr (take BUFFER_SIZE bytes, addr)
      | Recv_Error errno \<Rightarrow> Inl (Throws (Runtime_Error
          (if errno = EAGAIN then ''Receive failed! Error: Timeout occurred''
           else ''Receive failed! Error code: '' @ to_string errno)))), s1)"
    using receiveDataFrom_in_time [OF assms(2,3)] by blast
  have lost: "\<exists>s'. receiveResponse i s = (Inr '''', s') \<and> k_recv s' = es \<and> k_clock s' = k_clock s + t"
    if "ev = Datagram bytes addr" "deserialize_response (take BUFFER_SIZE bytes) s1 = (Inl (Throws x), s1\<lparr>c_deserializer := d\<rparr>)"
    for bytes addr x d
    using s1 that by (simp add: receiveResponse_def try_catch_def)
  have read: "\<exists>s'. receiveResponse i s = (Inr (if rm_requestID m = i then rm_data m else ''''), s') \<and>
      k_recv s' = es \<and> k_clock s' = k_clock s + t"
    if "ev = Datagram (datagram m) addr" "length (datagram m) \<le> BUFFER_SIZE" for m addr
  proof -
    from deserialize_reply [OF datagram_fits [OF that(2)], of s1] obtain a d where
      "deserialize_response (datagram m) s1 = (Inr (Some a), s1\<lparr>c_deserializer := d\<rparr>)" "jd_heap d ! a = m"
      by blast
    with s1 that show ?thesis
      by (auto simp: receiveResponse_def try_catch_def Let_def getRequestID_def getData_def)
  qed
  from assms(1) show ?thesis
  proof cases
    case socket_error
    with s1 show ?thesis by (simp add: receiveResponse_def try_catch_def)
  next
    case (corrupted bytes addr)
    with deserialize_corrupted [of "take BUFFER_SIZE bytes" s1] obtain x where
      "deserialize_response (take BUFFER_SIZE bytes) s1 = (Inl (Throws x), s1\<lparr>c_deserializer := c_deserializer s1\<rparr>)"
      by auto
    with lost corrupted show ?thesis by blast
  next
    case too_long
    with deserialize_too_long [of _ _ s1] lost show ?thesis by blast
  next
    case stale
    with read show ?thesis by fastforce
  next
    case reply
    with read show ?thesis by fastforce
  qed
qed

section \<open>The retry loop over a network\<close>

text \<open>
  Events that arrive in time and are worthless for request \<open>i\<close>.
\<close>

definition worthless :: "int32 \<Rightarrow> nat \<Rightarrow> nat \<times> recv_event \<Rightarrow> bool" where
  "worthless i limit e \<longleftrightarrow> fst e < limit \<and> delivers i (snd e) ''''"

lemma may_send_again:
  "may_send retry s \<Longrightarrow> k_errnos s = [] \<Longrightarrow> k_errnos s1 = k_errnos (after_send m retry s) \<Longrightarrow> may_send True s1"
  by (auto simp: may_send_def after_send_def)

text \<open>One turn of the loop that ends without a response.\<close>

lemma retry_loop_again:
  assumes "attempt < MAX_RETRIES" and "may_send (0 < attempt) s"
    and "receiveResponse (getRequestID m) (after_send m (0 < attempt) s) = (Inr '''', s1)"
  shows "\<exists>msg. retry_loop m attempt s = retry_loop m (attempt + 1) (s1\<lparr>k_cerr := msg\<rparr>)"
  using assms by (auto simp: retry_loop.simps [of m attempt])

lemma after_send_simps [simp]:
  "k_recv (after_send m retry s) = k_recv s" "k_clock (after_send m retry s) = k_clock s"
  "time_limit (after_send m retry s) = time_limit s" "k_timeout (after_send m retry s) = k_timeout s"
  by (simp_all add: after_send_def time_limit_def)

lemma received_from_time_limit: "received_from s s' \<Longrightarrow> time_limit s' = time_limit s"
  by (simp add: received_from_def time_limit_def)

lemma retry_loop_skips:
  assumes "\<forall>e\<in>set pre. worthless (getRequestID m) (time_limit s) e"
    and "k_recv s = pre @ post" and "attempt + length pre \<le> MAX_RETRIES"
    and "k_errnos s = []" and "may_send (0 < attempt) s"
  shows "\<exists>s'. retry_loop m attempt s = retry_loop m (attempt + length pre) s' \<and>
    k_recv s' = post \<and> k_clock s' = k_clock s + sum_list (map fst pre) \<and>
    k_errnos s' = [] \<and> may_send (0 < attempt + length pre) s' \<and> time_limit s' = time_limit s"
  using assms
proof (induction pre arbitrary: attempt s)
  case Nil
  then show ?case by auto
next
  case (Cons e pre)
  obtain t ev where e: "e = (t, ev)" by (cases e)
  let ?s = "after_send m (0 < attempt) s"
  from Cons.prems have a: "attempt < MAX_RETRIES" by simp
  have "delivers (getRequestID m) ev ''''" "k_recv ?s = (t, ev) # pre @ post" "t < time_limit ?s"
    using Cons.prems e by (auto simp: worthless_def)
  from receiveResponse_delivers [OF this] obtain s1 where
    s1: "receiveResponse (getRequestID m) ?s = (Inr '''', s1)" "k_recv s1 = pre @ post" "k_clock s1 = k_clock s + t"
    by auto
  note rf = receiveResponse_frame(1) [OF s1(1)]
  have err: "k_errnos s1 = []"
    using rf Cons.prems(4) by (simp add: received_from_def after_send_def)
  obtain msg where step: "retry_loop m attempt s = retry_loop m (attempt + 1) (s1\<lparr>k_cerr := msg\<rparr>)"
    using retry_loop_again [OF a Cons.prems(5) s1(1)] by blast
  have lim: "time_limit (s1\<lparr>k_cerr := msg\<rparr>) = time_limit s"
    using received_from_time_limit [OF rf] by (simp add: time_limit_def)
  have "\<exists>s'. retry_loop m (attempt + 1) (s1\<lparr>k_cerr := msg\<rparr>) = retry_loop m (attempt + 1 + length pre) s' \<and>
      k_recv s' = post \<and> k_clock s' = k_clock (s1\<lparr>k_cerr := msg\<rparr>) + sum_list (map fst pre) \<and>
      k_errnos s' = [] \<and> may_send (0 < attempt + 1 + length pre) s' \<and>
      time_limit s' = time_limit (s1\<lparr>k_cerr := msg\<rparr>)"
    using Cons.prems s1 err lim by (intro Cons.IH) (auto simp: may_send_def)
  then obtain s' where "retry_loop m (attempt + 1) (s1\<lparr>k_cerr := msg\<rparr>) = retry_loop m (attempt + 1 + length pre) s'"
      "k_recv s' = post" "k_clock s' = k_clock (s1\<lparr>k_cerr := msg\<rparr>) + sum_list (map fst pre)"
      "k_errnos s' = []" "may_send (0 < attempt + 1 + length pre) s'"
      "time_limit s' = time_limit (s1\<lparr>k_cerr := msg\<rparr>)"
    by blast
  with step e s1 lim show ?case by (intro exI [of _ s']) simp
qed

text \<open>The first useful reply within the attempts ends the loop.\<close>

lemma retry_loop_reply:
  assumes "\<forall>e\<in>set pre. worthless (getRequestID m) (time_limit s) e"
    and "k_recv s = pre @ (t, ev) # post" and "attempt + length pre < MAX_RETRIES"
    and "k_errnos s = []" and "may_send (0 < attempt) s"
    and "delivers (getRequestID m) ev text" and "text \<noteq> ''''" and "t < time_limit s"
  shows "\<exists>s'. retry_loop m attempt s = (Inr text, s') \<and> k_recv s' = post \<and>
    k_clock s' = k_clock s + sum_list (map fst pre) + t"
proof -
  from retry_loop_skips [OF assms(1,2) less_imp_le [OF assms(3)] assms(4,5)] obtain s1 where
    s1: "retry_loop m attempt s = retry_loop m (attempt + length pre) s1" "k_recv s1 = (t, ev) # post"
      "k_clock s1 = k_clock s + sum_list (map fst pre)"
      "may_send (0 < attempt + length pre) s1" "time_limit s1 = time_limit s"
    by blast
  let ?s = "after_send m (0 < attempt + length pre) s1"
  obtain s2 where "receiveResponse (getRequestID m) ?s = (Inr text, s2)" "k_recv s2 = post"
      "k_clock s2 = k_clock s1 + t"
    using receiveResponse_delivers [OF assms(6), of ?s t post] s1 assms(8) by auto
  with s1 assms(3,7) show ?thesis by (auto simp: retry_loop.simps [of m "attempt + length pre"])
qed

text \<open>A silent network: every remaining attempt waits for the whole timeout.\<close>

lemma receiveResponse_silent:
  "k_recv s = [] \<Longrightarrow> \<exists>s'. receiveResponse i s = (Inr '''', s') \<and> k_recv s' = [] \<and> k_clock s' = k_clock s + time_limit s"
  by (auto simp: receiveResponse_def receiveDataFrom_def sys_recvfrom_def traced_def Let_def prog_defs)

lemma retry_loop_silent:
  "k_recv s = [] \<Longrightarrow> k_errnos s = [] \<Longrightarrow> may_send (0 < attempt) s \<Longrightarrow> \<exists>s'.
   retry_loop m attempt s = (Inr gave_up, s') \<and> k_clock s' = k_clock s + (MAX_RETRIES - attempt) * time_limit s"
proof (induction m attempt arbitrary: s rule: retry_loop.induct)
  case (1 m attempt)
  show ?case
  proof (cases "attempt < MAX_RETRIES")
    case False
    then show ?thesis by (simp add: retry_loop.simps [of m attempt] gave_up_def)
  next
    case True
    from receiveResponse_silent [of "after_send m (0 < attempt) s"] 1(2) obtain s1 where
      s1: "receiveResponse (getRequestID m) (after_send m (0 < attempt) s) = (Inr '''', s1)" "k_recv s1 = []"
        "k_clock s1 = k_clock s + time_limit s"
      by auto
    note rf = receiveResponse_frame(1) [OF s1(1)]
    obtain msg where step: "retry_loop m attempt s = retry_loop m (attempt + 1) (s1\<lparr>k_cerr := msg\<rparr>)"
      using retry_loop_again [OF True 1(4) s1(1)] by blast
    let ?s1 = "s1\<lparr>k_cerr := msg\<rparr>"
    have lim: "time_limit ?s1 = time_limit s"
      using received_from_time_limit [OF rf] by (simp add: time_limit_def)
    have err: "k_errnos s1 = []" using rf 1(3) by (simp add: received_from_def after_send_def)
    have "\<exists>s'. retry_loop m (attempt + 1) ?s1 = (Inr gave_up, s') \<and>
        k_clock s' = k_clock ?s1 + (MAX_RETRIES - (attempt + 1)) * time_limit ?s1"
      using s1 err by (intro 1(1) [OF True, of "[]"]) (simp_all add: may_send_def)
    moreover have "time_limit s + (MAX_RETRIES - (attempt + 1)) * time_limit s = (MAX_RETRIES - attempt) * time_limit s"
      using True by (simp flip: mult_Suc add: Suc_diff_Suc)
    ultimately show ?thesis using step s1(3) lim by auto
  qed
qed

section \<open>Properties\<close>

text \<open>A client that can send: no system call fails and the ID counter is not used up.\<close>

definition ready :: "'k client_scheme \<Rightarrow> bool" where
  "ready s \<longleftrightarrow> k_errnos s = [] \<and> sint (requestID s) \<noteq> INT_MAX"

lemma ready_may_send: "ready s \<Longrightarrow> k_errnos s = [] \<and> may_send (0 < (0::nat)) s"
  by (simp add: ready_def may_send_def)

text \<open>A client as it is after construction, on a given network, for evaluation.\<close>

definition server_at :: sockaddr_in where
  "server_at = \<lparr>sin_port = 8888, sin_addr = 0x7F000001\<rparr>"

definition client_on :: "(nat \<times> recv_event) list \<Rightarrow> client" where
  "client_on events = \<lparr>k_recv = events, k_errnos = [], k_trace = [], k_clock = 0, k_timeout = TIMEOUT_SEC,
     k_fd = 3, k_local = \<lparr>sin_port = 40000, sin_addr = 0\<rparr>, k_strerror = (\<lambda>_. ''error''),
     k_inet_addr = (\<lambda>_. 0x7F000001), k_gethostbyname = (\<lambda>_. None), k_inet_ntop = (\<lambda>_. ''127.0.0.1''),
     k_cout = '''', k_cerr = '''', sockfd = 3, clientAddr = \<lparr>sin_port = 8000, sin_addr = INADDR_ANY\<rparr>, serverAddr = server_at,
     requestID = 0, c_serializer = JavaSerializer_init, c_deserializer = JavaDeserializer_init\<rparr>"

lemma client_on_simps [simp]:
  "k_recv (client_on es) = es" "k_clock (client_on es) = 0" "time_limit (client_on es) = 5000"
  "requestID (client_on es) = 0" "k_trace (client_on es) = []" "k_errnos (client_on es) = []"
  "k_cout (client_on es) = ''''"
  by (simp_all add: client_on_def time_limit_def TIMEOUT_SEC_def)

lemma ready_client_on [simp]: "ready (client_on es)"
  by (simp add: ready_def INT_MAX_def)

text \<open>
  C15. A request that returns has been sent between one and five times, always as the same
  datagram (the same request ID) to the server, each send followed by one receive; the response
  is not empty, the ID counter has advanced by exactly one, and the call took at most one receive
  timeout per attempt.
\<close>

theorem retries_are_bounded:
  assumes "sendWithRetry m s = (Inr response, s')"
  shows "\<exists>n. 1 \<le> n \<and> n \<le> MAX_RETRIES \<and> response \<noteq> [] \<and>
    k_trace s' = k_trace s @ concat (replicate n
      [Sys_sendto (sockfd s) (datagram m) (serverAddr s), Sys_recvfrom (sockfd s) BUFFER_SIZE]) \<and>
    requestID s' = requestID s + 1 \<and> k_clock s' \<le> k_clock s + n * time_limit s"
  using retry_loop_InrD [OF assms [unfolded sendWithRetry_def]]
  by (auto simp: exchanged_def attempts_def MAX_RETRIES_def Suc_le_eq)

theorem retries_are_bounded_witness:
  "\<exists>response s' n. sendWithRetry RequestMessage_default (client_on []) = (Inr response, s') \<and>
    1 \<le> n \<and> n \<le> MAX_RETRIES \<and> response \<noteq> [] \<and> requestID s' = 1"
proof -
  obtain s' where "sendWithRetry RequestMessage_default (client_on []) = (Inr gave_up, s')"
    using retry_loop_silent [of "client_on []" 0 RequestMessage_default] ready_may_send [OF ready_client_on]
    by (auto simp: sendWithRetry_def)
  with retries_are_bounded [OF this] show ?thesis by auto
qed

text \<open>
  C16. The first useful reply is returned: when fewer than five events that say nothing about the
  request (socket errors, corrupted or overlong datagrams, replies to other requests, empty
  replies) arrive in time before a reply with the request's ID and a text, the request returns
  that text, has consumed exactly these events, and took exactly the time they took to arrive.
\<close>

theorem first_useful_reply_returned:
  assumes "ready s" and "k_recv s = pre @ (t, Datagram (datagram reply) addr) # post"
    and "length pre < MAX_RETRIES" and "\<forall>e\<in>set pre. worthless (getRequestID m) (time_limit s) e"
    and "t < time_limit s" and "getRequestID reply = getRequestID m" and "getData reply \<noteq> ''''"
    and "length (datagram reply) \<le> BUFFER_SIZE"
  shows "\<exists>s'. sendWithRetry m s = (Inr (getData reply), s') \<and> k_recv s' = post \<and>
    k_clock s' = k_clock s + sum_list (map fst pre) + t"
proof -
  have "delivers (getRequestID m) (Datagram (datagram reply) addr) (getData reply)"
    using delivers.reply [of reply "getRequestID m" addr] assms(6,8) by (simp add: getRequestID_def getData_def)
  from retry_loop_reply [where attempt = 0, OF assms(4,2) _ _ _ this assms(7,5)] assms(1,3)
  show ?thesis by (simp add: sendWithRetry_def ready_def may_send_def)
qed

theorem first_useful_reply_returned_witness:
  "\<exists>s'. sendWithRetry (RequestMessage_new READ 0 ''facility,ALL'')
      (client_on [(10, Recv_Error 111), (20, Datagram (datagram (RequestMessage_new READ 0 ''ok'')) server_at)]) =
    (Inr ''ok'', s') \<and> k_recv s' = [] \<and> k_clock s' = 30"
  using first_useful_reply_returned [of "client_on [(10, Recv_Error 111), (20, Datagram (datagram (RequestMessage_new READ 0 ''ok'')) server_at)]"
      "[(10, Recv_Error 111)]" 20 "RequestMessage_new READ 0 ''ok''" server_at "[]" "RequestMessage_new READ 0 ''facility,ALL''"]
  by (simp add: worthless_def delivers.socket_error getRequestID_def getData_def RequestMessage_new_def
      length_datagram MAX_RETRIES_def BUFFER_SIZE_def)

text \<open>
  On a silent network a request gives up after five full timeouts and returns the client's
  own error text, which is an error response like the server's.
\<close>

theorem silent_network_gives_error:
  assumes "ready s" and "k_recv s = []"
  shows "\<exists>s'. sendWithRetry m s = (Inr gave_up, s') \<and> k_clock s' = k_clock s + 5 * time_limit s \<and>
    prefix STATUS_ERROR gave_up"
  using retry_loop_silent [where attempt = 0 and m = m, OF assms(2)] ready_may_send [OF assms(1)]
  by (auto simp: sendWithRetry_def MAX_RETRIES_def gave_up_def)

theorem silent_network_gives_error_witness:
  "\<exists>s'. sendWithRetry RequestMessage_default (client_on []) =
    (Inr (STATUS_ERROR @ [newline] @ ''message:Request failed after 5 attempts.''), s') \<and> k_clock s' = 25000"
proof -
  have "to_string 5 = ''5''" by (simp add: to_string_def to_string_nat.simps digit_char_def)
  then have "gave_up = STATUS_ERROR @ [newline] @ ''message:Request failed after 5 attempts.''"
    by (simp add: gave_up_def MAX_RETRIES_def)
  with silent_network_gives_error [of "client_on []" RequestMessage_default] show ?thesis by auto
qed

text \<open>
  Five worthless events in a row use up the attempts: the request gives up and leaves later
  events unread, even when the next one is the reply.
\<close>

theorem worthless_replies_give_error:
  assumes "ready s" and "k_recv s = pre @ post" and "length pre = MAX_RETRIES"
    and "\<forall>e\<in>set pre. worthless (getRequestID m) (time_limit s) e"
  shows "\<exists>s'. sendWithRetry m s = (Inr gave_up, s') \<and> k_recv s' = post"
proof -
  obtain s' where s': "retry_loop m 0 s = retry_loop m (0 + length pre) s'" "k_recv s' = post"
    using retry_loop_skips [where attempt = 0, OF assms(4,2)] ready_may_send [OF assms(1)] assms(3) by auto
  then have "retry_loop m 0 s = (Inr gave_up, s')"
    using assms(3) by (simp add: retry_loop.simps [of m MAX_RETRIES] gave_up_def)
  with s'(2) show ?thesis by (auto simp: sendWithRetry_def)
qed

theorem worthless_replies_give_error_witness:
  "\<exists>s'. sendWithRetry RequestMessage_default (client_on (replicate 6 (0, Recv_Error 111))) = (Inr gave_up, s') \<and>
    k_recv s' = [(0, Recv_Error 111)]"
  using worthless_replies_give_error [of "client_on (replicate 6 (0, Recv_Error 111))" "replicate 5 (0, Recv_Error 111)"
      "[(0, Recv_Error 111)]" RequestMessage_default]
  by (simp add: worthless_def delivers.socket_error MAX_RETRIES_def eval_nat_numeral)

text \<open>
  C37. A correct reply whose text is empty cannot be told from no reply: five of them, which is
  what a server echoing an empty message sends, end in the error text.
\<close>

theorem empty_reply_never_accepted:
  assumes "ready s" and "k_recv s = replicate MAX_RETRIES (t, Datagram (datagram reply) addr)" and "t < time_limit s"
    and "getRequestID reply = getRequestID m" and "getData reply = ''''"
  shows "\<exists>s'. sendWithRetry m s = (Inr gave_up, s')"
proof -
  have "length (datagram reply) \<le> BUFFER_SIZE"
    using assms(5) by (simp add: length_datagram getData_def BUFFER_SIZE_def)
  then have "delivers (getRequestID m) (Datagram (datagram reply) addr) ''''"
    using delivers.reply [of reply "getRequestID m" addr] assms(4,5) by (simp add: getRequestID_def getData_def)
  with assms(3) have *: "\<forall>e\<in>set (replicate MAX_RETRIES (t, Datagram (datagram reply) addr)). worthless (getRequestID m) (time_limit s) e"
    by (simp add: worthless_def)
  obtain s' where s': "retry_loop m 0 s = retry_loop m (0 + MAX_RETRIES) s'"
    using retry_loop_skips [where attempt = 0 and post = "[]", OF *] ready_may_send [OF assms(1)] assms(2) by auto
  then show ?thesis by (simp add: sendWithRetry_def retry_loop.simps [of m MAX_RETRIES] gave_up_def)
qed

theorem empty_reply_never_accepted_witness:
  "\<exists>s'. sendWithRetry (RequestMessage_new ECHO 0 '''')
      (client_on (replicate 5 (1, Datagram (datagram (RequestMessage_new ECHO 0 '''')) server_at))) = (Inr gave_up, s')"
  using empty_reply_never_accepted [of "client_on (replicate 5 (1, Datagram (datagram (RequestMessage_new ECHO 0 '''')) server_at))"
      1 "RequestMessage_new ECHO 0 ''''" server_at "RequestMessage_new ECHO 0 ''''"]
  by (simp add: getRequestID_def getData_def RequestMessage_new_def MAX_RETRIES_def)

text \<open>
  C38. The one-byte datagram 0, from anyone, is accepted as a null object, on which the client
  calls a method: undefined behaviour, where every other bad datagram only costs an attempt.
\<close>

theorem null_datagram_is_fatal:
  assumes "ready s" and "k_recv s = (t, Datagram [0] addr) # rest" and "t < time_limit s"
  shows "fst (sendWithRetry m s) = Inl (Undefined ''method call on a null pointer'')"
proof -
  let ?s = "after_send m False s"
  have k: "k_recv ?s = (t, Datagram [0] addr) # rest" "t < time_limit ?s" using assms(2,3) by simp_all
  obtain s1 where s1: "receiveDataFrom ?s = (Inr ([0], addr), s1)"
    using receiveDataFrom_in_time [OF k] by (auto simp: BUFFER_SIZE_def)
  have v: "verifyEvenParity [] 0" by (simp add: verifyEvenParity_def calculateEvenParityBit_eq)
  have "readByte (ByteReader_new [0]) = (Inr 0, advance 1 (ByteReader_new [0]))"
    by (rule readByte_Cons) simp
  with v have "fst (deserialize_response [0] s1) = Inr None"
    by (simp add: deserialize_response_def zoom_def deserialize_eq parity_checked_def deserializeObject_def)
  then obtain s2 where "deserialize_response [0] s1 = (Inr None, s2)"
    by (cases "deserialize_response [0] s1") auto
  with s1 have "fst (receiveResponse (getRequestID m) ?s) = Inl (Undefined ''method call on a null pointer'')"
    by (simp add: receiveResponse_def try_catch_def)
  then obtain s3 where "receiveResponse (getRequestID m) ?s = (Inl (Undefined ''method call on a null pointer''), s3)"
    by (cases "receiveResponse (getRequestID m) ?s") auto
  then show ?thesis
    using ready_may_send [OF assms(1)] by (simp add: sendWithRetry_def retry_loop.simps [of m 0] MAX_RETRIES_def)
qed

theorem null_datagram_is_fatal_witness:
  "fst (sendWithRetry RequestMessage_default (client_on [(1, Datagram [0] server_at)])) =
    Inl (Undefined ''method call on a null pointer'')"
  using null_datagram_is_fatal [of "client_on [(1, Datagram [0] server_at)]" 1 server_at "[]" RequestMessage_default]
  by simp

end
