(* ===== verification/Server_Texts.thy ===== *)
theory Server_Texts
  imports Constants Std_Streams
begin

text \<open>
  The response texts of the server the client is written against (\<^verbatim>\<open>API_Specification.md\<close>;
  the \<^verbatim>\<open>String.format\<close> calls in \<^verbatim>\<open>Server/Server.java\<close> and \<^verbatim>\<open>Server/models/TimeSlot.java\<close>).
  They are what the client's extraction functions and parsers are proved against.
\<close>

text \<open>A time, and a timeslot as its printed start and end.\<close>

definition hhmm :: "nat \<Rightarrow> nat \<Rightarrow> string" where
  "hhmm h m = [digit_char (h div 10), digit_char (h mod 10), digit_char (m div 10), digit_char (m mod 10)]"

definition names_response :: "string list \<Rightarrow> string" where
  "names_response facilities = terminated newline [STATUS_SUCCESS] @ ''facilityNames:'' @ terminated (CHR '','') facilities"

definition booking_details :: "string \<Rightarrow> string \<Rightarrow> string \<Rightarrow> string \<Rightarrow> string \<Rightarrow> string \<Rightarrow> string" where
  "booking_details bookingID user facility day startTime endTime = terminated newline
     [STATUS_SUCCESS, ''bookingID:'' @ bookingID, ''user:'' @ user, ''facility:'' @ facility,
      ''day:'' @ day, ''startTime:'' @ startTime, ''endTime:'' @ endTime]"

definition update_details ::
  "string \<Rightarrow> string \<Rightarrow> string \<Rightarrow> string \<Rightarrow> string \<Rightarrow> string \<Rightarrow> string \<Rightarrow> string" where
  "update_details oldBookingID newBookingID user facility day startTime endTime = terminated newline
     [STATUS_SUCCESS, ''oldBookingID:'' @ oldBookingID, ''newBookingID:'' @ newBookingID,
      ''user:'' @ user, ''facility:'' @ facility, ''day:'' @ day, ''startTime:'' @ startTime,
      ''endTime:'' @ endTime]"

definition delete_response :: "string \<Rightarrow> string \<Rightarrow> string" where
  "delete_response bookingID user =
     terminated newline [STATUS_SUCCESS, ''bookingID:'' @ bookingID] @ ''user:'' @ user"

definition monitor_response :: "string \<Rightarrow> string \<Rightarrow> string" where
  "monitor_response facility interval =
     terminated newline [STATUS_SUCCESS, ''facility:'' @ facility] @ ''interval:'' @ interval"

definition rating_response :: "string \<Rightarrow> string \<Rightarrow> string" where
  "rating_response facility rating =
     terminated newline [STATUS_SUCCESS, ''facility:'' @ facility] @ ''rating:'' @ rating"

definition rated_response :: "string \<Rightarrow> string \<Rightarrow> string \<Rightarrow> string" where
  "rated_response user facility rating =
     terminated newline [STATUS_SUCCESS, ''user:'' @ user, ''facility:'' @ facility] @ ''rating:'' @ rating"

definition day_line :: "string \<times> (string \<times> string) list \<Rightarrow> string" where
  "day_line d = fst d @ '':'' @ terminated (CHR '','') (map (\<lambda>(a, b). a @ '' - '' @ b) (snd d))"

definition availability_response :: "string \<Rightarrow> (string \<times> (string \<times> string) list) list \<Rightarrow> string" where
  "availability_response facility availability = terminated newline
     ([STATUS_SUCCESS, ''facility:'' @ facility, ''availableTimeslots:''] @ map day_line availability)"

end
