(* ===== verification/Client_Operations.thy ===== *)
theory Client_Operations
  imports Client Server_Texts Std_Float
begin

text \<open>
  The operations the client offers to the user interface (\<^verbatim>\<open>Client/src/Client.cpp\<close>): each
  builds one request text and hands it to the retry loop. Updating a booking does the time
  arithmetic, deleting one needs the facility name out of the booking's details, and
  monitoring goes on to listen for datagrams that are not replies.
\<close>

section \<open>Requests\<close>

text \<open>The request carries the ID the counter has before the first send increments it.\<close>

definition request :: "RequestType \<Rightarrow> string \<Rightarrow> ('k client_scheme, string) prog" where
  "request requestType messageData = (\<lambda>s.
     sendWithRetry (RequestMessage_new requestType (requestID s) messageData) s)"

definition queryFacilityNames :: "('k client_scheme, string) prog" where
  "queryFacilityNames = request READ ''facility,ALL''"

definition queryAvailability :: "string \<Rightarrow> string \<Rightarrow> ('k client_scheme, string) prog" where
  "queryAvailability facilityName daysOfWeek =
     request READ (''facility,'' @ facilityName @ '','' @ daysOfWeek)"

definition bookFacility :: "string \<Rightarrow> string \<Rightarrow> string \<Rightarrow> string \<Rightarrow> ('k client_scheme, string) prog" where
  "bookFacility facilityName dayOfWeek startTime endTime =
     bnd (of_result (substr startTime 0 2)) (\<lambda>startTimeHour.
     bnd (of_result (substr startTime 2 2)) (\<lambda>startTimeMinute.
     bnd (of_result (substr endTime 0 2)) (\<lambda>endTimeHour.
     bnd (of_result (substr endTime 2 2)) (\<lambda>endTimeMinute.
     request WRITE (facilityName @ '','' @ dayOfWeek @ '','' @ startTimeHour @ '','' @ startTimeMinute @
       '','' @ endTimeHour @ '','' @ endTimeMinute)))))"

definition queryBooking :: "string \<Rightarrow> ('k client_scheme, string) prog" where
  "queryBooking bookingID = request READ (''booking,'' @ bookingID)"

definition rateFacility :: "string \<Rightarrow> rat \<Rightarrow> ('k client_scheme, string) prog" where
  "rateFacility facilityName rating = request UPDATE (''rating,'' @ facilityName @ '','' @ to_string_float rating)"

definition queryRating :: "string \<Rightarrow> ('k client_scheme, string) prog" where
  "queryRating facilityName = request READ (''rating,'' @ facilityName)"

definition echoMessage :: "string \<Rightarrow> ('k client_scheme, string) prog" where
  "echoMessage messageData = request ECHO messageData"

section \<open>Fields of the booking details\<close>

text \<open>
  From the first occurrence of the prefix to the end of its line. \<^verbatim>\<open>end - start\<close> wraps around
  to a huge count when there is no newline; \<^verbatim>\<open>substr\<close> never throws, since the prefix ends
  within the text.
\<close>

definition field_after :: "string \<Rightarrow> string \<Rightarrow> string" where
  "field_after fieldPrefix details =
     (case str_find details fieldPrefix of
        None \<Rightarrow> ''''
      | Some pos \<Rightarrow>
          let start = pos + length fieldPrefix in
          (case str_find_char_from details newline start of
             None \<Rightarrow> drop start details
           | Some e \<Rightarrow> take (e - start) (drop start details)))"

definition extractFacilityName :: "string \<Rightarrow> string" where
  "extractFacilityName bookingDetails = field_after ''facility:'' bookingDetails"

definition extractDayOfWeek :: "string \<Rightarrow> string" where
  "extractDayOfWeek bookingDetails = field_after ''day:'' bookingDetails"

definition extractStartTime :: "string \<Rightarrow> string" where
  "extractStartTime bookingDetails = field_after ''startTime:'' bookingDetails"

definition extractEndTime :: "string \<Rightarrow> string" where
  "extractEndTime bookingDetails = field_after ''endTime:'' bookingDetails"

section \<open>Updating and deleting a booking\<close>

text \<open>\<^verbatim>\<open>std::stoi(text.substr(pos, n))\<close>\<close>

definition stoi_at :: "string \<Rightarrow> nat \<Rightarrow> nat \<Rightarrow> ('s, int) prog" where
  "stoi_at txt pos n = bnd (of_result (substr txt pos n)) (\<lambda>t. of_result (stoi t))"

text \<open>\<^verbatim>\<open>hour * 60 + minute + offsetMinutes\<close>, every step an \<^verbatim>\<open>int\<close>.\<close>

definition total_minutes :: "int \<Rightarrow> int \<Rightarrow> int \<Rightarrow> ('s, int) prog" where
  "total_minutes hour minute offsetMinutes =
     bnd (of_result (int_result (hour * 60))) (\<lambda>a.
     bnd (of_result (int_result (a + minute))) (\<lambda>b.
     of_result (int_result (b + offsetMinutes))))"

definition updateBooking :: "string \<Rightarrow> int \<Rightarrow> string \<Rightarrow> ('k client_scheme, string) prog" where
  "updateBooking oldBookingID offsetMinutes oldBookingDetails =
     (let facilityName = extractFacilityName oldBookingDetails;
          oldDayOfWeek = extractDayOfWeek oldBookingDetails;
          oldStartTime = extractStartTime oldBookingDetails;
          oldEndTime = extractEndTime oldBookingDetails in
      bnd (stoi_at oldStartTime 0 2) (\<lambda>oldStartHour.
      bnd (stoi_at oldStartTime 2 2) (\<lambda>oldStartMinute.
      bnd (stoi_at oldEndTime 0 2) (\<lambda>oldEndHour.
      bnd (stoi_at oldEndTime 2 2) (\<lambda>oldEndMinute.
      bnd (total_minutes oldStartHour oldStartMinute offsetMinutes) (\<lambda>totalStartMinutes.
      bnd (total_minutes oldEndHour oldEndMinute offsetMinutes) (\<lambda>totalEndMinutes.
      let newStartHour = c_div totalStartMinutes 60;
          newStartMinute = c_mod totalStartMinutes 60;
          newEndHour = c_div totalEndMinutes 60;
          newEndMinute = c_mod totalEndMinutes 60 in
      request UPDATE (''booking,'' @ oldBookingID @ '','' @ facilityName @ '','' @ oldDayOfWeek @ '','' @
        to_string newStartHour @ '','' @ to_string newStartMinute @ '','' @
        to_string newEndHour @ '','' @ to_string newEndMinute))))))))"

definition deleteBooking :: "string \<Rightarrow> string \<Rightarrow> ('k client_scheme, string) prog" where
  "deleteBooking bookingID bookingDetails =
     (let facilityName = extractFacilityName bookingDetails in
      request DELETE_REQUEST (bookingID @ '','' @ facilityName))"

section \<open>Monitoring\<close>

text \<open>
  The callback \<^verbatim>\<open>onUpdate\<close> is the text it prints, a function of the update and of whether it
  is the registration's response. The clock is read at the head of every turn; a receive that
  fails, by the timeout or otherwise, ends the loop.
\<close>

lemma receiveDataFrom_shorter:
  "receiveDataFrom s = (Inr x, s') \<Longrightarrow> length (k_recv s') < length (k_recv s)"
  by (auto simp: receiveDataFrom_def sys_recvfrom_def traced_def Let_def prog_defs
      split: list.splits if_splits recv_event.splits)

function listen_loop ::
  "(string \<Rightarrow> bool \<Rightarrow> string) \<Rightarrow> nat \<Rightarrow> ('k client_scheme, unit) prog" where
  "listen_loop onUpdate endTime s =
     (if k_clock s < endTime then
        (case receiveDataFrom s of
           (Inr (received, senderAddr), s') \<Rightarrow>
             (if received \<noteq> []
              then listen_loop onUpdate endTime
                     (s'\<lparr>k_cout := k_cout s' @ onUpdate (map char_of_byte received) False\<rparr>)
              else listen_loop onUpdate endTime s')
         | (Inl (Throws e), s') \<Rightarrow> (Inr (), s')
         | (Inl e, s') \<Rightarrow> (Inl e, s'))
      else (Inr (), s))"
  by pat_completeness auto
termination
  by (relation "measure (\<lambda>(onUpdate, endTime, s). length (k_recv s))")
    (auto dest: receiveDataFrom_shorter [OF sym])

declare listen_loop.simps [simp del]

definition listenForMonitoringUpdates ::
  "int \<Rightarrow> (string \<Rightarrow> bool \<Rightarrow> string) \<Rightarrow> ('k client_scheme, unit) prog" where
  "listenForMonitoringUpdates durationSeconds onUpdate = (\<lambda>s.
     let startTime = k_clock s;
         endTime = nat (int startTime + 1000 * durationSeconds) in
     bnd (setReceiveTimeout durationSeconds) (\<lambda>_.
     bnd (listen_loop onUpdate endTime) (\<lambda>_.
     setReceiveTimeout TIMEOUT_SEC)) s)"

definition monitorAvailability ::
  "string \<Rightarrow> int \<Rightarrow> (string \<Rightarrow> bool \<Rightarrow> string) \<Rightarrow> ('k client_scheme, unit) prog" where
  "monitorAvailability facilityName durationSeconds onUpdate =
     bnd (request MONITOR (''register,'' @ facilityName @ '','' @ to_string durationSeconds)) (\<lambda>registrationResponse.
     bnd (cout (onUpdate registrationResponse True)) (\<lambda>_.
     if str_find registrationResponse STATUS_SUCCESS = Some 0
     then listenForMonitoringUpdates durationSeconds (\<lambda>update isRegistrationResponse. onUpdate update False)
     else ret ()))"

section \<open>What a request does\<close>

lemma request_InrD:
  assumes "request t d s = (Inr response, s')"
  obtains n where "1 \<le> n" and "n \<le> MAX_RETRIES" and "response \<noteq> []"
    and "exchanged (RequestMessage_new t (requestID s) d) n (requestID s + 1) s s'"
    and "sint (requestID s) \<noteq> INT_MAX"
proof -
  let ?m = "RequestMessage_new t (requestID s) d"
  have loop: "retry_loop ?m 0 s = (Inr response, s')"
    using assms by (simp add: request_def sendWithRetry_def)
  then have "sint (requestID s) \<noteq> INT_MAX"
    by (auto simp: retry_loop.simps [of ?m 0] MAX_RETRIES_def may_send_def elim!: bnd_InrE dest!: sendRequest_InrD)
  with retry_loop_InrD [OF loop] that show thesis
    by (auto simp: MAX_RETRIES_def Suc_le_eq)
qed

lemma request_InlD: "request t d s = (Inl e, s') \<Longrightarrow> e = Exits 1 \<or> (\<exists>u. e = Undefined u)"
  by (auto simp: request_def sendWithRetry_def dest: retry_loop_InlD)

lemma request_frame:
  assumes "request t d s = (Inr response, s')"
  shows "client.more s' = client.more s" and "k_errnos s = [] \<Longrightarrow> k_errnos s' = []"
    and "requestID s' = requestID s + 1" and "k_timeout s' = k_timeout s"
  using request_InrD [OF assms] retry_loop_frame [of _ _ s response s'] assms
  by (auto simp: request_def sendWithRetry_def exchanged_def)

text \<open>On a working network the reply comes back; on a silent one the client's own error.\<close>

lemma request_replied:
  assumes "ready s" and "k_recv s = (t, Datagram (datagram (RequestMessage_new rt (requestID s) msg)) addr) # post"
    and "t < time_limit s" and "msg \<noteq> ''''" and "length msg \<le> BUFFER_SIZE - 115"
  shows "\<exists>s'. request ty d s = (Inr msg, s') \<and> k_recv s' = post"
proof -
  let ?reply = "RequestMessage_new rt (requestID s) msg"
  have "length (datagram ?reply) \<le> BUFFER_SIZE" using assms(5)
    by (simp add: length_datagram RequestMessage_new_def BUFFER_SIZE_def)
  moreover have "rm_requestID ?reply = requestID s" "rm_data ?reply = msg" by (simp_all add: RequestMessage_new_def)
  ultimately have "delivers (requestID s) (Datagram (datagram ?reply) addr) msg"
    using delivers.reply [of ?reply "requestID s" addr] by simp
  then show ?thesis
    using retry_loop_reply [where attempt = 0 and pre = "[]" and m = "RequestMessage_new ty (requestID s) d", OF _ _ _ _ _ _ assms(4,3)]
      assms(1,2) by (auto simp: request_def sendWithRetry_def ready_def may_send_def MAX_RETRIES_def getRequestID_def RequestMessage_new_def)
qed

lemma request_silent: "ready s \<Longrightarrow> k_recv s = [] \<Longrightarrow> \<exists>s'. request ty d s = (Inr gave_up, s')"
  using retry_loop_silent [of s 0] ready_may_send [of s] by (auto simp: request_def sendWithRetry_def)

section \<open>Finding a field\<close>

text \<open>
  A prefix without a newline is found line by line: a line in which it does not occur is
  skipped.
\<close>

lemma str_find_None_char: "c \<in> set p \<Longrightarrow> c \<notin> set l \<Longrightarrow> str_find l p = None"
proof (rule ccontr)
  assume c: "c \<in> set p" "c \<notin> set l" and "str_find l p \<noteq> None"
  then obtain i where "str_find l p = Some i" by blast
  with str_find_Some [OF this] c show False by auto
qed

lemma prefix_line: "newline \<notin> set p \<Longrightarrow> prefix p (l @ newline # r) \<longleftrightarrow> prefix p l"
proof (induction p arbitrary: l)
  case Nil
  then show ?case by simp
next
  case (Cons c p)
  then show ?case by (cases l) auto
qed

lemma str_find_line:
  assumes "newline \<notin> set p" and "p \<noteq> []" and "str_find l p = None"
  shows "str_find (l @ newline # r) p = map_option ((+) (Suc (length l))) (str_find r p)"
  using assms(3)
proof (induction l)
  case Nil
  with assms(1,2) show ?case by (cases p) (auto simp: fun_eq_iff intro!: arg_cong2 [where f = map_option])
next
  case (Cons c l)
  then have "\<not> prefix p (c # l)" and "str_find l p = None"
    by (auto split: if_splits)
  moreover from this have "\<not> prefix p ((c # l) @ newline # r)"
    using prefix_line [OF assms(1), of "c # l" r] by simp
  ultimately show ?case using Cons.IH by (simp add: option.map_comp comp_def)
qed

text \<open>A key that ends in a colon does not occur in a line whose only colon follows another key.\<close>

lemma str_find_other_key:
  assumes "CHR '':'' \<notin> set k" and "CHR '':'' \<notin> set v" and "\<not> suffix q k"
  shows "str_find (k @ CHR '':'' # v) (q @ '':'') = None"
proof (rule ccontr)
  assume "str_find (k @ CHR '':'' # v) (q @ '':'') \<noteq> None"
  then obtain i where "str_find (k @ CHR '':'' # v) (q @ '':'') = Some i" by blast
  from str_find_Some [OF this] obtain u w where "k @ CHR '':'' # v = (u @ q) @ CHR '':'' # w" by auto
  with assms(1,2) have "k = u @ q"
    by (metis append_Cons_eq_iff in_set_conv_decomp)
  with assms(3) show False by (simp add: suffix_def)
qed

lemma field_after_line:
  assumes "newline \<notin> set p" and "p \<noteq> []" and "str_find l p = None"
  shows "field_after p (l @ newline # r) = field_after p r"
  using str_find_line [OF assms]
  by (auto simp: field_after_def str_find_char_from_def Let_def option.map_comp comp_def split: option.split)

lemma str_find_here [simp]: "str_find (p @ r) p = Some 0"
  by simp

lemma field_after_here: "newline \<notin> set v \<Longrightarrow> field_after p (p @ v @ newline # r) = v"
  by (simp add: field_after_def str_find_char_from_def str_find_char del: str_find_0)

lemma field_after_last: "newline \<notin> set v \<Longrightarrow> field_after p (p @ v) = v"
  by (simp add: field_after_def str_find_char_from_def str_find_char_None del: str_find_0)

section \<open>The fields of the server's booking details\<close>

text \<open>
  Field values the extraction is right for: no line breaks, no colon in the facility name and
  the day, and neither an \<open>m\<close> nor a \<open>y\<close> in the booking ID and the user, which rules out that a
  key of a later line occurs in them (IDs are hexadecimal, users are addresses).
\<close>

definition plain_fields :: "string \<Rightarrow> string \<Rightarrow> string \<Rightarrow> string \<Rightarrow> bool" where
  "plain_fields bookingID user facility day \<longleftrightarrow>
     newline \<notin> set (bookingID @ user @ facility @ day) \<and>
     CHR '':'' \<notin> set (facility @ day) \<and>
     set (bookingID @ user) \<inter> {CHR ''m'', CHR ''y''} = {}"

lemma newline_char: "newline = CHR 0x0A"
  by (rule newline_def)

lemma str_find_status [simp]:
  "str_find STATUS_SUCCESS ''facility:'' = None" "str_find STATUS_SUCCESS ''day:'' = None"
  "str_find STATUS_SUCCESS ''startTime:'' = None" "str_find STATUS_SUCCESS ''endTime:'' = None"
  by (simp_all add: STATUS_SUCCESS_def)

lemma no_key_in_id_or_user:
  assumes "plain_fields bookingID user facility day" and "CHR ''m'' \<in> set p \<or> CHR ''y'' \<in> set p"
  shows "str_find (''bookingID:'' @ bookingID) p = None" and "str_find (''user:'' @ user) p = None"
proof -
  obtain c where c: "c \<in> set p" "c = CHR ''m'' \<or> c = CHR ''y''" using assms(2) by blast
  with assms(1) have "c \<notin> set (''bookingID:'' @ bookingID)" and "c \<notin> set (''user:'' @ user)"
    by (auto simp: plain_fields_def)
  with c(1) show "str_find (''bookingID:'' @ bookingID) p = None" and "str_find (''user:'' @ user) p = None"
    by (blast intro: str_find_None_char)+
qed

lemma field_after_details:
  assumes "plain_fields bookingID user facility day" and "CHR ''m'' \<in> set p \<or> CHR ''y'' \<in> set p"
    and "newline \<notin> set p" and "p \<noteq> []" and "str_find STATUS_SUCCESS p = None"
  shows "field_after p (booking_details bookingID user facility day startTime endTime) =
    field_after p (''facility:'' @ facility @ newline # ''day:'' @ day @ newline #
      ''startTime:'' @ startTime @ newline # ''endTime:'' @ endTime @ [newline])"
  unfolding booking_details_def terminated_simps
  using field_after_line [OF assms(3,4) no_key_in_id_or_user(1) [OF assms(1,2)]]
    field_after_line [OF assms(3,4) no_key_in_id_or_user(2) [OF assms(1,2)]]
    field_after_line [OF assms(3,4,5)]
  by (simp only: append_assoc append_Cons)

lemmas extract_defs = extractFacilityName_def extractDayOfWeek_def extractStartTime_def extractEndTime_def

lemma extract_details:
  assumes "plain_fields bookingID user facility day" and "newline \<notin> set startTime" and "newline \<notin> set endTime"
    and "CHR '':'' \<notin> set startTime"
  shows "extractFacilityName (booking_details bookingID user facility day startTime endTime) = facility"
    and "extractDayOfWeek (booking_details bookingID user facility day startTime endTime) = day"
    and "extractStartTime (booking_details bookingID user facility day startTime endTime) = startTime"
    and "extractEndTime (booking_details bookingID user facility day startTime endTime) = endTime"
proof -
  have nl: "newline \<notin> set facility" "newline \<notin> set day" and colon: "CHR '':'' \<notin> set facility" "CHR '':'' \<notin> set day"
    using assms(1) by (auto simp: plain_fields_def)
  have other: "str_find (k @ '':'' @ v) (q @ '':'') = None"
    if "CHR '':'' \<notin> set k" "CHR '':'' \<notin> set v" "\<not> suffix q k" for k v q
    using str_find_other_key [OF that] by simp
  have skip: "field_after (q @ '':'') ((k @ '':'' @ v) @ newline # r) = field_after (q @ '':'') r"
    if "CHR '':'' \<notin> set k" "CHR '':'' \<notin> set v" "\<not> suffix q k" "newline \<notin> set q" for k v q r
    using that by (intro field_after_line other) (auto simp: newline_def)
  note skip_facility = skip [of "''facility''" facility] and skip_day = skip [of "''day''" day]
    and skip_start = skip [of "''startTime''" startTime]
  show "extractFacilityName (booking_details bookingID user facility day startTime endTime) = facility"
    using field_after_here [OF nl(1), of "''facility:''"]
    by (simp add: extract_defs field_after_details [OF assms(1)] newline_char)
  show "extractDayOfWeek (booking_details bookingID user facility day startTime endTime) = day"
    using field_after_here [OF nl(2), of "''day:''"] skip_facility [of "''day''"] colon
    by (simp add: extract_defs field_after_details [OF assms(1)] newline_char suffix_def)
  show "extractStartTime (booking_details bookingID user facility day startTime endTime) = startTime"
    using field_after_here [OF assms(2), of "''startTime:''"] skip_facility [of "''startTime''"]
      skip_day [of "''startTime''"] colon
    by (simp add: extract_defs field_after_details [OF assms(1)] newline_char suffix_def)
  show "extractEndTime (booking_details bookingID user facility day startTime endTime) = endTime"
    using field_after_here [OF assms(3), of "''endTime:''"] skip_facility [of "''endTime''"]
      skip_day [of "''endTime''"] skip_start [of "''endTime''"] colon assms(4)
    by (simp add: extract_defs field_after_details [OF assms(1)] newline_char suffix_def)
qed

section \<open>The arithmetic of an update\<close>

lemma isdigit_digit_chars: "h < 100 \<Longrightarrow> isdigit (digit_char (h div 10)) \<and> isdigit (digit_char (h mod 10))"
  by simp

lemma isdigit_plain: "isdigit c \<Longrightarrow> c \<noteq> newline \<and> c \<noteq> CHR '':''"
  by (auto simp: isdigit_def newline_def)

lemma hhmm_plain: "h < 100 \<Longrightarrow> m < 100 \<Longrightarrow> newline \<notin> set (hhmm h m) \<and> CHR '':'' \<notin> set (hhmm h m)"
  using isdigit_plain [of "digit_char (h div 10)"] isdigit_plain [of "digit_char (h mod 10)"]
    isdigit_plain [of "digit_char (m div 10)"] isdigit_plain [of "digit_char (m mod 10)"]
  by (auto simp: hhmm_def)

lemma stoi_at_hhmm:
  assumes "h < 100" and "m < 100"
  shows "stoi_at (hhmm h m) 0 2 s = (Inr (int h), s)" and "stoi_at (hhmm h m) 2 2 s = (Inr (int m), s)"
  using stoi_two_digits [of "digit_char (h div 10)" "digit_char (h mod 10)"]
    stoi_two_digits [of "digit_char (m div 10)" "digit_char (m mod 10)"] assms
  by (simp_all add: stoi_at_def hhmm_def substr_def numeral_2_eq_2)

lemma total_minutes_run:
  assumes "h < 100" and "m < 100"
  shows "total_minutes (int h) (int m) off s = (int_result (60 * int h + int m + off), s)"
  using assms by (simp add: total_minutes_def int_result_def in_int_def INT_MIN_def INT_MAX_def mult.commute)

text \<open>The request an update makes out of the server's details.\<close>

definition update_request :: "string \<Rightarrow> string \<Rightarrow> string \<Rightarrow> int \<Rightarrow> int \<Rightarrow> string" where
  "update_request bookingID facility day start end =
     ''booking,'' @ bookingID @ '','' @ facility @ '','' @ day @ '','' @
     to_string (c_div start 60) @ '','' @ to_string (c_mod start 60) @ '','' @
     to_string (c_div end 60) @ '','' @ to_string (c_mod end 60)"

lemma updateBooking_details:
  assumes "plain_fields bookingID user facility day"
    and "h1 < 100" and "m1 < 100" and "h2 < 100" and "m2 < 100"
    and "in_int (60 * int h1 + int m1 + off)" and "in_int (60 * int h2 + int m2 + off)"
  shows "updateBooking i off (booking_details bookingID user facility day (hhmm h1 m1) (hhmm h2 m2)) s =
    request UPDATE (update_request i facility day (60 * int h1 + int m1 + off) (60 * int h2 + int m2 + off)) s"
proof -
  note plain = hhmm_plain [OF assms(2,3)] hhmm_plain [OF assms(4,5)]
  note ex = extract_details [OF assms(1), of "hhmm h1 m1" "hhmm h2 m2"]
  show ?thesis
    using plain assms
    by (simp add: updateBooking_def ex Let_def stoi_at_hhmm total_minutes_run int_result_def update_request_def)
qed

text \<open>
  Truncating division splits a minute count into an hour and a minute of the same day exactly
  when it lies within that day; between \<open>-60\<close> and \<open>0\<close> the hour is 0 and the minute negative.
\<close>

definition time_of_day :: "int \<Rightarrow> int \<Rightarrow> bool" where
  "time_of_day h m \<longleftrightarrow> 0 \<le> h \<and> h < 24 \<and> 0 \<le> m \<and> m < 60"

lemma split_minutes:
  "time_of_day (c_div t 60) (c_mod t 60) \<longleftrightarrow> 0 \<le> t \<and> t < 1440"
proof (cases "0 \<le> t")
  case True
  then show ?thesis by (auto simp: time_of_day_def c_div_nonneg c_mod_nonneg)
next
  case False
  then have div: "c_div t 60 = - ((- t) div 60)" by (simp add: c_div_def)
  have "\<not> (0 \<le> c_div t 60 \<and> 0 \<le> c_mod t 60)"
    using False unfolding c_mod_def div by presburger
  with False show ?thesis by (auto simp: time_of_day_def)
qed

section \<open>Monitoring\<close>

lemma listen_loop_turn:
  assumes "k_clock s < endTime"
  shows "receiveDataFrom s = (Inl e, s1) \<Longrightarrow> listen_loop onUpdate endTime s = (Inr (), s1)"
    and "receiveDataFrom s = (Inr (bytes, addr), s1) \<Longrightarrow> \<exists>msg.
      listen_loop onUpdate endTime s = listen_loop onUpdate endTime (s1\<lparr>k_cout := msg\<rparr>)"
proof -
  note loop = listen_loop.simps [of onUpdate endTime s]
  show "listen_loop onUpdate endTime s = (Inr (), s1)" if r: "receiveDataFrom s = (Inl e, s1)"
  proof -
    from receiveDataFrom_frame [OF r] obtain x where "e = Throws x" by metis
    with assms r show ?thesis by (simp add: loop)
  qed
  show "\<exists>msg. listen_loop onUpdate endTime s = listen_loop onUpdate endTime (s1\<lparr>k_cout := msg\<rparr>)"
    if "receiveDataFrom s = (Inr (bytes, addr), s1)"
  proof (cases "bytes = []")
    case True
    with assms that have "listen_loop onUpdate endTime s = listen_loop onUpdate endTime (s1\<lparr>k_cout := k_cout s1\<rparr>)"
      by (simp add: loop)
    then show ?thesis by blast
  next
    case False
    with assms that have "listen_loop onUpdate endTime s =
        listen_loop onUpdate endTime (s1\<lparr>k_cout := k_cout s1 @ onUpdate (map char_of_byte bytes) False\<rparr>)"
      by (simp add: loop)
    then show ?thesis by blast
  qed
qed

text \<open>
  What the loop may change: it receives and prints, never sends; it ends no later than one
  receive timeout after its deadline.
\<close>

definition listened :: "nat \<Rightarrow> 'k client_scheme \<Rightarrow> 'k client_scheme \<Rightarrow> bool" where
  "listened endTime s s' \<longleftrightarrow>
     (\<exists>n. k_trace s' = k_trace s @ replicate n (Sys_recvfrom (sockfd s) BUFFER_SIZE)) \<and>
     k_clock s \<le> k_clock s' \<and> k_clock s' \<le> max (k_clock s) (endTime + time_limit s) \<and>
     requestID s' = requestID s \<and> serverAddr s' = serverAddr s \<and> sockfd s' = sockfd s \<and>
     k_errnos s' = k_errnos s \<and> k_timeout s' = k_timeout s"

lemma listened_refl: "listened endTime s s"
  by (auto simp: listened_def intro: exI [of _ 0])

lemma listened_receive:
  assumes "receiveDataFrom s = (r, s1)" and "k_clock s < endTime"
  shows "listened endTime s s1"
proof -
  obtain q c where qc: "k_clock s \<le> c" "c \<le> k_clock s + time_limit s"
    "s1 = s\<lparr>k_recv := q, k_clock := c, k_trace := k_trace s @ [Sys_recvfrom (sockfd s) BUFFER_SIZE]\<rparr>"
    using receiveDataFrom_frame [OF assms(1)] by blast
  have "k_trace s1 = k_trace s @ replicate 1 (Sys_recvfrom (sockfd s) BUFFER_SIZE)"
    using qc(3) by simp
  then have "\<exists>n. k_trace s1 = k_trace s @ replicate n (Sys_recvfrom (sockfd s) BUFFER_SIZE)" by blast
  with qc assms(2) show ?thesis by (simp add: listened_def)
qed

lemma listened_trans:
  assumes "listened endTime s s1" and "listened endTime (s1\<lparr>k_cout := msg\<rparr>) s2"
  shows "listened endTime s s2"
proof -
  obtain m where m: "k_trace s1 = k_trace s @ replicate m (Sys_recvfrom (sockfd s) BUFFER_SIZE)"
    using assms(1) by (auto simp: listened_def)
  obtain n where n: "k_trace s2 = k_trace s1 @ replicate n (Sys_recvfrom (sockfd s1) BUFFER_SIZE)"
    using assms(2) by (auto simp: listened_def)
  have "k_trace s2 = k_trace s @ replicate (m + n) (Sys_recvfrom (sockfd s) BUFFER_SIZE)"
    using m n assms(1) by (simp add: listened_def replicate_add)
  then have "\<exists>k. k_trace s2 = k_trace s @ replicate k (Sys_recvfrom (sockfd s) BUFFER_SIZE)" by blast
  moreover have "k_clock s2 \<le> max (k_clock s) (endTime + time_limit s)"
  proof -
    have "k_clock s1 \<le> max (k_clock s) (endTime + time_limit s)"
      and "k_clock s2 \<le> max (k_clock s1) (endTime + time_limit s)"
      using assms by (simp_all add: listened_def time_limit_def)
    then show ?thesis by linarith
  qed
  ultimately show ?thesis using assms by (simp add: listened_def)
qed

lemma listen_loop_listened:
  "\<exists>s'. listen_loop onUpdate endTime s = (Inr (), s') \<and> listened endTime s s'"
proof (induction "length (k_recv s)" arbitrary: s rule: less_induct)
  case less
  show ?case
  proof (cases "k_clock s < endTime")
    case False
    then show ?thesis by (simp add: listen_loop.simps [of onUpdate endTime s] listened_refl)
  next
    case True
    obtain r s1 where r: "receiveDataFrom s = (r, s1)" by (cases "receiveDataFrom s")
    note l = listened_receive [OF r True]
    show ?thesis
    proof (cases r)
      case (Inl e)
      with r l listen_loop_turn(1) [OF True] show ?thesis by blast
    next
      case (Inr ba)
      then obtain bytes addr where rd: "receiveDataFrom s = (Inr (bytes, addr), s1)"
        using r by (cases ba) auto
      obtain msg where turn: "listen_loop onUpdate endTime s = listen_loop onUpdate endTime (s1\<lparr>k_cout := msg\<rparr>)"
        using listen_loop_turn(2) [OF True rd] by blast
      have "length (k_recv (s1\<lparr>k_cout := msg\<rparr>)) < length (k_recv s)"
        using receiveDataFrom_shorter [OF rd] by simp
      from less [OF this] turn l show ?thesis by (auto intro: listened_trans)
    qed
  qed
qed

lemma setReceiveTimeout_run:
  "k_errnos s = [] \<Longrightarrow> setReceiveTimeout n s =
    (Inr (), s\<lparr>k_trace := k_trace s @ [Sys_rcvtimeo (sockfd s) n], k_timeout := n\<rparr>)"
  by (simp add: setReceiveTimeout_def sys_call_def traced_def prog_defs)

lemma setReceiveTimeout_InrD:
  "setReceiveTimeout n s = (Inr u, s') \<Longrightarrow>
   k_trace s' = k_trace s @ [Sys_rcvtimeo (sockfd s) n] \<and> k_timeout s' = n \<and>
   requestID s' = requestID s \<and> k_clock s' = k_clock s \<and> sockfd s' = sockfd s"
  by (auto simp: setReceiveTimeout_def sys_call_def traced_def throw_errno_def prog_defs
      split: list.splits if_splits)

text \<open>
  A whole monitoring period: it always ends, by twice the requested duration at the latest,
  with the ordinary receive timeout in force again.
\<close>

lemma listenForMonitoringUpdates_run:
  assumes "k_errnos s = []" and "0 < duration"
  shows "\<exists>s' n. listenForMonitoringUpdates duration onUpdate s = (Inr (), s') \<and>
    k_trace s' = k_trace s @ [Sys_rcvtimeo (sockfd s) duration] @
      replicate n (Sys_recvfrom (sockfd s) BUFFER_SIZE) @ [Sys_rcvtimeo (sockfd s) TIMEOUT_SEC] \<and>
    k_timeout s' = TIMEOUT_SEC \<and> requestID s' = requestID s \<and>
    k_clock s' \<le> k_clock s + 2 * nat (1000 * duration)"
proof -
  let ?s1 = "s\<lparr>k_trace := k_trace s @ [Sys_rcvtimeo (sockfd s) duration], k_timeout := duration\<rparr>"
  let ?e = "nat (int (k_clock s) + 1000 * duration)"
  from listen_loop_listened [of onUpdate ?e ?s1] obtain s2 where
    2: "listen_loop onUpdate ?e ?s1 = (Inr (), s2)" "listened ?e ?s1 s2" by blast
  from 2(2) obtain n where n: "k_trace s2 = k_trace ?s1 @ replicate n (Sys_recvfrom (sockfd s) BUFFER_SIZE)"
    by (auto simp: listened_def)
  let ?s3 = "s2\<lparr>k_trace := k_trace s2 @ [Sys_rcvtimeo (sockfd s2) TIMEOUT_SEC], k_timeout := TIMEOUT_SEC\<rparr>"
  have "k_clock s2 \<le> k_clock s + 2 * nat (1000 * duration)"
    using 2(2) assms(2) by (auto simp: listened_def time_limit_def nat_add_distrib)
  moreover have "listenForMonitoringUpdates duration onUpdate s = (Inr (), ?s3)"
    using 2 assms setReceiveTimeout_run [OF assms(1), of duration] setReceiveTimeout_run [of s2 TIMEOUT_SEC]
    by (simp add: listenForMonitoringUpdates_def listened_def)
  ultimately show ?thesis using n 2(2) by (intro exI [of _ ?s3] exI [of _ n]) (simp add: listened_def)
qed

section \<open>Properties\<close>

text \<open>
  The extraction functions recover the facility, the day and both times from the booking
  details the server sends.
\<close>

theorem booking_fields_extracted:
  assumes "plain_fields bookingID user facility day" and "h1 < 24" and "m1 < 60" and "h2 < 24" and "m2 < 60"
  shows "extractFacilityName (booking_details bookingID user facility day (hhmm h1 m1) (hhmm h2 m2)) = facility \<and>
    extractDayOfWeek (booking_details bookingID user facility day (hhmm h1 m1) (hhmm h2 m2)) = day \<and>
    extractStartTime (booking_details bookingID user facility day (hhmm h1 m1) (hhmm h2 m2)) = hhmm h1 m1 \<and>
    extractEndTime (booking_details bookingID user facility day (hhmm h1 m1) (hhmm h2 m2)) = hhmm h2 m2"
  using extract_details [OF assms(1), of "hhmm h1 m1" "hhmm h2 m2"] hhmm_plain [of h1 m1] hhmm_plain [of h2 m2] assms
  by simp

theorem booking_fields_extracted_witness:
  "extractDayOfWeek (booking_details ''1a2b-4c'' ''/10.0.0.7:5001'' ''Weekday1'' ''MONDAY'' (hhmm 9 30) (hhmm 11 0)) =
     ''MONDAY''"
  using booking_fields_extracted [of "''1a2b-4c''" "''/10.0.0.7:5001''" "''Weekday1''" "''MONDAY''" 9 30 11 0]
  by (simp add: plain_fields_def newline_def)

text \<open>
  C23. Updating a booking from the server's details sends one UPDATE request for that facility and
  day whose hours and minutes are the old times shifted by the offset: recombined they are the
  minute of the day plus the offset, and the booking keeps its duration.
\<close>

theorem update_shifts_both_times:
  assumes "plain_fields bookingID user facility day" and "h1 < 24" and "m1 < 60" and "h2 < 24" and "m2 < 60"
    and "\<bar>off\<bar> \<le> 1000000"
  shows "\<exists>sh sm eh em. updateBooking bookingID off
      (booking_details bookingID user facility day (hhmm h1 m1) (hhmm h2 m2)) s =
    request UPDATE (''booking,'' @ bookingID @ '','' @ facility @ '','' @ day @ '','' @
      to_string sh @ '','' @ to_string sm @ '','' @ to_string eh @ '','' @ to_string em) s \<and>
    sh * 60 + sm = 60 * int h1 + int m1 + off \<and> eh * 60 + em = 60 * int h2 + int m2 + off \<and>
    (eh * 60 + em) - (sh * 60 + sm) = (60 * int h2 + int m2) - (60 * int h1 + int m1)"
proof -
  let ?t1 = "60 * int h1 + int m1 + off" and ?t2 = "60 * int h2 + int m2 + off"
  have "in_int ?t1" and "in_int ?t2" using assms(2-6) by (auto simp: in_int_def INT_MIN_def INT_MAX_def)
  then have "updateBooking bookingID off (booking_details bookingID user facility day (hhmm h1 m1) (hhmm h2 m2)) s =
      request UPDATE (update_request bookingID facility day ?t1 ?t2) s"
    using assms by (intro updateBooking_details) auto
  then show ?thesis
    by (intro exI [of _ "c_div ?t1 60"] exI [of _ "c_mod ?t1 60"] exI [of _ "c_div ?t2 60"] exI [of _ "c_mod ?t2 60"])
      (simp add: update_request_def c_div_mod)
qed

theorem update_shifts_both_times_witness:
  "\<exists>sh sm eh em. updateBooking ''7'' (-30) (booking_details ''7'' ''u'' ''Room'' ''MONDAY'' (hhmm 9 0) (hhmm 10 0)) (client_on []) =
    request UPDATE (''booking,'' @ ''7'' @ '','' @ ''Room'' @ '','' @ ''MONDAY'' @ '','' @
      to_string sh @ '','' @ to_string sm @ '','' @ to_string eh @ '','' @ to_string em) (client_on []) \<and>
    sh * 60 + sm = 510 \<and> eh * 60 + em = 570"
  using update_shifts_both_times [of "''7''" "''u''" "''Room''" "''MONDAY''" 9 0 10 0 "-30" "client_on []"]
  by (auto simp: plain_fields_def newline_def)

text \<open>
  The hour and minute an update sends form a time of the day exactly when the shifted minute
  lies between 0 and 1439; the client does not check this, and a shift to before midnight gives
  hour 0 (or a negative hour) with a negative minute.
\<close>

theorem update_time_valid_iff:
  "(time_of_day (c_div (60 * int h + int m + off) 60) (c_mod (60 * int h + int m + off) 60) \<longleftrightarrow>
     0 \<le> 60 * int h + int m + off \<and> 60 * int h + int m + off < 1440) \<and>
   update_request i f d (-30) 30 = ''booking,'' @ i @ '','' @ f @ '','' @ d @ '',0,-30,0,30''"
proof
  have "to_string 0 = ''0''" "to_string (-30) = ''-30''" "to_string 30 = ''30''"
    by (simp_all add: to_string_def to_string_nat.simps digit_char_def)
  moreover have "c_div (-30) 60 = 0" "c_mod (-30) 60 = -30" "c_div 30 60 = 0" "c_mod 30 60 = 30"
    by (simp_all add: c_mod_def c_div_def)
  ultimately show "update_request i f d (-30) 30 = ''booking,'' @ i @ '','' @ f @ '','' @ d @ '',0,-30,0,30''"
    by (simp add: update_request_def)
qed (rule split_minutes)

text \<open>
  C26. A monitoring period always ends: whatever arrives, the loop returns after at most twice the
  requested duration, has sent nothing, and leaves the ordinary receive timeout in force for the
  requests that follow.
\<close>

theorem monitoring_ends:
  assumes "k_errnos s = []" and "0 < duration"
  shows "\<exists>s' n. listenForMonitoringUpdates duration onUpdate s = (Inr (), s') \<and>
    k_trace s' = k_trace s @ [Sys_rcvtimeo (sockfd s) duration] @
      replicate n (Sys_recvfrom (sockfd s) BUFFER_SIZE) @ [Sys_rcvtimeo (sockfd s) TIMEOUT_SEC] \<and>
    k_timeout s' = TIMEOUT_SEC \<and> requestID s' = requestID s \<and>
    k_clock s' \<le> k_clock s + 2 * nat (1000 * duration)"
  using listenForMonitoringUpdates_run [OF assms] .

theorem monitoring_ends_witness:
  "\<exists>s'. listenForMonitoringUpdates 60 (\<lambda>_ _. '''') (client_on []) = (Inr (), s') \<and> k_timeout s' = 5 \<and> k_clock s' \<le> 120000"
  using monitoring_ends [of "client_on []" 60 "\<lambda>_ _. ''''"] by (auto simp: TIMEOUT_SEC_def)

text \<open>
  C40. The factor two is reached up to a millisecond: an update that arrives just before the end of
  the period starts another receive with the full duration as its timeout, so the client stays
  blocked for almost twice the time the user asked for.
\<close>

theorem monitoring_can_overrun:
  assumes "k_errnos s = []" and "0 < duration" and "bytes \<noteq> []" and "length bytes \<le> BUFFER_SIZE"
    and "k_recv s = [(nat (1000 * duration) - 1, Datagram bytes addr)]"
  shows "\<exists>s'. listenForMonitoringUpdates duration onUpdate s = (Inr (), s') \<and>
    k_clock s' = k_clock s + 2 * nat (1000 * duration) - 1 \<and>
    k_cout s' = k_cout s @ onUpdate (map char_of_byte bytes) False"
proof -
  let ?d = "nat (1000 * duration)" and ?e = "k_clock s + nat (1000 * duration)"
  let ?s1 = "s\<lparr>k_trace := k_trace s @ [Sys_rcvtimeo (sockfd s) duration], k_timeout := duration\<rparr>"
  let ?r = "Sys_recvfrom (sockfd s) BUFFER_SIZE"
  let ?s2 = "?s1\<lparr>k_trace := k_trace ?s1 @ [?r], k_clock := k_clock s + (?d - 1), k_recv := []\<rparr>"
  let ?s3 = "?s2\<lparr>k_cout := k_cout s @ onUpdate (map char_of_byte bytes) False\<rparr>"
  let ?s4 = "?s3\<lparr>k_trace := k_trace ?s3 @ [?r], k_clock := k_clock s + (?d - 1) + ?d, k_recv := []\<rparr>"
  have d: "nat (int (k_clock s) + 1000 * duration) = ?e" "0 < ?d" using assms(2) by (simp_all add: nat_add_distrib)
  have 1: "receiveDataFrom ?s1 = (Inr (bytes, addr), ?s2)"
    using assms(4,5) d by (simp add: receiveDataFrom_def sys_recvfrom_def traced_def time_limit_def prog_defs)
  have 2: "receiveDataFrom ?s3 = (Inl (Throws (Runtime_Error ''Receive failed! Error: Timeout occurred'')), ?s4)"
    by (simp add: receiveDataFrom_def sys_recvfrom_def traced_def time_limit_def prog_defs)
  have "listen_loop onUpdate ?e ?s1 = listen_loop onUpdate ?e ?s3"
    using 1 d assms(3) by (simp add: listen_loop.simps [of onUpdate ?e ?s1])
  also have "\<dots> = (Inr (), ?s4)"
    using d by (intro listen_loop_turn(1) [OF _ 2]) simp
  finally have "listenForMonitoringUpdates duration onUpdate s = setReceiveTimeout TIMEOUT_SEC ?s4"
    using setReceiveTimeout_run [OF assms(1)] by (simp add: listenForMonitoringUpdates_def d(1))
  with d show ?thesis using assms(1) by (simp add: setReceiveTimeout_run mult_2)
qed

theorem monitoring_can_overrun_witness:
  "\<exists>s'. listenForMonitoringUpdates 60 (\<lambda>_ _. ''update'') (client_on [(59999, Datagram [1] server_at)]) = (Inr (), s') \<and>
    k_clock s' = 119999 \<and> k_cout s' = ''update''"
  using monitoring_can_overrun [of "client_on [(59999, Datagram [1] server_at)]" 60 "[1]" server_at "\<lambda>_ _. ''update''"]
  by (simp add: BUFFER_SIZE_def)

text \<open>
  A booking request with a start time of fewer than two characters throws before anything is
  sent or changed; the hours and minutes of complete times are passed on as they were typed.
\<close>

theorem book_facility_times:
  "(length st < 2 \<longrightarrow> bookFacility f d st et s = (Inl (Throws (substr_error st 2)), s)) \<and>
   bookFacility f d [a, b, c, e] [a', b', c', e'] s =
     request WRITE (f @ '','' @ d @ '','' @ [a, b] @ '','' @ [c, e] @ '','' @ [a', b'] @ '','' @ [c', e']) s"
  by (auto simp: bookFacility_def substr_def numeral_2_eq_2)

theorem book_facility_times_witness:
  "bookFacility ''Room'' ''MONDAY'' ''9'' ''1000'' (client_on []) =
    (Inl (Throws (Out_Of_Range ''basic_string::substr: __pos (which is 2) > this->size() (which is 1)'')), client_on [])"
  using book_facility_times [of "''9''" "''Room''" "''MONDAY''" "''1000''" "client_on []"]
  by (simp add: substr_error_def to_string_nat.simps digit_char_def)

end
