(* ===== verification/Client_Runs.thy ===== *)
theory Client_Runs
  imports Client_Operations
begin

text \<open>
  Whole runs of the client: the operations as one datatype, a step relation over the client's
  state and its runs. The locale \<open>client_operation\<close> is the contract the operations share, one
  logical request each; every operation interprets it, and the log of a run follows from it:
  each operation uses its own request ID and sends its own datagram between one and five times.
\<close>

section \<open>What was sent\<close>

fun sent_by :: "syscall \<Rightarrow> byte list list" where
  "sent_by (Sys_sendto fd bytes addr) = [bytes]"
| "sent_by _ = []"

definition sent_datagrams :: "syscall list \<Rightarrow> byte list list" where
  "sent_datagrams tr = concat (map sent_by tr)"

lemma sent_datagrams_simps [simp]:
  "sent_datagrams [] = []" "sent_datagrams (c # tr) = sent_by c @ sent_datagrams tr"
  "sent_datagrams (tr @ tr') = sent_datagrams tr @ sent_datagrams tr'"
  by (simp_all add: sent_datagrams_def)

lemma sent_datagrams_attempts [simp]: "sent_datagrams (attempts m n s) = replicate n (datagram m)"
  by (induction n) (simp_all add: attempts_def)

lemma sent_datagrams_receives [simp]: "sent_datagrams (replicate n (Sys_recvfrom fd k)) = []"
  by (induction n) simp_all

section \<open>The contract of an operation\<close>

text \<open>One request with the next ID, sent between one and \<^const>\<open>MAX_RETRIES\<close> times.\<close>

definition issued :: "RequestMessage \<Rightarrow> nat \<Rightarrow> 'k client_scheme \<Rightarrow> 'k client_scheme \<Rightarrow> bool" where
  "issued m n s s' \<longleftrightarrow> 1 \<le> n \<and> n \<le> MAX_RETRIES \<and>
     rm_requestID m = requestID s \<and> requestID s' = requestID s + 1 \<and> sint (requestID s) \<noteq> INT_MAX \<and>
     sent_datagrams (k_trace s') = sent_datagrams (k_trace s) @ replicate n (datagram m)"

lemma request_issues:
  assumes "request t d s = (Inr response, s')"
  shows "\<exists>n. issued (RequestMessage_new t (requestID s) d) n s s'"
proof -
  obtain n where "1 \<le> n" "n \<le> MAX_RETRIES" "sint (requestID s) \<noteq> INT_MAX"
    "exchanged (RequestMessage_new t (requestID s) d) n (requestID s + 1) s s'"
    using request_InrD [OF assms] by blast
  then show ?thesis
    by (intro exI [of _ n]) (simp add: issued_def exchanged_def RequestMessage_new_def)
qed

locale client_operation =
  fixes op :: "('k client_scheme, 'a) prog"
  assumes issues: "op s = (Inr x, s') \<Longrightarrow> \<exists>m n. issued m n s s'"
begin

lemma next_requestID: "op s = (Inr x, s') \<Longrightarrow> requestID s' = requestID s + 1"
  using issues by (auto simp: issued_def)

lemma id_left: "op s = (Inr x, s') \<Longrightarrow> sint (requestID s) < INT_MAX"
  using issues [of s x s'] in_int_sint [of "requestID s"] by (auto simp: issued_def in_int_def)

lemma sends_same_datagram:
  assumes "op s = (Inr x, s')"
  shows "\<exists>m n. rm_requestID m = requestID s \<and> 1 \<le> n \<and> n \<le> MAX_RETRIES \<and>
    sent_datagrams (k_trace s') = sent_datagrams (k_trace s) @ replicate n (datagram m)"
  using issues [OF assms] by (auto simp: issued_def)

end

lemma request_operation: "client_operation (request t d)"
  using request_issues by unfold_locales blast

lemma of_result_bnd_operation:
  assumes "\<And>x. client_operation (k x)"
  shows "client_operation (bnd (of_result r) k)"
proof
  fix s x s' assume "bnd (of_result r) k s = (Inr x, s')"
  then obtain y where "k y s = (Inr x, s')" by (cases r) (auto simp: prog_defs)
  then show "\<exists>m n. issued m n s s'" by (rule client_operation.issues [OF assms])
qed

lemmas operation_intros = request_operation of_result_bnd_operation

interpretation facility_names: client_operation queryFacilityNames
  unfolding queryFacilityNames_def by (rule operation_intros)

interpretation availability: client_operation "queryAvailability f ds" for f ds
  unfolding queryAvailability_def by (rule operation_intros)

interpretation book: client_operation "bookFacility f d st et" for f d st et
  unfolding bookFacility_def by (intro operation_intros)

interpretation booking: client_operation "queryBooking i" for i
  unfolding queryBooking_def by (rule operation_intros)

interpretation update: client_operation "updateBooking i off details" for i off details
  unfolding updateBooking_def stoi_at_def total_minutes_def Let_def bnd_assoc by (intro operation_intros)

interpretation delete: client_operation "deleteBooking i details" for i details
  unfolding deleteBooking_def Let_def by (rule operation_intros)

interpretation rate: client_operation "rateFacility f r" for f r
  unfolding rateFacility_def by (rule operation_intros)

interpretation rating: client_operation "queryRating f" for f
  unfolding queryRating_def by (rule operation_intros)

interpretation echo: client_operation "echoMessage d" for d
  unfolding echoMessage_def by (rule operation_intros)

lemma monitorAvailability_issues:
  assumes "monitorAvailability f duration onUpdate s = (Inr u, s')"
  shows "\<exists>m n. issued m n s s'"
proof -
  let ?d = "''register,'' @ f @ '','' @ to_string duration"
  obtain response s1 where 1: "request MONITOR ?d s = (Inr response, s1)"
    using assms by (auto simp: monitorAvailability_def elim!: bnd_InrE)
  obtain m n where i: "issued m n s s1" using request_issues [OF 1] by blast
  have "sent_datagrams (k_trace s') = sent_datagrams (k_trace s1) \<and> requestID s' = requestID s1"
  proof (cases "str_find response STATUS_SUCCESS = Some 0")
    case False
    with assms 1 show ?thesis by (auto simp: monitorAvailability_def simp del: str_find_0)
  next
    case True
    let ?s1 = "s1\<lparr>k_cout := k_cout s1 @ onUpdate response True\<rparr>"
    let ?e = "nat (int (k_clock s1) + 1000 * duration)"
    let ?f = "\<lambda>update isRegistrationResponse. onUpdate update False"
    have "listenForMonitoringUpdates duration ?f ?s1 = (Inr u, s')"
      using assms 1 True by (simp add: monitorAvailability_def del: str_find_0)
    then obtain s2 s3 where 2: "setReceiveTimeout duration ?s1 = (Inr (), s2)"
      and 3: "listen_loop ?f ?e s2 = (Inr (), s3)" and 4: "setReceiveTimeout TIMEOUT_SEC s3 = (Inr u, s')"
      by (auto simp: listenForMonitoringUpdates_def Let_def elim!: bnd_InrE)
    from listen_loop_listened [of ?f ?e s2] 3 have "listened ?e s2 s3" by auto
    with setReceiveTimeout_InrD [OF 2] setReceiveTimeout_InrD [OF 4] show ?thesis
      by (auto simp: listened_def)
  qed
  with i show ?thesis by (auto simp: issued_def)
qed

interpretation monitor: client_operation "monitorAvailability f d onUpdate" for f d onUpdate
  by unfold_locales (rule monitorAvailability_issues)

section \<open>Runs\<close>

datatype operation =
    Query_Facility_Names
  | Query_Availability string string
  | Book_Facility string string string string
  | Query_Booking string
  | Update_Booking string int string
  | Delete_Booking string string
  | Monitor_Availability string int
  | Rate_Facility string rat
  | Query_Rating string
  | Echo_Message string

text \<open>The public methods of the client; monitoring returns nothing.\<close>

fun perform :: "(string \<Rightarrow> bool \<Rightarrow> string) \<Rightarrow> operation \<Rightarrow> ('k client_scheme, string) prog" where
  "perform onUpdate Query_Facility_Names = queryFacilityNames"
| "perform onUpdate (Query_Availability f ds) = queryAvailability f ds"
| "perform onUpdate (Book_Facility f d st et) = bookFacility f d st et"
| "perform onUpdate (Query_Booking i) = queryBooking i"
| "perform onUpdate (Update_Booking i off details) = updateBooking i off details"
| "perform onUpdate (Delete_Booking i details) = deleteBooking i details"
| "perform onUpdate (Monitor_Availability f duration) = bnd (monitorAvailability f duration onUpdate) (\<lambda>_. ret '''')"
| "perform onUpdate (Rate_Facility f r) = rateFacility f r"
| "perform onUpdate (Query_Rating f) = queryRating f"
| "perform onUpdate (Echo_Message d) = echoMessage d"

interpretation op: client_operation "perform onUpdate a" for onUpdate a
proof
  fix s x s' assume "perform onUpdate a s = (Inr x, s')"
  then show "\<exists>m n. issued m n s s'"
    by (cases a) (auto elim!: bnd_InrE simp del: run_bnd_Inr
        intro: facility_names.issues availability.issues book.issues booking.issues update.issues
          delete.issues rate.issues rating.issues echo.issues monitor.issues)
qed

text \<open>One operation that returns to its caller, and any number of them.\<close>

inductive client_step ::
  "(string \<Rightarrow> bool \<Rightarrow> string) \<Rightarrow> 'k client_scheme \<Rightarrow> operation \<Rightarrow> 'k client_scheme \<Rightarrow> bool"
  for onUpdate :: "string \<Rightarrow> bool \<Rightarrow> string" where
  step: "perform onUpdate a s = (Inr response, s') \<Longrightarrow> client_step onUpdate s a s'"

inductive client_run ::
  "(string \<Rightarrow> bool \<Rightarrow> string) \<Rightarrow> 'k client_scheme \<Rightarrow> operation list \<Rightarrow> 'k client_scheme \<Rightarrow> bool"
  for onUpdate :: "string \<Rightarrow> bool \<Rightarrow> string" where
  start: "client_run onUpdate s [] s"
| next_op: "client_run onUpdate s as s' \<Longrightarrow> client_step onUpdate s' a s'' \<Longrightarrow> client_run onUpdate s (as @ [a]) s''"

inductive_cases client_stepE: "client_step onUpdate s a s'"

inductive_simps client_step_iff: "client_step onUpdate s a s'"

text \<open>
  The log of a run: one message per operation, with the IDs counting up from the first, each
  sent as many times as it took.
\<close>

definition run_log ::
  "(RequestMessage \<times> nat) list \<Rightarrow> nat \<Rightarrow> 'k client_scheme \<Rightarrow> 'k client_scheme \<Rightarrow> bool" where
  "run_log entries k s s' \<longleftrightarrow> length entries = k \<and>
     (\<forall>j<k. rm_requestID (fst (entries ! j)) = requestID s + word_of_nat j \<and>
        1 \<le> snd (entries ! j) \<and> snd (entries ! j) \<le> MAX_RETRIES) \<and>
     sent_datagrams (k_trace s') =
       sent_datagrams (k_trace s) @ concat (map (\<lambda>(m, n). replicate n (datagram m)) entries) \<and>
     requestID s' = requestID s + word_of_nat k \<and>
     sint (requestID s') = sint (requestID s) + int k"

lemma sint_Suc: "sint (w :: int32) < INT_MAX \<Longrightarrow> sint (w + 1) = sint w + 1"
proof -
  assume "sint w < INT_MAX"
  moreover have "- (2 ^ 31) \<le> sint w" using sint_greater_eq [of w] by simp
  ultimately have "signed_take_bit 31 (sint w + 1) = sint w + 1"
    by (intro signed_take_bit_int_eq_self) (simp_all add: INT_MAX_def)
  moreover have "sint (word_of_int (sint w + 1) :: int32) = signed_take_bit 31 (sint w + 1)"
    by (simp only: signed_of_int) simp
  moreover have "word_of_int (sint w + 1) = w + 1" by simp
  ultimately show ?thesis by metis
qed

lemma run_has_log: "client_run onUpdate s as s' \<Longrightarrow> \<exists>entries. run_log entries (length as) s s'"
proof (induction rule: client_run.induct)
  case (start s)
  show ?case by (rule exI [of _ "[]"]) (simp add: run_log_def)
next
  case (next_op s as s' a s'')
  then obtain entries where entries: "run_log entries (length as) s s'" by blast
  from next_op.hyps(2) obtain r where p: "perform onUpdate a s' = (Inr r, s'')" by (rule client_stepE)
  obtain m n where i: "issued m n s' s''" using op.issues [OF p] by blast
  have "sint (requestID s'') = sint (requestID s') + 1"
    using sint_Suc [OF op.id_left [OF p]] op.next_requestID [OF p] by simp
  with entries i have "run_log (entries @ [(m, n)]) (length (as @ [a])) s s''"
    by (auto simp: run_log_def issued_def nth_append less_Suc_eq algebra_simps)
  then show ?case by blast
qed

section \<open>Properties\<close>

lemma word_of_nat_inj32: "j < 2 ^ 32 \<Longrightarrow> k < 2 ^ 32 \<Longrightarrow> (word_of_nat j :: int32) = word_of_nat k \<Longrightarrow> j = k"
  by (drule arg_cong [where f = unat]) (simp add: unat_of_nat take_bit_nat_eq_self)

text \<open>
  C17. In any run of any operations that return, each operation issues exactly one logical request
  under an ID of its own: the IDs are the consecutive values of the counter, all different, and
  everything sent is, in order, each request's datagram repeated between one and five times.
\<close>

theorem runs_use_fresh_request_ids:
  assumes "client_run onUpdate s ops s'"
  shows "\<exists>entries. length entries = length ops \<and>
    distinct (map (\<lambda>(m, n). rm_requestID m) entries) \<and>
    (\<forall>j<length ops. rm_requestID (fst (entries ! j)) = requestID s + word_of_nat j) \<and>
    (\<forall>(m, n)\<in>set entries. 1 \<le> n \<and> n \<le> MAX_RETRIES) \<and>
    sent_datagrams (k_trace s') =
      sent_datagrams (k_trace s) @ concat (map (\<lambda>(m, n). replicate n (datagram m)) entries)"
proof -
  obtain entries where e: "run_log entries (length ops) s s'" using run_has_log [OF assms] by blast
  have "sint (requestID s') = sint (requestID s) + int (length ops)" using e unfolding run_log_def by blast
  moreover have "sint (requestID s') < 2147483648" "- 2147483648 \<le> sint (requestID s)"
    using sint_less [of "requestID s'"] sint_greater_eq [of "requestID s"] by simp_all
  ultimately have "int (length ops) < 4294967296" by linarith
  then have "length ops < 2 ^ 32" by simp
  with e have "distinct (map (\<lambda>(m, n). rm_requestID m) entries)"
    by (auto simp: distinct_conv_nth run_log_def case_prod_unfold dest!: word_of_nat_inj32 [rotated 2])
  moreover have "\<forall>(m, n)\<in>set entries. 1 \<le> n \<and> n \<le> MAX_RETRIES"
    using e by (auto simp: run_log_def in_set_conv_nth) (metis snd_conv)+
  ultimately show ?thesis using e by (auto simp: run_log_def)
qed

theorem runs_use_fresh_request_ids_witness:
  "\<exists>s' entries. client_run (\<lambda>_ _. '''') (client_on []) [Query_Rating ''Room''] s' \<and> length entries = 1 \<and>
    rm_requestID (fst (entries ! 0)) = 0 \<and>
    sent_datagrams (k_trace s') = concat (map (\<lambda>(m, n). replicate n (datagram m)) entries)"
proof -
  obtain s' where "perform (\<lambda>_ _. '''') (Query_Rating ''Room'') (client_on []) = (Inr gave_up, s')"
    using retry_loop_silent [of "client_on []" 0] ready_may_send [OF ready_client_on]
    by (fastforce simp: queryRating_def request_def sendWithRetry_def)
  then have "client_step (\<lambda>_ _. '''') (client_on []) (Query_Rating ''Room'') s'" by (rule step)
  then have "client_run (\<lambda>_ _. '''') (client_on []) [Query_Rating ''Room''] s'"
    using next_op [OF start] by fastforce
  with runs_use_fresh_request_ids [OF this] show ?thesis by auto
qed

end
