(* ===== verification/Response_Parser.thy ===== *)
theory Response_Parser
  imports Server_Texts
begin

text \<open>
  The parsers that turn a response text of the server into the lines the user interface shows
  (\<^verbatim>\<open>Client/src/ResponseParser.cpp\<close>). The locale \<open>response_parser\<close> is their common contract:
  an error response gives the line \<^verbatim>\<open>Error\<close> and the server's message, any other response a
  header of the parser's own. Further lemmas read back the texts the server writes.
\<close>

section \<open>Error responses\<close>

text \<open>The first line is consumed whether it announces an error or not.\<close>

definition isErrorResponse :: "istream \<Rightarrow> bool \<times> istream" where
  "isErrorResponse responseStream =
     (case getline newline '''' responseStream of
        (ok, line, st) \<Rightarrow> (ok \<and> str_find line STATUS_ERROR = Some 0, st))"

text \<open>The error branch, which is the same in every parser.\<close>

definition parse_error :: "istream \<Rightarrow> string list" where
  "parse_error responseStream =
     (case getline newline '''' responseStream of
        (ok, line, st) \<Rightarrow>
          let errorMessage = (if ok \<and> str_find line ''message:'' = Some 0 then drop 8 line else '''')
          in [''Error'', errorMessage])"

section \<open>Facility names\<close>

definition split_names :: "string \<Rightarrow> string list \<Rightarrow> string list" where
  "split_names facilityNames parsedResponse =
     getline_loop (CHR '','') (\<lambda>facilityName parsed. if facilityName \<noteq> [] then parsed @ [facilityName] else parsed)
       parsedResponse (istringstream facilityNames)"

definition names_line :: "string \<Rightarrow> string list \<Rightarrow> string list" where
  "names_line line parsedResponse =
     (if str_find line ''facilityNames:'' = Some 0 then split_names (drop 14 line) parsedResponse
      else parsedResponse)"

definition parseQueryFacilityNamesResponse :: "string \<Rightarrow> string list" where
  "parseQueryFacilityNamesResponse response =
     (case isErrorResponse (istringstream response) of
        (True, st) \<Rightarrow> parse_error st
      | (False, st) \<Rightarrow>
          getline_loop newline names_line [''Facility Names''] st)"

section \<open>Availability\<close>

definition requested_days :: "string \<Rightarrow> string set" where
  "requested_days daysRequested =
     getline_loop (CHR '','') insert {} (istringstream daysRequested)"

text \<open>\<^verbatim>\<open>timeslot.replace(dashPos, 1, "to")\<close> at the first dash.\<close>

definition format_timeslot :: "string \<Rightarrow> string" where
  "format_timeslot timeslot =
     (case str_find timeslot ''-'' of
        None \<Rightarrow> timeslot
      | Some dashPos \<Rightarrow> take dashPos timeslot @ ''to'' @ drop (dashPos + 1) timeslot)"

definition add_timeslot :: "string \<Rightarrow> string \<Rightarrow> string" where
  "add_timeslot timeslot formattedTimeslots =
     (if timeslot \<noteq> [] then formattedTimeslots @ format_timeslot timeslot @ '', '' else formattedTimeslots)"

text \<open>A line of one day: the day and its formatted timeslots, or nothing for an empty line.\<close>

definition parse_day :: "string \<Rightarrow> (string \<times> string) option" where
  "parse_day line =
     (case getline (CHR '':'') '''' (istringstream line) of
        (False, day, lineStream) \<Rightarrow> None
      | (True, day, lineStream) \<Rightarrow>
          let formattedTimeslots = getline_loop (CHR '','') add_timeslot (day @ '': '') lineStream
          in Some (day, if 2 < length formattedTimeslots
                        then take (length formattedTimeslots - 2) formattedTimeslots
                        else formattedTimeslots))"

definition availability_line ::
  "string \<Rightarrow> string list \<times> (string \<rightharpoonup> string) \<Rightarrow> string list \<times> (string \<rightharpoonup> string)" where
  "availability_line line acc =
     (case acc of (parsedResponse, availabilityMap) \<Rightarrow>
        if str_find line ''facility:'' = Some 0
        then (parsedResponse @ [''Facility: '' @ drop 9 line], availabilityMap)
        else if str_find line ''availableTimeslots:'' = Some 0 then acc
        else (case parse_day line of
                None \<Rightarrow> acc
              | Some (day, formattedTimeslots) \<Rightarrow> (parsedResponse, availabilityMap(day \<mapsto> formattedTimeslots))))"

definition requested_lines :: "string set \<Rightarrow> (string \<rightharpoonup> string) \<Rightarrow> string list" where
  "requested_lines requestedDaysSet availabilityMap =
     concat (map (\<lambda>day. if day \<in> requestedDaysSet
        then [case availabilityMap day of Some ts \<Rightarrow> ts | None \<Rightarrow> day @ '': Closed''] else []) DAYS_OF_WEEK)"

definition all_lines :: "(string \<rightharpoonup> string) \<Rightarrow> string list" where
  "all_lines availabilityMap =
     concat (map (\<lambda>day. case availabilityMap day of Some ts \<Rightarrow> [ts] | None \<Rightarrow> []) DAYS_OF_WEEK)"

definition parseQueryAvailabilityResponse :: "string \<Rightarrow> string \<Rightarrow> string list" where
  "parseQueryAvailabilityResponse response daysRequested =
     (let filterDays = (daysRequested \<noteq> []);
          requestedDaysSet = (if filterDays then requested_days daysRequested else {}) in
      case isErrorResponse (istringstream response) of
        (True, st) \<Rightarrow> parse_error st
      | (False, st) \<Rightarrow>
          (case getline_loop newline availability_line ([''Facility Availability''], Map.empty) st of
             (parsedResponse, availabilityMap) \<Rightarrow>
               parsedResponse @
               (if filterDays then requested_lines requestedDaysSet availabilityMap
                else all_lines availabilityMap)))"

section \<open>Bookings\<close>

record booking_fields =
  p_bookingID :: string
  p_oldBookingID :: string
  p_newBookingID :: string
  p_userInfo :: string
  p_facility :: string
  p_day :: string
  p_startTime :: string
  p_endTime :: string

definition no_fields :: booking_fields where
  "no_fields = \<lparr>p_bookingID = '''', p_oldBookingID = '''', p_newBookingID = '''', p_userInfo = '''',
     p_facility = '''', p_day = '''', p_startTime = '''', p_endTime = ''''\<rparr>"

definition query_booking_line :: "string \<Rightarrow> booking_fields \<Rightarrow> booking_fields" where
  "query_booking_line line b =
     (if str_find line ''bookingID:'' = Some 0 then b\<lparr>p_bookingID := drop 10 line\<rparr>
      else if str_find line ''user:'' = Some 0 then b\<lparr>p_userInfo := drop 5 line\<rparr>
      else if str_find line ''facility:'' = Some 0 then b\<lparr>p_facility := drop 9 line\<rparr>
      else if str_find line ''day:'' = Some 0 then b\<lparr>p_day := drop 4 line\<rparr>
      else if str_find line ''startTime:'' = Some 0 then b\<lparr>p_startTime := drop 10 line\<rparr>
      else if str_find line ''endTime:'' = Some 0 then b\<lparr>p_endTime := drop 8 line\<rparr>
      else b)"

definition parseQueryBookingResponse :: "string \<Rightarrow> string list" where
  "parseQueryBookingResponse response =
     (case isErrorResponse (istringstream response) of
        (True, st) \<Rightarrow> parse_error st
      | (False, st) \<Rightarrow>
          let b = getline_loop newline query_booking_line no_fields st in
          [''Booking Details'',
           ''Booking ID: '' @ p_bookingID b,
           ''User: '' @ p_userInfo b,
           ''Facility: '' @ p_facility b,
           ''Day: '' @ p_day b,
           ''Start Time: '' @ p_startTime b,
           ''End Time: '' @ p_endTime b])"

definition parseBookFacilityResponse :: "string \<Rightarrow> string list" where
  "parseBookFacilityResponse response = parseQueryBookingResponse response"

definition update_booking_line :: "string \<Rightarrow> booking_fields \<Rightarrow> booking_fields" where
  "update_booking_line line b =
     (if str_find line ''oldBookingID:'' = Some 0 then b\<lparr>p_oldBookingID := drop 13 line\<rparr>
      else if str_find line ''newBookingID:'' = Some 0 then b\<lparr>p_newBookingID := drop 13 line\<rparr>
      else if str_find line ''user:'' = Some 0 then b\<lparr>p_userInfo := drop 5 line\<rparr>
      else if str_find line ''facility:'' = Some 0 then b\<lparr>p_facility := drop 9 line\<rparr>
      else if str_find line ''day:'' = Some 0 then b\<lparr>p_day := drop 4 line\<rparr>
      else if str_find line ''startTime:'' = Some 0 then b\<lparr>p_startTime := drop 10 line\<rparr>
      else if str_find line ''endTime:'' = Some 0 then b\<lparr>p_endTime := drop 8 line\<rparr>
      else b)"

definition parseUpdateBookingResponse :: "string \<Rightarrow> string list" where
  "parseUpdateBookingResponse response =
     (case isErrorResponse (istringstream response) of
        (True, st) \<Rightarrow> parse_error st
      | (False, st) \<Rightarrow>
          let b = getline_loop newline update_booking_line no_fields st in
          [''New Booking Details'',
           ''New Booking ID: '' @ p_newBookingID b,
           ''User: '' @ p_userInfo b,
           ''Facility: '' @ p_facility b,
           ''New Day: '' @ p_day b,
           ''New Start Time: '' @ p_startTime b,
           ''New End Time: '' @ p_endTime b])"

text \<open>The pair holds \<^verbatim>\<open>oldBookingID\<close> and \<^verbatim>\<open>userInfo\<close>.\<close>

definition parseDeleteBookingResponse :: "string \<Rightarrow> string list" where
  "parseDeleteBookingResponse response =
     (case isErrorResponse (istringstream response) of
        (True, st) \<Rightarrow> parse_error st
      | (False, st) \<Rightarrow>
          (case getline_loop newline
                  (\<lambda>line (oldBookingID, userInfo).
                     if str_find line ''bookingID:'' = Some 0 then (drop 10 line, userInfo)
                     else if str_find line ''user:'' = Some 0 then (oldBookingID, drop 5 line)
                     else (oldBookingID, userInfo))
                  ('''', '''') st of
             (oldBookingID, userInfo) \<Rightarrow>
               [''Booking Deleted'', ''Old Booking ID: '' @ oldBookingID, ''User: '' @ userInfo]))"

section \<open>Monitoring and ratings\<close>

definition parseMonitorAvailabilityResponse :: "string \<Rightarrow> string list" where
  "parseMonitorAvailabilityResponse response =
     (case isErrorResponse (istringstream response) of
        (True, st) \<Rightarrow> parse_error st
      | (False, st) \<Rightarrow>
          (case getline_loop newline
                  (\<lambda>line (facility, duration).
                     if str_find line ''facility:'' = Some 0 then (drop 9 line, duration)
                     else if str_find line ''interval:'' = Some 0 then (facility, drop 9 line)
                     else (facility, duration))
                  ('''', '''') st of
             (facility, duration) \<Rightarrow>
               [''Monitoring Registration'', ''Facility: '' @ facility, ''Duration: '' @ duration @ ''s'']))"

definition parseRateFacilityResponse :: "string \<Rightarrow> string list" where
  "parseRateFacilityResponse response =
     (case isErrorResponse (istringstream response) of
        (True, st) \<Rightarrow> parse_error st
      | (False, st) \<Rightarrow>
          (case getline_loop newline
                  (\<lambda>line (userInfo, facility, rating).
                     if str_find line ''user:'' = Some 0 then (drop 5 line, facility, rating)
                     else if str_find line ''facility:'' = Some 0 then (userInfo, drop 9 line, rating)
                     else if str_find line ''rating:'' = Some 0 then (userInfo, facility, drop 7 line)
                     else (userInfo, facility, rating))
                  ('''', '''', '''') st of
             (userInfo, facility, rating) \<Rightarrow>
               [''Rating Added'', ''User: '' @ userInfo, ''Facility: '' @ facility, ''Rating: '' @ rating]))"

definition parseQueryRatingResponse :: "string \<Rightarrow> string list" where
  "parseQueryRatingResponse response =
     (case isErrorResponse (istringstream response) of
        (True, st) \<Rightarrow> parse_error st
      | (False, st) \<Rightarrow>
          (case getline_loop newline
                  (\<lambda>line (facility, rating).
                     if str_find line ''facility:'' = Some 0 then (drop 9 line, rating)
                     else if str_find line ''rating:'' = Some 0 then (facility, drop 7 line)
                     else (facility, rating))
                  ('''', '''') st of
             (facility, rating) \<Rightarrow>
               [''Facility Rating'', ''Facility: '' @ facility, ''Rating: '' @ rating]))"

definition parseEchoMessageResponse :: "string \<Rightarrow> string list" where
  "parseEchoMessageResponse response = [''Response from Server'', ''Message: '' @ response]"

section \<open>The contract of a parser\<close>

text \<open>
  An error response starts with the error status; its message is the rest of the second line
  after \<^verbatim>\<open>message:\<close>, or empty.
\<close>

definition is_error :: "string \<Rightarrow> bool" where
  "is_error response \<longleftrightarrow> prefix STATUS_ERROR response"

definition error_text :: "string \<Rightarrow> string" where
  "error_text response = (case lines_of newline response of
     first # second # rest \<Rightarrow> if prefix ''message:'' second then drop 8 second else ''''
   | _ \<Rightarrow> '''')"

definition first_line :: "string \<Rightarrow> string" where
  "first_line s = takeWhile (\<lambda>c. c \<noteq> newline) s"

definition after_first_line :: "string \<Rightarrow> istream" where
  "after_first_line s = snd (snd (getline newline '''' (istringstream s)))"

lemma prefix_first_line: "newline \<notin> set p \<Longrightarrow> prefix p (first_line s) \<longleftrightarrow> prefix p s"
proof (induction p arbitrary: s)
  case Nil
  then show ?case by simp
next
  case (Cons c p)
  then show ?case by (cases s) (auto simp: first_line_def)
qed

lemma good_istringstream [simp]: "good (istringstream s)" "unread (istringstream s) = s"
  by (simp_all add: good_def istringstream_def)

lemma isErrorResponse_eq: "isErrorResponse (istringstream s) = (is_error s, after_first_line s)"
proof -
  have nl: "newline \<notin> set STATUS_ERROR" by (simp add: STATUS_ERROR_def newline_def)
  have "prefix STATUS_ERROR (takeWhile (\<lambda>c. c \<noteq> newline) s) \<longleftrightarrow> prefix STATUS_ERROR s"
    using prefix_first_line [OF nl, of s] by (simp add: first_line_def)
  moreover have "prefix STATUS_ERROR s \<Longrightarrow> s \<noteq> []" by (auto simp: STATUS_ERROR_def)
  ultimately show ?thesis
    by (auto simp: isErrorResponse_def after_first_line_def getline_good is_error_def split: prod.splits)
qed

text \<open>What is left after the first line.\<close>

lemma getline_rest:
  assumes "newline \<notin> set l"
  shows "after_first_line (l @ newline # r) = istringstream r"
proof -
  have "takeWhile (\<lambda>c. c \<noteq> newline) (l @ newline # r) = l" and "dropWhile (\<lambda>c. c \<noteq> newline) (l @ newline # r) = newline # r"
    using assms by (induction l) auto
  then show ?thesis by (simp add: after_first_line_def getline_good) (simp add: istringstream_def)
qed

lemma getline_no_rest:
  assumes "newline \<notin> set s"
  shows "\<not> good (after_first_line s)"
proof -
  from assms have "dropWhile (\<lambda>c. c \<noteq> newline) s = []" by auto
  then show ?thesis
    by (simp add: after_first_line_def getline_good del: dropWhile_eq_Nil_conv) (simp add: good_def)
qed

lemma one_or_more_lines:
  obtains "newline \<notin> set s" | l r where "s = l @ newline # r" and "newline \<notin> set l"
  by (metis split_list_first)

lemma parse_error_eq: "parse_error (after_first_line s) = [''Error'', error_text s]"
proof (cases s rule: one_or_more_lines)
  case 1
  then have "lines_of newline s = [] \<or> lines_of newline s = [s]" by (cases "s = []") auto
  moreover have "getline newline '''' st = (False, '''', st\<lparr>failbit := True\<rparr>)" if "\<not> good st" for st
    using that by (simp add: getline_def)
  ultimately show ?thesis using getline_no_rest [OF 1] by (auto simp: parse_error_def error_text_def)
next
  case (2 l r)
  have r: "parse_error (istringstream r) = [''Error'', error_text s]"
  proof (cases "r = []")
    case True
    with 2 show ?thesis by (simp add: parse_error_def error_text_def getline_good)
  next
    case False
    then have "lines_of newline r = first_line r # lines_of newline (drop 1 (dropWhile (\<lambda>c. c \<noteq> newline) r))"
      by (subst lines_of.simps) (simp add: first_line_def)
    with 2 False show ?thesis by (simp add: parse_error_def error_text_def getline_good first_line_def)
  qed
  with 2 show ?thesis by (simp add: getline_rest)
qed

locale response_parser =
  fixes parse :: "string \<Rightarrow> string list" and header :: string
  assumes error_response: "is_error response \<Longrightarrow> parse response = [''Error'', error_text response]"
    and other_response: "\<not> is_error response \<Longrightarrow> \<exists>rows. parse response = header # rows"
    and header_not_error: "header \<noteq> ''Error''"
begin

lemma parse_not_Nil: "parse response \<noteq> []"
  using error_response other_response by (metis list.distinct(1))

lemma reports_error_iff: "hd (parse response) = ''Error'' \<longleftrightarrow> is_error response"
  using error_response [of response] other_response [of response] header_not_error
  by (cases "is_error response") auto

lemma error_message:
  "newline \<notin> set msg \<Longrightarrow> parse (STATUS_ERROR @ newline # ''message:'' @ msg) = [''Error'', msg]"
proof -
  assume "newline \<notin> set msg"
  moreover have "is_error (STATUS_ERROR @ newline # ''message:'' @ msg)" by (simp add: is_error_def)
  moreover have "newline \<notin> set STATUS_ERROR" by (simp add: STATUS_ERROR_def newline_def)
  ultimately show ?thesis by (subst error_response) (simp_all add: error_text_def newline_def)
qed

end

lemmas parser_simps = isErrorResponse_eq parse_error_eq

text \<open>Adding rows behind the header.\<close>

lemma fold_keeps_header:
  assumes "\<And>l xs. \<exists>ys. f l xs = xs @ ys"
  shows "\<exists>ys. fold f ls xs = xs @ ys"
proof (induction ls arbitrary: xs)
  case Nil
  then show ?case by simp
next
  case (Cons l ls)
  obtain ys where "f l xs = xs @ ys" using assms by blast
  with Cons.IH [of "xs @ ys"] show ?case by auto
qed

lemma getline_loop_fold: "\<exists>ls. \<forall>acc. getline_loop d f acc st = fold f ls acc"
  by (cases "good st") (auto simp: getline_loop_good intro: exI [of _ "[]"])

lemma split_names_appends: "\<exists>ys. split_names s xs = xs @ ys"
  unfolding split_names_def getline_loop_istringstream by (rule fold_keeps_header) simp

lemma availability_line_appends: "\<exists>ys. fst (availability_line l acc) = fst acc @ ys"
  by (cases acc) (auto simp: availability_line_def split: option.split)

lemma fold_availability_appends: "\<exists>ys. fst (fold availability_line ls acc) = fst acc @ ys"
proof (induction ls arbitrary: acc)
  case Nil
  then show ?case by simp
next
  case (Cons l ls)
  obtain ys where "fst (availability_line l acc) = fst acc @ ys" using availability_line_appends by blast
  with Cons.IH [of "availability_line l acc"] show ?case by auto
qed

lemma parseQueryFacilityNamesResponse_header:
  "\<not> is_error response \<Longrightarrow> \<exists>rows. parseQueryFacilityNamesResponse response = ''Facility Names'' # rows"
proof -
  assume *: "\<not> is_error response"
  obtain ls where ls: "getline_loop newline names_line [''Facility Names''] (after_first_line response) =
      fold names_line ls [''Facility Names'']"
    using getline_loop_fold [of newline names_line "after_first_line response"] by blast
  have "\<exists>ys. names_line l xs = xs @ ys" for l xs
    using split_names_appends by (simp add: names_line_def)
  from fold_keeps_header [of names_line, OF this, of ls "[''Facility Names'']"] ls * show ?thesis
    by (auto simp: parseQueryFacilityNamesResponse_def parser_simps)
qed

lemma parseQueryAvailabilityResponse_header:
  "\<not> is_error response \<Longrightarrow> \<exists>rows. parseQueryAvailabilityResponse response days = ''Facility Availability'' # rows"
proof -
  assume *: "\<not> is_error response"
  let ?i = "([''Facility Availability''], Map.empty)"
  obtain ls where "getline_loop newline availability_line ?i (after_first_line response) = fold availability_line ls ?i"
    using getline_loop_fold [of newline availability_line "after_first_line response"] by blast
  moreover obtain ys where "fst (fold availability_line ls ?i) = ''Facility Availability'' # ys"
    using fold_availability_appends [of ls ?i] by auto
  ultimately show ?thesis
    using * by (auto simp: parseQueryAvailabilityResponse_def parser_simps Let_def split: prod.split)
qed

interpretation names: response_parser parseQueryFacilityNamesResponse "''Facility Names''"
  by unfold_locales
    (simp_all add: parseQueryFacilityNamesResponse_header, simp add: parseQueryFacilityNamesResponse_def parser_simps)

interpretation availability: response_parser "\<lambda>r. parseQueryAvailabilityResponse r days" "''Facility Availability''" for days
  by unfold_locales
    (simp_all add: parseQueryAvailabilityResponse_header, simp add: parseQueryAvailabilityResponse_def parser_simps)

interpretation query_booking: response_parser parseQueryBookingResponse "''Booking Details''"
  by unfold_locales (simp_all add: parseQueryBookingResponse_def parser_simps Let_def)

interpretation book: response_parser parseBookFacilityResponse "''Booking Details''"
  unfolding parseBookFacilityResponse_def by (rule query_booking.response_parser_axioms)

interpretation update: response_parser parseUpdateBookingResponse "''New Booking Details''"
  by unfold_locales (simp_all add: parseUpdateBookingResponse_def parser_simps Let_def)

interpretation delete: response_parser parseDeleteBookingResponse "''Booking Deleted''"
  by unfold_locales (simp_all add: parseDeleteBookingResponse_def parser_simps split: prod.split)

interpretation monitor: response_parser parseMonitorAvailabilityResponse "''Monitoring Registration''"
  by unfold_locales (simp_all add: parseMonitorAvailabilityResponse_def parser_simps split: prod.split)

interpretation rate: response_parser parseRateFacilityResponse "''Rating Added''"
  by unfold_locales (simp_all add: parseRateFacilityResponse_def parser_simps split: prod.split)

interpretation rating: response_parser parseQueryRatingResponse "''Facility Rating''"
  by unfold_locales (simp_all add: parseQueryRatingResponse_def parser_simps split: prod.split)

section \<open>Reading the server's texts\<close>

text \<open>A successful response is folded over the lines behind the status line.\<close>

definition no_break :: "string \<Rightarrow> bool" where
  "no_break s \<longleftrightarrow> newline \<notin> set s"

lemma no_break_simps [simp]:
  "no_break []" "no_break (c # s) \<longleftrightarrow> c \<noteq> newline \<and> no_break s" "no_break (s @ t) \<longleftrightarrow> no_break s \<and> no_break t"
  by (auto simp: no_break_def)

lemma status_not_error: "\<not> is_error (STATUS_SUCCESS @ s)"
  by (simp add: is_error_def STATUS_ERROR_def STATUS_SUCCESS_def)

lemma success_text:
  assumes "s = terminated newline (STATUS_SUCCESS # ls) @ e" and "\<forall>l\<in>set ls. no_break l" and "no_break e"
  shows "isErrorResponse (istringstream s) = (False, after_first_line s)"
    and "getline_loop newline f acc (after_first_line s) = fold f (ls @ (if e = [] then [] else [e])) acc"
proof -
  have nl: "newline \<notin> set STATUS_SUCCESS" by (simp add: STATUS_SUCCESS_def newline_def)
  have s: "s = STATUS_SUCCESS @ newline # terminated newline ls @ e" using assms(1) by simp
  show "isErrorResponse (istringstream s) = (False, after_first_line s)"
    by (simp add: isErrorResponse_eq s status_not_error)
  show "getline_loop newline f acc (after_first_line s) = fold f (ls @ (if e = [] then [] else [e])) acc"
    using assms(2,3) lines_of_terminated [of ls newline e]
    by (simp add: s getline_rest [OF nl] no_break_def)
qed

lemma newline_not_letter [simp]:
  "newline \<noteq> CHR 0x20" "CHR 0x20 \<noteq> newline"
  by (simp_all add: newline_def)

lemma query_booking_parsed:
  assumes "no_break i" and "no_break u" and "no_break f" and "no_break d" and "no_break st" and "no_break et"
  shows "parseQueryBookingResponse (booking_details i u f d st et) =
    [''Booking Details'', ''Booking ID: '' @ i, ''User: '' @ u, ''Facility: '' @ f, ''Day: '' @ d,
     ''Start Time: '' @ st, ''End Time: '' @ et]"
proof -
  let ?ls = "[''bookingID:'' @ i, ''user:'' @ u, ''facility:'' @ f, ''day:'' @ d, ''startTime:'' @ st, ''endTime:'' @ et]"
  have s: "booking_details i u f d st et = terminated newline (STATUS_SUCCESS # ?ls) @ []"
    by (simp add: booking_details_def)
  have "\<forall>l\<in>set ?ls. no_break l" using assms by (simp add: newline_def)
  note t = success_text [OF s this no_break_simps(1)]
  show ?thesis
    by (simp add: parseQueryBookingResponse_def t query_booking_line_def no_fields_def Let_def)
qed

text \<open>
  The booking details the server sends are shown field by field, in the parser's order.
\<close>

theorem parse_query_booking:
  assumes "no_break i" and "no_break u" and "no_break f" and "no_break d" and "no_break st" and "no_break et"
  shows "parseQueryBookingResponse (booking_details i u f d st et) =
    [''Booking Details'', ''Booking ID: '' @ i, ''User: '' @ u, ''Facility: '' @ f, ''Day: '' @ d,
     ''Start Time: '' @ st, ''End Time: '' @ et]"
  by (rule query_booking_parsed [OF assms])

theorem parse_query_booking_witness:
  "parseQueryBookingResponse (booking_details ''7'' ''/10.0.0.7:5001'' ''Room'' ''MONDAY'' ''0900'' ''1000'') =
    [''Booking Details'', ''Booking ID: 7'', ''User: /10.0.0.7:5001'', ''Facility: Room'', ''Day: MONDAY'',
     ''Start Time: 0900'', ''End Time: 1000'']"
  using parse_query_booking [of "''7''" "''/10.0.0.7:5001''" "''Room''" "''MONDAY''" "''0900''" "''1000''"]
  by (simp add: newline_def)

text \<open>
  The details of an updated booking are shown with the new ID; the old one is read but not shown.
\<close>

theorem parse_update_booking:
  assumes "no_break i" and "no_break j" and "no_break u" and "no_break f" and "no_break d" and "no_break st" and "no_break et"
  shows "parseUpdateBookingResponse (update_details i j u f d st et) =
    [''New Booking Details'', ''New Booking ID: '' @ j, ''User: '' @ u, ''Facility: '' @ f, ''New Day: '' @ d,
     ''New Start Time: '' @ st, ''New End Time: '' @ et]"
proof -
  let ?ls = "[''oldBookingID:'' @ i, ''newBookingID:'' @ j, ''user:'' @ u, ''facility:'' @ f, ''day:'' @ d,
    ''startTime:'' @ st, ''endTime:'' @ et]"
  have s: "update_details i j u f d st et = terminated newline (STATUS_SUCCESS # ?ls) @ []"
    by (simp add: update_details_def)
  have "\<forall>l\<in>set ?ls. no_break l" using assms by (simp add: newline_def)
  note t = success_text [OF s this no_break_simps(1)]
  show ?thesis
    by (simp add: parseUpdateBookingResponse_def t update_booking_line_def no_fields_def Let_def)
qed

theorem parse_update_booking_witness:
  "parseUpdateBookingResponse (update_details ''7'' ''8'' ''u'' ''Room'' ''MONDAY'' ''0930'' ''1030'') =
    [''New Booking Details'', ''New Booking ID: 8'', ''User: u'', ''Facility: Room'', ''New Day: MONDAY'',
     ''New Start Time: 0930'', ''New End Time: 1030'']"
  using parse_update_booking [of "''7''" "''8''" "''u''" "''Room''" "''MONDAY''" "''0930''" "''1030''"]
  by (simp add: newline_def)

lemma parse_delete:
  assumes "no_break i" and "no_break u"
  shows "parseDeleteBookingResponse (delete_response i u) =
    [''Booking Deleted'', ''Old Booking ID: '' @ i, ''User: '' @ u]"
proof -
  have s: "delete_response i u = terminated newline (STATUS_SUCCESS # [''bookingID:'' @ i]) @ (''user:'' @ u)"
    by (simp add: delete_response_def)
  have "\<forall>l\<in>set [''bookingID:'' @ i]. no_break l" "no_break (''user:'' @ u)" using assms by (simp_all add: newline_def)
  note t = success_text [OF s this]
  show ?thesis by (simp add: parseDeleteBookingResponse_def t)
qed

lemma parse_monitor:
  assumes "no_break f" and "no_break n"
  shows "parseMonitorAvailabilityResponse (monitor_response f n) =
    [''Monitoring Registration'', ''Facility: '' @ f, ''Duration: '' @ n @ ''s'']"
proof -
  have s: "monitor_response f n = terminated newline (STATUS_SUCCESS # [''facility:'' @ f]) @ (''interval:'' @ n)"
    by (simp add: monitor_response_def)
  have "\<forall>l\<in>set [''facility:'' @ f]. no_break l" "no_break (''interval:'' @ n)" using assms by (simp_all add: newline_def)
  note t = success_text [OF s this]
  show ?thesis by (simp add: parseMonitorAvailabilityResponse_def t)
qed

lemma parse_rating:
  assumes "no_break f" and "no_break r"
  shows "parseQueryRatingResponse (rating_response f r) =
    [''Facility Rating'', ''Facility: '' @ f, ''Rating: '' @ r]"
proof -
  have s: "rating_response f r = terminated newline (STATUS_SUCCESS # [''facility:'' @ f]) @ (''rating:'' @ r)"
    by (simp add: rating_response_def)
  have "\<forall>l\<in>set [''facility:'' @ f]. no_break l" "no_break (''rating:'' @ r)" using assms by (simp_all add: newline_def)
  note t = success_text [OF s this]
  show ?thesis by (simp add: parseQueryRatingResponse_def t)
qed

lemma parse_rated:
  assumes "no_break u" and "no_break f" and "no_break r"
  shows "parseRateFacilityResponse (rated_response u f r) =
    [''Rating Added'', ''User: '' @ u, ''Facility: '' @ f, ''Rating: '' @ r]"
proof -
  have s: "rated_response u f r =
      terminated newline (STATUS_SUCCESS # [''user:'' @ u, ''facility:'' @ f]) @ (''rating:'' @ r)"
    by (simp add: rated_response_def)
  have "\<forall>l\<in>set [''user:'' @ u, ''facility:'' @ f]. no_break l" "no_break (''rating:'' @ r)"
    using assms by (simp_all add: newline_def)
  note t = success_text [OF s this]
  show ?thesis by (simp add: parseRateFacilityResponse_def t)
qed

lemma fold_nonempty:
  "\<forall>n\<in>set ns. n \<noteq> [] \<Longrightarrow> fold (\<lambda>n parsed. if n \<noteq> [] then parsed @ [n] else parsed) ns acc = acc @ ns"
  by (induction ns arbitrary: acc) auto

lemma names_parsed:
  assumes "\<forall>n\<in>set ns. n \<noteq> [] \<and> no_break n \<and> CHR '','' \<notin> set n"
  shows "parseQueryFacilityNamesResponse (names_response ns) = ''Facility Names'' # ns"
proof -
  let ?e = "''facilityNames:'' @ terminated (CHR '','') ns"
  have s: "names_response ns = terminated newline (STATUS_SUCCESS # []) @ ?e"
    by (simp add: names_response_def)
  have "no_break (terminated (CHR '','') ns)"
    using assms by (induction ns) (auto simp: newline_def)
  then have "\<forall>l\<in>set []. no_break l" "no_break ?e" by (simp_all add: newline_def)
  note t = success_text [OF s this]
  have "split_names (terminated (CHR '','') ns) [''Facility Names''] = [''Facility Names''] @ ns"
    using assms lines_of_terminated [of ns "CHR '',''" "[]"]
    by (simp only: split_names_def getline_loop_istringstream) (simp add: fold_nonempty)
  then show ?thesis
    by (simp add: parseQueryFacilityNamesResponse_def t names_line_def)
qed

text \<open>
  The facility names the server lists, each ended by a comma, are shown one per line in the
  server's order.
\<close>

theorem parse_names:
  assumes "\<forall>n\<in>set ns. n \<noteq> [] \<and> no_break n \<and> CHR '','' \<notin> set n"
  shows "parseQueryFacilityNamesResponse (names_response ns) = ''Facility Names'' # ns"
  by (rule names_parsed [OF assms])

theorem parse_names_witness:
  "parseQueryFacilityNamesResponse (names_response [''Room1'', ''Hall'']) = [''Facility Names'', ''Room1'', ''Hall'']"
  using parse_names [of "[''Room1'', ''Hall'']"] by (simp add: newline_def)

subsection \<open>Availability\<close>

text \<open>The line the client shows for a day.\<close>

definition shown_day :: "string \<times> (string \<times> string) list \<Rightarrow> string" where
  "shown_day d = fst d @ '': '' @ join '', '' (map (\<lambda>(a, b). a @ '' to '' @ b) (snd d))"

definition plain_slot :: "string \<times> string \<Rightarrow> bool" where
  "plain_slot sl \<longleftrightarrow> set (fst sl) \<inter> {CHR ''-'', CHR '',''} = {} \<and> CHR '','' \<notin> set (snd sl) \<and>
     no_break (fst sl) \<and> no_break (snd sl)"

definition plain_day :: "string \<times> (string \<times> string) list \<Rightarrow> bool" where
  "plain_day d \<longleftrightarrow> fst d \<in> set DAYS_OF_WEEK \<and> snd d \<noteq> [] \<and> (\<forall>sl\<in>set (snd d). plain_slot sl)"

lemma format_timeslot_server: "plain_slot (a, b) \<Longrightarrow> format_timeslot (a @ '' - '' @ b) = a @ '' to '' @ b"
  using str_find_char [of "CHR ''-''" "a @ '' ''" "CHR '' '' # b"]
  by (simp add: format_timeslot_def plain_slot_def)

lemma fold_timeslots:
  assumes "\<forall>sl\<in>set slots. plain_slot sl"
  shows "fold add_timeslot (map (\<lambda>(a, b). a @ '' - '' @ b) slots) acc =
    acc @ concat (map (\<lambda>l. l @ '', '') (map (\<lambda>(a, b). a @ '' to '' @ b) slots))"
  using assms
proof (induction slots arbitrary: acc)
  case Nil
  then show ?case by simp
next
  case (Cons sl slots)
  obtain a b where sl: "sl = (a, b)" by (cases sl)
  with Cons.prems have f: "format_timeslot (a @ '' - '' @ b) = a @ '' to '' @ b"
    by (intro format_timeslot_server) simp
  then have step: "add_timeslot (a @ '' - '' @ b) acc = acc @ (a @ '' to '' @ b) @ '', ''"
    by (simp add: add_timeslot_def)
  have "fold add_timeslot (map (\<lambda>(a, b). a @ '' - '' @ b) slots) (acc @ (a @ '' to '' @ b) @ '', '') =
    (acc @ (a @ '' to '' @ b) @ '', '') @ concat (map (\<lambda>l. l @ '', '') (map (\<lambda>(a, b). a @ '' to '' @ b) slots))"
    using Cons.prems by (intro Cons.IH) simp
  with step show ?case by (simp add: sl)
qed

lemma getline_istringstream:
  "d \<notin> set l \<Longrightarrow> getline d '''' (istringstream (l @ d # r)) = (True, l, istringstream r)"
proof -
  assume "d \<notin> set l"
  then have "takeWhile (\<lambda>c. c \<noteq> d) (l @ d # r) = l" and "dropWhile (\<lambda>c. c \<noteq> d) (l @ d # r) = d # r"
    by (induction l) auto
  then show ?thesis by (simp add: getline_good) (simp add: istringstream_def)
qed

lemma day_no_colon: "d \<in> set DAYS_OF_WEEK \<Longrightarrow> CHR '':'' \<notin> set d"
  by (auto simp: DAYS_OF_WEEK_def)

lemma parse_day_server:
  assumes "plain_day d"
  shows "parse_day (day_line d) = Some (fst d, shown_day d)"
proof -
  obtain day slots where d: "d = (day, slots)" by (cases d)
  let ?ss = "map (\<lambda>(a, b). a @ '' - '' @ b) slots" and ?ts = "map (\<lambda>(a, b). a @ '' to '' @ b) slots"
  have line: "getline (CHR '':'') '''' (istringstream (day_line d)) = (True, day, istringstream (terminated (CHR '','') ?ss))"
    using getline_istringstream [OF day_no_colon] assms by (simp add: d day_line_def plain_day_def)
  have "\<forall>l\<in>set ?ss. CHR '','' \<notin> set l"
    using assms by (auto simp: d plain_day_def plain_slot_def)
  then have "lines_of (CHR '','') (terminated (CHR '','') ?ss) = ?ss"
    using lines_of_terminated [of ?ss "CHR '',''" "[]"] by simp
  then have loop: "getline_loop (CHR '','') add_timeslot (day @ '': '') (istringstream (terminated (CHR '','') ?ss)) = day @ '': '' @ join '', '' ?ts @ '', ''"
    using fold_timeslots [of slots "day @ '': ''"] assms concat_sep [of ?ts "'', ''"]
    by (simp only: getline_loop_istringstream) (simp add: d plain_day_def)
  show ?thesis
    unfolding parse_day_def line prod.case bool.case Let_def loop by (simp add: d shown_day_def)
qed

lemma day_line_not_special:
  "fst d \<in> set DAYS_OF_WEEK \<Longrightarrow> \<not> prefix ''facility:'' (day_line d) \<and> \<not> prefix ''availableTimeslots:'' (day_line d)"
  by (auto simp: day_line_def DAYS_OF_WEEK_def)

lemma availability_line_day:
  "plain_day d \<Longrightarrow> availability_line (day_line d) (parsed, m) = (parsed, m(fst d \<mapsto> shown_day d))"
  using day_line_not_special [of d] by (simp add: availability_line_def parse_day_server plain_day_def)

lemma fold_days:
  "\<forall>d\<in>set ds. plain_day d \<Longrightarrow>
   fold availability_line (map day_line ds) (parsed, m) =
     (parsed, m ++ map_of (rev (map (\<lambda>d. (fst d, shown_day d)) ds)))"
  by (induction ds arbitrary: m) (auto simp: availability_line_day map_add_def fun_eq_iff split: option.split)

lemma no_break_day_line: "plain_day d \<Longrightarrow> no_break (day_line d)"
proof -
  assume *: "plain_day d"
  have "no_break (terminated (CHR '','') (map (\<lambda>(a, b). a @ '' - '' @ b) slots))"
    if "\<forall>sl\<in>set slots. plain_slot sl" for slots
    using that by (induction slots) (auto simp: plain_slot_def newline_def)
  with * show ?thesis
    by (auto simp: plain_day_def day_line_def DAYS_OF_WEEK_def newline_def)
qed

lemma requested_days_join:
  assumes "days \<noteq> []" and "\<forall>d\<in>set days. d \<noteq> [] \<and> CHR '','' \<notin> set d"
  shows "requested_days (join '','' days) = set days"
proof -
  have "lines_of (CHR '','') (join '','' days) = days"
    using assms by (intro lines_of_join) auto
  moreover have "fold insert xs A = set xs \<union> A" for xs and A :: "string set"
    by (induction xs arbitrary: A) auto
  ultimately show ?thesis by (simp add: requested_days_def)
qed

text \<open>
  The rows for an availability text behind any first line that is not an error status.
\<close>

lemma availability_rows:
  assumes "no_break f" and "\<forall>d\<in>set av. plain_day d" and "distinct (map fst av)"
    and "no_break l" and "\<not> prefix STATUS_ERROR l"
    and s: "s = l @ newline # terminated newline ([''facility:'' @ f, ''availableTimeslots:''] @ map day_line av)"
    and m: "m = (\<lambda>day. map_option (\<lambda>slots. shown_day (day, slots)) (map_of av day))"
  shows "parseQueryAvailabilityResponse s days = [''Facility Availability'', ''Facility: '' @ f] @
    (if days \<noteq> [] then requested_lines (requested_days days) m else all_lines m)"
proof -
  let ?ls = "[''facility:'' @ f, ''availableTimeslots:''] @ map day_line av"
  have nb: "\<forall>x\<in>set ?ls. newline \<notin> set x"
    using assms(1,2) no_break_day_line by (auto simp: newline_def no_break_def)
  have nl: "newline \<notin> set l" using assms(4) by (simp add: no_break_def)
  then have "first_line s = l" unfolding s first_line_def by (induction l) auto
  moreover have "newline \<notin> set STATUS_ERROR" by (simp add: STATUS_ERROR_def newline_def)
  ultimately have ne: "\<not> is_error s" using assms(5) prefix_first_line [of STATUS_ERROR s] by (simp add: is_error_def)
  have "m = map_of (map (\<lambda>d. (fst d, shown_day d)) av)"
  proof
    show "m day = map_of (map (\<lambda>d. (fst d, shown_day d)) av) day" for day
      unfolding m by (induction av) auto
  qed
  then have "map_of (rev (map (\<lambda>d. (fst d, shown_day d)) av)) = m"
    using assms(3) by (simp only:) (subst map_of_inject_set, simp_all add: comp_def flip: rev_map)
  moreover have "getline_loop newline availability_line acc (after_first_line s) = fold availability_line ?ls acc" for acc
    using lines_of_terminated [OF nb, of "[]"] by (simp add: s getline_rest [OF nl])
  ultimately have "getline_loop newline availability_line ([''Facility Availability''], Map.empty) (after_first_line s) =
      ([''Facility Availability'', ''Facility: '' @ f], m)"
    using fold_days [OF assms(2)] by (simp add: availability_line_def [of "CHR ''f'' # _"] availability_line_def [of "CHR ''a'' # _"])
  with ne show ?thesis by (simp add: parseQueryAvailabilityResponse_def isErrorResponse_eq)
qed

lemma requested_lines_shown:
  "requested_lines S (\<lambda>day. map_option (\<lambda>slots. shown_day (day, slots)) (map_of av day)) =
    map (\<lambda>day. case map_of av day of Some slots \<Rightarrow> shown_day (day, slots) | None \<Rightarrow> day @ '': Closed'')
      (filter (\<lambda>day. day \<in> S) DAYS_OF_WEEK)"
proof -
  have "concat (map (\<lambda>day. if day \<in> S then [case map_option (\<lambda>slots. shown_day (day, slots)) (map_of av day) of
        Some ts \<Rightarrow> ts | None \<Rightarrow> day @ '': Closed''] else []) xs) =
      map (\<lambda>day. case map_of av day of Some slots \<Rightarrow> shown_day (day, slots) | None \<Rightarrow> day @ '': Closed'')
        (filter (\<lambda>day. day \<in> S) xs)" for xs
    by (induction xs) (auto split: option.split)
  then show ?thesis by (simp only: requested_lines_def)
qed

text \<open>
  C24. The availability shown for a request is the header, the facility and, for each requested
  day in the order of the week, its timeslots, or that the day is closed when the server does
  not list it; days that were not requested do not appear, whatever the server sent.
\<close>

theorem parse_availability:
  assumes "no_break f" and "\<forall>d\<in>set av. plain_day d" and "distinct (map fst av)"
    and "days \<noteq> []" and "\<forall>d\<in>set days. d \<noteq> [] \<and> CHR '','' \<notin> set d"
  shows "parseQueryAvailabilityResponse (availability_response f av) (join '','' days) =
    [''Facility Availability'', ''Facility: '' @ f] @
    map (\<lambda>day. case map_of av day of Some slots \<Rightarrow> shown_day (day, slots) | None \<Rightarrow> day @ '': Closed'')
      (filter (\<lambda>day. day \<in> set days) DAYS_OF_WEEK)"
proof -
  have "no_break STATUS_SUCCESS" "\<not> prefix STATUS_ERROR STATUS_SUCCESS"
    by (simp_all add: STATUS_SUCCESS_def STATUS_ERROR_def newline_def)
  note rows = availability_rows [OF assms(1-3) this _ refl, of "availability_response f av" "join '','' days"]
  have "join '','' days \<noteq> ''''" using assms(4,5) by (intro join_not_Nil) auto
  with rows show ?thesis
    by (simp add: availability_response_def requested_days_join [OF assms(4,5)] requested_lines_shown)
qed

theorem parse_availability_witness:
  "parseQueryAvailabilityResponse
      (availability_response ''Room'' [(''TUESDAY'', [(''0900'', ''1000''), (''1300'', ''1700'')])])
      (join '','' [''WEDNESDAY'', ''TUESDAY'']) =
    [''Facility Availability'', ''Facility: Room'', ''TUESDAY: 0900 to 1000, 1300 to 1700'', ''WEDNESDAY: Closed'']"
  using parse_availability [of "''Room''" "[(''TUESDAY'', [(''0900'', ''1000''), (''1300'', ''1700'')])]"
      "[''WEDNESDAY'', ''TUESDAY'']"]
  by (simp add: newline_def plain_day_def plain_slot_def DAYS_OF_WEEK_def shown_day_def)

section \<open>Properties\<close>

text \<open>
  C25. Every parser but the echo parser reports an error exactly when the response starts with the
  error status, and then shows the server's message; a response it does not report as an error
  gets the parser's own header.
\<close>

theorem parsers_report_errors:
  assumes "parse \<in> {parseQueryFacilityNamesResponse, \<lambda>r. parseQueryAvailabilityResponse r days,
    parseBookFacilityResponse, parseQueryBookingResponse, parseUpdateBookingResponse,
    parseDeleteBookingResponse, parseMonitorAvailabilityResponse, parseRateFacilityResponse,
    parseQueryRatingResponse}"
  shows "(hd (parse response) = ''Error'' \<longleftrightarrow> is_error response) \<and>
    (is_error response \<longrightarrow> parse response = [''Error'', error_text response]) \<and>
    (no_break msg \<longrightarrow> parse (STATUS_ERROR @ newline # ''message:'' @ msg) = [''Error'', msg])"
proof -
  have "\<exists>header. response_parser parse header"
    using assms unfolding insert_iff empty_iff
    by (elim disjE FalseE; hypsubst)
      (rule exI, rule names.response_parser_axioms availability.response_parser_axioms
        book.response_parser_axioms query_booking.response_parser_axioms update.response_parser_axioms
        delete.response_parser_axioms monitor.response_parser_axioms rate.response_parser_axioms
        rating.response_parser_axioms)+
  then obtain header where p: "response_parser parse header" by blast
  show ?thesis
    using response_parser.reports_error_iff [OF p] response_parser.error_response [OF p]
      response_parser.error_message [OF p]
    by (auto simp: no_break_def)
qed

theorem parsers_report_errors_witness:
  "parseDeleteBookingResponse (STATUS_ERROR @ newline # ''message:Booking not found'') =
    [''Error'', ''Booking not found'']"
  using parsers_report_errors [of parseDeleteBookingResponse "''''" "''''" "''Booking not found''"]
  by (simp add: newline_def)

text \<open>
  The echo parser never reports an error: an error text of the server, or of the client when
  the retries are used up, is shown to the user as the echoed message.
\<close>

theorem echo_parser_hides_errors:
  "hd (parseEchoMessageResponse response) \<noteq> ''Error'' \<and>
   parseEchoMessageResponse (STATUS_ERROR @ newline # ''message:'' @ msg) =
     [''Response from Server'', ''Message: '' @ STATUS_ERROR @ newline # ''message:'' @ msg]"
  by (simp add: parseEchoMessageResponse_def)

end
