(* ===== verification/Regex.thy ===== *)
theory Regex
  imports Std_Strings
begin

text \<open>
  The regular expressions of \<^verbatim>\<open>std::regex\<close> the prompts use, with \<^verbatim>\<open>std::regex_match\<close> as an
  executable matcher by derivatives. It is proved to decide membership in the language of the
  expression; \<^verbatim>\<open>regex_match\<close> matches the whole text, so the anchors of the patterns add nothing.
\<close>

section \<open>Expressions and their language\<close>

datatype regex =
    Never
  | Empty
  | One_Of "char list"
  | Alt regex regex
  | Seq regex regex
  | Many regex

inductive in_lang :: "regex \<Rightarrow> string \<Rightarrow> bool" where
  empty: "in_lang Empty ''''"
| one_of: "c \<in> set cs \<Longrightarrow> in_lang (One_Of cs) [c]"
| alt1: "in_lang r s \<Longrightarrow> in_lang (Alt r q) s"
| alt2: "in_lang q s \<Longrightarrow> in_lang (Alt r q) s"
| seq: "in_lang r s \<Longrightarrow> in_lang q t \<Longrightarrow> in_lang (Seq r q) (s @ t)"
| many0: "in_lang (Many r) ''''"
| many1: "in_lang r s \<Longrightarrow> in_lang (Many r) t \<Longrightarrow> in_lang (Many r) (s @ t)"

inductive_simps in_lang_simps [simp]:
  "in_lang Never s" "in_lang Empty s" "in_lang (One_Of cs) s" "in_lang (Alt r q) s"

inductive_cases in_lang_SeqE: "in_lang (Seq r q) s"

section \<open>The matcher\<close>

fun nullable :: "regex \<Rightarrow> bool" where
  "nullable Never = False"
| "nullable Empty = True"
| "nullable (One_Of cs) = False"
| "nullable (Alt r q) = (nullable r \<or> nullable q)"
| "nullable (Seq r q) = (nullable r \<and> nullable q)"
| "nullable (Many r) = True"

fun deriv :: "char \<Rightarrow> regex \<Rightarrow> regex" where
  "deriv c Never = Never"
| "deriv c Empty = Never"
| "deriv c (One_Of cs) = (if c \<in> set cs then Empty else Never)"
| "deriv c (Alt r q) = Alt (deriv c r) (deriv c q)"
| "deriv c (Seq r q) = (if nullable r then Alt (Seq (deriv c r) q) (deriv c q) else Seq (deriv c r) q)"
| "deriv c (Many r) = Seq (deriv c r) (Many r)"

fun regex_match :: "string \<Rightarrow> regex \<Rightarrow> bool" where
  "regex_match [] r = nullable r"
| "regex_match (c # cs) r = regex_match cs (deriv c r)"

lemma in_lang_Seq: "in_lang (Seq r q) s \<longleftrightarrow> (\<exists>u v. s = u @ v \<and> in_lang r u \<and> in_lang q v)"
  by (blast elim: in_lang_SeqE intro: in_lang.seq)

lemma nullable_iff: "nullable r \<longleftrightarrow> in_lang r ''''"
  by (induction r) (auto simp: in_lang_Seq intro: many0)

lemma in_lang_Many_Cons:
  "in_lang (Many r) (c # s) \<longleftrightarrow> (\<exists>u v. s = u @ v \<and> in_lang r (c # u) \<and> in_lang (Many r) v)"
proof
  show "\<exists>u v. s = u @ v \<and> in_lang r (c # u) \<and> in_lang (Many r) v" if "in_lang (Many r) (c # s)"
    using that
  proof (induction "Many r" "c # s" rule: in_lang.induct)
    case (many1 s1 t)
    then show ?case by (cases s1) auto
  qed
next
  assume "\<exists>u v. s = u @ v \<and> in_lang r (c # u) \<and> in_lang (Many r) v"
  then obtain u v where "s = u @ v" "in_lang r (c # u)" "in_lang (Many r) v" by blast
  then show "in_lang (Many r) (c # s)" using in_lang.many1 [of r "c # u" v] by simp
qed

lemma in_lang_deriv: "in_lang (deriv c r) s \<longleftrightarrow> in_lang r (c # s)"
proof (induction r arbitrary: s)
  case (Seq r q)
  have "in_lang (Seq r q) (c # s) \<longleftrightarrow>
      (\<exists>u v. s = u @ v \<and> in_lang r (c # u) \<and> in_lang q v) \<or> (nullable r \<and> in_lang q (c # s))"
    by (auto simp: in_lang_Seq nullable_iff Cons_eq_append_conv)
  with Seq show ?case by (auto simp: in_lang_Seq)
next
  case (Many r)
  then show ?case by (auto simp: in_lang_Seq in_lang_Many_Cons)
qed auto

lemma regex_match_iff: "regex_match s r \<longleftrightarrow> in_lang r s"
  by (induction s arbitrary: r) (simp_all add: nullable_iff in_lang_deriv)

section \<open>Building patterns\<close>

definition digits :: regex where
  "digits = One_Of ''0123456789''"

fun chars :: "string \<Rightarrow> regex" where
  "chars [] = Empty"
| "chars (c # cs) = Seq (One_Of [c]) (chars cs)"

fun times :: "nat \<Rightarrow> regex \<Rightarrow> regex" where
  "times 0 r = Empty"
| "times (Suc n) r = Seq r (times n r)"

definition optional :: "regex \<Rightarrow> regex" where
  "optional r = Alt Empty r"

text \<open>Between one and three.\<close>

definition one_to_three :: "regex \<Rightarrow> regex" where
  "one_to_three r = Seq r (optional (Seq r (optional r)))"

text \<open>Both cases of each letter, for \<^verbatim>\<open>std::regex::icase\<close>.\<close>

definition any_case :: "string \<Rightarrow> string \<Rightarrow> regex" where
  "any_case lower upper = foldr (\<lambda>(l, u) r. Seq (One_Of [l, u]) r) (zip lower upper) Empty"

definition hex_digits :: regex where
  "hex_digits = One_Of ''0123456789abcdefABCDEF''"

definition white :: regex where
  "white = One_Of [CHR '' '', CHR 0x09, CHR 0x0A, CHR 0x0B, CHR 0x0C, CHR 0x0D]"

section \<open>The patterns of the prompts\<close>

text \<open>\<^verbatim>\<open>^(\d{1,3}\.){3}\d{1,3}$|^localhost$\<close>\<close>

definition ipRegex :: regex where
  "ipRegex = Alt (Seq (times 3 (Seq (one_to_three digits) (chars ''.''))) (one_to_three digits)) (chars ''localhost'')"

text \<open>\<^verbatim>\<open>^([01]\d|2[0-3])[0-5]\d$\<close>\<close>

definition timeRegex :: regex where
  "timeRegex = Seq (Alt (Seq (One_Of ''01'') digits) (Seq (chars ''2'') (One_Of ''0123'')))
     (Seq (One_Of ''012345'') digits)"

text \<open>\<^verbatim>\<open>^[0-9a-f]{8}-[0-9a-f]{4}-4[0-9a-f]{3}-[89ab][0-9a-f]{3}-[0-9a-f]{12}$\<close>, any case.\<close>

definition bookingIDRegex :: regex where
  "bookingIDRegex = Seq (times 8 hex_digits) (Seq (chars ''-'') (Seq (times 4 hex_digits)
     (Seq (chars ''-4'') (Seq (times 3 hex_digits) (Seq (chars ''-'') (Seq (One_Of ''89abAB'')
     (Seq (times 3 hex_digits) (Seq (chars ''-'') (times 12 hex_digits)))))))))"

text \<open>\<^verbatim>\<open>^\s*(yes|y|no|n)\s*$\<close>, any case.\<close>

definition yesNoRegex :: regex where
  "yesNoRegex = Seq (Many white) (Seq
     (Alt (any_case ''yes'' ''YES'') (Alt (any_case ''y'' ''Y'') (Alt (any_case ''no'' ''NO'') (any_case ''n'' ''N''))))
     (Many white))"

text \<open>Times of the day are what the time pattern matches.\<close>

lemma in_lang_chars [simp]: "in_lang (chars p) s \<longleftrightarrow> s = p"
  by (induction p arbitrary: s) (auto simp: in_lang_Seq)

lemma in_lang_digits [simp]: "in_lang digits s \<longleftrightarrow> (\<exists>c. s = [c] \<and> isdigit c)"
  by (auto simp: digits_def isdigit_def)

lemma in_lang_Seq_One_Of: "in_lang (Seq (One_Of cs) q) s \<longleftrightarrow> (\<exists>c t. s = c # t \<and> c \<in> set cs \<and> in_lang q t)"
  unfolding in_lang_Seq in_lang_simps by (metis append_Cons append_Nil)

lemma in_lang_Seq_chars: "in_lang (Seq (chars p) q) s \<longleftrightarrow> (\<exists>t. s = p @ t \<and> in_lang q t)"
  unfolding in_lang_Seq in_lang_chars by blast

lemma digit_classes:
  "c \<in> set ''012345'' \<longleftrightarrow> isdigit c \<and> digit_val c < 6" "c \<in> set ''01'' \<longleftrightarrow> isdigit c \<and> digit_val c < 2"
  "c = CHR ''2'' \<longleftrightarrow> isdigit c \<and> digit_val c = 2" "c \<in> set ''0123'' \<longleftrightarrow> isdigit c \<and> digit_val c < 4"
  by (auto simp: isdigit_def digit_val_def)

definition is_time :: "string \<Rightarrow> bool" where
  "is_time s \<longleftrightarrow> (\<exists>a b c d. s = [a, b, c, d] \<and> isdigit a \<and> isdigit b \<and> isdigit c \<and> isdigit d \<and>
     10 * digit_val a + digit_val b < 24 \<and> 10 * digit_val c + digit_val d < 60)"

lemma two_characters:
  "in_lang (Alt (Seq (One_Of cs) digits) (Seq (chars [x]) (One_Of ds))) s \<longleftrightarrow>
   (\<exists>a b. s = [a, b] \<and> (a \<in> set cs \<and> isdigit b \<or> a = x \<and> b \<in> set ds))"
  unfolding in_lang_simps(4) in_lang_Seq_One_Of in_lang_Seq_chars in_lang_simps(3) in_lang_digits by auto

lemma hour_matched:
  "in_lang (Alt (Seq (One_Of ''01'') digits) (Seq (chars ''2'') (One_Of ''0123''))) s \<longleftrightarrow>
   (\<exists>a b. s = [a, b] \<and> isdigit a \<and> isdigit b \<and> 10 * digit_val a + digit_val b < 24)"
  (is "?l \<longleftrightarrow> ?r")
proof -
  have "?l \<longleftrightarrow> (\<exists>a b. s = [a, b] \<and> (a \<in> set ''01'' \<and> isdigit b \<or> a = CHR ''2'' \<and> b \<in> set ''0123''))"
    by (rule two_characters)
  also have "\<dots> \<longleftrightarrow> (\<exists>a b. s = [a, b] \<and> isdigit a \<and> isdigit b \<and>
      (digit_val a < 2 \<or> digit_val a = 2 \<and> digit_val b < 4))"
  proof -
    have "(a \<in> set ''01'' \<and> isdigit b \<or> a = CHR ''2'' \<and> b \<in> set ''0123'') \<longleftrightarrow>
        isdigit a \<and> isdigit b \<and> (digit_val a < 2 \<or> digit_val a = 2 \<and> digit_val b < 4)" for a b
      unfolding digit_classes by blast
    then show ?thesis by (simp only:)
  qed
  also have "\<dots> \<longleftrightarrow> ?r"
  proof -
    have "(digit_val a < 2 \<or> digit_val a = 2 \<and> digit_val b < 4) \<longleftrightarrow> 10 * digit_val a + digit_val b < 24"
      if "isdigit b" for a b
      using digit_val_less [OF that] by auto
    then show ?thesis by metis
  qed
  finally show ?thesis .
qed

lemma minute_matched:
  "in_lang (Seq (One_Of ''012345'') digits) s \<longleftrightarrow>
   (\<exists>c d. s = [c, d] \<and> isdigit c \<and> isdigit d \<and> 10 * digit_val c + digit_val d < 60)"
  (is "?l \<longleftrightarrow> ?r")
proof -
  have "?l \<longleftrightarrow> (\<exists>c d. s = [c, d] \<and> c \<in> set ''012345'' \<and> isdigit d)"
    unfolding in_lang_Seq_One_Of in_lang_digits by (auto simp del: list.set)
  also have "\<dots> \<longleftrightarrow> (\<exists>c d. s = [c, d] \<and> isdigit c \<and> isdigit d \<and> digit_val c < 6)"
    unfolding digit_classes by blast
  also have "\<dots> \<longleftrightarrow> ?r"
  proof -
    have "digit_val c < 6 \<longleftrightarrow> 10 * digit_val c + digit_val d < 60" if "isdigit d" for c d
      using digit_val_less [OF that] by auto
    then show ?thesis by metis
  qed
  finally show ?thesis .
qed

lemma timeRegex_iff: "regex_match s timeRegex \<longleftrightarrow> is_time s"
proof -
  have "in_lang timeRegex s \<longleftrightarrow> (\<exists>u v. s = u @ v \<and>
      (\<exists>a b. u = [a, b] \<and> isdigit a \<and> isdigit b \<and> 10 * digit_val a + digit_val b < 24) \<and>
      (\<exists>c d. v = [c, d] \<and> isdigit c \<and> isdigit d \<and> 10 * digit_val c + digit_val d < 60))"
    unfolding timeRegex_def in_lang_Seq [of "Alt _ _"] hour_matched minute_matched ..
  also have "\<dots> \<longleftrightarrow> is_time s"
  proof
    assume "is_time s"
    then obtain a b c d where "s = [a, b] @ [c, d]" "isdigit a" "isdigit b" "isdigit c" "isdigit d"
      "10 * digit_val a + digit_val b < 24" "10 * digit_val c + digit_val d < 60"
      by (auto simp: is_time_def)
    then show "\<exists>u v. s = u @ v \<and>
        (\<exists>a b. u = [a, b] \<and> isdigit a \<and> isdigit b \<and> 10 * digit_val a + digit_val b < 24) \<and>
        (\<exists>c d. v = [c, d] \<and> isdigit c \<and> isdigit d \<and> 10 * digit_val c + digit_val d < 60)" by blast
  qed (auto simp: is_time_def)
  finally show ?thesis by (simp add: regex_match_iff)
qed

end
