(* ===== verification/Interaction.thy ===== *)
theory Interaction
  imports Client Std_Float
begin

text \<open>
  Programs that may run forever, for the prompts and the menu: a run is \<^const>\<open>None\<close> when it does
  not end. A prompt is the iteration of one question until its answer is accepted; the locale
  \<open>asking\<close> states what a question must guarantee, and gives that the prompt returns accepted
  answers only, asks again as long as it must, and never ends once the input is used up.
\<close>

section \<open>Possibly endless programs\<close>

type_synonym ('s, 'a) proc = "'s \<Rightarrow> ((failure + 'a) \<times> 's) option"

definition run :: "('s, 'a) prog \<Rightarrow> ('s, 'a) proc" where
  "run p = (\<lambda>s. Some (p s))"

definition andthen :: "('s, 'a) proc \<Rightarrow> ('a \<Rightarrow> ('s, 'b) proc) \<Rightarrow> ('s, 'b) proc" where
  "andthen p k = (\<lambda>s. case p s of
     None \<Rightarrow> None
   | Some (Inl e, s') \<Rightarrow> Some (Inl e, s')
   | Some (Inr x, s') \<Rightarrow> k x s')"

lemma run_apply [simp]: "run p s = Some (p s)"
  by (simp add: run_def)

lemma andthen_None [simp]: "p s = None \<Longrightarrow> andthen p k s = None"
  by (simp add: andthen_def)

lemma andthen_Inl [simp]: "p s = Some (Inl e, s') \<Longrightarrow> andthen p k s = Some (Inl e, s')"
  by (simp add: andthen_def)

lemma andthen_Inr [simp]: "p s = Some (Inr x, s') \<Longrightarrow> andthen p k s = k x s'"
  by (simp add: andthen_def)

lemma andthen_SomeInrE:
  assumes "andthen p k s = Some (Inr y, s'')"
  obtains x s' where "p s = Some (Inr x, s')" and "k x s' = Some (Inr y, s'')"
  using assms by (auto simp: andthen_def split: option.splits prod.splits sum.splits)

text \<open>
  \<^verbatim>\<open>while (true)\<close> with a \<^verbatim>\<open>return\<close> in its body: a turn maps the variables of the loop to new ones
  (\<^const>\<open>Inl\<close>) or to the returned value (\<^const>\<open>Inr\<close>).
\<close>

partial_function (option) forever :: "('v \<Rightarrow> ('s, 'v + 'a) proc) \<Rightarrow> 'v \<Rightarrow> ('s, 'a) proc" where
  "forever body v s =
     (case body v s of
        None \<Rightarrow> None
      | Some (Inl e, s') \<Rightarrow> Some (Inl e, s')
      | Some (Inr (Inl v'), s') \<Rightarrow> forever body v' s'
      | Some (Inr (Inr x), s') \<Rightarrow> Some (Inr x, s'))"

lemma forever_again: "body v s = Some (Inr (Inl v'), s') \<Longrightarrow> forever body v s = forever body v' s'"
  by (subst forever.simps) simp

lemma forever_return: "body v s = Some (Inr (Inr x), s') \<Longrightarrow> forever body v s = Some (Inr x, s')"
  by (subst forever.simps) simp

lemma forever_fail: "body v s = Some (Inl e, s') \<Longrightarrow> forever body v s = Some (Inl e, s')"
  by (subst forever.simps) simp

text \<open>What a loop returned was returned by one of its turns.\<close>

text \<open>Induction over a loop that ends: the last turn, or a turn and the rest.\<close>

lemma forever_induct:
  assumes ends: "forever body v s = Some r"
    and last_turn: "\<And>v s x s'. body v s = Some (Inr (Inr x), s') \<Longrightarrow> Q v s (Inr x, s')"
    and failed: "\<And>v s e s'. body v s = Some (Inl e, s') \<Longrightarrow> Q v s (Inl e, s')"
    and turn: "\<And>v s v' s' r. body v s = Some (Inr (Inl v'), s') \<Longrightarrow> Q v' s' r \<Longrightarrow> Q v s r"
  shows "Q v s r"
proof -
  define P where "P b v s r \<longleftrightarrow> (b = body \<longrightarrow> Q v s r)" for b v s r
  have "P body v s r"
  proof (rule forever.raw_induct [where P = P, OF _ ends])
    fix self b v s r
    assume IH: "\<And>v s b' y. self v s b' = Some y \<Longrightarrow> P v s b' y"
      and eq: "(case b v s of None \<Rightarrow> None | Some (Inl e, s') \<Rightarrow> Some (Inl e, s')
        | Some (Inr (Inl v'), s') \<Rightarrow> self b v' s' | Some (Inr (Inr x), s') \<Rightarrow> Some (Inr x, s')) = Some r"
    show "P b v s r"
    proof (cases "b v s")
      case None
      with eq show ?thesis by simp
    next
      case (Some w)
      obtain o1 s' where w: "w = (o1, s')" by (cases w)
      show ?thesis
      proof (cases o1)
        case (Inl e)
        with eq Some w failed show ?thesis by (auto simp: P_def)
      next
        case (Inr o2)
        show ?thesis
        proof (cases o2)
          case (Inl v')
          with eq Some w Inr have "self b v' s' = Some r" by simp
          from IH [OF this] have q: "b = body \<Longrightarrow> Q v' s' r" by (simp add: P_def)
          have "b v s = Some (Inr (Inl v'), s')" using Some w Inr Inl by simp
          with q turn show ?thesis unfolding P_def by blast
        next
          case o2: (Inr x)
          with eq Some w Inr last_turn show ?thesis by (auto simp: P_def)
        qed
      qed
    qed
  qed
  then show ?thesis by (simp add: P_def)
qed

text \<open>What a loop returned was returned by one of its turns.\<close>

lemma forever_result:
  assumes "forever body v s = Some (Inr x, s')"
  shows "\<exists>v1 s1. body v1 s1 = Some (Inr (Inr x), s')"
proof -
  from forever_induct [OF assms, where Q = "\<lambda>v s r. \<forall>x s'. r = (Inr x, s') \<longrightarrow> (\<exists>v1 s1. body v1 s1 = Some (Inr (Inr x), s'))"]
  show ?thesis by blast
qed

text \<open>A loop that keeps returning to states from which it goes on never ends.\<close>

lemma forever_None:
  assumes "P v s" and step: "\<And>v s. P v s \<Longrightarrow> body v s = None \<or> (\<exists>v' s'. body v s = Some (Inr (Inl v'), s') \<and> P v' s')"
  shows "forever body v s = None"
proof (rule ccontr)
  assume "forever body v s \<noteq> None"
  then obtain r where "forever body v s = Some r" by blast
  then have "\<not> P v s"
    by (rule forever_induct [where Q = "\<lambda>v s r. \<not> P v s"]) (use step in fastforce)+
  with assms(1) show False by blast
qed

section \<open>The user's side of the state\<close>

record ui = client +
  cin :: istream

text \<open>An operation on \<^verbatim>\<open>std::cin\<close>.\<close>

definition from_cin :: "(istream \<Rightarrow> 'a \<times> istream) \<Rightarrow> ('k ui_scheme, 'a) prog" where
  "from_cin f = (\<lambda>s. case f (cin s) of (x, st) \<Rightarrow> (Inr x, s\<lparr>cin := st\<rparr>))"

definition on_cin :: "(istream \<Rightarrow> istream) \<Rightarrow> ('k ui_scheme, unit) prog" where
  "on_cin f = modify (\<lambda>s. s\<lparr>cin := f (cin s)\<rparr>)"

text \<open>A line on \<^verbatim>\<open>std::cout\<close> (\<^verbatim>\<open>std::endl\<close> at its end).\<close>

definition cout_line :: "string \<Rightarrow> ('k kernel_scheme, unit) prog" where
  "cout_line t = cout (t @ [newline])"

lemma run_from_cin [simp]: "from_cin f s = (Inr (fst (f (cin s))), s\<lparr>cin := snd (f (cin s))\<rparr>)"
  by (simp add: from_cin_def split: prod.split)

lemma run_on_cin [simp]: "on_cin f s = (Inr (), s\<lparr>cin := f (cin s)\<rparr>)"
  by (simp add: on_cin_def)

lemma run_cout_line [simp]: "cout_line t s = (Inr (), s\<lparr>k_cout := k_cout s @ t @ [newline]\<rparr>)"
  by (simp add: cout_line_def)

section \<open>Prompts\<close>

text \<open>The connection to the server is as it was: only the terminal has been used.\<close>

definition quiet :: "'k ui_scheme \<Rightarrow> 'k ui_scheme \<Rightarrow> bool" where
  "quiet s s' \<longleftrightarrow> k_trace s' = k_trace s \<and> k_recv s' = k_recv s \<and> k_errnos s' = k_errnos s \<and>
     k_clock s' = k_clock s \<and> k_timeout s' = k_timeout s \<and> sockfd s' = sockfd s \<and>
     serverAddr s' = serverAddr s \<and> requestID s' = requestID s \<and> k_fd s' = k_fd s \<and>
     k_inet_addr s' = k_inet_addr s \<and> k_gethostbyname s' = k_gethostbyname s"

lemma quiet_refl [simp]: "quiet s s"
  by (simp add: quiet_def)

lemma quiet_trans: "quiet s s' \<Longrightarrow> quiet s' s'' \<Longrightarrow> quiet s s''"
  by (simp add: quiet_def)

lemma quiet_terminal [simp]: "quiet s (s\<lparr>cin := st\<rparr>)" "quiet s (s\<lparr>k_cout := t\<rparr>)"
  "quiet s (s'\<lparr>cin := st\<rparr>) \<longleftrightarrow> quiet s s'" "quiet s (s'\<lparr>k_cout := t\<rparr>) \<longleftrightarrow> quiet s s'"
  by (simp_all add: quiet_def)

text \<open>Nothing more can be read.\<close>

definition exhausted :: "'k ui_scheme \<Rightarrow> bool" where
  "exhausted s \<longleftrightarrow> unread (cin s) = []"

text \<open>The loop of a prompt around the question it asks.\<close>

definition ask :: "('v \<Rightarrow> ('k ui_scheme, 'v + 'a) prog) \<Rightarrow> 'v \<Rightarrow> ('k ui_scheme, 'a) proc" where
  "ask question v = forever (\<lambda>v. run (question v)) v"

text \<open>
  A prompt that comes to an end returns an answer of the given kind, and has used nothing but the
  terminal.
\<close>

definition answers_only :: "('k ui_scheme, 'a) proc \<Rightarrow> ('a \<Rightarrow> bool) \<Rightarrow> bool" where
  "answers_only p valid \<longleftrightarrow> (\<forall>s r s'. p s = Some (r, s') \<longrightarrow> (\<exists>x. r = Inr x \<and> valid x) \<and> quiet s s')"

text \<open>The same for a prompt that may also fail, in one of the given ways.\<close>

definition answers_or_fails :: "('k ui_scheme, 'a) proc \<Rightarrow> ('a \<Rightarrow> bool) \<Rightarrow> (failure \<Rightarrow> bool) \<Rightarrow> bool" where
  "answers_or_fails p valid failing \<longleftrightarrow> (\<forall>s r s'. p s = Some (r, s') \<longrightarrow>
     (case r of Inr x \<Rightarrow> valid x | Inl e \<Rightarrow> failing e) \<and> quiet s s')"

text \<open>
  A question returns accepted answers only and uses nothing but the terminal; when it is asked
  with nothing left to read (and variables that hold no answer from before) it asks again.
\<close>

locale asking =
  fixes question :: "'v \<Rightarrow> ('k ui_scheme, 'v + 'a) prog"
    and accepted :: "'a \<Rightarrow> bool"
    and unanswered :: "'v \<Rightarrow> bool"
  assumes returns_accepted: "question v s = (Inr (Inr x), s') \<Longrightarrow> accepted x"
    and terminal_only: "question v s = (r, s') \<Longrightarrow> quiet s s'"
    and asks_again: "unanswered v \<Longrightarrow> exhausted s \<Longrightarrow>
      \<exists>v' s'. question v s = (Inr (Inl v'), s') \<and> unanswered v' \<and> exhausted s'"
begin

lemma answer_accepted: "ask question v s = Some (Inr x, s') \<Longrightarrow> accepted x"
  using forever_result [of "\<lambda>v. run (question v)" v s x s'] returns_accepted by (auto simp: ask_def)

lemma answer_quiet:
  assumes "ask question v s = Some (r, s')"
  shows "quiet s s'"
proof -
  have "quiet s (snd (r, s'))"
    using assms unfolding ask_def
    by (rule forever_induct [where Q = "\<lambda>v s r. quiet s (snd r)"])
      (auto dest: terminal_only intro: quiet_trans)
  then show ?thesis by simp
qed

lemma answered_or_failed:
  assumes "\<And>v s e s'. question v s = (Inl e, s') \<Longrightarrow> failing e"
  shows "answers_or_fails (ask question v) accepted failing"
  unfolding answers_or_fails_def
proof (intro allI impI conjI)
  fix s r s' assume p: "ask question v s = Some (r, s')"
  then show "quiet s s'" by (rule answer_quiet)
  show "case r of Inr x \<Rightarrow> accepted x | Inl e \<Rightarrow> failing e"
  proof (cases r)
    case (Inl e)
    with p have "forever (\<lambda>v. run (question v)) v s = Some (Inl e, s')" by (simp add: ask_def)
    from forever_induct [OF this, where Q = "\<lambda>v s r. \<forall>e. fst r = Inl e \<longrightarrow> failing e"] assms
    show ?thesis using Inl by fastforce
  next
    case (Inr x)
    with p show ?thesis using answer_accepted by simp
  qed
qed

lemma endless: "unanswered v \<Longrightarrow> exhausted s \<Longrightarrow> ask question v s = None"
  unfolding ask_def
  by (rule forever_None [where P = "\<lambda>v s. unanswered v \<and> exhausted s"]) (use asks_again in fastforce)+

lemma ask_again:
  "question v s = (Inr (Inl v'), s') \<Longrightarrow> ask question v s = ask question v' s'"
  by (simp add: ask_def forever_again)

lemma ask_answered:
  "question v s = (Inr (Inr x), s') \<Longrightarrow> ask question v s = Some (Inr x, s')"
  by (simp add: ask_def forever_return)

end

text \<open>A prompt that never fails: it returns an answer or asks forever.\<close>

locale total_asking = asking +
  assumes no_failure: "question v s \<noteq> (Inl e, s')"
begin

lemma never_fails: "ask question v s \<noteq> Some (Inl e, s')"
proof
  assume "ask question v s = Some (Inl e, s')"
  then have "forever (\<lambda>v. run (question v)) v s = Some (Inl e, s')" by (simp add: ask_def)
  from forever_induct [OF this, where Q = "\<lambda>v s r. \<exists>x. fst r = Inr x"] no_failure
  show False by simp
qed

lemma only_accepted: "answers_only (ask question v) accepted"
  using never_fails answer_accepted answer_quiet unfolding answers_only_def by (metis sum.exhaust)

end

end
