(* ===== verification/User_Prompts.thy ===== *)
theory User_Prompts
  imports Interaction Regex
begin

text \<open>
  The prompts of the user interface (the \<^verbatim>\<open>prompt...\<close> functions of
  \<^verbatim>\<open>Client/src/UserInterface.cpp\<close>). Each is the question its loop asks, then the loop. A
  question's argument is the local variable that survives a failed read; variables that are
  read only after a successful extraction are not carried.
\<close>

section \<open>Reading a word and checking it\<close>

text \<open>
  The common shape of the prompts for an address, a time, a booking ID and a confirmation:
  \<^verbatim>\<open>std::cin >> word\<close>, then a match of the whole word. At the end of the input the word keeps
  its old value.
\<close>

definition word_question ::
  "string \<Rightarrow> regex \<Rightarrow> string \<Rightarrow> (string \<Rightarrow> 'a) \<Rightarrow> string \<Rightarrow> ('k ui_scheme, string + 'a) prog" where
  "word_question prompt pattern complaint answer word =
     bnd (cout prompt) (\<lambda>_.
     bnd (from_cin (extract_string word)) (\<lambda>word.
     if regex_match word pattern then ret (Inr (answer word))
     else bnd (cout_line complaint) (\<lambda>_. ret (Inl word))))"

definition promptServerIP :: "string \<Rightarrow> ('k ui_scheme, string) proc" where
  "promptServerIP prompt =
     ask (word_question prompt ipRegex ''Invalid IPv4 address. Please try again.'' (\<lambda>serverIp. serverIp)) ''''"

definition promptTime :: "string \<Rightarrow> ('k ui_scheme, string) proc" where
  "promptTime prompt =
     ask (word_question prompt timeRegex
       ''Invalid time format. Please enter a valid time between 0000 and 2359.'' (\<lambda>timeStr. timeStr)) ''''"

definition promptBookingID :: "string \<Rightarrow> ('k ui_scheme, string) proc" where
  "promptBookingID prompt =
     ask (word_question prompt bookingIDRegex ''Invalid booking ID. Please try again.'' (\<lambda>bookingID. bookingID)) ''''"

definition is_yes :: "string \<Rightarrow> bool" where
  "is_yes response \<longleftrightarrow> response \<noteq> [] \<and> (hd response = CHR ''y'' \<or> hd response = CHR ''Y'')"

definition promptConfirmation :: "string \<Rightarrow> ('k ui_scheme, bool) proc" where
  "promptConfirmation prompt =
     ask (word_question prompt yesNoRegex ''Invalid input. Please enter 'yes' or 'no'.'' is_yes) ''''"

section \<open>Port\<close>

text \<open>
  \<^verbatim>\<open>std::stoi\<close> decides, not the unused \<^verbatim>\<open>portRegex\<close>: trailing characters are ignored.
\<close>

definition port_question :: "string \<Rightarrow> string \<Rightarrow> ('k ui_scheme, string + int) prog" where
  "port_question prompt serverPortStr =
     bnd (cout prompt) (\<lambda>_.
     bnd (from_cin (extract_string serverPortStr)) (\<lambda>serverPortStr.
     case stoi serverPortStr of
       Inr serverPort \<Rightarrow>
         if 0 < serverPort \<and> serverPort \<le> 65535 then ret (Inr serverPort)
         else bnd (cout_line ''Invalid port number. Please enter a value between 1 and 65535.'') (\<lambda>_. ret (Inl serverPortStr))
     | Inl (Throws Invalid_Argument) \<Rightarrow>
         bnd (cout_line ''Invalid port number. Please try again.'') (\<lambda>_. ret (Inl serverPortStr))
     | Inl (Throws (Out_Of_Range _)) \<Rightarrow>
         bnd (cout_line ''Port number out of range. Please try again.'') (\<lambda>_. ret (Inl serverPortStr))
     | Inl e \<Rightarrow> fail e))"

definition promptServerPort :: "string \<Rightarrow> ('k ui_scheme, int) proc" where
  "promptServerPort prompt = ask (port_question prompt) ''''"

section \<open>Numbers\<close>

text \<open>After a failed extraction the stream is cleared and the rest of the line discarded.\<close>

definition discard_line :: "('k ui_scheme, unit) prog" where
  "discard_line = bnd (on_cin clear) (\<lambda>_. on_cin ignore_line)"

text \<open>\<^verbatim>\<open>std::cin.fail()\<close>\<close>

definition cin_fail :: "('k ui_scheme, bool) prog" where
  "cin_fail = from_cin (\<lambda>st. (failbit st, st))"

definition choice_question :: "string \<Rightarrow> unit \<Rightarrow> ('k ui_scheme, unit + int) prog" where
  "choice_question prompt _ =
     bnd (cout prompt) (\<lambda>_.
     bnd (from_cin (extract_int 0)) (\<lambda>choice.
     bnd cin_fail (\<lambda>failed.
     if failed then
       bnd discard_line (\<lambda>_.
       bnd (cout_line ''Invalid input. Please enter a number.'') (\<lambda>_. ret (Inl ())))
     else if choice < 1 \<or> 11 < choice then
       bnd (cout_line ''Invalid choice. Please enter a number between 1 and 11.'') (\<lambda>_. ret (Inl ()))
     else ret (Inr choice))))"

definition promptChoice :: "string \<Rightarrow> ('k ui_scheme, int) proc" where
  "promptChoice prompt = ask (choice_question prompt) ()"

definition day_question :: "string \<Rightarrow> unit \<Rightarrow> ('k ui_scheme, unit + string) prog" where
  "day_question prompt _ =
     bnd (cout (generateBox DAYS_OF_WEEK_MENU)) (\<lambda>_.
     bnd (cout prompt) (\<lambda>_.
     bnd (from_cin (extract_int 0)) (\<lambda>choice.
     bnd cin_fail (\<lambda>failed.
     if failed \<or> choice < 1 \<or> 7 < choice then
       bnd discard_line (\<lambda>_.
       bnd (cout_line ''Invalid input. Please enter a number between 1 and 7.'') (\<lambda>_. ret (Inl ())))
     else ret (Inr (DAYS_OF_WEEK ! nat (choice - 1)))))))"

definition promptDayOfWeek :: "string \<Rightarrow> ('k ui_scheme, string) proc" where
  "promptDayOfWeek prompt = ask (day_question prompt) ()"

definition offset_question :: "string \<Rightarrow> unit \<Rightarrow> ('k ui_scheme, unit + int) prog" where
  "offset_question prompt _ =
     bnd (cout prompt) (\<lambda>_.
     bnd (from_cin (extract_int 0)) (\<lambda>offset.
     bnd cin_fail (\<lambda>failed.
     if failed then
       bnd discard_line (\<lambda>_.
       bnd (cout_line ''Invalid input. Please enter an integer value for the offset in minutes.'') (\<lambda>_. ret (Inl ())))
     else if offset = 0 then
       bnd (cout_line ''Offset cannot be zero. Please enter a non-zero integer value.'') (\<lambda>_. ret (Inl ()))
     else ret (Inr offset))))"

definition promptOffset :: "string \<Rightarrow> ('k ui_scheme, int) proc" where
  "promptOffset prompt = ask (offset_question prompt) ()"

definition rating_question :: "string \<Rightarrow> unit \<Rightarrow> ('k ui_scheme, unit + rat) prog" where
  "rating_question prompt _ =
     bnd (cout prompt) (\<lambda>_.
     bnd (from_cin (extract_float 0)) (\<lambda>rating.
     bnd cin_fail (\<lambda>failed.
     if failed \<or> rating < 1 \<or> 5 < rating then
       bnd discard_line (\<lambda>_.
       bnd (cout_line ''Invalid input. Please enter a number between 1 and 5.'') (\<lambda>_. ret (Inl ())))
     else ret (Inr rating))))"

definition promptRating :: "string \<Rightarrow> ('k ui_scheme, rat) proc" where
  "promptRating prompt = ask (rating_question prompt) ()"

section \<open>Lines\<close>

definition read_line :: "string \<Rightarrow> ('k ui_scheme, string) prog" where
  "read_line old = from_cin (\<lambda>st. case getline newline old st of (ok, line, st') \<Rightarrow> (line, st'))"

text \<open>One character is skipped, the newline that the last number or word left behind.\<close>

definition ask_line :: "string \<Rightarrow> ('k ui_scheme, string) prog" where
  "ask_line prompt = bnd (cout prompt) (\<lambda>_. bnd (on_cin ignore_one) (\<lambda>_. read_line ''''))"

definition promptFacilityName :: "string \<Rightarrow> ('k ui_scheme, string) prog" where
  "promptFacilityName prompt = ask_line prompt"

text \<open>A number that is not positive is complained about twice: its branch falls through.\<close>

definition duration_question :: "string \<Rightarrow> string \<Rightarrow> ('k ui_scheme, string + int) prog" where
  "duration_question prompt input =
     bnd (cout prompt) (\<lambda>_.
     bnd (read_line input) (\<lambda>input.
     let again = bnd (cout_line ''Invalid input. Please enter a positive number.'') (\<lambda>_. ret (Inl input)) in
     if input \<noteq> [] \<and> list_all isdigit input then
       (case stoi input of
          Inr duration \<Rightarrow>
            if 0 < duration then ret (Inr duration)
            else bnd (cout_line ''Please enter a positive number.'') (\<lambda>_. again)
        | Inl (Throws (Out_Of_Range _)) \<Rightarrow>
            bnd (cout_line ''Number too large. Please enter a smaller positive number.'') (\<lambda>_. again)
        | Inl e \<Rightarrow> fail e)
     else again))"

definition promptDuration :: "string \<Rightarrow> ('k ui_scheme, int) proc" where
  "promptDuration prompt = ask (duration_question prompt) ''''"

section \<open>Several days\<close>

text \<open>
  The loop over the tokens: the days selected, or nothing when a token is invalid. Only
  \<^verbatim>\<open>std::invalid_argument\<close> is caught.
\<close>

fun select_days :: "string list \<Rightarrow> string list \<Rightarrow> ('k ui_scheme, string list option) prog" where
  "select_days [] selectedDays = ret (Some selectedDays)"
| "select_days (choiceStr # tokens) selectedDays =
     (case stoi choiceStr of
        Inr choice \<Rightarrow>
          if choice < 1 \<or> 7 < choice then
            bnd (cout_line (''Invalid input: '' @ choiceStr @ ''. Please enter numbers between 1 and 7.'')) (\<lambda>_. ret None)
          else select_days tokens (selectedDays @ [DAYS_OF_WEEK ! nat (choice - 1)])
      | Inl (Throws Invalid_Argument) \<Rightarrow>
          bnd (cout_line (''Invalid input: '' @ choiceStr @ ''. Please enter valid numbers separated by commas.'')) (\<lambda>_. ret None)
      | Inl e \<Rightarrow> fail e)"

text \<open>An empty selection dereferences the first element of an empty vector.\<close>

definition days_question :: "string \<Rightarrow> unit \<Rightarrow> ('k ui_scheme, unit + string) prog" where
  "days_question prompt _ =
     bnd (cout (generateBox DAYS_OF_WEEK_MENU)) (\<lambda>_.
     bnd (cout prompt) (\<lambda>_.
     bnd (from_cin (extract_string '''')) (\<lambda>input.
     let tokens = getline_loop (CHR '','') (\<lambda>token tokens. tokens @ [token]) [] (istringstream input) in
     bnd (select_days tokens []) (\<lambda>selected.
     case selected of
       None \<Rightarrow> ret (Inl ())
     | Some selectedDays \<Rightarrow>
         if selectedDays = [] then fail (Undefined ''first element of an empty vector'')
         else ret (Inr (join '','' selectedDays))))))"

definition promptDaysOfWeek :: "string \<Rightarrow> ('k ui_scheme, string) proc" where
  "promptDaysOfWeek prompt = ask (days_question prompt) ()"

section \<open>The questions meet the contract\<close>

lemma extract_string_exhausted:
  "unread st = [] \<Longrightarrow> fst (extract_string old st) = old \<and> unread (snd (extract_string old st)) = []"
  by (simp add: extract_string_def)

lemma extract_int_exhausted:
  "unread st = [] \<Longrightarrow> unread (snd (extract_int old st)) = [] \<and> failbit (snd (extract_int old st))"
  by (simp add: extract_int_def)

lemma extract_float_exhausted:
  "unread st = [] \<Longrightarrow> unread (snd (extract_float old st)) = [] \<and> failbit (snd (extract_float old st))"
  by (simp add: extract_float_def)

lemma ignore_line_exhausted: "unread st = [] \<Longrightarrow> unread (ignore_line st) = []"
  by (simp add: ignore_line_def)

lemma clear_unread [simp]: "unread (clear st) = unread st"
  by (simp add: clear_def)

lemma run_discard_line [simp]: "discard_line s = (Inr (), s\<lparr>cin := ignore_line (clear (cin s))\<rparr>)"
  by (simp add: discard_line_def)

lemma run_cin_fail [simp]: "cin_fail s = (Inr (failbit (cin s)), s)"
  by (simp add: cin_fail_def)

lemma bnd_cin_fail [simp]: "bnd cin_fail k s = k (failbit (cin s)) s"
  by (rule run_bnd_Inr) (rule run_cin_fail)

lemma quiet_simps [simp]: "quiet s (s\<lparr>k_cout := t, cin := st\<rparr>)"
  by (simp add: quiet_def)

interpretation word: total_asking "word_question prompt pattern complaint answer"
  "\<lambda>x. \<exists>w. regex_match w pattern \<and> x = answer w" "\<lambda>w. \<not> regex_match w pattern"
  for prompt pattern complaint answer
  by unfold_locales (auto simp: word_question_def quiet_def exhausted_def extract_string_exhausted split: if_splits)

interpretation port: total_asking "port_question prompt" "\<lambda>p. 0 < p \<and> p \<le> 65535" "\<lambda>w. w = ''''" for prompt
proof (unfold_locales, goal_cases)
  case (4 v s e s')
  have "stoi t = Inl x \<Longrightarrow> x = Throws Invalid_Argument \<or> x = Throws (Out_Of_Range ''stoi'')" for t x
    by (auto simp: stoi_def Let_def split: prod.splits if_splits)
  then show ?case by (auto simp: port_question_def split: if_splits sum.splits failure.splits exn.splits)
next
  case (3 v s)
  then show ?case by (auto simp: port_question_def exhausted_def extract_string_exhausted stoi_def)
qed (auto simp: port_question_def quiet_def split: if_splits sum.splits failure.splits exn.splits)

interpretation choice: total_asking "choice_question prompt" "\<lambda>c. 1 \<le> c \<and> c \<le> 11" "\<lambda>_. True" for prompt
  by unfold_locales (auto simp: choice_question_def quiet_def exhausted_def extract_int_exhausted
      ignore_line_exhausted split: if_splits)

interpretation day: total_asking "day_question prompt" "\<lambda>d. d \<in> set DAYS_OF_WEEK" "\<lambda>_. True" for prompt
proof (unfold_locales, goal_cases)
  case (1 v s x s')
  have "1 \<le> c \<Longrightarrow> c \<le> 7 \<Longrightarrow> DAYS_OF_WEEK ! nat (c - 1) \<in> set DAYS_OF_WEEK" for c
    by (rule nth_mem) (auto simp: DAYS_OF_WEEK_def)
  with 1 show ?case by (auto simp: day_question_def split: if_splits)
qed (auto simp: day_question_def quiet_def exhausted_def extract_int_exhausted ignore_line_exhausted split: if_splits)

interpretation offset: total_asking "offset_question prompt" "\<lambda>i. i \<noteq> 0 \<and> in_int i" "\<lambda>_. True" for prompt
proof (unfold_locales, goal_cases)
  case (1 v s x s')
  have "in_int (fst (extract_int 0 st))" for st
    by (auto simp: extract_int_def Let_def in_int_def INT_MIN_def INT_MAX_def split: list.splits prod.splits)
  with 1 show ?case by (auto simp: offset_question_def split: if_splits)
qed (auto simp: offset_question_def quiet_def exhausted_def extract_int_exhausted ignore_line_exhausted split: if_splits)

interpretation rating: total_asking "rating_question prompt" "\<lambda>r. 1 \<le> r \<and> r \<le> 5" "\<lambda>_. True" for prompt
  by unfold_locales (auto simp: rating_question_def quiet_def exhausted_def extract_float_exhausted
      ignore_line_exhausted split: if_splits)

lemma stoi_of_digits:
  assumes "input \<noteq> []" and "list_all isdigit input"
  shows "stoi input = (if in_int (int (digits_val input)) then Inr (int (digits_val input))
    else Inl (Throws (Out_Of_Range ''stoi'')))"
proof -
  obtain c cs where c: "input = c # cs" "isdigit c" using assms by (cases input) auto
  then have "dropWhile isspace input = input" "split_sign input = (False, input)"
    using isdigit_not_space [of c] by auto
  moreover have "takeWhile isdigit input = input"
    using assms(2) by (simp add: takeWhile_eq_all_conv list_all_iff)
  ultimately show ?thesis using assms(1) by (simp add: stoi_def del: takeWhile_eq_all_conv)
qed

interpretation duration: total_asking "duration_question prompt" "\<lambda>i. 0 < i \<and> in_int i" "\<lambda>w. w = ''''" for prompt
proof (unfold_locales, goal_cases)
  case (3 v s)
  have "fst (case getline newline '''' st of (ok, line, st') \<Rightarrow> (line, st')) = ''''"
    "unread (snd (case getline newline '''' st of (ok, line, st') \<Rightarrow> (line, st'))) = ''''"
    if "unread st = []" for st
    using that by (auto simp: getline_def)
  with 3 show ?case by (simp add: duration_question_def exhausted_def read_line_def Let_def)
qed (auto simp: duration_question_def quiet_def read_line_def Let_def stoi_of_digits split: if_splits)

text \<open>Selecting several days can fail, and never asks again at the end of the input.\<close>

lemma select_days_result:
  "select_days tokens sel s = (Inr (Some days), s') \<Longrightarrow> set sel \<subseteq> set DAYS_OF_WEEK \<Longrightarrow>
   set days \<subseteq> set DAYS_OF_WEEK \<and> length days = length sel + length tokens"
proof (induction tokens arbitrary: sel)
  case (Cons t tokens)
  have "\<exists>c. stoi t = Inr c \<and> \<not> (c < 1 \<or> 7 < c)"
    using Cons.prems(1) by (auto split: sum.splits failure.splits exn.splits if_splits)
  then obtain c where c: "stoi t = Inr c" "\<not> (c < 1 \<or> 7 < c)" by blast
  have "DAYS_OF_WEEK ! nat (c - 1) \<in> set DAYS_OF_WEEK"
    using c(2) by (intro nth_mem) (auto simp: DAYS_OF_WEEK_def)
  moreover have "select_days tokens (sel @ [DAYS_OF_WEEK ! nat (c - 1)]) s = (Inr (Some days), s')"
    using Cons.prems(1) c by simp
  ultimately show ?case using Cons.IH [of "sel @ [DAYS_OF_WEEK ! nat (c - 1)]"] Cons.prems(2) by simp
qed simp

lemma select_days_quiet: "select_days tokens sel s = (r, s') \<Longrightarrow> quiet s s' \<and> cin s' = cin s"
  by (induction tokens arbitrary: sel)
    (auto simp: quiet_def split: sum.splits failure.splits exn.splits if_splits)

interpretation days: asking "days_question prompt"
  "\<lambda>t. \<exists>days. days \<noteq> [] \<and> set days \<subseteq> set DAYS_OF_WEEK \<and> t = join '','' days" "\<lambda>_. False" for prompt
proof (unfold_locales, goal_cases)
  case (1 v s x s')
  then show ?case
    by (auto simp: days_question_def Let_def elim!: bnd_InrE split: option.splits if_splits dest!: select_days_result)
next
  case (2 v s r s')
  then show ?case
    by (auto simp: days_question_def Let_def bnd_def split: prod.splits sum.splits option.splits if_splits
        dest!: select_days_quiet) (auto simp: quiet_def)
qed simp

lemma select_days_failure:
  "select_days tokens sel s = (Inl e, s') \<Longrightarrow> e = Throws (Out_Of_Range ''stoi'')"
proof (induction tokens arbitrary: sel)
  case (Cons t tokens)
  have "stoi t = Inl x \<Longrightarrow> x = Throws Invalid_Argument \<or> x = Throws (Out_Of_Range ''stoi'')" for x
    by (auto simp: stoi_def Let_def split: prod.splits if_splits)
  with Cons show ?case by (cases "stoi t") (auto split: if_splits)
qed simp

definition selection_failure :: "failure \<Rightarrow> bool" where
  "selection_failure e \<longleftrightarrow>
     e = Throws (Out_Of_Range ''stoi'') \<or> e = Undefined ''first element of an empty vector''"

lemma days_question_failure: "days_question t v s = (Inl e, s') \<Longrightarrow> selection_failure e"
  by (auto simp: days_question_def selection_failure_def Let_def bnd_def dest!: select_days_failure
      split: prod.splits sum.splits option.splits if_splits)

lemma promptDaysOfWeek_answers:
  "answers_or_fails (promptDaysOfWeek t)
     (\<lambda>x. \<exists>days. days \<noteq> [] \<and> set days \<subseteq> set DAYS_OF_WEEK \<and> x = join '','' days) selection_failure"
  unfolding promptDaysOfWeek_def by (rule days.answered_or_failed) (rule days_question_failure)

text \<open>The prompt for a line always returns, whatever the line.\<close>

lemma promptFacilityName_answers:
  "\<exists>line s'. promptFacilityName t s = (Inr line, s') \<and> newline \<notin> set line \<and> quiet s s'"
proof -
  have "newline \<notin> set line" if "getline newline [] st = (ok, line, st')" for ok line st st'
    using that by (auto simp: getline_def Let_def split: if_splits list.splits dest: set_takeWhileD)
  then show ?thesis
    by (auto simp: promptFacilityName_def ask_line_def read_line_def split: prod.splits)
qed

section \<open>The first matching word\<close>

definition plain_word :: "string \<Rightarrow> bool" where
  "plain_word w \<longleftrightarrow> w \<noteq> [] \<and> (\<forall>c\<in>set w. \<not> isspace c)"

lemma isspace_newline [simp]: "isspace newline"
  by (simp add: isspace_def newline_def)

lemma extract_string_word:
  assumes "good st" and "unread st = pre @ w @ newline # rest" and "\<forall>c\<in>set pre. isspace c" and "plain_word w"
  shows "extract_string old st = (w, st\<lparr>unread := newline # rest\<rparr>)"
proof -
  obtain c cs where w: "w = c # cs" using assms(4) by (cases w) (auto simp: plain_word_def)
  have "dropWhile isspace (pre @ w @ newline # rest) = w @ newline # rest"
    using assms(3,4) w by (simp add: dropWhile_append2 plain_word_def)
  moreover have "takeWhile (\<lambda>c. \<not> isspace c) (w @ newline # rest) = w"
    "dropWhile (\<lambda>c. \<not> isspace c) (w @ newline # rest) = newline # rest"
    using assms(4) by (simp_all add: plain_word_def takeWhile_append2 dropWhile_append2)
  ultimately show ?thesis using assms(1,2) w by (simp add: extract_string_def)
qed

lemma ask_word_first_match:
  assumes "good (cin s)" and "unread (cin s) = pre @ terminated newline bad @ w @ newline # rest"
    and "\<forall>c\<in>set pre. isspace c" and "\<forall>b\<in>set bad. plain_word b \<and> \<not> regex_match b pattern"
    and "plain_word w" and "regex_match w pattern"
  shows "\<exists>s'. ask (word_question prompt pattern complaint answer) old s = Some (Inr (answer w), s') \<and>
    unread (cin s') = newline # rest \<and> good (cin s') \<and> quiet s s'"
  using assms(1-4)
proof (induction bad arbitrary: pre old s)
  case Nil
  let ?s = "s\<lparr>k_cout := k_cout s @ prompt, cin := (cin s)\<lparr>unread := newline # rest\<rparr>\<rparr>"
  have "extract_string old (cin s) = (w, (cin s)\<lparr>unread := newline # rest\<rparr>)"
    using Nil assms(5) by (intro extract_string_word) auto
  then have "word_question prompt pattern complaint answer old s = (Inr (Inr (answer w)), ?s)"
    using assms(6) by (simp add: word_question_def)
  from word.ask_answered [OF this] show ?case using Nil(1) by (simp add: quiet_def good_def)
next
  case (Cons b bad)
  let ?u = "terminated newline bad @ w @ newline # rest"
  let ?s = "s\<lparr>k_cout := k_cout s @ prompt @ complaint @ [newline], cin := (cin s)\<lparr>unread := newline # ?u\<rparr>\<rparr>"
  have "extract_string old (cin s) = (b, (cin s)\<lparr>unread := newline # ?u\<rparr>)"
    using Cons.prems by (intro extract_string_word) auto
  then have "word_question prompt pattern complaint answer old s = (Inr (Inl b), ?s)"
    using Cons.prems(4) by (simp add: word_question_def)
  note again = word.ask_again [OF this]
  have "\<exists>s'. ask (word_question prompt pattern complaint answer) b ?s = Some (Inr (answer w), s') \<and>
      unread (cin s') = newline # rest \<and> good (cin s') \<and> quiet ?s s'"
    using Cons.prems by (intro Cons.IH [of _ "[newline]"]) (auto simp: good_def)
  with again show ?case by (auto simp: quiet_def)
qed

section \<open>Several words\<close>

text \<open>The tokens of the word that the days are read from.\<close>

lemma snoc_fold: "fold (\<lambda>token tokens. tokens @ [token]) xs acc = acc @ xs"
  by (induction xs arbitrary: acc) simp_all

lemma days_word:
  assumes "good (cin s)" and "unread (cin s) = pre @ w @ newline # rest" and "\<forall>c\<in>set pre. isspace c" and "plain_word w"
  shows "\<exists>s1. days_question p v s = bnd (select_days (lines_of (CHR '','') w) []) (\<lambda>selected.
      case selected of None \<Rightarrow> ret (Inl ())
      | Some selectedDays \<Rightarrow>
         if selectedDays = [] then fail (Undefined ''first element of an empty vector'')
         else ret (Inr (join '','' selectedDays))) s1 \<and> unread (cin s1) = newline # rest \<and> quiet s s1"
proof -
  let ?s = "s\<lparr>k_cout := k_cout s @ generateBox DAYS_OF_WEEK_MENU @ p\<rparr>"
  let ?s1 = "?s\<lparr>cin := (cin s)\<lparr>unread := newline # rest\<rparr>\<rparr>"
  have e: "extract_string '''' (cin s) = (w, (cin s)\<lparr>unread := newline # rest\<rparr>)"
    by (rule extract_string_word [OF assms])
  have t: "getline_loop (CHR '','') (\<lambda>token tokens. tokens @ [token]) [] (istringstream w) = lines_of (CHR '','') w"
    by (simp add: snoc_fold)
  show ?thesis
    by (intro exI [of _ ?s1]) (simp add: days_question_def e t quiet_def del: getline_loop_istringstream)
qed

definition day_choice :: "int \<Rightarrow> string" where
  "day_choice c = DAYS_OF_WEEK ! nat (c - 1)"

lemma select_days_valid:
  "\<forall>c\<in>set cs. 1 \<le> c \<and> c \<le> 7 \<Longrightarrow>
   select_days (map to_string cs @ tokens) sel s = select_days tokens (sel @ map day_choice cs) s"
proof (induction cs arbitrary: sel)
  case (Cons c cs)
  have "stoi (to_string c) = Inr c"
    using Cons.prems by (intro stoi_to_string) (auto simp: in_int_def INT_MIN_def INT_MAX_def)
  with Cons show ?case by (simp add: day_choice_def)
qed simp

text \<open>Prompts whose answer is the word itself.\<close>

lemma plain_answers:
  "answers_only (ask (word_question p pattern complaint (\<lambda>x. x)) v) (\<lambda>x. regex_match x pattern)"
  "answers_only (ask (word_question p timeRegex complaint (\<lambda>x. x)) v) is_time"
  using word.only_accepted [where answer = "\<lambda>x. x" and pattern = pattern]
    word.only_accepted [where answer = "\<lambda>x. x" and pattern = timeRegex]
  by (simp_all add: timeRegex_iff)

text \<open>A number is read up to the first character that is not a digit.\<close>

lemma stoi_prefix:
  assumes "0 \<le> i" and "in_int i" and "junk \<noteq> [] \<longrightarrow> \<not> isdigit (hd junk)"
  shows "stoi (to_string i @ junk) = Inr i"
proof -
  let ?n = "to_string_nat (nat i)"
  obtain c cs where c: "?n = c # cs" "isdigit c"
    using to_string_nat_digits [of "hd ?n" "nat i"] by (cases ?n) auto
  have "dropWhile isspace (?n @ junk) = ?n @ junk" "split_sign (?n @ junk) = (False, ?n @ junk)"
    using c isdigit_not_space [OF c(2)] by auto
  moreover have "takeWhile isdigit junk = []" using assms(3) by (cases junk) auto
  then have "takeWhile isdigit (?n @ junk) = ?n"
    by (simp add: takeWhile_append2 to_string_nat_digits)
  ultimately show ?thesis using assms(1,2) by (simp add: stoi_def to_string_def)
qed

lemma to_string_no_space: "c \<in> set (to_string i) \<Longrightarrow> \<not> isspace c"
  using isdigit_not_space to_string_nat_digits by (auto simp: to_string_def isspace_def split: if_splits)

lemma port_answered:
  assumes "good (cin s)" and "unread (cin s) = pre @ to_string port @ junk @ newline # rest" and "\<forall>c\<in>set pre. isspace c"
    and "1 \<le> port" and "port \<le> 65535" and "\<forall>c\<in>set junk. \<not> isspace c" and "junk \<noteq> [] \<longrightarrow> \<not> isdigit (hd junk)"
  shows "\<exists>s'. promptServerPort t s = Some (Inr port, s') \<and> unread (cin s') = newline # rest \<and> quiet s s'"
proof -
  let ?w = "to_string port @ junk"
  have "plain_word ?w" using assms(6) to_string_no_space by (auto simp: plain_word_def)
  then have "extract_string [] (cin s) = (?w, (cin s)\<lparr>unread := newline # rest\<rparr>)"
    using assms(1-3) by (intro extract_string_word) auto
  moreover have "stoi ?w = Inr port"
    using assms(4,5,7) by (intro stoi_prefix) (auto simp: in_int_def INT_MIN_def INT_MAX_def)
  ultimately have "port_question t [] s =
      (Inr (Inr port), s\<lparr>k_cout := k_cout s @ t, cin := (cin s)\<lparr>unread := newline # rest\<rparr>\<rparr>)"
    using assms(4,5) by (simp add: port_question_def)
  from port.ask_answered [OF this] show ?thesis by (simp add: promptServerPort_def quiet_def)
qed

text \<open>What each prompt returns.\<close>

lemma prompts_valid:
  "answers_only (promptServerIP t) (\<lambda>ip. regex_match ip ipRegex)"
  "answers_only (promptServerPort t) (\<lambda>port. 0 < port \<and> port \<le> 65535)"
  "answers_only (promptChoice t) (\<lambda>choice. 1 \<le> choice \<and> choice \<le> 11)"
  "answers_only (promptDayOfWeek t) (\<lambda>day. day \<in> set DAYS_OF_WEEK)"
  "answers_only (promptTime t) is_time"
  "answers_only (promptBookingID t) (\<lambda>i. regex_match i bookingIDRegex)"
  "answers_only (promptConfirmation t) (\<lambda>yes. \<exists>word. regex_match word yesNoRegex \<and> yes = is_yes word)"
  "answers_only (promptOffset t) (\<lambda>offset. offset \<noteq> 0 \<and> in_int offset)"
  "answers_only (promptRating t) (\<lambda>rating. 1 \<le> rating \<and> rating \<le> 5)"
  "answers_only (promptDuration t) (\<lambda>duration. 0 < duration \<and> in_int duration)"
  unfolding promptServerIP_def promptServerPort_def promptChoice_def promptDayOfWeek_def promptTime_def
    promptBookingID_def promptConfirmation_def promptOffset_def promptRating_def promptDuration_def
  by (rule plain_answers word.only_accepted port.only_accepted choice.only_accepted day.only_accepted
      offset.only_accepted rating.only_accepted duration.only_accepted)+

text \<open>The program on a given network with a given input, for evaluation.\<close>

definition ui_on :: "string \<Rightarrow> (nat \<times> recv_event) list \<Rightarrow> ui" where
  "ui_on input events = client.extend (client_on events) (ui.fields (istringstream input))"

lemma ui_on_simps [simp]:
  "cin (ui_on t es) = istringstream t" "k_recv (ui_on t es) = es" "requestID (ui_on t es) = 0"
  "k_errnos (ui_on t es) = []" "k_trace (ui_on t es) = []" "k_clock (ui_on t es) = 0"
  "k_timeout (ui_on t es) = TIMEOUT_SEC" "k_cout (ui_on t es) = ''''"
  by (simp_all add: ui_on_def client_on_def client.defs ui.defs)

lemma istringstream_simps [simp]: "unread (istringstream t) = t" "good (istringstream t)"
  by (simp_all add: istringstream_def good_def)

section \<open>Properties\<close>

text \<open>
  C34. The ten prompts that validate their answer either ask forever or return a valid one, and
  never fail: an address or \<^verbatim>\<open>localhost\<close> by its pattern, a port from 1 to 65535, a choice from 1 to
  11, a day of the week, a time of the day, a booking ID by its pattern, yes or no, a nonzero
  \<^verbatim>\<open>int\<close>, a rating from 1 to 5, a positive \<^verbatim>\<open>int\<close>. The prompt for several days returns only
  nonempty lists of days of the week, separated by commas, but it can also end in
  \<^verbatim>\<open>std::out_of_range\<close> or with the first element of an empty vector; the prompt for a facility name
  always returns, with any text on one line. No prompt touches the connection to the server.
\<close>

theorem prompts_return_valid_answers:
  "answers_only (promptServerIP t) (\<lambda>ip. regex_match ip ipRegex) \<and>
   answers_only (promptServerPort t) (\<lambda>port. 0 < port \<and> port \<le> 65535) \<and>
   answers_only (promptChoice t) (\<lambda>choice. 1 \<le> choice \<and> choice \<le> 11) \<and>
   answers_only (promptDayOfWeek t) (\<lambda>day. day \<in> set DAYS_OF_WEEK) \<and>
   answers_only (promptTime t) is_time \<and>
   answers_only (promptBookingID t) (\<lambda>i. regex_match i bookingIDRegex) \<and>
   answers_only (promptConfirmation t) (\<lambda>yes. \<exists>word. regex_match word yesNoRegex \<and> yes = is_yes word) \<and>
   answers_only (promptOffset t) (\<lambda>offset. offset \<noteq> 0 \<and> in_int offset) \<and>
   answers_only (promptRating t) (\<lambda>rating. 1 \<le> rating \<and> rating \<le> 5) \<and>
   answers_only (promptDuration t) (\<lambda>duration. 0 < duration \<and> in_int duration) \<and>
   answers_or_fails (promptDaysOfWeek t)
     (\<lambda>x. \<exists>days. days \<noteq> [] \<and> set days \<subseteq> set DAYS_OF_WEEK \<and> x = join '','' days)
     (\<lambda>e. e = Throws (Out_Of_Range ''stoi'') \<or> e = Undefined ''first element of an empty vector'') \<and>
   (\<exists>line s'. promptFacilityName t s = (Inr line, s') \<and> newline \<notin> set line \<and> quiet s s')"
  unfolding selection_failure_def [symmetric]
  by (intro conjI prompts_valid promptDaysOfWeek_answers promptFacilityName_answers)

text \<open>
  The prompt for a time skips whatever is not a time of the day and returns the first word
  that is one, leaving the rest of the input for the next prompt.
\<close>

theorem first_valid_time_taken:
  assumes "good (cin s)" and "unread (cin s) = terminated newline wrong @ right @ newline # rest"
    and "\<forall>w\<in>set wrong. plain_word w \<and> \<not> is_time w" and "is_time right"
  shows "\<exists>s'. promptTime t s = Some (Inr right, s') \<and> unread (cin s') = newline # rest \<and> quiet s s'"
proof -
  have "plain_word right"
    using assms(4) isdigit_not_space by (auto simp: is_time_def plain_word_def)
  then have "\<exists>s'. ask (word_question t timeRegex complaint (\<lambda>x. x)) [] s = Some (Inr right, s') \<and>
      unread (cin s') = newline # rest \<and> good (cin s') \<and> quiet s s'" for complaint
    using assms by (intro ask_word_first_match [where pre = "''''" and bad = wrong]) (auto simp: timeRegex_iff)
  then show ?thesis unfolding promptTime_def by blast
qed

theorem first_valid_time_taken_witness:
  "\<exists>s'. promptTime ''Enter start time (HHMM): ''
      (ui_on (''2460'' @ [newline] @ ''930'' @ [newline] @ ''0930'' @ [newline]) []) = Some (Inr ''0930'', s') \<and>
    unread (cin s') = [newline]"
proof -
  have t: "is_time ''0930''" by (simp add: is_time_def isdigit_def digit_val_def)
  have f: "\<forall>w\<in>set [''2460'', ''930'']. plain_word w \<and> \<not> is_time w"
    by (simp add: is_time_def plain_word_def isspace_def digit_val_def)
  show ?thesis
    using first_valid_time_taken [OF _ _ f t, of "ui_on (''2460'' @ [newline] @ ''930'' @ [newline] @ ''0930'' @ [newline]) []"
        "''''" "''Enter start time (HHMM): ''"] by auto
qed

text \<open>
  Days typed as numbers from 1 to 7 separated by commas are selected in the order typed,
  repetitions included, as the comma-separated names that \<^verbatim>\<open>queryAvailability\<close> sends.
\<close>

theorem days_selected_in_order:
  assumes "good (cin s)" and "unread (cin s) = join '','' (map to_string cs) @ newline # rest"
    and "cs \<noteq> []" and "\<forall>c\<in>set cs. 1 \<le> c \<and> c \<le> 7"
  shows "\<exists>s'. promptDaysOfWeek t s = Some (Inr (join '','' (map day_choice cs)), s') \<and>
    unread (cin s') = newline # rest \<and> quiet s s'"
proof -
  let ?w = "join '','' (map to_string cs)"
  have "set (join sep ls) \<subseteq> set sep \<union> \<Union> (set ` set ls)" for sep :: string and ls
    by (induction sep ls rule: join.induct) auto
  then have "\<forall>c\<in>set ?w. \<not> isspace c" using to_string_no_space by (fastforce simp: isspace_def)
  then have w: "plain_word ?w"
    using join_not_Nil [of "map to_string cs"] assms(3) by (simp add: plain_word_def)
  have l: "lines_of (CHR '','') ?w = map to_string cs"
    using assms(3) to_string_no_comma by (intro lines_of_join) auto
  have select: "select_days (map to_string cs) [] s1 = (Inr (Some (map day_choice cs)), s1)" for s1 :: "'a ui_scheme"
    using select_days_valid [OF assms(4), of "[]" "[]" s1] by simp
  obtain s1 where s1: "days_question t () s = (Inr (Inr (join '','' (map day_choice cs))), s1)"
      "unread (cin s1) = newline # rest" "quiet s s1"
    using days_word [of s "''''" ?w rest t "()", OF assms(1) _ _ w] assms(2,3) select by (auto simp: l)
  then show ?thesis using days.ask_answered [OF s1(1)] by (simp add: promptDaysOfWeek_def)
qed

theorem days_selected_in_order_witness:
  "\<exists>s'. promptDaysOfWeek ''Enter choice: '' (ui_on (''5,1'' @ [newline]) []) = Some (Inr ''FRIDAY,MONDAY'', s')"
proof -
  have "to_string 5 = ''5''" "to_string 1 = ''1''"
    by (simp_all add: to_string_def to_string_nat.simps digit_char_def)
  moreover have "day_choice 5 = ''FRIDAY''" "day_choice 1 = ''MONDAY''"
    by (simp_all add: day_choice_def DAYS_OF_WEEK_def eval_nat_numeral)
  ultimately show ?thesis
    using days_selected_in_order [of "ui_on (''5,1'' @ [newline]) []" "[5, 1]" "''''" "''Enter choice: ''"] by auto
qed

text \<open>
  A token that is too large for \<^verbatim>\<open>int\<close> is not reported to the user like other wrong tokens:
  after any number of valid ones it ends the prompt with \<^verbatim>\<open>std::out_of_range\<close>, which nothing below
  \<^verbatim>\<open>main\<close> catches.
\<close>

theorem days_prompt_throws_out_of_range:
  assumes "good (cin s)" and "unread (cin s) = word @ newline # rest" and "plain_word word"
    and "lines_of (CHR '','') word = map to_string cs @ token # tokens" and "\<forall>c\<in>set cs. 1 \<le> c \<and> c \<le> 7"
    and "stoi token = Inl (Throws (Out_Of_Range ''stoi''))"
  shows "\<exists>s'. promptDaysOfWeek t s = Some (Inl (Throws (Out_Of_Range ''stoi'')), s')"
proof -
  have select: "select_days (map to_string cs @ token # tokens) [] s1 = (Inl (Throws (Out_Of_Range ''stoi'')), s1)"
    for s1 :: "'a ui_scheme"
    using select_days_valid [OF assms(5), of "token # tokens" "[]" s1] assms(6) by simp
  obtain s1 where "days_question t () s = (Inl (Throws (Out_Of_Range ''stoi'')), s1)"
    using days_word [of s "''''" word rest t "()", OF assms(1) _ _ assms(3)] assms(2) select by (auto simp: assms(4))
  then show ?thesis by (auto simp: promptDaysOfWeek_def ask_def forever_fail)
qed

theorem days_prompt_throws_out_of_range_witness:
  "\<exists>s'. promptDaysOfWeek ''Enter choice: '' (ui_on (''1,2147483648'' @ [newline]) []) =
    Some (Inl (Throws (Out_Of_Range ''stoi'')), s')"
proof -
  have one: "to_string 1 = ''1''" by (simp add: to_string_def to_string_nat.simps digit_char_def)
  have w: "plain_word ''1,2147483648''" by (simp add: plain_word_def isspace_def)
  have l: "lines_of (CHR '','') (''1'' @ CHR '','' # ''2147483648'') = map to_string [1] @ ''2147483648'' # []"
    by (subst lines_of_cons) (simp_all add: one)
  have t: "stoi ''2147483648'' = Inl (Throws (Out_Of_Range ''stoi''))"
    by (subst stoi_of_digits) (simp_all add: isdigit_def digits_val_def digit_val_def in_int_def INT_MAX_def)
  show ?thesis
    using days_prompt_throws_out_of_range [OF _ _ w _ _ t, of "ui_on (''1,2147483648'' @ [newline]) []" "''''" "[1]" "[]"
        "''Enter choice: ''"] l by simp
qed

text \<open>
  The port prompt looks at the leading digits only: a word that goes on with other characters
  after a valid port is accepted as that port.
\<close>

theorem port_suffix_ignored:
  assumes "good (cin s)" and "unread (cin s) = to_string port @ junk @ newline # rest"
    and "1 \<le> port" and "port \<le> 65535" and "\<forall>c\<in>set junk. \<not> isspace c" and "junk \<noteq> [] \<longrightarrow> \<not> isdigit (hd junk)"
  shows "\<exists>s'. promptServerPort t s = Some (Inr port, s') \<and> unread (cin s') = newline # rest"
  using port_answered [of s "''''" port junk rest t] assms by auto

theorem port_suffix_ignored_witness:
  "\<exists>s'. promptServerPort ''Enter server port: '' (ui_on (''80abc'' @ [newline]) []) = Some (Inr 80, s')"
proof -
  have "to_string 80 = ''80''" by (simp add: to_string_def to_string_nat.simps digit_char_def)
  then show ?thesis
    using port_suffix_ignored [of "ui_on (''80abc'' @ [newline]) []" 80 "''abc''" "''''" "''Enter server port: ''"]
    by (auto simp: isspace_def isdigit_def)
qed

end
