(* ===== verification/User_Interface.thy ===== *)
theory User_Interface
  imports User_Prompts Client_Runs Response_Parser
begin

text \<open>
  The user interface proper (\<^verbatim>\<open>Client/src/UserInterface.cpp\<close>): the handlers of the menu's
  choices, the menu and the start of the program (\<^verbatim>\<open>Client/src/main.cpp\<close>). They put the prompts,
  the client's operations and the parsers together, over one state that holds the terminal and
  the client. The lemmas say which requests a handler sends and when.
\<close>

section \<open>Common steps of the handlers\<close>

definition announce :: "string \<Rightarrow> ('k ui_scheme, unit) prog" where
  "announce what_is_selected = bnd (cout [newline]) (\<lambda>_. cout_line (what_is_selected @ '' selected.''))"

definition show_box :: "string list \<Rightarrow> ('k ui_scheme, unit) prog" where
  "show_box parsedResponse = cout (generateBox parsedResponse)"

definition UI_isErrorResponse :: "string list \<Rightarrow> ('k ui_scheme, bool) prog" where
  "UI_isErrorResponse parsedResponse =
     (if parsedResponse \<noteq> [] \<and> hd parsedResponse = ''Error''
      then bnd (cout_line ''Returning to main menu...'') (\<lambda>_. ret True)
      else ret False)"

text \<open>
  The end of most handlers: the parsed response in a box, then the check whose only effect
  there is its message.
\<close>

definition show_response :: "string list \<Rightarrow> ('k ui_scheme, bool) prog" where
  "show_response parsedResponse = bnd (show_box parsedResponse) (\<lambda>_. UI_isErrorResponse parsedResponse)"

text \<open>The list of facility names that precedes the choice of one; true when it is an error.\<close>

definition list_facilities :: "('k ui_scheme, bool) prog" where
  "list_facilities =
     bnd queryFacilityNames (\<lambda>response. show_response (parseQueryFacilityNamesResponse response))"

section \<open>Handlers\<close>

definition handleQueryFacilityNames :: "('k ui_scheme, unit) proc" where
  "handleQueryFacilityNames = run (
     bnd (announce ''Query Facility Names'') (\<lambda>_.
     bnd queryFacilityNames (\<lambda>response.
     show_box (parseQueryFacilityNamesResponse response))))"

definition handleQueryAvailability :: "('k ui_scheme, unit) proc" where
  "handleQueryAvailability =
     andthen (run (bnd (announce ''Query Facility Availability'') (\<lambda>_. list_facilities))) (\<lambda>err.
     if err then run (ret ()) else
     andthen (run (promptFacilityName ''Enter facility name: '')) (\<lambda>facilityName.
     andthen (promptDaysOfWeek ''Enter choice (1-7, comma-separated): '') (\<lambda>daysOfWeek.
     run (bnd (queryAvailability facilityName daysOfWeek) (\<lambda>response.
          bnd (show_response (parseQueryAvailabilityResponse response daysOfWeek)) (\<lambda>_. ret ()))))))"

definition handleBookFacility :: "('k ui_scheme, unit) proc" where
  "handleBookFacility =
     andthen (run (bnd (announce ''Book Facility'') (\<lambda>_. list_facilities))) (\<lambda>err.
     if err then run (ret ()) else
     andthen (run (promptFacilityName ''Enter facility name: '')) (\<lambda>facilityName.
     andthen (promptDayOfWeek ''Enter choice (1-7): '') (\<lambda>dayOfWeek.
     andthen (promptTime ''Enter start time (HHMM): '') (\<lambda>startTime.
     andthen (promptTime ''Enter end time (HHMM): '') (\<lambda>endTime.
     run (bnd (bookFacility facilityName dayOfWeek startTime endTime) (\<lambda>response.
          bnd (show_response (parseBookFacilityResponse response)) (\<lambda>_. ret ()))))))))"

definition handleQueryBooking :: "('k ui_scheme, unit) proc" where
  "handleQueryBooking =
     andthen (run (announce ''Query Existing Booking'')) (\<lambda>_.
     andthen (promptBookingID ''Enter booking ID: '') (\<lambda>bookingID.
     run (bnd (queryBooking bookingID) (\<lambda>response.
          bnd (show_response (parseQueryBookingResponse response)) (\<lambda>_. ret ())))))"

definition handleUpdateBooking :: "('k ui_scheme, unit) proc" where
  "handleUpdateBooking =
     andthen (run (announce ''Update Existing Booking'')) (\<lambda>_.
     andthen (promptBookingID ''Enter booking ID: '') (\<lambda>bookingID.
     andthen (run (queryBooking bookingID)) (\<lambda>oldBookingDetails.
     andthen (run (show_response (parseQueryBookingResponse oldBookingDetails))) (\<lambda>err.
     if err then run (ret ()) else
     andthen (promptConfirmation ''Update booking (yes/no)? '') (\<lambda>confirmation.
     if \<not> confirmation then run (cout_line ''Booking not updated. Returning to main menu...'') else
     andthen (promptOffset ''Enter offset in minutes (positive for later, negative for earlier): '') (\<lambda>offsetMinutes.
     run (bnd (updateBooking bookingID offsetMinutes oldBookingDetails) (\<lambda>newBookingDetails.
          bnd (show_response (parseUpdateBookingResponse newBookingDetails)) (\<lambda>_. ret ())))))))))"

definition handleDeleteBooking :: "('k ui_scheme, unit) proc" where
  "handleDeleteBooking =
     andthen (run (announce ''Delete Existing Booking'')) (\<lambda>_.
     andthen (promptBookingID ''Enter booking ID: '') (\<lambda>bookingID.
     andthen (run (queryBooking bookingID)) (\<lambda>oldBookingDetails.
     andthen (run (show_response (parseQueryBookingResponse oldBookingDetails))) (\<lambda>err.
     if err then run (ret ()) else
     andthen (promptConfirmation ''Delete booking (yes/no)? '') (\<lambda>confirmation.
     if \<not> confirmation then run (cout_line ''Booking not deleted. Returning to main menu...'') else
     run (bnd (deleteBooking bookingID oldBookingDetails) (\<lambda>response.
          bnd (show_response (parseDeleteBookingResponse response)) (\<lambda>_. ret ()))))))))"

definition monitor_callback :: "string \<Rightarrow> bool \<Rightarrow> string" where
  "monitor_callback response isRegistrationResponse =
     (if isRegistrationResponse then generateBox (parseMonitorAvailabilityResponse response)
      else generateBox (parseQueryAvailabilityResponse response ''''))"

definition handleMonitorAvailability :: "('k ui_scheme, unit) proc" where
  "handleMonitorAvailability =
     andthen (run (bnd (announce ''Monitor Facility Availability'') (\<lambda>_. list_facilities))) (\<lambda>err.
     if err then run (ret ()) else
     andthen (run (promptFacilityName ''Enter facility name: '')) (\<lambda>facilityName.
     andthen (promptDuration ''Enter duration in seconds: '') (\<lambda>durationSeconds.
     run (bnd (monitorAvailability facilityName durationSeconds monitor_callback) (\<lambda>_.
          bnd (show_box [''End of Monitoring'',
                         ''Monitoring period has ended. No further updates will be received.'']) (\<lambda>_.
          cout_line ''Returning to main menu...''))))))"

definition handleRateFacility :: "('k ui_scheme, unit) proc" where
  "handleRateFacility =
     andthen (run (bnd (announce ''Rate Facility'') (\<lambda>_. list_facilities))) (\<lambda>err.
     if err then run (ret ()) else
     andthen (run (promptFacilityName ''Enter facility name: '')) (\<lambda>facilityName.
     andthen (promptRating ''Enter rating (1-5): '') (\<lambda>rating.
     run (bnd (rateFacility facilityName rating) (\<lambda>response.
          bnd (show_response (parseRateFacilityResponse response)) (\<lambda>_. ret ()))))))"

definition handleQueryRating :: "('k ui_scheme, unit) proc" where
  "handleQueryRating = run (
     bnd (bnd (announce ''Query Facility Rating'') (\<lambda>_. list_facilities)) (\<lambda>err.
     if err then ret () else
     bnd (promptFacilityName ''Enter facility name: '') (\<lambda>facilityName.
     bnd (queryRating facilityName) (\<lambda>response.
     bnd (show_response (parseQueryRatingResponse response)) (\<lambda>_. ret ())))))"

definition handleEchoMessage :: "('k ui_scheme, unit) proc" where
  "handleEchoMessage =
     andthen (run (bnd (announce ''Echo Message'') (\<lambda>_. ask_line ''Enter message to send: ''))) (\<lambda>messageData.
     andthen (promptConfirmation ''Send message to server (yes/no)? '') (\<lambda>confirmation.
     if \<not> confirmation then run (cout_line ''Message not sent. Returning to main menu...'') else
     run (bnd (echoMessage messageData) (\<lambda>response.
          bnd (show_response (parseEchoMessageResponse response)) (\<lambda>_. ret ())))))"

definition handleExit :: "('k ui_scheme, unit) proc" where
  "handleExit =
     andthen (promptConfirmation ''Exit Facility Booking System (yes/no)? '') (\<lambda>confirmation.
     if confirmation then run (bnd (cout_line ''Exiting...'') (\<lambda>_. fail (Exits 0)))
     else run (cout_line ''Returning to main menu...''))"

section \<open>The menu\<close>

definition handleUserChoice :: "int \<Rightarrow> ('k ui_scheme, unit) proc" where
  "handleUserChoice choice =
     (if choice = 1 then handleQueryFacilityNames
      else if choice = 2 then handleQueryAvailability
      else if choice = 3 then handleBookFacility
      else if choice = 4 then handleQueryBooking
      else if choice = 5 then handleUpdateBooking
      else if choice = 6 then handleDeleteBooking
      else if choice = 7 then handleMonitorAvailability
      else if choice = 8 then handleRateFacility
      else if choice = 9 then handleQueryRating
      else if choice = 10 then handleEchoMessage
      else if choice = 11 then handleExit
      else run (cout_line ''Invalid choice. Please enter a number between 1 and 11.''))"

definition menu_turn :: "unit \<Rightarrow> ('k ui_scheme, unit + unit) proc" where
  "menu_turn _ =
     andthen (run (bnd (cout [newline]) (\<lambda>_. cout (generateBox MAIN_MENU)))) (\<lambda>_.
     andthen (promptChoice ''Enter choice (1-11): '') (\<lambda>choice.
     andthen (handleUserChoice choice) (\<lambda>_.
     run (ret (Inl ())))))"

definition displayMenu :: "('k ui_scheme, unit) proc" where
  "displayMenu = forever menu_turn ()"

section \<open>The program\<close>

text \<open>
  \<^verbatim>\<open>main\<close>: when an exception leaves the constructor of the client its member socket is
  destroyed; when one leaves the menu the client is. \<^verbatim>\<open>exit\<close> unwinds nothing.
\<close>

definition cleanup_on_throw :: "('s, 'a) proc \<Rightarrow> ('s, unit) prog \<Rightarrow> ('s, 'a) proc" where
  "cleanup_on_throw p cleanup = (\<lambda>s. case p s of
     Some (Inl (Throws e), s') \<Rightarrow> Some (bnd cleanup (\<lambda>_. fail (Throws e)) s')
   | r \<Rightarrow> r)"

definition catch_proc :: "('s, 'a) proc \<Rightarrow> (exn \<Rightarrow> ('s, 'a) prog) \<Rightarrow> ('s, 'a) proc" where
  "catch_proc p handler = (\<lambda>s. case p s of
     Some (Inl (Throws e), s') \<Rightarrow> Some (handler e s')
   | r \<Rightarrow> r)"

definition main_program :: "('k ui_scheme, int) proc" where
  "main_program =
     andthen (promptServerIP ''Enter server IP (IPv4 format or 'localhost'): '') (\<lambda>serverIP.
     andthen (promptServerPort ''Enter server port: '') (\<lambda>serverPort.
     andthen (catch_proc
       (andthen (cleanup_on_throw (run (Client_new serverIP serverPort)) Socket_destroy) (\<lambda>_.
        andthen (cleanup_on_throw displayMenu Client_destroy) (\<lambda>_.
        run Client_destroy)))
       (\<lambda>e. cerr (what e))) (\<lambda>_.
     run (ret 0))))"

section \<open>The menu never returns\<close>

lemma run_SomeInr [simp]: "run p s = Some (r, s') \<longleftrightarrow> p s = (r, s')"
  by simp

lemma menu_turn_again: "menu_turn v s = Some (Inr r, s') \<Longrightarrow> r = Inl ()"
  by (auto simp: menu_turn_def elim!: andthen_SomeInrE)

section \<open>Terminal steps\<close>

lemma announce_quiet: "announce t s = (r, s') \<Longrightarrow> r = Inr () \<and> quiet s s' \<and> cin s' = cin s"
  by (auto simp: announce_def quiet_def)

lemma show_response_run:
  "show_response parsed s = (r, s') \<Longrightarrow>
   quiet s s' \<and> cin s' = cin s \<and> r = Inr (parsed \<noteq> [] \<and> hd parsed = ''Error'')"
  by (auto simp: show_response_def show_box_def UI_isErrorResponse_def quiet_def split: if_splits)

lemma quiet_sent: "quiet s s' \<Longrightarrow> sent_datagrams (k_trace s') = sent_datagrams (k_trace s) \<and> requestID s' = requestID s"
  by (simp add: quiet_def)

section \<open>Requests that need a confirmation\<close>

lemma issued_quiet:
  "quiet s s1 \<Longrightarrow> issued m n s1 s2 \<Longrightarrow> quiet s2 s3 \<Longrightarrow> issued m n s s3"
  by (simp add: issued_def quiet_def)

lemma query_booking_issued:
  "queryBooking i s = (Inr r, s') \<Longrightarrow> \<exists>n. issued (RequestMessage_new READ (requestID s) (''booking,'' @ i)) n s s'"
  unfolding queryBooking_def by (rule request_issues)

text \<open>Both handlers up to the confirmation, and what follows it.\<close>

abbreviation (input) confirmation_steps ::
  "string \<Rightarrow> string \<Rightarrow> string \<Rightarrow> string \<Rightarrow> (string \<Rightarrow> string \<Rightarrow> ('k ui_scheme, unit) proc) \<Rightarrow> ('k ui_scheme, unit) proc" where
  "confirmation_steps title id_text ask_text refusal k \<equiv> andthen (run (announce title)) (\<lambda>_.
     andthen (promptBookingID id_text) (\<lambda>bookingID.
     andthen (run (queryBooking bookingID)) (\<lambda>details.
     andthen (run (show_response (parseQueryBookingResponse details))) (\<lambda>err.
     if err then run (ret ()) else
     andthen (promptConfirmation ask_text) (\<lambda>confirmation.
     if \<not> confirmation then run (cout_line refusal) else k bookingID details)))))"

definition shows_error :: "string list \<Rightarrow> bool" where
  "shows_error parsed \<longleftrightarrow> parsed \<noteq> [] \<and> hd parsed = ''Error''"

text \<open>
  The run of such a handler from the state \<open>s\<close> up to the point where the booking's details have
  just been printed in a box, in the state \<open>s'\<close>: the title, the prompt for the ID, the query and
  the box, each from the state the step before it has left.
\<close>

definition booking_shown ::
  "string \<Rightarrow> 'k ui_scheme \<Rightarrow> string \<Rightarrow> string \<Rightarrow> 'k ui_scheme \<Rightarrow> bool" where
  "booking_shown title s i details s' \<longleftrightarrow>
     (\<exists>s1 s2 s3 err. announce title s = (Inr (), s1) \<and>
        promptBookingID ''Enter booking ID: '' s1 = Some (Inr i, s2) \<and> regex_match i bookingIDRegex \<and>
        queryBooking i s2 = (Inr details, s3) \<and>
        show_response (parseQueryBookingResponse details) s3 = (Inr err, s') \<and>
        k_cout s' = k_cout s3 @ generateBox (parseQueryBookingResponse details) @
          (if err then ''Returning to main menu...'' @ [newline] else ''''))"

text \<open>
  What the handlers of changes promise of a run from \<open>s\<close> to \<open>s'\<close>. The booking is read and shown.
  If the server has answered with an error that is all. Otherwise the question is put in the very
  state in which the booking has been shown, and its answer decides: after yes the change is sent,
  after no only the refusal is printed.
\<close>

definition changes_if_confirmed ::
  "string \<Rightarrow> string \<Rightarrow> string \<Rightarrow> (string \<Rightarrow> string \<Rightarrow> RequestMessage \<Rightarrow> bool) \<Rightarrow> 'k ui_scheme \<Rightarrow> 'k ui_scheme \<Rightarrow> bool" where
  "changes_if_confirmed title question refusal change s s' \<longleftrightarrow>
     (\<exists>i details s1 n. booking_shown title s i details s1 \<and> 1 \<le> n \<and> n \<le> MAX_RETRIES \<and>
        sent_datagrams (k_trace s1) = sent_datagrams (k_trace s) @
          replicate n (datagram (RequestMessage_new READ (requestID s) (''booking,'' @ i))) \<and>
        (if shows_error (parseQueryBookingResponse details) then s' = s1
         else \<exists>yes s2. promptConfirmation question s1 = Some (Inr yes, s2) \<and>
           (if yes then \<exists>m k. change i details m \<and> rm_requestID m = requestID s + 1 \<and> 1 \<le> k \<and> k \<le> MAX_RETRIES \<and>
              sent_datagrams (k_trace s') = sent_datagrams (k_trace s1) @ replicate k (datagram m)
            else s' = s2\<lparr>k_cout := k_cout s2 @ refusal @ [newline]\<rparr>)))"

lemma show_response_cout:
  "show_response parsed s = (Inr err, s') \<Longrightarrow> err = shows_error parsed \<and>
   k_cout s' = k_cout s @ generateBox parsed @ (if err then ''Returning to main menu...'' @ [newline] else '''')"
  by (auto simp: show_response_def show_box_def UI_isErrorResponse_def shows_error_def split: if_splits)

lemma changes_if_confirmedI:
  assumes "confirmation_steps title ''Enter booking ID: '' question refusal k s = Some (Inr u, s')"
    and sends: "\<And>i details s2. k i details s2 = Some (Inr u, s') \<Longrightarrow> requestID s2 = requestID s + 1 \<Longrightarrow>
      \<exists>m n. change i details m \<and> rm_requestID m = requestID s2 \<and> 1 \<le> n \<and> n \<le> MAX_RETRIES \<and>
        sent_datagrams (k_trace s') = sent_datagrams (k_trace s2) @ replicate n (datagram m)"
  shows "changes_if_confirmed title question refusal change s s'"
  using assms(1)
proof (elim andthen_SomeInrE, goal_cases)
  case (1 x s1 i s2 details s3 err s4)
  have t1: "announce title s = (Inr x, s1)" using 1(1) by (simp only: run_SomeInr)
  note t2 = 1(2)
  have t3: "queryBooking i s2 = (Inr details, s3)" using 1(3) by (simp only: run_SomeInr)
  have t4: "show_response (parseQueryBookingResponse details) s3 = (Inr err, s4)"
    using 1(4) by (simp only: run_SomeInr)
  note t5 = 1(5)
  have i: "regex_match i bookingIDRegex"
    using word.answer_accepted [OF t2 [unfolded promptBookingID_def]] by blast
  have q1: "quiet s s1" using announce_quiet [OF t1] by blast
  have q2: "quiet s1 s2" by (rule word.answer_quiet [OF t2 [unfolded promptBookingID_def]])
  have q4: "quiet s3 s4" using show_response_run [OF t4] by blast
  obtain n where "issued (RequestMessage_new READ (requestID s2) (''booking,'' @ i)) n s2 s3"
    using query_booking_issued [OF t3] by blast
  moreover have "requestID s2 = requestID s" using quiet_sent [OF quiet_trans [OF q1 q2]] by blast
  ultimately have n: "issued (RequestMessage_new READ (requestID s) (''booking,'' @ i)) n s s4"
    using issued_quiet [OF quiet_trans [OF q1 q2] _ q4] by simp
  have shown: "booking_shown title s i details s4"
    using t1 t2 t3 t4 i show_response_cout [OF t4] unfolding booking_shown_def
    by (intro exI [of _ s1] exI [of _ s2] exI [of _ s3] exI [of _ err]) simp
  have err: "err = shows_error (parseQueryBookingResponse details)" using show_response_cout [OF t4] by blast
  have rest: "if shows_error (parseQueryBookingResponse details) then s' = s4
         else \<exists>yes s5. promptConfirmation question s4 = Some (Inr yes, s5) \<and>
           (if yes then \<exists>m k. change i details m \<and> rm_requestID m = requestID s + 1 \<and> 1 \<le> k \<and> k \<le> MAX_RETRIES \<and>
              sent_datagrams (k_trace s') = sent_datagrams (k_trace s4) @ replicate k (datagram m)
            else s' = s5\<lparr>k_cout := k_cout s5 @ refusal @ [newline]\<rparr>)"
  proof (cases err)
    case True
    with t5 have "s' = s4" by (simp only: if_True run_SomeInr run_ret prod.inject)
    with True err show ?thesis by simp
  next
    case False
    then obtain c s5 where c: "promptConfirmation question s4 = Some (Inr c, s5)"
      and k: "(if \<not> c then run (cout_line refusal) else k i details) s5 = Some (Inr u, s')"
      using t5 by (simp only: if_False) (erule andthen_SomeInrE)
    have "quiet s4 s5" by (rule word.answer_quiet [OF c [unfolded promptConfirmation_def]])
    then have q5: "requestID s5 = requestID s + 1" "sent_datagrams (k_trace s5) = sent_datagrams (k_trace s4)"
      using n quiet_sent [of s4 s5] by (simp_all add: issued_def)
    show ?thesis
    proof (cases c)
      case True
      with k have "k i details s5 = Some (Inr u, s')" by simp
      from sends [OF this q5(1)] c True False err q5 show ?thesis by (simp only: if_False) (metis (full_types))
    next
      case no: False
      with k have "s' = s5\<lparr>k_cout := k_cout s5 @ refusal @ [newline]\<rparr>" by simp
      with c no False err show ?thesis
        by (simp only: if_False) (rule exI [of _ False], rule exI [of _ s5], simp)
    qed
  qed
  have "1 \<le> n" "n \<le> MAX_RETRIES" "sent_datagrams (k_trace s4) = sent_datagrams (k_trace s) @
      replicate n (datagram (RequestMessage_new READ (requestID s) (''booking,'' @ i)))"
    using n by (simp_all add: issued_def)
  with shown rest show ?case unfolding changes_if_confirmed_def by blast
qed

lemma deleteBooking_issued:
  "deleteBooking i details s = (Inr r, s') \<Longrightarrow>
   \<exists>n. issued (RequestMessage_new DELETE_REQUEST (requestID s) (i @ '','' @ extractFacilityName details)) n s s'"
  unfolding deleteBooking_def Let_def using request_issues by blast

lemma updateBooking_issued:
  assumes "updateBooking i off details s = (Inr r, s')"
  shows "\<exists>n d. issued (RequestMessage_new UPDATE (requestID s) (''booking,'' @ i @ '','' @ d)) n s s'"
proof -
  obtain d where "request UPDATE (''booking,'' @ i @ '','' @ d) s = (Inr r, s')"
    using assms unfolding updateBooking_def Let_def stoi_at_def total_minutes_def bnd_assoc
    by (elim bnd_InrE) (simp del: run_bnd_Inr)
  then show ?thesis using request_issues by blast
qed

lemma run_bnd_InrE:
  assumes "run (bnd p k) s = Some (Inr x, s')"
  obtains y s1 where "p s = (Inr y, s1)" and "k y s1 = (Inr x, s')"
  using assms by (simp del: run_bnd_Inr) (erule bnd_InrE)

lemma shown_quiet:
  "bnd (show_response parsed) (\<lambda>_. ret ()) s = (Inr u, s') \<Longrightarrow> quiet s s'"
  by (elim bnd_InrE) (auto dest: show_response_run)

text \<open>On a working network, with the input to hand, the first half of the handlers goes through.\<close>

lemma same_input: "client.more s' = client.more s \<Longrightarrow> cin s' = cin s"
  by (cases s, cases s') simp

lemma confirmation_run:
  assumes "good (cin s)" and "unread (cin s) = i @ newline # w @ newline # rest"
    and "plain_word i" and "regex_match i bookingIDRegex" and "plain_word w" and "regex_match w yesNoRegex"
    and "ready s" and "k_recv s = (t, Datagram (datagram (RequestMessage_new rt (requestID s) details)) addr) # post"
    and "t < time_limit s" and "details \<noteq> ''''" and "length details \<le> BUFFER_SIZE - 115"
    and "parseQueryBookingResponse details = header # rows" and "header \<noteq> ''Error''"
  shows "\<exists>s1. confirmation_steps title id_text ask_text refusal k s =
      (if is_yes w then k i details s1 else run (cout_line refusal) s1) \<and>
    k_recv s1 = post \<and> k_errnos s1 = [] \<and> requestID s1 = requestID s + 1"
proof -
  define s1 where "s1 = s\<lparr>k_cout := k_cout s @ newline # title @ '' selected.'' @ [newline]\<rparr>"
  have t1: "run (announce title) s = Some (Inr (), s1)" by (simp add: announce_def s1_def)
  obtain s2 where t2: "promptBookingID id_text s1 = Some (Inr i, s2)"
    and s2: "unread (cin s2) = newline # w @ newline # rest" "good (cin s2)" "quiet s1 s2"
    using ask_word_first_match [of s1 "''''" "[]" i "w @ newline # rest" bookingIDRegex id_text
      "''Invalid booking ID. Please try again.''" "\<lambda>x. x" "''''"] assms(1-4)
    unfolding promptBookingID_def by (auto simp: s1_def)
  have q: "ready s2" "k_recv s2 = k_recv s" "requestID s2 = requestID s" "time_limit s2 = time_limit s"
    using s2(3) assms(7) by (simp_all add: quiet_def ready_def time_limit_def s1_def)
  obtain s3 where 3: "request READ (''booking,'' @ i) s2 = (Inr details, s3)" "k_recv s3 = post"
    using request_replied [OF q(1) _ _ assms(10,11), of t rt addr post READ "''booking,'' @ i"] assms(8,9) q by auto
  note f3 = request_frame [OF 3(1)]
  have t3: "run (queryBooking i) s2 = Some (Inr details, s3)" using 3 by (simp add: queryBooking_def)
  define s4 where "s4 = s3\<lparr>k_cout := k_cout s3 @ generateBox (header # rows)\<rparr>"
  have t4: "run (show_response (parseQueryBookingResponse details)) s3 = Some (Inr False, s4)"
    using assms(12,13) by (simp add: show_response_def show_box_def UI_isErrorResponse_def s4_def)
  have "cin s4 = cin s2" using same_input [OF f3(1)] by (simp add: s4_def)
  then obtain s5 where t5: "promptConfirmation ask_text s4 = Some (Inr (is_yes w), s5)"
    and s5: "unread (cin s5) = newline # rest" "good (cin s5)" "quiet s4 s5"
    using ask_word_first_match [of s4 "[newline]" "[]" w rest yesNoRegex ask_text
      "''Invalid input. Please enter 'yes' or 'no'.''" is_yes "''''"] assms(5,6) s2(1,2)
    unfolding promptConfirmation_def by auto
  have "confirmation_steps title id_text ask_text refusal k s =
      (if is_yes w then k i details s5 else run (cout_line refusal) s5)"
    by (simp only: andthen_Inr t1 t2 t3 t4 t5 if_False) (cases "is_yes w"; simp only: if_True if_False not_True_eq_False not_False_eq_True)
  moreover have "k_recv s5 = post" "k_errnos s5 = []" "requestID s5 = requestID s + 1"
    using s5(3) f3(2,3) 3(2) q by (simp_all add: quiet_def s4_def ready_def)
  ultimately show ?thesis by blast
qed

text \<open>A booking on the server, as evaluation input: its ID, its details and the server's reply to their query.\<close>

definition some_bookingID :: string where
  "some_bookingID = ''0f8fad5b-d9cb-469f-a165-70867728950e''"

definition some_booking :: string where
  "some_booking = booking_details some_bookingID ''/10.0.0.7:5001'' ''Room'' ''MONDAY'' ''0900'' ''1000''"

definition query_reply :: "nat \<times> recv_event" where
  "query_reply = (10, Datagram (datagram (RequestMessage_new READ 0 some_booking)) server_at)"

lemma some_bookingID: "plain_word some_bookingID" "regex_match some_bookingID bookingIDRegex"
  by (simp add: plain_word_def some_bookingID_def isspace_def)
    (simp add: some_bookingID_def bookingIDRegex_def hex_digits_def eval_nat_numeral)

lemma some_booking:
  "\<exists>rows. parseQueryBookingResponse some_booking = ''Booking Details'' # rows"
  "some_booking \<noteq> ''''" "length some_booking \<le> BUFFER_SIZE - 115"
proof -
  show "\<exists>rows. parseQueryBookingResponse some_booking = ''Booking Details'' # rows"
    unfolding some_booking_def
    by (subst query_booking_parsed) (simp_all add: some_bookingID_def newline_def)
  show "some_booking \<noteq> ''''" "length some_booking \<le> BUFFER_SIZE - 115"
    by (simp_all add: some_booking_def some_bookingID_def booking_details_def BUFFER_SIZE_def STATUS_SUCCESS_def)
qed

lemma confirmation_example:
  assumes "plain_word w" and "regex_match w yesNoRegex"
  shows "\<exists>s1. confirmation_steps title id_text ask_text refusal k
      (ui_on (some_bookingID @ newline # w @ newline # rest) [query_reply]) =
      (if is_yes w then k some_bookingID some_booking s1 else run (cout_line refusal) s1) \<and>
    k_recv s1 = [] \<and> ready s1 \<and> requestID s1 = 1"
proof -
  let ?s = "ui_on (some_bookingID @ newline # w @ newline # rest) [query_reply]"
  obtain rows where rows: "parseQueryBookingResponse some_booking = ''Booking Details'' # rows"
    using some_booking(1) by blast
  have "\<exists>s1. confirmation_steps title id_text ask_text refusal k ?s =
      (if is_yes w then k some_bookingID some_booking s1 else run (cout_line refusal) s1) \<and>
    k_recv s1 = [] \<and> k_errnos s1 = [] \<and> requestID s1 = requestID ?s + 1"
    by (rule confirmation_run [OF _ _ some_bookingID assms _ _ _ some_booking(2,3) rows, of _ rest 10 READ server_at])
      (simp_all add: query_reply_def ready_def time_limit_def TIMEOUT_SEC_def INT_MAX_def)
  then show ?thesis by (auto simp: ready_def INT_MAX_def)
qed

lemma confirmation_example_yes:
  assumes "plain_word w" and "regex_match w yesNoRegex" and "is_yes w"
  shows "\<exists>s1. confirmation_steps title id_text ask_text refusal k
      (ui_on (some_bookingID @ newline # w @ newline # rest) [query_reply]) = k some_bookingID some_booking s1 \<and>
    k_recv s1 = [] \<and> ready s1 \<and> requestID s1 = 1"
  using confirmation_example [OF assms(1,2), of title id_text ask_text refusal k rest] by (simp only: assms(3) if_True)

lemma confirmation_example_no:
  assumes "plain_word w" and "regex_match w yesNoRegex" and "\<not> is_yes w"
  shows "\<exists>s1. confirmation_steps title id_text ask_text refusal k
      (ui_on (some_bookingID @ newline # w @ newline # rest) [query_reply]) = run (cout_line refusal) s1 \<and>
    k_recv s1 = [] \<and> ready s1 \<and> requestID s1 = 1"
  using confirmation_example [OF assms(1,2), of title id_text ask_text refusal k rest] by (simp only: assms(3) if_False)

lemma shown: "\<exists>s'. bnd (show_response parsed) (\<lambda>_. ret ()) s = (Inr (), s') \<and> requestID s' = requestID s"
proof (cases "show_response parsed s")
  case (Pair r s')
  from show_response_run [OF this] Pair show ?thesis by (intro exI [of _ s']) (simp add: quiet_def)
qed

section \<open>Properties\<close>

text \<open>
  C20. A booking is deleted only on confirmation. The handler sends the query of the booking and
  shows its details; in that state it asks the user, and only when this question is answered yes
  it sends one DELETE request for the same ID and the facility it has shown, under the next
  request ID. After no, it prints
  that the booking was not deleted and does nothing else; after an error it does not even ask.
\<close>

theorem delete_needs_confirmation:
  assumes "handleDeleteBooking s = Some (Inr u, s')"
  shows "changes_if_confirmed ''Delete Existing Booking'' ''Delete booking (yes/no)? ''
    ''Booking not deleted. Returning to main menu...''
    (\<lambda>i details m. m = RequestMessage_new DELETE_REQUEST (requestID s + 1) (i @ '','' @ extractFacilityName details)) s s'"
  using assms unfolding handleDeleteBooking_def
proof (rule changes_if_confirmedI)
  fix i details s2
  assume r: "run (bnd (deleteBooking i details) (\<lambda>response.
      bnd (show_response (parseDeleteBookingResponse response)) (\<lambda>_. ret ()))) s2 = Some (Inr u, s')"
    and id: "requestID s2 = requestID s + 1"
  from r obtain response s3 where 3: "deleteBooking i details s2 = (Inr response, s3)"
    and 4: "bnd (show_response (parseDeleteBookingResponse response)) (\<lambda>_. ret ()) s3 = (Inr u, s')"
    by (rule run_bnd_InrE)
  obtain k where "issued (RequestMessage_new DELETE_REQUEST (requestID s2) (i @ '','' @ extractFacilityName details)) k s2 s3"
    using deleteBooking_issued [OF 3] by blast
  from issued_quiet [OF quiet_refl this shown_quiet [OF 4]] id
  show "\<exists>m n. m = RequestMessage_new DELETE_REQUEST (requestID s + 1) (i @ '','' @ extractFacilityName details) \<and>
      rm_requestID m = requestID s2 \<and> 1 \<le> n \<and> n \<le> MAX_RETRIES \<and>
      sent_datagrams (k_trace s') = sent_datagrams (k_trace s2) @ replicate n (datagram m)"
    by (auto simp: issued_def)
qed

theorem delete_needs_confirmation_witness:
  "\<exists>s'. handleDeleteBooking (ui_on (some_bookingID @ newline # ''yes'' @ newline # '''') [query_reply]) = Some (Inr (), s') \<and>
    requestID s' = 2 \<and> changes_if_confirmed ''Delete Existing Booking'' ''Delete booking (yes/no)? ''
      ''Booking not deleted. Returning to main menu...''
      (\<lambda>i details m. m = RequestMessage_new DELETE_REQUEST 1 (i @ '','' @ extractFacilityName details))
      (ui_on (some_bookingID @ newline # ''yes'' @ newline # '''') [query_reply]) s'"
proof -
  let ?s = "ui_on (some_bookingID @ newline # ''yes'' @ newline # '''') [query_reply]"
  have yes: "plain_word ''yes''" "regex_match ''yes'' yesNoRegex" "is_yes ''yes''"
    by (simp_all add: plain_word_def isspace_def yesNoRegex_def white_def any_case_def is_yes_def)
  have "\<exists>s1. handleDeleteBooking ?s = run (bnd (deleteBooking some_bookingID some_booking) (\<lambda>response.
        bnd (show_response (parseDeleteBookingResponse response)) (\<lambda>_. ret ()))) s1 \<and>
      k_recv s1 = [] \<and> ready s1 \<and> requestID s1 = 1"
    unfolding handleDeleteBooking_def by (rule confirmation_example_yes [OF yes])
  then obtain s1 where 1: "handleDeleteBooking ?s = run (bnd (deleteBooking some_bookingID some_booking) (\<lambda>response.
        bnd (show_response (parseDeleteBookingResponse response)) (\<lambda>_. ret ()))) s1"
      "k_recv s1 = []" "ready s1" "requestID s1 = 1" by blast
  obtain s2 where 2: "deleteBooking some_bookingID some_booking s1 = (Inr gave_up, s2)"
    using request_silent [OF 1(3,2)] unfolding deleteBooking_def Let_def by blast
  then have "requestID s2 = 2" using delete.next_requestID 1(4) by fastforce
  then obtain s3 where "handleDeleteBooking ?s = Some (Inr (), s3)" "requestID s3 = 2"
    using shown [of "parseDeleteBookingResponse gave_up" s2] 1(1) 2 by auto
  with delete_needs_confirmation [OF this(1)] show ?thesis by auto
qed

text \<open>
  C21. A booking is moved only on confirmation. The handler sends the query of the booking and
  shows its details; in that state it asks the user, and only when this question is answered yes
  it sends one UPDATE request for the same ID, under the next request ID. After no, it prints
  that the booking was not updated and does nothing else; after an error it does not even ask.
\<close>

theorem update_needs_confirmation:
  assumes "handleUpdateBooking s = Some (Inr u, s')"
  shows "changes_if_confirmed ''Update Existing Booking'' ''Update booking (yes/no)? ''
    ''Booking not updated. Returning to main menu...''
    (\<lambda>i details m. \<exists>times. m = RequestMessage_new UPDATE (requestID s + 1) (''booking,'' @ i @ '','' @ times)) s s'"
  using assms unfolding handleUpdateBooking_def
proof (rule changes_if_confirmedI)
  fix i details s2
  assume "andthen (promptOffset ''Enter offset in minutes (positive for later, negative for earlier): '') (\<lambda>off.
      run (bnd (updateBooking i off details) (\<lambda>newBookingDetails.
          bnd (show_response (parseUpdateBookingResponse newBookingDetails)) (\<lambda>_. ret ())))) s2 = Some (Inr u, s')"
    and id: "requestID s2 = requestID s + 1"
  then obtain off s3 where o: "promptOffset ''Enter offset in minutes (positive for later, negative for earlier): '' s2 = Some (Inr off, s3)"
    and r: "run (bnd (updateBooking i off details) (\<lambda>newBookingDetails.
          bnd (show_response (parseUpdateBookingResponse newBookingDetails)) (\<lambda>_. ret ()))) s3 = Some (Inr u, s')"
    by (elim andthen_SomeInrE)
  have q: "quiet s2 s3" using offset.answer_quiet o unfolding promptOffset_def by blast
  from r obtain response s4 where 3: "updateBooking i off details s3 = (Inr response, s4)"
    and 4: "bnd (show_response (parseUpdateBookingResponse response)) (\<lambda>_. ret ()) s4 = (Inr u, s')"
    by (rule run_bnd_InrE)
  obtain k d where "issued (RequestMessage_new UPDATE (requestID s3) (''booking,'' @ i @ '','' @ d)) k s3 s4"
    using updateBooking_issued [OF 3] by blast
  from issued_quiet [OF q this shown_quiet [OF 4]] id quiet_sent [OF q]
  show "\<exists>m n. (\<exists>times. m = RequestMessage_new UPDATE (requestID s + 1) (''booking,'' @ i @ '','' @ times)) \<and>
      rm_requestID m = requestID s2 \<and> 1 \<le> n \<and> n \<le> MAX_RETRIES \<and>
      sent_datagrams (k_trace s') = sent_datagrams (k_trace s2) @ replicate n (datagram m)"
    by (auto simp: issued_def)
qed

theorem update_needs_confirmation_witness:
  "\<exists>s'. handleUpdateBooking (ui_on (some_bookingID @ newline # ''n'' @ newline # '''') [query_reply]) = Some (Inr (), s') \<and>
    requestID s' = 1 \<and> changes_if_confirmed ''Update Existing Booking'' ''Update booking (yes/no)? ''
      ''Booking not updated. Returning to main menu...''
      (\<lambda>i details m. \<exists>times. m = RequestMessage_new UPDATE 1 (''booking,'' @ i @ '','' @ times))
      (ui_on (some_bookingID @ newline # ''n'' @ newline # '''') [query_reply]) s'"
proof -
  let ?s = "ui_on (some_bookingID @ newline # ''n'' @ newline # '''') [query_reply]"
  have no: "plain_word ''n''" "regex_match ''n'' yesNoRegex" "\<not> is_yes ''n''"
    by (simp_all add: plain_word_def isspace_def yesNoRegex_def white_def any_case_def is_yes_def)
  have "\<exists>s1. handleUpdateBooking ?s = run (cout_line ''Booking not updated. Returning to main menu...'') s1 \<and>
      k_recv s1 = [] \<and> ready s1 \<and> requestID s1 = 1"
    unfolding handleUpdateBooking_def by (rule confirmation_example_no [OF no])
  then obtain s2 where "handleUpdateBooking ?s = Some (Inr (), s2)" "requestID s2 = 1" by auto
  with update_needs_confirmation [OF this(1)] show ?thesis by auto
qed

end
