(* ===== verification/Interface_Outcomes.thy ===== *)
theory Interface_Outcomes
  imports User_Interface
begin

text \<open>
  How the handlers, the menu and the program end: which failures leave each handler, what a
  booking puts on the wire, that the menu is only left by a failure or a confirmed exit, what
  \<^verbatim>\<open>main\<close> does with an exception, and what happens when the input is used up.
\<close>

section \<open>The failures of a program\<close>

definition fails_with :: "('s, 'a) proc \<Rightarrow> (failure \<Rightarrow> bool) \<Rightarrow> bool" where
  "fails_with p F \<longleftrightarrow> (\<forall>s e s'. p s = Some (Inl e, s') \<longrightarrow> F e)"

definition client_failure :: "failure \<Rightarrow> bool" where
  "client_failure e \<longleftrightarrow> e = Exits 1 \<or> (\<exists>t. e = Undefined t)"

named_theorems fails_intros

lemma fails_andthen [fails_intros]:
  "fails_with p F \<Longrightarrow> (\<And>x. fails_with (k x) F) \<Longrightarrow> fails_with (andthen p k) F"
  by (fastforce simp: fails_with_def andthen_def split: option.splits prod.splits sum.splits)

text \<open>What follows a prompt may use that its answer is valid.\<close>

lemma fails_prompt:
  "answers_only p valid \<Longrightarrow> (\<And>x. valid x \<Longrightarrow> fails_with (k x) F) \<Longrightarrow> fails_with (andthen p k) F"
  by (fastforce simp: fails_with_def answers_only_def andthen_def split: option.splits prod.splits sum.splits)

lemma fails_run_bnd [fails_intros]:
  "fails_with (run p) F \<Longrightarrow> (\<And>x. fails_with (run (k x)) F) \<Longrightarrow> fails_with (run (bnd p k)) F"
  by (fastforce simp: fails_with_def bnd_def split: prod.splits sum.splits)

lemma fails_if [fails_intros]:
  "(b \<Longrightarrow> fails_with p F) \<Longrightarrow> (\<not> b \<Longrightarrow> fails_with q F) \<Longrightarrow> fails_with (if b then p else q) F"
  by simp

lemma fails_run_if [fails_intros]:
  "(b \<Longrightarrow> fails_with (run p) F) \<Longrightarrow> (\<not> b \<Longrightarrow> fails_with (run q) F) \<Longrightarrow> fails_with (run (if b then p else q)) F"
  by simp

lemma fails_never [fails_intros]:
  "fails_with (run (ret x)) F" "fails_with (run (cout t)) F" "fails_with (run (cout_line t)) F"
  "fails_with (run (announce t)) F" "fails_with (run (show_box b)) F"
  "fails_with (run (show_response b)) F" "fails_with (run (ask_line t)) F"
  by (auto simp: fails_with_def dest: announce_quiet show_response_run)
    (auto simp: show_box_def ask_line_def read_line_def)

lemma fails_mono: "fails_with p F \<Longrightarrow> (\<And>e. F e \<Longrightarrow> G e) \<Longrightarrow> fails_with p G"
  by (auto simp: fails_with_def)

lemma answers_only_fails: "answers_only p valid \<Longrightarrow> fails_with p F"
  by (fastforce simp: answers_only_def fails_with_def)

lemmas fails_prompts [fails_intros] =
  prompts_valid [THEN answers_only_fails]

lemma fails_request: "fails_with (run (request t d)) client_failure"
  using request_InlD by (fastforce simp: fails_with_def client_failure_def)

lemma fails_operations [fails_intros]:
  "fails_with (run queryFacilityNames) client_failure" "fails_with (run (queryAvailability f ds)) client_failure"
  "fails_with (run (queryBooking i)) client_failure" "fails_with (run (deleteBooking i details)) client_failure"
  "fails_with (run (rateFacility f r)) client_failure" "fails_with (run (queryRating f)) client_failure"
  "fails_with (run (echoMessage d)) client_failure"
  unfolding queryFacilityNames_def queryAvailability_def queryBooking_def deleteBooking_def rateFacility_def
    queryRating_def echoMessage_def Let_def
  by (rule fails_request)+

lemma fails_of_result: "fails_with (run (of_result r)) F \<longleftrightarrow> (\<forall>e. r = Inl e \<longrightarrow> F e)"
  by (auto simp: fails_with_def)

text \<open>Updating converts parts of the booking's details, which may have any text.\<close>

definition conversion_failure :: "failure \<Rightarrow> bool" where
  "conversion_failure e \<longleftrightarrow> client_failure e \<or> e = Throws Invalid_Argument \<or> (\<exists>t. e = Throws (Out_Of_Range t))"

lemma fails_stoi_at [fails_intros]: "fails_with (run (stoi_at t pos n)) conversion_failure"
  unfolding stoi_at_def
  by (rule fails_run_bnd) (auto simp: fails_of_result substr_def substr_error_def stoi_def Let_def conversion_failure_def
      split: if_splits prod.splits)

lemma fails_total_minutes [fails_intros]: "fails_with (run (total_minutes h m off)) conversion_failure"
  unfolding total_minutes_def
  by (intro fails_run_bnd) (auto simp: fails_of_result int_result_def conversion_failure_def client_failure_def split: if_splits)

lemma fails_updateBooking [fails_intros]: "fails_with (run (updateBooking i off details)) conversion_failure"
  unfolding updateBooking_def Let_def
  by (intro fails_run_bnd fails_stoi_at fails_total_minutes fails_mono [OF fails_request])
    (simp add: conversion_failure_def)

text \<open>Booking with times of the day finds both halves of them.\<close>

lemma bookFacility_request:
  assumes "is_time st" and "is_time et"
  shows "bookFacility f d st et = request WRITE (f @ '','' @ d @ '','' @ take 2 st @ '','' @ drop 2 st @ '','' @
    take 2 et @ '','' @ drop 2 et)"
proof -
  obtain a b c e a' b' c' e' where "st = [a, b, c, e]" "et = [a', b', c', e']"
    using assms by (auto simp: is_time_def)
  then show ?thesis by (intro ext) (simp add: bookFacility_def substr_def eval_nat_numeral)
qed

text \<open>Monitoring also sets the receive timeout, which may be refused.\<close>

definition timeout_failure :: "failure \<Rightarrow> bool" where
  "timeout_failure e \<longleftrightarrow> client_failure e \<or> (\<exists>t. e = Throws (Runtime_Error t))"

lemma fails_setReceiveTimeout: "fails_with (run (setReceiveTimeout n)) timeout_failure"
  by (auto simp: fails_with_def setReceiveTimeout_def sys_call_def throw_errno_def bnd_def fail_def
      timeout_failure_def modify_def split: list.splits if_splits)

lemma fails_listen_loop: "fails_with (run (listen_loop g e)) F"
  unfolding fails_with_def
proof (intro allI impI)
  fix s x s' assume "run (listen_loop g e) s = Some (Inl x, s')"
  moreover obtain s1 where "listen_loop g e s = (Inr (), s1)" using listen_loop_listened by blast
  ultimately show "F x" by simp
qed

lemma fails_listenForMonitoringUpdates [fails_intros]:
  "fails_with (run (listenForMonitoringUpdates n g)) timeout_failure"
  unfolding fails_with_def
proof (intro allI impI)
  fix s x s' assume "run (listenForMonitoringUpdates n g) s = Some (Inl x, s')"
  then have "run (bnd (setReceiveTimeout n) (\<lambda>_. bnd (listen_loop g (nat (int (k_clock s) + 1000 * n)))
      (\<lambda>_. setReceiveTimeout TIMEOUT_SEC))) s = Some (Inl x, s')"
    by (simp add: listenForMonitoringUpdates_def Let_def)
  moreover have "fails_with (run (bnd (setReceiveTimeout n) (\<lambda>_. bnd (listen_loop g e)
      (\<lambda>_. setReceiveTimeout TIMEOUT_SEC)))) timeout_failure" for e
    by (intro fails_run_bnd fails_setReceiveTimeout fails_listen_loop)
  ultimately show "timeout_failure x" by (fastforce simp: fails_with_def simp del: run_apply)
qed

lemma fails_monitorAvailability [fails_intros]: "fails_with (run (monitorAvailability f n cb)) timeout_failure"
  unfolding monitorAvailability_def
  by (intro fails_intros fails_mono [OF fails_request]) (simp add: timeout_failure_def)

section \<open>The failures of the handlers\<close>

lemma fails_ask:
  assumes "\<And>v. fails_with (run (q v)) F"
  shows "fails_with (ask q v) F"
  unfolding fails_with_def
proof (intro allI impI)
  fix s e s' assume "ask q v s = Some (Inl e, s')"
  then have "forever (\<lambda>v. run (q v)) v s = Some (Inl e, s')" by (simp add: ask_def)
  from forever_induct [OF this, where Q = "\<lambda>v s r. \<forall>e. fst r = Inl e \<longrightarrow> F e"] assms
  show "F e" by (fastforce simp: fails_with_def)
qed

text \<open>A selection of days that the program does not survive.\<close>

definition days_failure :: "failure \<Rightarrow> bool" where
  "days_failure e \<longleftrightarrow> client_failure e \<or> e = Throws (Out_Of_Range ''stoi'')"

lemma stoi_failures: "stoi t = Inl e \<Longrightarrow> e = Throws Invalid_Argument \<or> e = Throws (Out_Of_Range ''stoi'')"
  by (auto simp: stoi_def Let_def split: prod.splits if_splits)

lemma fails_select_days: "fails_with (run (select_days tokens sel)) days_failure"
proof (induction tokens arbitrary: sel)
  case (Cons t tokens)
  show ?case
  proof (cases "stoi t")
    case (Inl e)
    with stoi_failures [OF Inl] show ?thesis by (auto simp: fails_with_def days_failure_def)
  next
    case (Inr c)
    with Cons show ?thesis by (auto simp: fails_with_def)
  qed
qed (simp add: fails_with_def)

lemma fails_from_cin: "fails_with (run (from_cin f)) F"
  by (simp add: fails_with_def)

lemma fails_promptDaysOfWeek [fails_intros]: "fails_with (promptDaysOfWeek t) days_failure"
proof -
  have "fails_with (run (case selected of None \<Rightarrow> ret (Inl ()) | Some selectedDays \<Rightarrow>
      if selectedDays = [] then fail (Undefined u) else ret (Inr (g selectedDays)))) days_failure" for selected u g
    by (cases selected) (auto simp: fails_with_def days_failure_def client_failure_def)
  then show ?thesis
    unfolding promptDaysOfWeek_def
    by (intro fails_ask) (auto simp: days_question_def Let_def intro!: fails_run_bnd fails_never fails_from_cin fails_select_days)
qed

lemma fails_list_facilities [fails_intros]: "fails_with (run list_facilities) client_failure"
  unfolding list_facilities_def by (intro fails_intros)

lemma fails_promptFacilityName [fails_intros]: "fails_with (run (promptFacilityName t)) F"
  unfolding promptFacilityName_def by (intro fails_intros)

lemma client_failure_wider:
  "client_failure e \<Longrightarrow> conversion_failure e" "client_failure e \<Longrightarrow> timeout_failure e" "client_failure e \<Longrightarrow> days_failure e"
  by (simp_all add: conversion_failure_def timeout_failure_def days_failure_def)

lemmas fails_wider =
  fails_operations [THEN fails_mono, OF client_failure_wider(1)]
  fails_operations [THEN fails_mono, OF client_failure_wider(3)]
  fails_list_facilities [THEN fails_mono, OF client_failure_wider(2)]
  fails_list_facilities [THEN fails_mono, OF client_failure_wider(3)]

lemma fails_bookFacility_times:
  "is_time st \<Longrightarrow> is_time et \<Longrightarrow> fails_with (run (bookFacility f d st et)) client_failure"
  by (simp only: bookFacility_request fails_request)

lemma fails_handlers:
  "fails_with handleQueryFacilityNames client_failure" (is ?names)
  "fails_with handleQueryAvailability (\<lambda>e. client_failure e \<or> e = Throws (Out_Of_Range ''stoi''))" (is ?availability)
  "fails_with handleBookFacility client_failure" (is ?book)
  "fails_with handleQueryBooking client_failure" (is ?booking)
  "fails_with handleUpdateBooking
     (\<lambda>e. client_failure e \<or> e = Throws Invalid_Argument \<or> (\<exists>t. e = Throws (Out_Of_Range t)))" (is ?update)
  "fails_with handleDeleteBooking client_failure" (is ?delete)
  "fails_with handleMonitorAvailability (\<lambda>e. client_failure e \<or> (\<exists>t. e = Throws (Runtime_Error t)))" (is ?monitor)
  "fails_with handleRateFacility client_failure" (is ?rate)
  "fails_with handleQueryRating client_failure" (is ?rating)
  "fails_with handleEchoMessage client_failure" (is ?echo)
  "fails_with handleExit (\<lambda>e. e = Exits 0)" (is ?exit)
proof -
  show ?names
    unfolding handleQueryFacilityNames_def by (intro fails_intros)
  show ?availability
    unfolding handleQueryAvailability_def days_failure_def [symmetric] by (intro fails_intros fails_wider)
  show ?book
    unfolding handleBookFacility_def
    by (intro fails_andthen fails_if fails_run_bnd fails_never fails_list_facilities fails_promptFacilityName
        fails_prompt [OF prompts_valid(4)] fails_prompt [OF prompts_valid(5)] fails_bookFacility_times)
  show ?booking
    unfolding handleQueryBooking_def by (intro fails_intros)
  show ?update
    unfolding handleUpdateBooking_def conversion_failure_def [symmetric] by (intro fails_intros fails_wider)
  show ?delete
    unfolding handleDeleteBooking_def by (intro fails_intros)
  show ?monitor
    unfolding handleMonitorAvailability_def timeout_failure_def [symmetric] by (intro fails_intros fails_wider)
  show ?rate
    unfolding handleRateFacility_def by (intro fails_intros)
  show ?rating
    unfolding handleQueryRating_def by (intro fails_intros)
  show ?echo
    unfolding handleEchoMessage_def by (intro fails_intros)
  show ?exit
    unfolding handleExit_def
    by (intro fails_andthen fails_if fails_prompts fails_run_bnd fails_never) (simp add: fails_with_def)
qed

text \<open>
  C33. Every failure a handler can end in: the program's own exit when a request cannot be sent and
  undefined behaviour (a null reply, the overflow of the ID counter, an empty selection of days)
  come from the requests of every handler but exit, and besides them only the availability query
  (a day number too large for \<^verbatim>\<open>int\<close>), the update (times that cannot be converted) and monitoring
  (a timeout that cannot be set) let an exception through; exit only ends the program normally.
  In particular booking with the times its prompts return never throws.
\<close>

theorem handler_failures:
  "fails_with handleQueryFacilityNames client_failure \<and>
   fails_with handleQueryAvailability (\<lambda>e. client_failure e \<or> e = Throws (Out_Of_Range ''stoi'')) \<and>
   fails_with handleBookFacility client_failure \<and>
   fails_with handleQueryBooking client_failure \<and>
   fails_with handleUpdateBooking
     (\<lambda>e. client_failure e \<or> e = Throws Invalid_Argument \<or> (\<exists>t. e = Throws (Out_Of_Range t))) \<and>
   fails_with handleDeleteBooking client_failure \<and>
   fails_with handleMonitorAvailability (\<lambda>e. client_failure e \<or> (\<exists>t. e = Throws (Runtime_Error t))) \<and>
   fails_with handleRateFacility client_failure \<and>
   fails_with handleQueryRating client_failure \<and>
   fails_with handleEchoMessage client_failure \<and>
   fails_with handleExit (\<lambda>e. e = Exits 0)"
  by (intro conjI fails_handlers)

section \<open>The menu\<close>

lemma andthen_SomeInlE:
  assumes "andthen p k s = Some (Inl e, s')"
  obtains "p s = Some (Inl e, s')" | x s1 where "p s = Some (Inr x, s1)" and "k x s1 = Some (Inl e, s')"
  using assms by (auto simp: andthen_def split: option.splits prod.splits sum.splits)

definition menu_failure :: "failure \<Rightarrow> bool" where
  "menu_failure e \<longleftrightarrow> client_failure e \<or> e = Throws Invalid_Argument \<or>
     (\<exists>t. e = Throws (Out_Of_Range t)) \<or> (\<exists>t. e = Throws (Runtime_Error t))"

lemma fails_handleUserChoice:
  assumes "choice \<noteq> 11"
  shows "fails_with (handleUserChoice choice) menu_failure"
proof -
  have c: "fails_with p client_failure \<Longrightarrow> fails_with p menu_failure" for p :: "('k ui_scheme, unit) proc"
    by (erule fails_mono) (simp add: menu_failure_def)
  note simple = fails_handlers(1,3,4,6,8,9,10) [THEN c]
  note others = fails_handlers(2,5,7)
  have others: "fails_with handleQueryAvailability menu_failure" "fails_with handleUpdateBooking menu_failure"
      "fails_with handleMonitorAvailability menu_failure"
    by (rule fails_mono [OF others(1)], fastforce simp: menu_failure_def)
      (rule fails_mono [OF others(2)], fastforce simp: menu_failure_def,
       rule fails_mono [OF others(3)], fastforce simp: menu_failure_def)
  show ?thesis
    unfolding handleUserChoice_def using assms by (intro fails_if simple others fails_never) simp
qed

text \<open>The states at the head of the menu's loop that a run from \<open>s\<close> comes to.\<close>

inductive menu_turns :: "'k ui_scheme \<Rightarrow> 'k ui_scheme \<Rightarrow> bool" where
  menu_start: "menu_turns s s"
| menu_again: "menu_turn () s = Some (Inr (Inl ()), s1) \<Longrightarrow> menu_turns s1 s2 \<Longrightarrow> menu_turns s s2"

text \<open>
  The turn of the menu from \<open>s\<close> to \<open>s'\<close> that a confirmed exit ends: the menu is shown, the choice
  read after it is 11, the question put after that is answered yes, and the farewell is printed.
\<close>

definition exit_confirmed :: "'k ui_scheme \<Rightarrow> 'k ui_scheme \<Rightarrow> bool" where
  "exit_confirmed s s' \<longleftrightarrow> (\<exists>s1 s2.
     promptChoice ''Enter choice (1-11): '' (s\<lparr>k_cout := k_cout s @ [newline] @ generateBox MAIN_MENU\<rparr>) =
       Some (Inr 11, s1) \<and>
     promptConfirmation ''Exit Facility Booking System (yes/no)? '' s1 = Some (Inr True, s2) \<and>
     s' = s2\<lparr>k_cout := k_cout s2 @ ''Exiting...'' @ [newline]\<rparr>)"

lemma handleExit_confirmed:
  assumes "handleExit s = Some (Inl e, s')"
  shows "e = Exits 0 \<and>
    (\<exists>s1. promptConfirmation ''Exit Facility Booking System (yes/no)? '' s = Some (Inr True, s1) \<and>
       s' = s1\<lparr>k_cout := k_cout s1 @ ''Exiting...'' @ [newline]\<rparr>)"
proof -
  let ?t = "''Exit Facility Booking System (yes/no)? ''"
  have never: "promptConfirmation ?t s \<noteq> Some (Inl e, s')"
    using prompts_valid(7) by (fastforce simp: answers_only_def)
  from assms obtain c s1 where c: "promptConfirmation ?t s = Some (Inr c, s1)"
    and k: "(if c then run (bnd (cout_line ''Exiting...'') (\<lambda>_. fail (Exits 0)))
      else run (cout_line ''Returning to main menu...'')) s1 = Some (Inl e, s')"
    unfolding handleExit_def using never by (elim andthen_SomeInlE) auto
  from k have "c" "e = Exits 0" "s' = s1\<lparr>k_cout := k_cout s1 @ ''Exiting...'' @ [newline]\<rparr>"
    by (cases c; simp)+
  with c show ?thesis by auto
qed

lemma menu_turn_failure:
  assumes "menu_turn v s = Some (Inl e, s')"
  shows "menu_failure e \<or> e = Exits 0 \<and> exit_confirmed s s'"
proof -
  let ?s = "s\<lparr>k_cout := k_cout s @ [newline] @ generateBox MAIN_MENU\<rparr>"
  have p: "promptChoice t s1 \<noteq> Some (Inl e, s')" for t s1
    using prompts_valid(3) by (fastforce simp: answers_only_def)
  have box: "run (bnd (cout [newline]) (\<lambda>_. cout (generateBox MAIN_MENU))) s = Some (Inr (), ?s)" by simp
  have "andthen (promptChoice ''Enter choice (1-11): '') (\<lambda>choice.
      andthen (handleUserChoice choice) (\<lambda>_. run (ret (Inl () :: unit + unit)))) ?s = Some (Inl e, s')"
    using assms unfolding menu_turn_def by (simp only: andthen_Inr box)
  then obtain choice s1 where c: "promptChoice ''Enter choice (1-11): '' ?s = Some (Inr choice, s1)"
    and h: "handleUserChoice choice s1 = Some (Inl e, s')"
    using p by (elim andthen_SomeInlE) auto
  show ?thesis
  proof (cases "choice = 11")
    case True
    with h have "handleExit s1 = Some (Inl e, s')" by (simp add: handleUserChoice_def)
    from handleExit_confirmed [OF this] c True show ?thesis unfolding exit_confirmed_def by blast
  next
    case False
    with fails_handleUserChoice h show ?thesis unfolding fails_with_def by blast
  qed
qed

lemma displayMenu_failure:
  assumes "displayMenu s = Some (r, s')"
  shows "\<exists>e s0. r = Inl e \<and> menu_turns s s0 \<and> menu_turn () s0 = Some (Inl e, s') \<and>
    (menu_failure e \<or> e = Exits 0 \<and> exit_confirmed s0 s')"
proof -
  let ?Q = "\<lambda>s r. \<exists>e s0. fst r = Inl e \<and> menu_turns s s0 \<and> menu_turn () s0 = Some (Inl e, snd r) \<and>
    (menu_failure e \<or> e = Exits 0 \<and> exit_confirmed s0 (snd r))"
  have "?Q s (r, s')"
    using assms unfolding displayMenu_def
  proof (rule forever_induct [where Q = "\<lambda>_. ?Q"], goal_cases)
    case (1 v s x s')
    then show ?case by (auto dest: menu_turn_again)
  next
    case (2 v s e s')
    then have "menu_turn () s = Some (Inl e, s')" by simp
    with menu_turn_failure [OF this] menu_start [of s] show ?case by auto
  next
    case (3 v s v' s' r)
    then have "menu_turn () s = Some (Inr (Inl ()), s')" by simp
    with 3(2) menu_again show ?case by blast
  qed
  then show ?thesis by simp
qed

text \<open>
  C32. The menu has no way back: it runs forever or, after some completed turns, ends in a turn
  that fails. It ends the program normally, with status 0, only by a confirmed exit: in that last
  turn the user has chosen 11 from the menu and then answered yes to the question whether to exit.
  Every other failure is an exit with status 1, undefined behaviour or an exception on its way to
  \<^verbatim>\<open>main\<close>.
\<close>

theorem menu_ends_only_by_exit:
  assumes "displayMenu s = Some (r, s')"
  shows "\<exists>e s0. r = Inl e \<and> menu_turns s s0 \<and> menu_turn () s0 = Some (Inl e, s') \<and>
    (e = Exits 0 \<and> exit_confirmed s0 s' \<or> e = Exits 1 \<or> (\<exists>t. e = Undefined t) \<or>
     e = Throws Invalid_Argument \<or> (\<exists>t. e = Throws (Out_Of_Range t)) \<or> (\<exists>t. e = Throws (Runtime_Error t)))"
  using displayMenu_failure [OF assms] unfolding menu_failure_def client_failure_def by blast

theorem menu_ends_only_by_exit_witness:
  "\<exists>s'. displayMenu (ui_on (''11'' @ newline # ''yes'' @ newline # '''') []) = Some (Inl (Exits 0), s') \<and>
    (\<exists>s0. menu_turns (ui_on (''11'' @ newline # ''yes'' @ newline # '''') []) s0 \<and> exit_confirmed s0 s')"
proof -
  let ?s = "ui_on (''11'' @ newline # ''yes'' @ newline # '''') []"
  have yes: "plain_word ''yes''" "regex_match ''yes'' yesNoRegex" "is_yes ''yes''"
    by (simp_all add: plain_word_def isspace_def yesNoRegex_def white_def any_case_def is_yes_def)
  define s0 where "s0 = ?s\<lparr>k_cout := [newline] @ generateBox MAIN_MENU\<rparr>"
  define s1 where "s1 = s0\<lparr>k_cout := k_cout s0 @ ''Enter choice (1-11): '',
    cin := (cin s0)\<lparr>unread := newline # ''yes'' @ newline # ''''\<rparr>\<rparr>"
  have s0: "run (bnd (cout [newline]) (\<lambda>_. cout (generateBox MAIN_MENU))) ?s = Some (Inr (), s0)"
    by (simp add: s0_def)
  have "extract_int 0 (cin s0) = (11, (cin s0)\<lparr>unread := newline # ''yes'' @ newline # ''''\<rparr>)"
    by (simp add: s0_def extract_int_def good_def istringstream_def isspace_def isdigit_def digits_val_def
        digit_val_def in_int_def INT_MIN_def INT_MAX_def newline_def)
  then have "choice_question ''Enter choice (1-11): '' () s0 = (Inr (Inr 11), s1)"
    by (simp add: choice_question_def s1_def s0_def istringstream_def)
  then have s1: "promptChoice ''Enter choice (1-11): '' s0 = Some (Inr 11, s1)"
    unfolding promptChoice_def by (rule choice.ask_answered)
  have "good (cin s1)" "unread (cin s1) = [newline] @ terminated newline [] @ ''yes'' @ newline # ''''"
    by (simp_all add: s1_def s0_def good_def istringstream_def)
  from ask_word_first_match [OF this _ _ yes(1,2), where answer = is_yes and old = "''''"] obtain s2 where
    s2: "promptConfirmation ''Exit Facility Booking System (yes/no)? '' s1 = Some (Inr True, s2)"
    using yes(3) unfolding promptConfirmation_def by auto
  let ?s3 = "s2\<lparr>k_cout := k_cout s2 @ ''Exiting...'' @ [newline]\<rparr>"
  have "handleUserChoice 11 s1 = Some (Inl (Exits 0), ?s3)"
    by (simp add: handleUserChoice_def handleExit_def
        andthen_Inr [where p = "promptConfirmation ''Exit Facility Booking System (yes/no)? ''" and s = s1, OF s2])
  then have "menu_turn () ?s = Some (Inl (Exits 0), ?s3)"
    unfolding menu_turn_def by (simp only: andthen_Inr s0 s1 andthen_Inl)
  then have "displayMenu ?s = Some (Inl (Exits 0), ?s3)"
    unfolding displayMenu_def by (rule forever_fail)
  with menu_ends_only_by_exit [OF this] show ?thesis by auto
qed

section \<open>What booking puts on the wire\<close>

lemma listed_facilities:
  assumes "bnd (announce title) (\<lambda>_. list_facilities) s = (Inr err, s')"
  shows "\<exists>n. issued (RequestMessage_new READ (requestID s) ''facility,ALL'') n s s'"
proof -
  obtain s1 u where 1: "announce title s = (Inr u, s1)" and 2: "list_facilities s1 = (Inr err, s')"
    using assms by (rule bnd_InrE)
  obtain response s2 where 3: "queryFacilityNames s1 = (Inr response, s2)"
    and 4: "show_response (parseQueryFacilityNamesResponse response) s2 = (Inr err, s')"
    using 2 unfolding list_facilities_def by (rule bnd_InrE)
  have q: "quiet s s1" using announce_quiet [OF 1] by blast
  obtain n where n: "issued (RequestMessage_new READ (requestID s1) ''facility,ALL'') n s1 s2"
    using request_issues 3 unfolding queryFacilityNames_def by blast
  have "quiet s2 s'" using show_response_run [OF 4] by blast
  with n quiet_sent [OF q] issued_quiet [OF q] show ?thesis by fastforce
qed

lemma promptFacilityName_quiet: "run (promptFacilityName t) s = Some (r, s') \<Longrightarrow> quiet s s'"
  by (auto simp: promptFacilityName_def ask_line_def read_line_def)

lemma answers_onlyD: "answers_only p valid \<Longrightarrow> p s = Some (Inr x, s') \<Longrightarrow> valid x \<and> quiet s s'"
  by (fastforce simp: answers_only_def)

text \<open>
  C22. Whatever is typed, the booking handler asks the server for a valid booking or none: after the
  list of facilities it sends at most one booking request, under the next request ID, for a day
  of the week and for start and end times of the day (hours below 24, minutes below 60), each as
  its two digits.
\<close>

theorem bookings_sent_are_valid:
  assumes "handleBookFacility s = Some (Inr u, s')"
  shows "\<exists>n lists. 1 \<le> n \<and> n \<le> MAX_RETRIES \<and>
    lists = sent_datagrams (k_trace s) @
      replicate n (datagram (RequestMessage_new READ (requestID s) ''facility,ALL'')) \<and>
    (sent_datagrams (k_trace s') = lists \<or>
     (\<exists>f day st et k. day \<in> set DAYS_OF_WEEK \<and> is_time st \<and> is_time et \<and> 1 \<le> k \<and> k \<le> MAX_RETRIES \<and>
        sent_datagrams (k_trace s') = lists @ replicate k (datagram (RequestMessage_new WRITE (requestID s + 1)
          (f @ '','' @ day @ '','' @ take 2 st @ '','' @ drop 2 st @ '','' @ take 2 et @ '','' @ drop 2 et)))))"
  using assms unfolding handleBookFacility_def
proof (elim andthen_SomeInrE, goal_cases)
  case (1 err s1)
  have "bnd (announce ''Book Facility'') (\<lambda>_. list_facilities) s = (Inr err, s1)"
    using 1(1) by (simp only: run_SomeInr)
  then obtain n where n: "issued (RequestMessage_new READ (requestID s) ''facility,ALL'') n s s1"
    using listed_facilities by blast
  define lists where "lists = sent_datagrams (k_trace s) @
    replicate n (datagram (RequestMessage_new READ (requestID s) ''facility,ALL''))"
  have s1: "sent_datagrams (k_trace s1) = lists" "requestID s1 = requestID s + 1" "1 \<le> n" "n \<le> MAX_RETRIES"
    using n by (simp_all add: issued_def lists_def)
  show ?case
  proof (cases err)
    case True
    with 1(2) have "s' = s1" by (simp only: if_True run_SomeInr run_ret prod.inject)
    with s1 show ?thesis unfolding lists_def by blast
  next
    case False
    note rest = 1(2) [unfolded if_not_P [OF False]]
    from rest show ?thesis
    proof (elim andthen_SomeInrE, goal_cases)
      case (1 f s2 day s3 st s4 et s5)
      note day = answers_onlyD [OF prompts_valid(4) 1(2)] and st = answers_onlyD [OF prompts_valid(5) 1(3)]
        and et = answers_onlyD [OF prompts_valid(5) 1(4)]
      have q: "quiet s1 s5"
        using promptFacilityName_quiet [OF 1(1)] day st et by (blast intro: quiet_trans)
      from 1(5) obtain response s6 where 6: "bookFacility f day st et s5 = (Inr response, s6)"
        and 7: "bnd (show_response (parseBookFacilityResponse response)) (\<lambda>_. ret ()) s6 = (Inr u, s')"
        by (rule run_bnd_InrE)
      let ?d = "f @ '','' @ day @ '','' @ take 2 st @ '','' @ drop 2 st @ '','' @ take 2 et @ '','' @ drop 2 et"
      have "request WRITE ?d s5 = (Inr response, s6)" using 6 bookFacility_request st et by metis
      then obtain k where "issued (RequestMessage_new WRITE (requestID s5) ?d) k s5 s6"
        using request_issues by blast
      then have "sent_datagrams (k_trace s') = lists @ replicate k (datagram (RequestMessage_new WRITE (requestID s + 1) ?d))"
          "1 \<le> k" "k \<le> MAX_RETRIES"
        using quiet_sent [OF q] quiet_sent [OF shown_quiet [OF 7]] s1 by (simp_all add: issued_def)
      with day st et s1 show ?case unfolding lists_def by blast
    qed
  qed
qed

text \<open>The listing on a working network.\<close>

lemma facilities_listed:
  assumes "ready s" and "k_recv s = (t, Datagram (datagram (RequestMessage_new rt (requestID s) msg)) addr) # post"
    and "t < time_limit s" and "msg \<noteq> ''''" and "length msg \<le> BUFFER_SIZE - 115"
    and "parseQueryFacilityNamesResponse msg = header # rows" and "header \<noteq> ''Error''"
  shows "\<exists>s'. run (bnd (announce title) (\<lambda>_. list_facilities)) s = Some (Inr False, s') \<and> k_recv s' = post \<and>
    k_errnos s' = [] \<and> requestID s' = requestID s + 1 \<and> cin s' = cin s \<and> k_timeout s' = k_timeout s"
proof -
  define s1 where "s1 = s\<lparr>k_cout := k_cout s @ newline # title @ '' selected.'' @ [newline]\<rparr>"
  have 1: "announce title s = (Inr (), s1)" by (simp add: announce_def s1_def)
  have "ready s1" "k_recv s1 = k_recv s" "requestID s1 = requestID s" "time_limit s1 = time_limit s"
    using assms(1) by (simp_all add: s1_def ready_def time_limit_def)
  then obtain s2 where 2: "request READ ''facility,ALL'' s1 = (Inr msg, s2)" "k_recv s2 = post"
    using request_replied [of s1 t rt msg addr post READ "''facility,ALL''"] assms(2-5) by auto
  note f = request_frame [OF 2(1)]
  let ?s = "s2\<lparr>k_cout := k_cout s2 @ generateBox (header # rows)\<rparr>"
  have "show_response (header # rows) s2 = (Inr False, ?s)"
    using assms(7) by (simp add: show_response_def show_box_def UI_isErrorResponse_def)
  then have "run (bnd (announce title) (\<lambda>_. list_facilities)) s = Some (Inr False, ?s)"
    using 1 2(1) assms(6) by (simp add: list_facilities_def queryFacilityNames_def)
  moreover have "cin s2 = cin s" using same_input [OF f(1)] by (simp add: s1_def)
  ultimately show ?thesis using 2(2) f(2-4) assms(1) by (intro exI [of _ ?s]) (simp add: s1_def ready_def)
qed

definition some_names :: string where
  "some_names = names_response [''Room'', ''Hall'']"

definition names_reply :: "nat \<times> recv_event" where
  "names_reply = (10, Datagram (datagram (RequestMessage_new READ 0 some_names)) server_at)"

lemma some_names:
  "\<exists>rows. parseQueryFacilityNamesResponse some_names = ''Facility Names'' # rows"
  "some_names \<noteq> ''''" "length some_names \<le> BUFFER_SIZE - 115"
proof -
  show "\<exists>rows. parseQueryFacilityNamesResponse some_names = ''Facility Names'' # rows"
    unfolding some_names_def by (subst names_parsed) (simp_all add: newline_def)
  show "some_names \<noteq> ''''" "length some_names \<le> BUFFER_SIZE - 115"
    by (simp_all add: some_names_def names_response_def BUFFER_SIZE_def STATUS_SUCCESS_def)
qed

text \<open>A booking typed in full, on a network where the server answers the listing only.\<close>

definition typed_booking :: string where
  "typed_booking = newline # ''Room'' @ newline # ''3'' @ newline # ''0900'' @ newline # ''1000'' @ [newline]"

lemma typed_booking_run:
  "\<exists>s'. handleBookFacility (ui_on typed_booking [names_reply]) = Some (Inr (), s') \<and> requestID s' = 2"
proof -
  let ?s = "ui_on typed_booking [names_reply]"
  obtain rows where rows: "parseQueryFacilityNamesResponse some_names = ''Facility Names'' # rows"
    using some_names(1) by blast
  obtain s1 where t1: "run (bnd (announce ''Book Facility'') (\<lambda>_. list_facilities)) ?s = Some (Inr False, s1)"
    and s1: "k_recv s1 = []" "k_errnos s1 = []" "requestID s1 = 1" "cin s1 = istringstream typed_booking"
    using facilities_listed [OF _ _ _ some_names(2,3) rows, of ?s 10 READ server_at "[]" "''Book Facility''"]
    by (auto simp: names_reply_def ready_def time_limit_def TIMEOUT_SEC_def INT_MAX_def)
  define s2 where "s2 = s1\<lparr>k_cout := k_cout s1 @ ''Enter facility name: '',
    cin := istringstream (''3'' @ newline # ''0900'' @ newline # ''1000'' @ [newline])\<rparr>"
  have t2: "run (promptFacilityName ''Enter facility name: '') s1 = Some (Inr ''Room'', s2)"
    using s1(4) by (simp add: promptFacilityName_def ask_line_def read_line_def typed_booking_def istringstream_def
        ignore_one_def getline_def good_def s2_def newline_def)
  define s3 where "s3 = s2\<lparr>k_cout := k_cout s2 @ generateBox DAYS_OF_WEEK_MENU @ ''Enter choice (1-7): '',
    cin := istringstream (newline # ''0900'' @ newline # ''1000'' @ [newline])\<rparr>"
  have "extract_int 0 (cin s2) = (3, istringstream (newline # ''0900'' @ newline # ''1000'' @ [newline]))"
    by (simp add: s2_def extract_int_def good_def istringstream_def isspace_def isdigit_def digits_val_def
        digit_val_def in_int_def INT_MIN_def INT_MAX_def newline_def)
  then have "day_question ''Enter choice (1-7): '' () s2 = (Inr (Inr (DAYS_OF_WEEK ! 2)), s3)"
    by (simp add: day_question_def s3_def istringstream_def)
  then have t3: "promptDayOfWeek ''Enter choice (1-7): '' s2 = Some (Inr (DAYS_OF_WEEK ! 2), s3)"
    unfolding promptDayOfWeek_def by (rule day.ask_answered)
  have time: "is_time ''0900''" "is_time ''1000''" by (simp_all add: is_time_def isdigit_def digit_val_def)
  have plain: "plain_word ''0900''" "plain_word ''1000''" by (simp_all add: plain_word_def isspace_def)
  have "good (cin s3)" "unread (cin s3) = [newline] @ terminated newline [] @ ''0900'' @ newline # ''1000'' @ [newline]"
    by (simp_all add: s3_def)
  from ask_word_first_match [OF this _ _ plain(1), where answer = "\<lambda>x. x" and old = "''''" and pattern = timeRegex]
  obtain s4 where t4: "promptTime ''Enter start time (HHMM): '' s3 = Some (Inr ''0900'', s4)"
    and s4: "unread (cin s4) = [newline] @ terminated newline [] @ ''1000'' @ newline # ''''" "good (cin s4)" "quiet s3 s4"
    using time(1) unfolding promptTime_def by (auto simp: timeRegex_iff)
  from ask_word_first_match [OF s4(2,1) _ _ plain(2), where answer = "\<lambda>x. x" and old = "''''" and pattern = timeRegex]
  obtain s5 where t5: "promptTime ''Enter end time (HHMM): '' s4 = Some (Inr ''1000'', s5)" and s5: "quiet s4 s5"
    using time(2) unfolding promptTime_def by (auto simp: timeRegex_iff)
  have "quiet s3 s5" using s4(3) s5 by (rule quiet_trans)
  then have s5: "ready s5" "k_recv s5 = []" "requestID s5 = 1"
    using s1 by (simp_all add: quiet_def s3_def s2_def ready_def INT_MAX_def)
  obtain s6 where b: "bookFacility ''Room'' (DAYS_OF_WEEK ! 2) ''0900'' ''1000'' s5 = (Inr gave_up, s6)"
    using request_silent [OF s5(1,2)] by (auto simp: bookFacility_request [OF time])
  then have "requestID s6 = 2" using book.next_requestID s5(3) by fastforce
  then obtain s7 where s7: "bnd (show_response (parseBookFacilityResponse gave_up)) (\<lambda>_. ret ()) s6 = (Inr (), s7)"
      "requestID s7 = 2" using shown by metis
  have t6: "run (bnd (bookFacility ''Room'' (DAYS_OF_WEEK ! 2) ''0900'' ''1000'') (\<lambda>response.
      bnd (show_response (parseBookFacilityResponse response)) (\<lambda>_. ret ()))) s5 = Some (Inr (), s7)"
    using b s7(1) by simp
  have "handleBookFacility ?s = Some (Inr (), s7)"
    unfolding handleBookFacility_def by (simp only: andthen_Inr t1 t2 t3 t4 t5 t6 if_False)
  with s7(2) show ?thesis by blast
qed

theorem bookings_sent_are_valid_witness:
  "\<exists>s' n lists. handleBookFacility (ui_on typed_booking [names_reply]) = Some (Inr (), s') \<and> requestID s' = 2 \<and>
    1 \<le> n \<and> lists = replicate n (datagram (RequestMessage_new READ 0 ''facility,ALL'')) \<and>
    (sent_datagrams (k_trace s') = lists \<or>
     (\<exists>f day st et k. day \<in> set DAYS_OF_WEEK \<and> is_time st \<and> is_time et \<and>
        sent_datagrams (k_trace s') = lists @ replicate k (datagram (RequestMessage_new WRITE 1
          (f @ '','' @ day @ '','' @ take 2 st @ '','' @ drop 2 st @ '','' @ take 2 et @ '','' @ drop 2 et)))))"
proof -
  obtain s' where s': "handleBookFacility (ui_on typed_booking [names_reply]) = Some (Inr (), s')" "requestID s' = 2"
    using typed_booking_run by blast
  from bookings_sent_are_valid [OF s'(1)] have "\<exists>n lists. 1 \<le> n \<and>
    lists = replicate n (datagram (RequestMessage_new READ 0 ''facility,ALL'')) \<and>
    (sent_datagrams (k_trace s') = lists \<or>
     (\<exists>f day st et k. day \<in> set DAYS_OF_WEEK \<and> is_time st \<and> is_time et \<and>
        sent_datagrams (k_trace s') = lists @ replicate k (datagram (RequestMessage_new WRITE 1
          (f @ '','' @ day @ '','' @ take 2 st @ '','' @ drop 2 st @ '','' @ take 2 et @ '','' @ drop 2 et)))))"
    unfolding ui_on_simps sent_datagrams_simps append_Nil add_0 by blast
  with s' show ?thesis by blast
qed

section \<open>The end of the input\<close>

lemma prompts_endless:
  assumes "exhausted s"
  shows "promptServerIP t s = None" "promptServerPort t s = None" "promptChoice t s = None" "promptDayOfWeek t s = None"
    "promptTime t s = None" "promptBookingID t s = None" "promptConfirmation t s = None" "promptOffset t s = None"
    "promptRating t s = None" "promptDuration t s = None"
proof -
  have n: "\<not> regex_match '''' ipRegex" "\<not> regex_match '''' timeRegex" "\<not> regex_match '''' bookingIDRegex"
    "\<not> regex_match '''' yesNoRegex"
    by (simp_all add: ipRegex_def timeRegex_def bookingIDRegex_def yesNoRegex_def one_to_three_def digits_def
        hex_digits_def any_case_def eval_nat_numeral)
  show "promptServerIP t s = None" "promptServerPort t s = None" "promptChoice t s = None" "promptDayOfWeek t s = None"
    "promptTime t s = None" "promptBookingID t s = None" "promptConfirmation t s = None" "promptOffset t s = None"
    "promptRating t s = None" "promptDuration t s = None"
    unfolding promptServerIP_def promptServerPort_def promptChoice_def promptDayOfWeek_def promptTime_def
      promptBookingID_def promptConfirmation_def promptOffset_def promptRating_def promptDuration_def
    by (rule word.endless [OF n(1) assms] port.endless [OF refl assms] choice.endless [OF TrueI assms]
        day.endless [OF TrueI assms] word.endless [OF n(2) assms] word.endless [OF n(3) assms]
        word.endless [OF n(4) assms] offset.endless [OF TrueI assms] rating.endless [OF TrueI assms]
        duration.endless [OF refl assms])+
qed

text \<open>
  C36. When the input is used up nothing in the program notices it: the ten prompts that validate
  their answer repeat their question forever, and so the menu and \<^verbatim>\<open>main\<close> never end; the prompt for
  a facility name returns the empty text as if it had been typed, and the one for several days
  takes the first element of an empty vector.
\<close>

theorem input_end_never_noticed:
  assumes "exhausted s"
  shows "promptServerIP t s = None \<and> promptServerPort t s = None \<and> promptChoice t s = None \<and>
    promptDayOfWeek t s = None \<and> promptTime t s = None \<and> promptBookingID t s = None \<and>
    promptConfirmation t s = None \<and> promptOffset t s = None \<and> promptRating t s = None \<and>
    promptDuration t s = None \<and> displayMenu s = None \<and> main_program s = None \<and>
    (\<exists>s'. promptDaysOfWeek t s = Some (Inl (Undefined ''first element of an empty vector''), s')) \<and>
    (\<exists>s'. promptFacilityName t s = (Inr '''', s') \<and> exhausted s')"
proof -
  have name: "\<exists>s'. promptFacilityName t s = (Inr '''', s') \<and> exhausted s'"
    using assms by (auto simp: promptFacilityName_def ask_line_def read_line_def exhausted_def ignore_one_def getline_def)
  have "menu_turn () s = None"
    unfolding menu_turn_def using assms
    by (simp add: andthen_def exhausted_def prompts_endless(3))
  then have "displayMenu s = None" unfolding displayMenu_def by (subst forever.simps) simp
  moreover have "main_program s = None"
    unfolding main_program_def by (rule andthen_None) (rule prompts_endless [OF assms])
  moreover have "\<exists>s'. days_question t () s = (Inl (Undefined ''first element of an empty vector''), s')"
    using assms by (simp add: days_question_def exhausted_def extract_string_exhausted Let_def)
  then have "\<exists>s'. promptDaysOfWeek t s = Some (Inl (Undefined ''first element of an empty vector''), s')"
    unfolding promptDaysOfWeek_def ask_def using forever_fail [of "\<lambda>v. run (days_question t v)" "()" s] by auto
  ultimately show ?thesis using prompts_endless [OF assms] name by blast
qed

theorem input_end_never_noticed_witness:
  "main_program (ui_on '''' []) = None \<and> displayMenu (ui_on '''' []) = None"
  using input_end_never_noticed [of "ui_on '''' []"] by (simp add: exhausted_def)

section \<open>The program\<close>

lemma closeSocket_run:
  "\<exists>es. closeSocket s = (Inr (), s\<lparr>k_errnos := es, k_trace := k_trace s @ [Sys_close (sockfd s)]\<rparr>)"
proof (cases "k_errnos s")
  case Nil
  then show ?thesis
    by (intro exI [of _ "[]"]) (cases s, simp add: closeSocket_def sys_call_def traced_def bnd_def)
next
  case (Cons e es)
  then show ?thesis
    by (intro exI [of _ es]) (simp add: closeSocket_def sys_call_def traced_def bnd_def)
qed

lemma Client_destroy_run:
  "\<exists>es. Client_destroy s =
    (Inr (), s\<lparr>k_errnos := es, k_trace := k_trace s @ [Sys_close (sockfd s), Sys_close (sockfd s)]\<rparr>)"
proof -
  obtain es where 1: "closeSocket s = (Inr (), s\<lparr>k_errnos := es, k_trace := k_trace s @ [Sys_close (sockfd s)]\<rparr>)"
    using closeSocket_run by blast
  let ?s = "s\<lparr>k_errnos := es, k_trace := k_trace s @ [Sys_close (sockfd s)]\<rparr>"
  obtain es' where "closeSocket ?s = (Inr (), ?s\<lparr>k_errnos := es', k_trace := k_trace ?s @ [Sys_close (sockfd ?s)]\<rparr>)"
    using closeSocket_run by blast
  with 1 show ?thesis by (intro exI [of _ es']) (simp add: Client_destroy_def Socket_destroy_def)
qed

lemma cleanup_throws:
  assumes "cleanup_on_throw p cleanup s = Some (r, s')"
  obtains e s1 where "p s = Some (Inl (Throws e), s1)" and "(r, s') = bnd cleanup (\<lambda>_. fail (Throws e)) s1"
  | "p s = Some (r, s')" and "\<And>e. r \<noteq> Inl (Throws e)"
  using assms by (auto simp: cleanup_on_throw_def split: option.splits prod.splits sum.splits failure.splits)

text \<open>What \<^verbatim>\<open>main\<close> does after the two prompts, up to the exception it catches.\<close>

lemma session_throws:
  assumes "andthen (cleanup_on_throw (run (Client_new ip port)) Socket_destroy) (\<lambda>_.
        andthen (cleanup_on_throw displayMenu Client_destroy) (\<lambda>_. run Client_destroy)) s = Some (r, s')"
    and "r = Inr u \<or> r = Inl (Throws e)"
  shows "r = Inl (Throws e) \<and> (\<exists>s1. k_cerr s' = k_cerr s1 \<and>
    (Client_new ip port s = (Inl (Throws e), s1) \<and> k_trace s' = k_trace s1 @ [Sys_close (sockfd s1)] \<or>
     (\<exists>s0 v. Client_new ip port s = (Inr v, s0) \<and> displayMenu s0 = Some (Inl (Throws e), s1) \<and>
        k_trace s' = k_trace s1 @ [Sys_close (sockfd s1), Sys_close (sockfd s1)])))"
proof (cases "Client_new ip port s")
  case (Pair r0 s0)
  obtain es where close: "Socket_destroy s0 = (Inr (), s0\<lparr>k_errnos := es, k_trace := k_trace s0 @ [Sys_close (sockfd s0)]\<rparr>)"
    using closeSocket_run unfolding Socket_destroy_def by blast
  show ?thesis
  proof (cases r0)
    case (Inl f)
    with Pair close assms show ?thesis
      by (cases f) (auto simp: andthen_def cleanup_on_throw_def)
  next
    case (Inr v)
    with Pair have new: "cleanup_on_throw (run (Client_new ip port)) Socket_destroy s = Some (Inr v, s0)"
      by (simp add: cleanup_on_throw_def)
    have menu: "andthen (cleanup_on_throw displayMenu Client_destroy) (\<lambda>_. run Client_destroy) s0 = Some (r, s')"
      using assms(1) by (simp only: andthen_Inr new)
    show ?thesis
    proof (cases "displayMenu s0")
      case None
      with menu show ?thesis by (simp add: andthen_def cleanup_on_throw_def)
    next
      case (Some q)
      obtain r1 s1 where q: "displayMenu s0 = Some (r1, s1)" using Some by (cases q) auto
      obtain f where f: "r1 = Inl f" using displayMenu_failure [OF q] by blast
      obtain es where "Client_destroy s1 =
          (Inr (), s1\<lparr>k_errnos := es, k_trace := k_trace s1 @ [Sys_close (sockfd s1), Sys_close (sockfd s1)]\<rparr>)"
        using Client_destroy_run by blast
      with q f menu assms(2) Pair Inr show ?thesis
        by (cases f) (auto simp: andthen_def cleanup_on_throw_def)
    qed
  qed
qed

text \<open>
  C35. \<^verbatim>\<open>main\<close> returns only by way of an exception, and then with the status of success: the
  constructor of the client or the menu has thrown, the message is on the error output as its
  last line, and the socket has been closed, twice when the client had been constructed (its
  destructor and that of its member both close the same descriptor).
\<close>

theorem main_returns_only_after_exception:
  fixes s s' :: "'k ui_scheme"
  assumes "main_program s = Some (Inr r, s')"
  shows "r = 0 \<and> (\<exists>ip port (s0 :: 'k ui_scheme) s1 e. 0 < port \<and> port \<le> 65535 \<and> k_cerr s' = k_cerr s1 @ what e @ [newline] \<and>
    (Client_new ip port s0 = (Inl (Throws e), s1) \<and> k_trace s' = k_trace s1 @ [Sys_close (sockfd s1)] \<or>
     (\<exists>s2. Client_new ip port s0 = (Inr (), s2) \<and> displayMenu s2 = Some (Inl (Throws e), s1) \<and>
        k_trace s' = k_trace s1 @ [Sys_close (sockfd s1), Sys_close (sockfd s1)])))"
  using assms unfolding main_program_def
proof (elim andthen_SomeInrE, goal_cases)
  case (1 ip s1 port s2 u s3)
  let ?p = "andthen (cleanup_on_throw (run (Client_new ip port)) Socket_destroy) (\<lambda>_.
        andthen (cleanup_on_throw displayMenu Client_destroy) (\<lambda>_. run Client_destroy))"
  have port: "0 < port" "port \<le> 65535" using answers_onlyD [OF prompts_valid(2) 1(2)] by auto
  have c: "catch_proc ?p (\<lambda>e. cerr (what e)) s2 = Some (Inr u, s3)" by (rule 1(3))
  obtain e s4 where e: "?p s2 = Some (Inl (Throws e), s4)" "s3 = s4\<lparr>k_cerr := k_cerr s4 @ what e @ [newline]\<rparr>"
  proof (cases "?p s2")
    case None
    with c show ?thesis by (simp add: catch_proc_def)
  next
    case (Some q)
    then obtain x s4 where q: "?p s2 = Some (x, s4)" by (cases q) auto
    show ?thesis
    proof (cases x)
      case (Inr v)
      with session_throws [OF q, of v] show ?thesis by blast
    next
      case (Inl f)
      with q c that show ?thesis by (cases f) (auto simp: catch_proc_def)
    qed
  qed
  have "r = 0" "s' = s3" using 1(4) by simp_all
  then have r: "r = 0" "k_cerr s' = k_cerr s4 @ what e @ [newline]" "k_trace s' = k_trace s4" using e(2) by simp_all
  from session_throws [OF e(1), of u e] obtain s5 where s5: "k_cerr s4 = k_cerr s5"
    "Client_new ip port s2 = (Inl (Throws e), s5) \<and> k_trace s4 = k_trace s5 @ [Sys_close (sockfd s5)] \<or>
     (\<exists>s0 v. Client_new ip port s2 = (Inr v, s0) \<and> displayMenu s0 = Some (Inl (Throws e), s5) \<and>
        k_trace s4 = k_trace s5 @ [Sys_close (sockfd s5), Sys_close (sockfd s5)])" by blast
  show ?case
    using r port s5 unfolding s5(1) r(3) by (intro conjI exI [of _ ip] exI [of _ port] exI [of _ s2] exI [of _ s5] exI [of _ e]) auto
qed

theorem main_returns_only_after_exception_witness:
  "\<exists>s'. main_program ((ui_on (''localhost'' @ newline # ''8888'' @ [newline]) [])\<lparr>k_errnos := [0, 0, 95]\<rparr>) = Some (Inr 0, s') \<and>
    (\<exists>e errs. k_cerr s' = errs @ what e @ [newline])"
proof -
  let ?s = "(ui_on (''localhost'' @ newline # ''8888'' @ [newline]) [])\<lparr>k_errnos := [0, 0, 95]\<rparr>"
  have host: "plain_word ''localhost''" "regex_match ''localhost'' ipRegex"
    by (simp_all add: plain_word_def isspace_def ipRegex_def digits_def one_to_three_def optional_def eval_nat_numeral)
  have eight: "to_string 8888 = ''8888''" by (simp add: to_string_def to_string_nat.simps digit_char_def)
  have "good (cin ?s)" "unread (cin ?s) = '''' @ terminated newline [] @ ''localhost'' @ newline # (''8888'' @ [newline])"
    by simp_all
  from ask_word_first_match [OF this _ _ host, where answer = "\<lambda>x. x" and old = "''''"]
  obtain s1 where t1: "promptServerIP ''Enter server IP (IPv4 format or 'localhost'): '' ?s = Some (Inr ''localhost'', s1)"
    and s1: "unread (cin s1) = newline # (''8888'' @ [newline])" "good (cin s1)" "quiet ?s s1"
    unfolding promptServerIP_def by auto
  obtain s2 where t2: "promptServerPort ''Enter server port: '' s1 = Some (Inr 8888, s2)" and s2: "quiet s1 s2"
    using port_answered [of s1 "[newline]" 8888 "''''" "''''" "''Enter server port: ''"] s1(1,2) eight by auto
  have "quiet ?s s2" using s1(3) s2 by (rule quiet_trans)
  then have "k_errnos s2 = [0, 0, 95]" "k_inet_addr s2 = (\<lambda>_. 0x7F000001)"
    by (simp_all add: quiet_def ui_on_def client_on_def client.defs ui.defs)
  then obtain m s3 where t3: "Client_new ''localhost'' 8888 s2 = (Inl (Throws m), s3)"
    by (auto simp: Client_new_def Socket_new_def makeLocalSocketAddress_def exit_on_error_def try_catch_def Socket_create_def Socket_bind_def sys_call_def
        traced_def makeRemoteSocketAddress_def INADDR_NONE_def setReceiveTimeout_def throw_errno_def Let_def prog_defs)
  let ?p = "andthen (cleanup_on_throw (run (Client_new ''localhost'' 8888)) Socket_destroy) (\<lambda>_.
        andthen (cleanup_on_throw displayMenu Client_destroy) (\<lambda>_. run Client_destroy))"
  obtain es where "Socket_destroy s3 = (Inr (), s3\<lparr>k_errnos := es, k_trace := k_trace s3 @ [Sys_close (sockfd s3)]\<rparr>)"
    using closeSocket_run unfolding Socket_destroy_def by blast
  then obtain s4 where p: "?p s2 = Some (Inl (Throws m), s4)"
    using t3 by (auto simp: cleanup_on_throw_def andthen_def)
  have "catch_proc ?p (\<lambda>e. cerr (what e)) s2 = Some (Inr (), s4\<lparr>k_cerr := k_cerr s4 @ what m @ [newline]\<rparr>)"
    unfolding catch_proc_def p by simp
  then have "main_program ?s = Some (Inr 0, s4\<lparr>k_cerr := k_cerr s4 @ what m @ [newline]\<rparr>)"
    unfolding main_program_def by (simp only: andthen_Inr t1 t2 run_apply run_ret)
  with main_returns_only_after_exception [OF this] show ?thesis by blast
qed

end
