(* ===== verification/Java_Runtime.thy ===== *)
theory Java_Runtime
  imports Std_Strings
begin

text \<open>
  What the server uses of the Java language and its library: exceptions, array accesses, the
  conversions of strings, and the facts about one run that the program does not determine
  (random UUIDs, the texts of library exceptions, the arithmetic of the machine's \<^verbatim>\<open>double\<close>).
  Texts are ASCII.
\<close>

section \<open>Exceptions\<close>

datatype java_exn =
    Number_Format string
  | No_Enum_Constant string
  | Index_Out_Of_Bounds nat nat
  | Null_Pointer
  | Illegal_Argument string

definition jbind :: "java_exn + 'a \<Rightarrow> ('a \<Rightarrow> java_exn + 'b) \<Rightarrow> java_exn + 'b" where
  "jbind r k = (case r of Inl e \<Rightarrow> Inl e | Inr x \<Rightarrow> k x)"

lemma jbind_simps [simp]: "jbind (Inl e) k = Inl e" "jbind (Inr x) k = k x"
  by (simp_all add: jbind_def)

lemma jbind_InrE:
  assumes "jbind r k = Inr y"
  obtains x where "r = Inr x" and "k x = Inr y"
  using assms by (cases r) auto

section \<open>The environment of a run\<close>

text \<open>
  The \<open>n\<close>-th random UUID, the text of an Internet address, the message of an exception of the
  library, the operations on \<^verbatim>\<open>double\<close> (64 bits): parsing, sum, quotient by an \<^verbatim>\<open>int\<close> and
  printing with one decimal, the default character set, the largest byte array there is room for, and the
  names for which \<^verbatim>\<open>Class.forName\<close> finds a class.
\<close>

record jvm =
  uuid :: "nat \<Rightarrow> string"
  addr_text :: "32 word \<Rightarrow> string"
  exn_text :: "java_exn \<Rightarrow> string"
  parseDouble :: "string \<Rightarrow> java_exn + 64 word"
  double_plus :: "64 word \<Rightarrow> 64 word \<Rightarrow> 64 word"
  double_over :: "64 word \<Rightarrow> int32 \<Rightarrow> 64 word"
  format_1f :: "64 word \<Rightarrow> string"
  charset_encode :: "string \<Rightarrow> byte list"
  charset_decode :: "byte list \<Rightarrow> string"
  array_max :: int
  on_class_path :: "string \<Rightarrow> bool"

text \<open>\<^verbatim>\<open>e.getMessage()\<close>\<close>

fun getMessage :: "jvm \<Rightarrow> java_exn \<Rightarrow> string" where
  "getMessage env (Illegal_Argument msg) = msg"
| "getMessage env e = exn_text env e"

section \<open>Arrays and strings\<close>

definition array_get :: "'a list \<Rightarrow> nat \<Rightarrow> java_exn + 'a" where
  "array_get xs i = (if i < length xs then Inr (xs ! i) else Inl (Index_Out_Of_Bounds i (length xs)))"

lemma array_get_Inr [simp]: "i < length xs \<Longrightarrow> array_get xs i = Inr (xs ! i)"
  by (simp add: array_get_def)

fun fields_at :: "char \<Rightarrow> string \<Rightarrow> string list" where
  "fields_at d [] = [[]]"
| "fields_at d (c # cs) =
     (if c = d then [] # fields_at d cs
      else case fields_at d cs of f # fs \<Rightarrow> (c # f) # fs | [] \<Rightarrow> [[c]])"

text \<open>\<^verbatim>\<open>s.split(",")\<close>: trailing empty strings are dropped, unless nothing was split.\<close>

definition split_commas :: "string \<Rightarrow> string list" where
  "split_commas s = (let fs = fields_at (CHR '','') s in
     if length fs = 1 then fs else rev (dropWhile (\<lambda>f. f = []) (rev fs)))"

text \<open>\<^verbatim>\<open>Integer.parseInt\<close>\<close>

definition parseInt :: "string \<Rightarrow> java_exn + int" where
  "parseInt s = (let (neg, ds) = split_sign s;
       v = (if neg then - int (digits_val ds) else int (digits_val ds))
     in if ds = [] \<or> \<not> list_all isdigit ds \<or> \<not> in_int v then Inl (Number_Format s) else Inr v)"

definition toUpper :: "char \<Rightarrow> char" where
  "toUpper c = (if 97 \<le> (of_char c :: nat) \<and> (of_char c :: nat) \<le> 122 then char_of (of_char c - 32 :: nat) else c)"

definition toUpperCase :: "string \<Rightarrow> string" where
  "toUpperCase s = map toUpper s"

text \<open>\<^verbatim>\<open>s.trim().isEmpty()\<close>\<close>

definition blank :: "string \<Rightarrow> bool" where
  "blank s \<longleftrightarrow> list_all (\<lambda>c. (of_char c :: nat) \<le> 32) s"

section \<open>Splitting what was joined\<close>

lemma fields_at_not_Nil [simp]: "fields_at d s \<noteq> []"
  by (cases s) (auto split: list.splits)

lemma fields_at_plain: "d \<notin> set s \<Longrightarrow> fields_at d s = [s]"
  by (induction s) auto

lemma fields_at_append: "d \<notin> set s \<Longrightarrow> fields_at d (s @ d # t) = s # fields_at d t"
  by (induction s) auto

lemma split_commas_Cons:
  "CHR '','' \<notin> set s \<Longrightarrow> CHR '','' \<notin> set t \<Longrightarrow> t \<noteq> [] \<Longrightarrow> split_commas (s @ CHR '','' # t) = [s, t]"
  by (simp add: split_commas_def fields_at_append fields_at_plain)

lemma parseInt_to_string: "in_int i \<Longrightarrow> parseInt (to_string i) = Inr i"
  by (cases "i < 0") (auto simp: parseInt_def to_string_def list_all_iff dest: to_string_nat_digits)

end
