(* ===== verification/Server_Bookings.thy ===== *)
theory Server_Bookings
  imports Java_Runtime Server_Texts "HOL-Library.Product_Lexorder"
begin

text \<open>
  The server's booking data (\<^verbatim>\<open>Server/models/\<close>: \<^verbatim>\<open>TimeSlot\<close>, \<^verbatim>\<open>Booking\<close>, \<^verbatim>\<open>Availability\<close>,
  \<^verbatim>\<open>Facility\<close>; \<^verbatim>\<open>Server/services/FacilityFactory.java\<close>). The confirmation ID of a
  new booking, a random UUID in the code, is an argument. The lemmas are about conflicts of
  timeslots, the booked slots of a day and the free slots the server computes from them.
\<close>

section \<open>Days and timeslots\<close>

datatype DayOfWeek = MONDAY | TUESDAY | WEDNESDAY | THURSDAY | FRIDAY | SATURDAY | SUNDAY

definition day_values :: "DayOfWeek list" where
  "day_values = [MONDAY, TUESDAY, WEDNESDAY, THURSDAY, FRIDAY, SATURDAY, SUNDAY]"

text \<open>\<^verbatim>\<open>day.getValue() - 1\<close>\<close>

fun day_index :: "DayOfWeek \<Rightarrow> nat" where
  "day_index MONDAY = 0"
| "day_index TUESDAY = 1"
| "day_index WEDNESDAY = 2"
| "day_index THURSDAY = 3"
| "day_index FRIDAY = 4"
| "day_index SATURDAY = 5"
| "day_index SUNDAY = 6"

definition day_name :: "DayOfWeek \<Rightarrow> string" where
  "day_name d = DAYS_OF_WEEK ! day_index d"

definition valueOf :: "string \<Rightarrow> java_exn + DayOfWeek" where
  "valueOf s = (case find (\<lambda>d. day_name d = s) day_values of Some d \<Rightarrow> Inr d | None \<Rightarrow> Inl (No_Enum_Constant s))"

record TimeSlot =
  startHour :: int
  startMinute :: int
  endHour :: int
  endMinute :: int
  ts_day :: DayOfWeek

definition TimeSlot_new :: "int \<Rightarrow> int \<Rightarrow> int \<Rightarrow> int \<Rightarrow> DayOfWeek \<Rightarrow> TimeSlot" where
  "TimeSlot_new sh sm eh em day = \<lparr>startHour = sh, startMinute = sm, endHour = eh, endMinute = em, ts_day = day\<rparr>"

definition slot_conflicts :: "TimeSlot \<Rightarrow> int \<Rightarrow> int \<Rightarrow> int \<Rightarrow> int \<Rightarrow> bool" where
  "slot_conflicts this sh sm eh em =
     (if endHour this < sh \<or> endHour this = sh \<and> endMinute this \<le> sm then False
      else if startHour this > eh \<or> startHour this = eh \<and> startMinute this \<ge> em then False
      else True)"

definition conflictsWith :: "TimeSlot \<Rightarrow> TimeSlot \<Rightarrow> bool" where
  "conflictsWith this timeSlot =
     slot_conflicts this (startHour timeSlot) (startMinute timeSlot) (endHour timeSlot) (endMinute timeSlot)"

text \<open>\<^verbatim>\<open>String.format("%02d")\<close> of an \<^verbatim>\<open>int\<close>.\<close>

definition format02d :: "int \<Rightarrow> string" where
  "format02d i = (if 0 \<le> i \<and> i < 10 then CHR ''0'' # to_string i else to_string i)"

definition getStartTime :: "TimeSlot \<Rightarrow> string" where
  "getStartTime ts = format02d (startHour ts) @ format02d (startMinute ts)"

definition getEndTime :: "TimeSlot \<Rightarrow> string" where
  "getEndTime ts = format02d (endHour ts) @ format02d (endMinute ts)"

definition TimeSlot_toString :: "TimeSlot \<Rightarrow> string" where
  "TimeSlot_toString ts = format02d (startHour ts) @ format02d (startMinute ts) @ '' - '' @
     format02d (endHour ts) @ format02d (endMinute ts)"

section \<open>Bookings and availability\<close>

text \<open>The facility name of an availability, and so of its bookings, is never set: it is null.\<close>

record Booking =
  confirmationID :: string
  userInfo :: string
  bk_facilityName :: "string option"
  timeSlot :: TimeSlot

record Availability =
  av_days :: "bool list"
  av_startHour :: "int list"
  av_startMinute :: "int list"
  av_endHour :: "int list"
  av_endMinute :: "int list"
  bookedSlots :: "Booking list list"
  av_facilityName :: "string option"

definition Availability_new :: Availability where
  "Availability_new = \<lparr>av_days = replicate 7 False, av_startHour = replicate 7 0, av_startMinute = replicate 7 0,
     av_endHour = replicate 7 0, av_endMinute = replicate 7 0, bookedSlots = replicate 7 [], av_facilityName = None\<rparr>"

definition setAvaOfDay :: "DayOfWeek \<Rightarrow> bool \<Rightarrow> int \<Rightarrow> int \<Rightarrow> int \<Rightarrow> int \<Rightarrow> Availability \<Rightarrow> Availability" where
  "setAvaOfDay day isOpen sh sm eh em a = a\<lparr>
     av_days := (av_days a)[day_index day := isOpen],
     av_startHour := (av_startHour a)[day_index day := sh],
     av_startMinute := (av_startMinute a)[day_index day := sm],
     av_endHour := (av_endHour a)[day_index day := eh],
     av_endMinute := (av_endMinute a)[day_index day := em]\<rparr>"

definition isAvailable :: "Availability \<Rightarrow> TimeSlot \<Rightarrow> bool" where
  "isAvailable a ts =
     (let dayIndex = day_index (ts_day ts) in
      if \<not> av_days a ! dayIndex then False
      else list_all (\<lambda>slot. \<not> conflictsWith (timeSlot slot) ts) (bookedSlots a ! dayIndex))"

definition bookTimeSlot :: "string \<Rightarrow> string \<Rightarrow> TimeSlot \<Rightarrow> Availability \<Rightarrow> string \<times> Availability" where
  "bookTimeSlot newID user ts a =
     (let dayIndex = day_index (ts_day ts) in
      (newID, a\<lparr>bookedSlots := (bookedSlots a)[dayIndex := bookedSlots a ! dayIndex @
         [\<lparr>confirmationID = newID, userInfo = user, bk_facilityName = av_facilityName a, timeSlot = ts\<rparr>]]\<rparr>))"

text \<open>The inner and the outer loop of \<^verbatim>\<open>removeTimeSlot\<close>: the first match is removed.\<close>

fun remove_slot :: "string \<Rightarrow> string \<Rightarrow> Booking list \<Rightarrow> Booking list option" where
  "remove_slot i user [] = None"
| "remove_slot i user (slot # slots) =
     (if confirmationID slot = i \<and> userInfo slot = user then Some slots
      else map_option ((#) slot) (remove_slot i user slots))"

fun remove_booked :: "string \<Rightarrow> string \<Rightarrow> Booking list list \<Rightarrow> Booking list list option" where
  "remove_booked i user [] = None"
| "remove_booked i user (day # days) =
     (case remove_slot i user day of
        Some day' \<Rightarrow> Some (day' # days)
      | None \<Rightarrow> map_option ((#) day) (remove_booked i user days))"

text \<open>The ID of the removed booking, the one asked for, or null.\<close>

definition removeTimeSlot :: "string \<Rightarrow> string \<Rightarrow> Availability \<Rightarrow> string option \<times> Availability" where
  "removeTimeSlot prev_bookingId user a =
     (case remove_booked prev_bookingId user (bookedSlots a) of
        Some slots \<Rightarrow> (Some prev_bookingId, a\<lparr>bookedSlots := slots\<rparr>)
      | None \<Rightarrow> (None, a))"

definition getBookingInfo :: "string \<Rightarrow> Availability \<Rightarrow> Booking option" where
  "getBookingInfo i a = find (\<lambda>slot. confirmationID slot = i) (concat (bookedSlots a))"

text \<open>
  The loop of \<^verbatim>\<open>getAvailableTimeSlots\<close> over the sorted bookings: the current start and the free
  slots so far.
\<close>

definition before :: "int \<Rightarrow> int \<Rightarrow> int \<Rightarrow> int \<Rightarrow> bool" where
  "before h m h' m' \<longleftrightarrow> h < h' \<or> h = h' \<and> m < m'"

fun free_slots :: "DayOfWeek \<Rightarrow> Booking list \<Rightarrow> int \<Rightarrow> int \<Rightarrow> TimeSlot list \<Rightarrow> int \<times> int \<times> TimeSlot list" where
  "free_slots day [] h m slots = (h, m, slots)"
| "free_slots day (b # bs) h m slots =
     free_slots day bs (endHour (timeSlot b)) (endMinute (timeSlot b))
       (if before h m (startHour (timeSlot b)) (startMinute (timeSlot b))
        then slots @ [TimeSlot_new h m (startHour (timeSlot b)) (startMinute (timeSlot b)) day] else slots)"

definition getAvailableTimeSlots :: "DayOfWeek \<Rightarrow> Availability \<Rightarrow> TimeSlot list" where
  "getAvailableTimeSlots day a =
     (let dayIndex = day_index day in
      if \<not> av_days a ! dayIndex then []
      else
        let sortedBookings = sort_key (\<lambda>b. (startHour (timeSlot b), startMinute (timeSlot b))) (bookedSlots a ! dayIndex);
            (h, m, slots) = free_slots day sortedBookings (av_startHour a ! dayIndex) (av_startMinute a ! dayIndex) []
        in if before h m (av_endHour a ! dayIndex) (av_endMinute a ! dayIndex)
           then slots @ [TimeSlot_new h m (av_endHour a ! dayIndex) (av_endMinute a ! dayIndex) day] else slots)"

section \<open>Facilities\<close>

text \<open>A \<^verbatim>\<open>double\<close> is its 64 bits; its arithmetic is the machine's.\<close>

record Rating =
  totalRatingSum :: "64 word"
  numberOfRatings :: int32
  averageRating :: "64 word"

definition Rating_new :: Rating where
  "Rating_new = \<lparr>totalRatingSum = 0, numberOfRatings = 0, averageRating = 0\<rparr>"

definition addRating :: "jvm \<Rightarrow> 64 word \<Rightarrow> Rating \<Rightarrow> Rating" where
  "addRating env rating r =
     (let total = double_plus env (totalRatingSum r) rating; n = numberOfRatings r + 1
      in r\<lparr>totalRatingSum := total, numberOfRatings := n,
          averageRating := (if n = 0 then 0 else double_over env total n)\<rparr>)"

record Facility =
  f_name :: string
  f_availability :: Availability
  f_rating :: Rating

definition Facility_new :: "string \<Rightarrow> Facility" where
  "Facility_new name = \<lparr>f_name = name, f_availability = Availability_new, f_rating = Rating_new\<rparr>"

text \<open>A change of the facility that \<^verbatim>\<open>getFacility\<close> returns.\<close>

fun update_facility :: "string \<Rightarrow> (Facility \<Rightarrow> Facility) \<Rightarrow> Facility list \<Rightarrow> Facility list" where
  "update_facility name f [] = []"
| "update_facility name f (x # xs) = (if f_name x = name then f x # xs else x # update_facility name f xs)"

definition getFacility :: "string \<Rightarrow> Facility list \<Rightarrow> Facility option" where
  "getFacility name facilities = find (\<lambda>f. f_name f = name) facilities"

section \<open>Conflicts\<close>

lemma conflictsWith_iff:
  "conflictsWith a b \<longleftrightarrow> before (startHour b) (startMinute b) (endHour a) (endMinute a) \<and>
     before (startHour a) (startMinute a) (endHour b) (endMinute b)"
  by (auto simp: conflictsWith_def slot_conflicts_def before_def)

lemma conflictsWith_sym: "conflictsWith a b = conflictsWith b a"
  by (auto simp: conflictsWith_iff)

text \<open>A time as minutes since midnight; a slot whose minutes are below 60, and the minutes it covers.\<close>

definition minute_of :: "int \<Rightarrow> int \<Rightarrow> int" where
  "minute_of h m = 60 * h + m"

definition proper :: "TimeSlot \<Rightarrow> bool" where
  "proper ts \<longleftrightarrow> 0 \<le> startMinute ts \<and> startMinute ts < 60 \<and> 0 \<le> endMinute ts \<and> endMinute ts < 60"

definition slot_minutes :: "TimeSlot \<Rightarrow> int set" where
  "slot_minutes ts = {minute_of (startHour ts) (startMinute ts) ..< minute_of (endHour ts) (endMinute ts)}"

lemma before_minute:
  "0 \<le> m \<Longrightarrow> m < 60 \<Longrightarrow> 0 \<le> m' \<Longrightarrow> m' < 60 \<Longrightarrow> before h m h' m' \<longleftrightarrow> minute_of h m < minute_of h' m'"
  by (auto simp: before_def minute_of_def)

lemma no_conflict_disjoint:
  "proper a \<Longrightarrow> proper b \<Longrightarrow> \<not> conflictsWith a b \<Longrightarrow> slot_minutes a \<inter> slot_minutes b = {}"
  by (auto simp: conflictsWith_iff before_minute proper_def slot_minutes_def)

section \<open>The booked slots never conflict\<close>

definition no_conflicts :: "Booking list \<Rightarrow> bool" where
  "no_conflicts bs = sorted_wrt (\<lambda>a b. \<not> conflictsWith (timeSlot a) (timeSlot b)) bs"

definition availability_ok :: "Availability \<Rightarrow> bool" where
  "availability_ok a \<longleftrightarrow> length (av_days a) = 7 \<and> length (av_startHour a) = 7 \<and> length (av_startMinute a) = 7 \<and>
     length (av_endHour a) = 7 \<and> length (av_endMinute a) = 7 \<and> length (bookedSlots a) = 7 \<and>
     (\<forall>bs\<in>set (bookedSlots a). no_conflicts bs) \<and>
     (\<forall>d. \<forall>b\<in>set (bookedSlots a ! day_index d). ts_day (timeSlot b) = d)"

lemma day_index_less [simp]: "day_index d < 7"
  by (cases d) simp_all

lemma day_index_inj: "day_index d = day_index e \<longleftrightarrow> d = e"
  by (cases d; cases e) simp_all

lemma Availability_new_ok: "availability_ok Availability_new"
  by (auto simp: availability_ok_def Availability_new_def no_conflicts_def)

lemma setAvaOfDay_ok: "availability_ok a \<Longrightarrow> availability_ok (setAvaOfDay d isOpen sh sm eh em a)"
  by (simp add: availability_ok_def setAvaOfDay_def)

lemma bookTimeSlot_ok:
  assumes ok: "availability_ok a" and free: "isAvailable a ts"
  shows "availability_ok (snd (bookTimeSlot i u ts a))"
proof -
  let ?d = "day_index (ts_day ts)"
  let ?b = "\<lparr>confirmationID = i, userInfo = u, bk_facilityName = av_facilityName a, timeSlot = ts\<rparr>"
  let ?bs = "bookedSlots a ! ?d @ [?b]"
  have "\<forall>b\<in>set (bookedSlots a ! ?d). \<not> conflictsWith (timeSlot b) ts"
    using free by (simp add: isAvailable_def Let_def list_all_iff split: if_splits)
  moreover have "no_conflicts (bookedSlots a ! ?d)" using ok by (simp add: availability_ok_def)
  ultimately have "no_conflicts ?bs" by (simp add: no_conflicts_def sorted_wrt_append)
  then have "\<forall>bs\<in>set ((bookedSlots a)[?d := ?bs]). no_conflicts bs"
    using ok set_update_subset_insert [of "bookedSlots a" ?d ?bs] by (auto simp: availability_ok_def)
  moreover have "\<forall>d. \<forall>b\<in>set ((bookedSlots a)[?d := ?bs] ! day_index d). ts_day (timeSlot b) = d"
    using ok by (auto simp: availability_ok_def nth_list_update day_index_inj)
  ultimately show ?thesis
    using ok by (simp add: availability_ok_def bookTimeSlot_def Let_def)
qed

lemma remove_slot_Some:
  "remove_slot i u bs = Some bs' \<Longrightarrow>
   \<exists>pre b post. bs = pre @ b # post \<and> bs' = pre @ post \<and> confirmationID b = i \<and> userInfo b = u \<and>
     (\<forall>c\<in>set pre. \<not> (confirmationID c = i \<and> userInfo c = u))"
proof (induction bs arbitrary: bs')
  case (Cons c bs)
  show ?case
  proof (cases "confirmationID c = i \<and> userInfo c = u")
    case True
    with Cons.prems show ?thesis by (intro exI [of _ "[]"]) auto
  next
    case False
    with Cons.prems obtain bs1 where b: "remove_slot i u bs = Some bs1" "bs' = c # bs1" by auto
    from Cons.IH [OF b(1)] obtain pre b post where "bs = pre @ b # post" "bs1 = pre @ post"
      "confirmationID b = i" "userInfo b = u" "\<forall>c\<in>set pre. \<not> (confirmationID c = i \<and> userInfo c = u)" by blast
    with False b(2) show ?thesis by (intro exI [of _ "c # pre"] exI [of _ b] exI [of _ post]) auto
  qed
qed simp

lemma remove_slot_None: "remove_slot i u bs = None \<longleftrightarrow> (\<forall>b\<in>set bs. \<not> (confirmationID b = i \<and> userInfo b = u))"
  by (induction bs) auto

lemma remove_booked_Some:
  "remove_booked i u days = Some days' \<Longrightarrow>
   \<exists>k bs. k < length days \<and> remove_slot i u (days ! k) = Some bs \<and> days' = days[k := bs]"
proof (induction days arbitrary: days')
  case (Cons day days)
  show ?case
  proof (cases "remove_slot i u day")
    case None
    with Cons.prems obtain days1 where d: "remove_booked i u days = Some days1" "days' = day # days1" by auto
    from Cons.IH [OF d(1)] obtain k bs where "k < length days" "remove_slot i u (days ! k) = Some bs"
      "days1 = days[k := bs]" by blast
    with d(2) show ?thesis by (intro exI [of _ "Suc k"] exI [of _ bs]) simp
  next
    case (Some bs)
    with Cons.prems show ?thesis by (intro exI [of _ 0] exI [of _ bs]) simp
  qed
qed simp

lemma remove_booked_None:
  "remove_booked i u days = None \<longleftrightarrow> (\<forall>bs\<in>set days. \<forall>b\<in>set bs. \<not> (confirmationID b = i \<and> userInfo b = u))"
proof (induction days)
  case (Cons day days)
  then show ?case using remove_slot_None [of i u day] by (cases "remove_slot i u day") auto
qed simp

lemma removeTimeSlot_None:
  "removeTimeSlot i u a = (None, a') \<longleftrightarrow>
   a' = a \<and> (\<forall>bs\<in>set (bookedSlots a). \<forall>b\<in>set bs. \<not> (confirmationID b = i \<and> userInfo b = u))"
  using remove_booked_None [of i u "bookedSlots a"]
  by (cases "remove_booked i u (bookedSlots a)") (auto simp: removeTimeSlot_def)

lemma removeTimeSlot_slots:
  "removeTimeSlot i u a = (r, a') \<Longrightarrow>
   \<exists>slots. a' = a\<lparr>bookedSlots := slots\<rparr> \<and> length slots = length (bookedSlots a) \<and>
     (\<forall>k<length slots. set (slots ! k) \<subseteq> set (bookedSlots a ! k) \<and> (no_conflicts (bookedSlots a ! k) \<longrightarrow> no_conflicts (slots ! k)))"
proof (cases "remove_booked i u (bookedSlots a)")
  case None
  moreover assume "removeTimeSlot i u a = (r, a')"
  ultimately show ?thesis by (intro exI [of _ "bookedSlots a"]) (simp add: removeTimeSlot_def)
next
  case (Some slots)
  moreover assume "removeTimeSlot i u a = (r, a')"
  ultimately have a': "a' = a\<lparr>bookedSlots := slots\<rparr>" by (simp add: removeTimeSlot_def)
  obtain k bs where k: "k < length (bookedSlots a)" "remove_slot i u (bookedSlots a ! k) = Some bs"
    "slots = (bookedSlots a)[k := bs]" using remove_booked_Some [OF Some] by blast
  have "set bs \<subseteq> set (bookedSlots a ! k) \<and> (no_conflicts (bookedSlots a ! k) \<longrightarrow> no_conflicts bs)"
    using remove_slot_Some [OF k(2)] by (auto simp: no_conflicts_def sorted_wrt_append)
  with a' k show ?thesis by (intro exI [of _ slots]) (auto simp: nth_list_update)
qed

lemma removeTimeSlot_ok:
  assumes ok: "availability_ok a" and r: "removeTimeSlot i u a = (r, a')"
  shows "availability_ok a'" and "isAvailable a ts \<Longrightarrow> isAvailable a' ts"
proof -
  obtain slots where s: "a' = a\<lparr>bookedSlots := slots\<rparr>" "length slots = 7"
    "\<And>k. k < 7 \<Longrightarrow> set (slots ! k) \<subseteq> set (bookedSlots a ! k) \<and> no_conflicts (slots ! k)"
    using removeTimeSlot_slots [OF r] ok by (auto simp: availability_ok_def)
  then have "\<forall>bs\<in>set slots. no_conflicts bs" by (auto simp: in_set_conv_nth)
  moreover have "\<forall>d. \<forall>b\<in>set (slots ! day_index d). ts_day (timeSlot b) = d"
    using ok s(3) [OF day_index_less] unfolding availability_ok_def by blast
  ultimately show "availability_ok a'" using ok s(1,2) by (simp add: availability_ok_def)
  show "isAvailable a' ts" if "isAvailable a ts"
    using that s(1) s(3) [OF day_index_less, of "ts_day ts"]
    by (auto simp: isAvailable_def Let_def list_all_iff split: if_splits)
qed

section \<open>The contract of a booking store\<close>

text \<open>
  What the request handlers rely on: a free slot may be booked, a removal keeps a store in order
  and keeps free slots free. So a booking may be moved to any slot that is free before the move.
\<close>

locale booking_store =
  fixes ok :: "'store \<Rightarrow> bool"
    and free :: "'store \<Rightarrow> 'slot \<Rightarrow> bool"
    and book :: "'id \<Rightarrow> 'user \<Rightarrow> 'slot \<Rightarrow> 'store \<Rightarrow> 'store"
    and remove :: "'id \<Rightarrow> 'user \<Rightarrow> 'store \<Rightarrow> 'store"
  assumes book_ok: "ok a \<Longrightarrow> free a ts \<Longrightarrow> ok (book i u ts a)"
    and remove_ok: "ok a \<Longrightarrow> ok (remove i u a)"
    and remove_free: "ok a \<Longrightarrow> free a ts \<Longrightarrow> free (remove i u a) ts"
begin

lemma move_ok: "ok a \<Longrightarrow> free a ts \<Longrightarrow> ok (book j u ts (remove i u a))"
  by (intro book_ok remove_ok remove_free)

lemma removals_ok: "ok a \<Longrightarrow> ok (fold (\<lambda>i. remove i u) is a)"
  by (induction "is" arbitrary: a) (simp_all add: remove_ok)

end

interpretation store: booking_store availability_ok isAvailable
  "\<lambda>i u ts a. snd (bookTimeSlot i u ts a)" "\<lambda>i u a. snd (removeTimeSlot i u a)"
  by unfold_locales (auto intro: bookTimeSlot_ok removeTimeSlot_ok [OF _ prod.collapse [symmetric]])

section \<open>The free slots\<close>

definition start_of :: "Booking \<Rightarrow> int" where
  "start_of b = minute_of (startHour (timeSlot b)) (startMinute (timeSlot b))"

definition end_of :: "Booking \<Rightarrow> int" where
  "end_of b = minute_of (endHour (timeSlot b)) (endMinute (timeSlot b))"

text \<open>A booking with real times, which ends after it starts.\<close>

definition well_timed :: "Booking \<Rightarrow> bool" where
  "well_timed b \<longleftrightarrow> proper (timeSlot b) \<and> start_of b < end_of b"

definition covered :: "TimeSlot list \<Rightarrow> int set" where
  "covered slots = (\<Union>ts\<in>set slots. slot_minutes ts)"

definition booked_minutes :: "Booking list \<Rightarrow> int set" where
  "booked_minutes bs = (\<Union>b\<in>set bs. {start_of b ..< end_of b})"

lemma covered_simps [simp]: "covered [] = {}" "covered (ss @ ss') = covered ss \<union> covered ss'"
  "covered [ts] = slot_minutes ts"
  by (auto simp: covered_def)

lemma booked_minutes_simps [simp]: "booked_minutes [] = {}"
  "booked_minutes (b # bs) = {start_of b ..< end_of b} \<union> booked_minutes bs"
  by (auto simp: booked_minutes_def)

lemma free_slots_correct:
  assumes "sorted_wrt (\<lambda>a b. end_of a \<le> start_of b) bs" and "\<forall>b\<in>set bs. well_timed b"
    and "\<forall>b\<in>set bs. minute_of h m \<le> start_of b" and "0 \<le> m" and "m < 60"
    and "free_slots day bs h m slots = (h', m', slots')"
  shows "covered slots' = covered slots \<union> ({minute_of h m ..< minute_of h' m'} - booked_minutes bs) \<and>
    minute_of h' m' = Max (insert (minute_of h m) (end_of ` set bs)) \<and> 0 \<le> m' \<and> m' < 60"
  using assms
proof (induction bs arbitrary: h m slots)
  case (Cons b bs)
  let ?slots = "if before h m (startHour (timeSlot b)) (startMinute (timeSlot b))
    then slots @ [TimeSlot_new h m (startHour (timeSlot b)) (startMinute (timeSlot b)) day] else slots"
  have w: "proper (timeSlot b)" "start_of b < end_of b" "minute_of h m \<le> start_of b"
    using Cons.prems(2,3) by (auto simp: well_timed_def)
  have later: "\<forall>c\<in>set bs. end_of b \<le> start_of c" using Cons.prems(1) by simp
  have bef: "before h m (startHour (timeSlot b)) (startMinute (timeSlot b)) \<longleftrightarrow> minute_of h m < start_of b"
    using w(1) Cons.prems(4,5) by (simp add: before_minute proper_def start_of_def)
  have cov: "covered ?slots = covered slots \<union> {minute_of h m ..< start_of b}"
    by (auto simp: bef slot_minutes_def TimeSlot_new_def start_of_def)
  have IH: "covered slots' = covered ?slots \<union> ({end_of b ..< minute_of h' m'} - booked_minutes bs)"
      "minute_of h' m' = Max (insert (end_of b) (end_of ` set bs))" "0 \<le> m'" "m' < 60"
    using Cons.IH [of "endHour (timeSlot b)" "endMinute (timeSlot b)" ?slots] Cons.prems w later
    by (auto simp: end_of_def [symmetric] proper_def)
  have "end_of b \<le> minute_of h' m'" unfolding IH(2) by simp
  moreover have "booked_minutes bs \<inter> {..< end_of b} = {}" using later by (force simp: booked_minutes_def)
  ultimately have "{minute_of h m ..< minute_of h' m'} - booked_minutes (b # bs) =
      {minute_of h m ..< start_of b} \<union> ({end_of b ..< minute_of h' m'} - booked_minutes bs)"
    using w by auto
  moreover have "Max (insert (minute_of h m) (end_of ` set (b # bs))) = Max (insert (end_of b) (end_of ` set bs))"
    using w by (simp add: Max_insert2) (metis Max.insert_not_elem List.finite_set finite_imageI finite_insert
        insert_not_empty max.absorb2 Max_ge order_trans insertI1 less_imp_le Max_insert)
  ultimately show ?case using IH by (simp add: cov Un_assoc)
qed simp

text \<open>
  A first booking that starts before the opening time leaves no slot in front of it, and the time
  after it is free from its end.
\<close>

lemma free_slots_covered:
  assumes s: "sorted_wrt (\<lambda>a b. end_of a \<le> start_of b) bs" and w: "\<forall>b\<in>set bs. well_timed b"
    and "0 \<le> m" and "m < 60" and f: "free_slots day bs h m [] = (h', m', slots)"
    and first: "first = Min (insert (minute_of h m) (start_of ` set bs))"
  shows "covered slots = {first ..< minute_of h' m'} - booked_minutes bs \<and>
    first \<le> minute_of h' m' \<and> (\<forall>b\<in>set bs. end_of b \<le> minute_of h' m') \<and> 0 \<le> m' \<and> m' < 60 \<and>
    (\<forall>e\<ge>minute_of h m. max (minute_of h' m') e = Max (insert e (end_of ` set bs)))"
proof (cases "\<forall>b\<in>set bs. minute_of h m \<le> start_of b")
  case True
  have "first = minute_of h m" unfolding first using True by (intro Min_eqI) auto
  moreover have "max (Max (insert (minute_of h m) (end_of ` set bs))) e = Max (insert e (end_of ` set bs))"
    if "minute_of h m \<le> e" for e
  proof (cases "set bs = {}")
    case False
    have "max (max (minute_of h m) x) e = max e x" for x using that by (simp add: max_def)
    with False show ?thesis by simp
  qed (use that in simp)
  moreover have "minute_of h m \<le> minute_of h' m'"
    using free_slots_correct [OF s w True assms(3,4) f] by simp
  ultimately show ?thesis using free_slots_correct [OF s w True assms(3,4) f] by auto
next
  case False
  then obtain b bs' where b: "bs = b # bs'" by (cases bs) auto
  have later: "\<forall>c\<in>set bs'. end_of b \<le> start_of c" using s b by simp
  have wb: "proper (timeSlot b)" "start_of b < end_of b" using w b by (auto simp: well_timed_def)
  have early: "start_of b < minute_of h m" using False later wb b by force
  have "\<not> before h m (startHour (timeSlot b)) (startMinute (timeSlot b))"
    using early wb(1) assms(3,4) by (simp add: before_minute proper_def start_of_def)
  then have f': "free_slots day bs' (endHour (timeSlot b)) (endMinute (timeSlot b)) [] = (h', m', slots)"
    using f b by simp
  have C: "covered slots = {end_of b ..< minute_of h' m'} - booked_minutes bs' \<and>
    minute_of h' m' = Max (insert (end_of b) (end_of ` set bs')) \<and> 0 \<le> m' \<and> m' < 60"
    using free_slots_correct [OF _ _ _ _ _ f'] s w b wb later by (simp add: end_of_def [symmetric] proper_def)
  have "first = start_of b" unfolding first using early later wb b by (intro Min_eqI) force+
  moreover have "booked_minutes bs' \<inter> {..< end_of b} = {}" using later by (force simp: booked_minutes_def)
  moreover have "\<forall>c\<in>set bs. end_of c \<le> minute_of h' m'" using C b by auto
  moreover have "max (minute_of h' m') e = Max (insert e (end_of ` set bs))" for e
    using C b by (simp add: max.commute)
  moreover have "start_of b < minute_of h' m'" "end_of b \<le> minute_of h' m'" using C wb(2) by (auto simp: less_max_iff_disj Max_gr_iff)
  moreover have "covered slots = {end_of b ..< minute_of h' m'} - booked_minutes bs'" "0 \<le> m'" "m' < 60"
    using C by blast+
  moreover have "booked_minutes bs = {start_of b ..< end_of b} \<union> booked_minutes bs'" using b by simp
  ultimately show ?thesis using wb(2) by auto
qed

text \<open>The comparator of the code orders proper bookings by their start; sorting keeps them apart.\<close>

lemma sorted_wrt_insort:
  assumes "\<And>a b. R a b \<Longrightarrow> R b a" and "sorted_wrt R xs" and "\<forall>y\<in>set xs. R x y"
  shows "sorted_wrt R (insort_key k x xs)"
  using assms(2,3) by (induction xs) (auto simp: set_insort_key assms(1))

lemma sorted_wrt_sort_key:
  "(\<And>a b. R a b \<Longrightarrow> R b a) \<Longrightarrow> sorted_wrt R xs \<Longrightarrow> sorted_wrt R (sort_key k xs)"
  by (induction xs) (auto intro: sorted_wrt_insort)

lemma apart:
  assumes "well_timed a" and "well_timed b" and "\<not> conflictsWith (timeSlot a) (timeSlot b)"
    and "(startHour (timeSlot a), startMinute (timeSlot a)) \<le> (startHour (timeSlot b), startMinute (timeSlot b))"
  shows "end_of a \<le> start_of b"
proof -
  have p: "proper (timeSlot a)" "proper (timeSlot b)" "start_of a < end_of a" "start_of b < end_of b"
    using assms(1,2) by (auto simp: well_timed_def)
  then have "\<not> (start_of b < end_of a \<and> start_of a < end_of b)"
    using assms(3) by (simp add: conflictsWith_iff before_minute proper_def start_of_def end_of_def)
  moreover have "start_of a \<le> start_of b"
    using assms(4) p(1,2) by (auto simp: start_of_def minute_of_def proper_def)
  ultimately show ?thesis using p(3,4) by linarith
qed

lemma sorted_bookings_apart:
  assumes "no_conflicts bs" and "\<forall>b\<in>set bs. well_timed b"
  shows "sorted_wrt (\<lambda>a b. end_of a \<le> start_of b) (sort_key (\<lambda>b. (startHour (timeSlot b), startMinute (timeSlot b))) bs)"
proof -
  let ?k = "\<lambda>b. (startHour (timeSlot b), startMinute (timeSlot b))"
  have "sorted_wrt (\<lambda>a b. \<not> conflictsWith (timeSlot a) (timeSlot b)) (sort_key ?k bs)"
    by (rule sorted_wrt_sort_key) (use assms(1) conflictsWith_sym in \<open>auto simp: no_conflicts_def\<close>)
  moreover have "sorted_wrt (\<lambda>a b. ?k a \<le> ?k b) (sort_key ?k bs)"
    using sorted_sort_key [of ?k bs] by (simp only: sorted_map)
  ultimately have "sorted_wrt (\<lambda>a b. \<not> conflictsWith (timeSlot a) (timeSlot b) \<and> ?k a \<le> ?k b) (sort_key ?k bs)"
    unfolding sorted_wrt_iff_nth_less by blast
  then show ?thesis
  proof (rule sorted_wrt_mono_rel [rotated])
    fix a b assume "a \<in> set (sort_key ?k bs)" "b \<in> set (sort_key ?k bs)"
      "\<not> conflictsWith (timeSlot a) (timeSlot b) \<and> ?k a \<le> ?k b"
    then show "end_of a \<le> start_of b" using assms(2) apart [of a b] unfolding set_sort by blast
  qed
qed

section \<open>Properties\<close>

text \<open>Minutes of the opening hours of a day.\<close>

definition opens_at :: "Availability \<Rightarrow> DayOfWeek \<Rightarrow> int" where
  "opens_at a d = minute_of (av_startHour a ! day_index d) (av_startMinute a ! day_index d)"

definition closes_at :: "Availability \<Rightarrow> DayOfWeek \<Rightarrow> int" where
  "closes_at a d = minute_of (av_endHour a ! day_index d) (av_endMinute a ! day_index d)"

definition real_hours :: "Availability \<Rightarrow> DayOfWeek \<Rightarrow> bool" where
  "real_hours a d \<longleftrightarrow> av_days a ! day_index d \<and> opens_at a d \<le> closes_at a d \<and>
     0 \<le> av_startMinute a ! day_index d \<and> av_startMinute a ! day_index d < 60 \<and>
     0 \<le> av_endMinute a ! day_index d \<and> av_endMinute a ! day_index d < 60"

text \<open>
  C13. The free slots the server reports for an open day are the opening hours without the booked
  minutes when all bookings of the day lie within the opening hours. The server does not see to
  that. In general the reported slots are the minutes that are not booked of the range that the
  opening hours and all bookings of the day span: from the opening time or, if that is earlier, the
  start of the first booking, to the closing time or, if that is later, the end of the last one.
  All this is for bookings with minutes below 60 that end after they start, which the server does
  not check either.
\<close>

theorem free_slots_are_unbooked_hours:
  assumes "availability_ok a" and "real_hours a d" and "bs = bookedSlots a ! day_index d"
    and "\<forall>b\<in>set bs. well_timed b"
  shows "covered (getAvailableTimeSlots d a) =
      {Min (insert (opens_at a d) (start_of ` set bs)) ..< Max (insert (closes_at a d) (end_of ` set bs))} -
        booked_minutes bs \<and>
    ((\<forall>b\<in>set bs. opens_at a d \<le> start_of b \<and> end_of b \<le> closes_at a d) \<longrightarrow>
      covered (getAvailableTimeSlots d a) = {opens_at a d ..< closes_at a d} - booked_minutes bs)"
proof -
  let ?k = "\<lambda>b. (startHour (timeSlot b), startMinute (timeSlot b))"
  let ?first = "Min (insert (opens_at a d) (start_of ` set bs))"
  let ?last = "Max (insert (closes_at a d) (end_of ` set bs))"
  obtain h m slots where f: "free_slots d (sort_key ?k bs) (av_startHour a ! day_index d) (av_startMinute a ! day_index d) [] = (h, m, slots)"
    by (cases "free_slots d (sort_key ?k bs) (av_startHour a ! day_index d) (av_startMinute a ! day_index d) []") auto
  have "no_conflicts bs" using assms(1,3) by (simp add: availability_ok_def)
  note s = sorted_bookings_apart [OF this assms(4)]
  have "booked_minutes (sort_key ?k bs) = booked_minutes bs" by (simp add: booked_minutes_def)
  then have r: "covered slots = {?first ..< minute_of h m} - booked_minutes bs"
      "\<forall>b\<in>set bs. end_of b \<le> minute_of h m" "0 \<le> m" "m < 60" "?first \<le> minute_of h m" "max (minute_of h m) (closes_at a d) = ?last"
    using free_slots_covered [OF s _ _ _ f refl] assms(2,4) by (auto simp: real_hours_def opens_at_def)
  let ?slots = "if before h m (av_endHour a ! day_index d) (av_endMinute a ! day_index d)
    then slots @ [TimeSlot_new h m (av_endHour a ! day_index d) (av_endMinute a ! day_index d) d] else slots"
  have "booked_minutes bs \<subseteq> {..< minute_of h m}" using r(2) by (force simp: booked_minutes_def)
  moreover have "covered ?slots = covered slots \<union> {minute_of h m ..< closes_at a d}"
    using r(3,4) assms(2) by (auto simp: before_minute real_hours_def slot_minutes_def TimeSlot_new_def closes_at_def)
  moreover have "getAvailableTimeSlots d a = ?slots"
    using assms(2) f by (simp add: getAvailableTimeSlots_def Let_def real_hours_def assms(3))
  ultimately have all: "covered (getAvailableTimeSlots d a) = {?first ..< ?last} - booked_minutes bs"
    using r(1,5) unfolding r(6) [symmetric] by (auto simp: max_def)
  have "?first = opens_at a d \<and> ?last = closes_at a d"
    if "\<forall>b\<in>set bs. opens_at a d \<le> start_of b \<and> end_of b \<le> closes_at a d"
    using that by (intro conjI Min_eqI Max_eqI) auto
  with all show ?thesis by simp
qed

theorem free_slots_are_unbooked_hours_witness:
  "covered (getAvailableTimeSlots MONDAY (snd (bookTimeSlot ''id'' ''user'' (TimeSlot_new 7 0 7 30 MONDAY)
      (setAvaOfDay MONDAY True 8 0 17 0 Availability_new)))) = {450 ..< 1020}"
proof -
  let ?a = "setAvaOfDay MONDAY True 8 0 17 0 Availability_new" and ?ts = "TimeSlot_new 7 0 7 30 MONDAY"
  let ?b = "snd (bookTimeSlot ''id'' ''user'' ?ts ?a)"
  have "isAvailable ?a ?ts"
    by (simp add: isAvailable_def setAvaOfDay_def Availability_new_def TimeSlot_new_def)
  then have ok: "availability_ok ?b" by (intro bookTimeSlot_ok setAvaOfDay_ok Availability_new_ok)
  have b: "real_hours ?b MONDAY" "opens_at ?b MONDAY = 480" "closes_at ?b MONDAY = 1020"
    "\<exists>x. bookedSlots ?b ! 0 = [x] \<and> timeSlot x = ?ts"
    by (simp_all add: real_hours_def opens_at_def closes_at_def minute_of_def bookTimeSlot_def setAvaOfDay_def
        Availability_new_def TimeSlot_new_def Let_def)
  then obtain x where x: "bookedSlots ?b ! 0 = [x]" "timeSlot x = ?ts" by blast
  then have t: "start_of x = 420" "end_of x = 450" "well_timed x"
    by (simp_all add: well_timed_def start_of_def end_of_def minute_of_def proper_def TimeSlot_new_def)
  have "{420 ..< 1020} - {420 ..< 450} = {450 ..< 1020 :: int}" by auto
  with free_slots_are_unbooked_hours [OF ok b(1) refl] b x t show ?thesis by (simp add: booked_minutes_def)
qed

end
