(* ===== verification/Server_Requests.thy ===== *)
theory Server_Requests
  imports Server_Bookings Socket Request_Message
begin

text \<open>
  The server's operations (\<^verbatim>\<open>Server/Server.java\<close> below \<^verbatim>\<open>handleRequest\<close>,
  \<^verbatim>\<open>Server/utils/Parser.java\<close>, \<^verbatim>\<open>Server/services/Monitor.java\<close>,
  \<^verbatim>\<open>Server/services/MonitorService.java\<close>): the messages it answers, the parsing of their data
  and the effect of each kind of request. An exception is the left side of the result; effects
  before it stay. The clock has one value during a request.
\<close>

section \<open>Messages and operations\<close>

text \<open>The data of a message may be null.\<close>

record ServerMessage =
  sm_requestType :: int32
  sm_requestID :: int32
  sm_data :: "string option"

datatype Operation = OP_NONE | OP_READ | OP_WRITE | OP_UPDATE | OP_DELETE | OP_MONITOR | OP_ECHO | OP_RATING

fun getOpCode :: "Operation \<Rightarrow> int32" where
  "getOpCode OP_NONE = -1"
| "getOpCode OP_READ = 0"
| "getOpCode OP_WRITE = 1"
| "getOpCode OP_UPDATE = 2"
| "getOpCode OP_DELETE = 3"
| "getOpCode OP_MONITOR = 4"
| "getOpCode OP_ECHO = 5"
| "getOpCode OP_RATING = 6"

definition fromInt :: "int32 \<Rightarrow> Operation" where
  "fromInt opCode =
     (case find (\<lambda>x. getOpCode x = opCode)
        [OP_NONE, OP_READ, OP_WRITE, OP_UPDATE, OP_DELETE, OP_MONITOR, OP_ECHO, OP_RATING] of
        Some x \<Rightarrow> x | None \<Rightarrow> OP_NONE)"

definition getOperation :: "ServerMessage \<Rightarrow> Operation" where
  "getOperation m = fromInt (sm_requestType m)"

text \<open>A reply to a request, with its ID.\<close>

definition reply :: "Operation \<Rightarrow> ServerMessage \<Rightarrow> string \<Rightarrow> ServerMessage" where
  "reply x request response = \<lparr>sm_requestType = getOpCode x, sm_requestID = sm_requestID request, sm_data = Some response\<rparr>"

definition error_reply :: "string \<Rightarrow> string" where
  "error_reply msg = STATUS_ERROR @ [newline] @ ''message:'' @ msg"

text \<open>\<^verbatim>\<open>requestMessage.getData().split(",")\<close>\<close>

definition data_parts :: "ServerMessage \<Rightarrow> java_exn + string list" where
  "data_parts m = (case sm_data m of None \<Rightarrow> Inl Null_Pointer | Some d \<Rightarrow> Inr (split_commas d))"

section \<open>The state of the server\<close>

record Monitor =
  resourceName :: string
  mon_requestID :: int32
  mon_client :: sockaddr_in
  createdTime :: int
  monitorInterval :: int

record RequestInfo =
  requestMessage :: ServerMessage
  ri_client :: sockaddr_in
  responseMessage :: ServerMessage

text \<open>\<open>sv_uuids\<close> counts the random IDs drawn, \<open>sv_notified\<close> lists the notifications sent.\<close>

record server =
  facilities :: "Facility list"
  requestHistory :: "RequestInfo list"
  monitors :: "Monitor list"
  lastUpdatedFacility :: "string option"
  checkHistory :: bool
  sv_uuids :: nat
  sv_notified :: "(sockaddr_in \<times> string) list"

definition user_info :: "jvm \<Rightarrow> sockaddr_in \<Rightarrow> string" where
  "user_info env client = addr_text env (sin_addr client) @ '':'' @ to_string (uint (sin_port client))"

section \<open>Parsing requests\<close>

record BookingDetails =
  prev_bookingId :: "string option"
  bd_facilityName :: string
  bd_day :: DayOfWeek
  bd_startHour :: int
  bd_startMinute :: int
  bd_endHour :: int
  bd_endMinute :: int

definition parseBookingDetails :: "string option \<Rightarrow> java_exn + BookingDetails" where
  "parseBookingDetails bookingDetails =
     (case bookingDetails of
        None \<Rightarrow> Inl Null_Pointer
      | Some t \<Rightarrow>
          let details = split_commas t in
          jbind (array_get details 0) (\<lambda>facilityName.
          jbind (jbind (array_get details 1) valueOf) (\<lambda>day.
          jbind (jbind (array_get details 2) parseInt) (\<lambda>sh.
          jbind (jbind (array_get details 3) parseInt) (\<lambda>sm.
          jbind (jbind (array_get details 4) parseInt) (\<lambda>eh.
          jbind (jbind (array_get details 5) parseInt) (\<lambda>em.
          Inr \<lparr>prev_bookingId = None, bd_facilityName = facilityName, bd_day = day, bd_startHour = sh,
               bd_startMinute = sm, bd_endHour = eh, bd_endMinute = em\<rparr>)))))))"

definition parseUpdateType :: "string option \<Rightarrow> java_exn + string" where
  "parseUpdateType updateType =
     (case updateType of None \<Rightarrow> Inl Null_Pointer | Some t \<Rightarrow> array_get (split_commas t) 0)"

definition parse_update_parts :: "string list \<Rightarrow> java_exn + BookingDetails" where
  "parse_update_parts parts =
     jbind (valueOf (toUpperCase (parts ! 3))) (\<lambda>day.
     jbind (parseInt (parts ! 4)) (\<lambda>sh.
     jbind (parseInt (parts ! 5)) (\<lambda>sm.
     jbind (parseInt (parts ! 6)) (\<lambda>eh.
     jbind (parseInt (parts ! 7)) (\<lambda>em.
     Inr \<lparr>prev_bookingId = Some (parts ! 1), bd_facilityName = parts ! 2, bd_day = day, bd_startHour = sh,
          bd_startMinute = sm, bd_endHour = eh, bd_endMinute = em\<rparr>)))))"

definition parseUpdateBookingDetails :: "jvm \<Rightarrow> string option \<Rightarrow> java_exn + BookingDetails" where
  "parseUpdateBookingDetails env bookingDetailsStr =
     (case bookingDetailsStr of
        None \<Rightarrow> Inl (Illegal_Argument ''Booking details string cannot be null or empty'')
      | Some t \<Rightarrow>
          if blank t then Inl (Illegal_Argument ''Booking details string cannot be null or empty'')
          else let parts = split_commas t in
            if length parts \<noteq> 8 then
              Inl (Illegal_Argument (''Invalid booking details format. Expected 12 comma-separated values, found: '' @
                to_string (int (length parts))))
            else (case parse_update_parts parts of
                Inr booking \<Rightarrow> Inr booking
              | Inl e \<Rightarrow> Inl (Illegal_Argument (''Error parsing booking details: '' @ getMessage env e))))"

section \<open>Availability texts\<close>

text \<open>
  No days, or an empty set of days, stands for all of them. The facility name is not null.
\<close>

definition formatFacilityAvailability :: "string \<Rightarrow> DayOfWeek set \<Rightarrow> server \<Rightarrow> string" where
  "formatFacilityAvailability facilityName days s =
     (case getFacility facilityName (facilities s) of
        None \<Rightarrow> error_reply ''Facility not found''
      | Some facility \<Rightarrow>
          STATUS_SUCCESS @ newline # ''facility:'' @ facilityName @ newline # ''availableTimeslots:'' @ newline #
          concat (map (\<lambda>day.
            if days \<noteq> {} \<and> day \<notin> days then ''''
            else let timeslots = getAvailableTimeSlots day (f_availability facility) in
              if timeslots = [] then ''''
              else day_name day @ '':'' @ concat (map (\<lambda>slot. TimeSlot_toString slot @ '','') timeslots) @ [newline])
            day_values))"

section \<open>Bookings\<close>

definition booking_slot :: "BookingDetails \<Rightarrow> TimeSlot" where
  "booking_slot b = TimeSlot_new (bd_startHour b) (bd_startMinute b) (bd_endHour b) (bd_endMinute b) (bd_day b)"

definition with_availability :: "Availability \<Rightarrow> Facility \<Rightarrow> Facility" where
  "with_availability a f = f\<lparr>f_availability := a\<rparr>"

definition Server_bookFacility ::
  "jvm \<Rightarrow> ServerMessage \<Rightarrow> sockaddr_in \<Rightarrow> server \<Rightarrow> (java_exn + ServerMessage) \<times> server" where
  "Server_bookFacility env request client s =
     (case parseBookingDetails (sm_data request) of
        Inl e \<Rightarrow> (Inl e, s)
      | Inr booking \<Rightarrow>
          let facilityName = bd_facilityName booking in
          (case getFacility facilityName (facilities s) of
             None \<Rightarrow> (Inr (reply OP_WRITE request (error_reply ''Facility not found'')), s)
           | Some facility \<Rightarrow>
               let s = s\<lparr>lastUpdatedFacility := Some facilityName\<rparr>;
                   availability = f_availability facility;
                   bookTimeSlot' = booking_slot booking in
               if \<not> isAvailable availability bookTimeSlot'
               then (Inr (reply OP_WRITE request (error_reply ''Facility not available at the requested time'')), s)
               else
                 let userInfo' = user_info env client;
                     (newID, a) = bookTimeSlot (uuid env (sv_uuids s)) userInfo' bookTimeSlot' availability
                 in (Inr (reply OP_WRITE request
                      (STATUS_SUCCESS @ newline # ''bookingID:'' @ newID @ newline # ''user:'' @ userInfo' @
                       newline # ''facility:'' @ facilityName @ newline # ''day:'' @ day_name (ts_day bookTimeSlot') @
                       newline # ''startTime:'' @ getStartTime bookTimeSlot' @ newline # ''endTime:'' @ getEndTime bookTimeSlot')),
                     s\<lparr>sv_uuids := sv_uuids s + 1,
                       facilities := update_facility facilityName (with_availability a) (facilities s)\<rparr>)))"

text \<open>\<^verbatim>\<open>String.format("%s", null)\<close> prints \<^verbatim>\<open>null\<close>.\<close>

definition null_text :: "string option \<Rightarrow> string" where
  "null_text x = (case x of None \<Rightarrow> ''null'' | Some t \<Rightarrow> t)"

definition Server_updateBooking ::
  "jvm \<Rightarrow> ServerMessage \<Rightarrow> sockaddr_in \<Rightarrow> server \<Rightarrow> (java_exn + ServerMessage) \<times> server" where
  "Server_updateBooking env request client s =
     (case parseUpdateBookingDetails env (sm_data request) of
        Inl e \<Rightarrow> (Inl e, s)
      | Inr booking \<Rightarrow>
          let facilityName = bd_facilityName booking; newTimeSlot = booking_slot booking in
          (case getFacility facilityName (facilities s) of
             None \<Rightarrow> (Inr (reply OP_UPDATE request (error_reply ''Facility not found'')), s)
           | Some facility \<Rightarrow>
               let s = s\<lparr>lastUpdatedFacility := Some facilityName\<rparr>;
                   availability = f_availability facility in
               if \<not> isAvailable availability newTimeSlot
               then (Inr (reply OP_WRITE request (error_reply ''Facility not available at the requested time'')), s)
               else
                 let userInfo' = user_info env client;
                     (oldID, a1) = removeTimeSlot (null_text (prev_bookingId booking)) userInfo' availability;
                     (newID, a2) = bookTimeSlot (uuid env (sv_uuids s)) userInfo' newTimeSlot a1
                 in (Inr (reply OP_UPDATE request
                      (STATUS_SUCCESS @ newline # ''oldBookingID:'' @ null_text oldID @ newline # ''newBookingID:'' @ newID @
                       newline # ''user:'' @ userInfo' @ newline # ''facility:'' @ facilityName @
                       newline # ''day:'' @ day_name (bd_day booking) @ newline # ''startTime:'' @ getStartTime newTimeSlot @
                       newline # ''endTime:'' @ getEndTime newTimeSlot @ [newline])),
                     s\<lparr>sv_uuids := sv_uuids s + 1,
                       facilities := update_facility facilityName (with_availability a2) (facilities s)\<rparr>)))"

definition Server_deleteBooking ::
  "jvm \<Rightarrow> ServerMessage \<Rightarrow> sockaddr_in \<Rightarrow> server \<Rightarrow> (java_exn + ServerMessage) \<times> server" where
  "Server_deleteBooking env request client s =
     (case jbind (data_parts request) (\<lambda>parts.
        jbind (array_get parts 0) (\<lambda>bookingId. jbind (array_get parts 1) (\<lambda>facilityName. Inr (bookingId, facilityName)))) of
        Inl e \<Rightarrow> (Inl e, s)
      | Inr (bookingId, facilityName) \<Rightarrow>
          (case getFacility facilityName (facilities s) of
             None \<Rightarrow> (Inr (reply OP_DELETE request (error_reply ''Facility not found'')), s)
           | Some facility \<Rightarrow>
               let s = s\<lparr>lastUpdatedFacility := Some facilityName\<rparr>;
                   userInfo' = user_info env client;
                   (removedID, a) = removeTimeSlot bookingId userInfo' (f_availability facility)
               in (Inr (reply OP_DELETE request
                    (STATUS_SUCCESS @ newline # ''bookingID:'' @ null_text removedID @ newline # ''user:'' @ userInfo')),
                   s\<lparr>facilities := update_facility facilityName (with_availability a) (facilities s)\<rparr>)))"

section \<open>Ratings\<close>

definition getRating :: "jvm \<Rightarrow> Facility \<Rightarrow> string" where
  "getRating env facility = STATUS_SUCCESS @ newline # ''facility:'' @ f_name facility @
     newline # ''rating:'' @ format_1f env (averageRating (f_rating facility))"

definition with_rating :: "jvm \<Rightarrow> 64 word \<Rightarrow> Facility \<Rightarrow> Facility" where
  "with_rating env rating f = f\<lparr>f_rating := addRating env rating (f_rating f)\<rparr>"

definition Server_addRating ::
  "jvm \<Rightarrow> ServerMessage \<Rightarrow> sockaddr_in \<Rightarrow> server \<Rightarrow> (java_exn + ServerMessage) \<times> server" where
  "Server_addRating env request client s =
     (case jbind (data_parts request) (\<lambda>parts.
        jbind (array_get parts 1) (\<lambda>facilityName.
        jbind (jbind (array_get parts 2) (parseDouble env)) (\<lambda>rating. Inr (facilityName, rating)))) of
        Inl e \<Rightarrow> (Inl e, s)
      | Inr (facilityName, rating) \<Rightarrow>
          (case getFacility facilityName (facilities s) of
             None \<Rightarrow> (Inl Null_Pointer, s)
           | Some facility \<Rightarrow>
               (Inr (reply OP_UPDATE request
                  (STATUS_SUCCESS @ newline # ''user:'' @ user_info env client @ newline # ''facility:'' @ facilityName @
                   newline # ''rating:'' @ format_1f env rating)),
                s\<lparr>facilities := update_facility facilityName (with_rating env rating) (facilities s)\<rparr>)))"

section \<open>Monitors\<close>

text \<open>\<^verbatim>\<open>this.monitorInterval * 1000\<close> is an \<^verbatim>\<open>int\<close> multiplication, which wraps around.\<close>

definition ifExpired :: "int \<Rightarrow> Monitor \<Rightarrow> bool" where
  "ifExpired now m \<longleftrightarrow> now - createdTime m > sint (word_of_int (monitorInterval m) * 1000 :: int32)"

definition removeExpiredMonitors :: "int \<Rightarrow> server \<Rightarrow> server" where
  "removeExpiredMonitors now s = s\<lparr>monitors := filter (\<lambda>m. \<not> ifExpired now m) (monitors s)\<rparr>"

text \<open>The notification is the printed form of a message, not a serialised one.\<close>

definition RequestMessage_toString :: "ServerMessage \<Rightarrow> string" where
  "RequestMessage_toString m = ''RequestMessage: '' @ to_string (sint (sm_requestType m)) @ '' '' @
     to_string (sint (sm_requestID m)) @ '' '' @ null_text (sm_data m)"

definition Server_notifyAll :: "string \<Rightarrow> string \<Rightarrow> server \<Rightarrow> server" where
  "Server_notifyAll facilityName msg s =
     (let notificationMessage = \<lparr>sm_requestType = getOpCode OP_READ, sm_requestID = 0, sm_data = Some msg\<rparr>
      in s\<lparr>sv_notified := sv_notified s @
        map (\<lambda>m. (mon_client m, RequestMessage_toString notificationMessage))
          (filter (\<lambda>m. resourceName m = facilityName) (monitors s))\<rparr>)"

definition register_monitor ::
  "int \<Rightarrow> ServerMessage \<Rightarrow> sockaddr_in \<Rightarrow> server \<Rightarrow> (java_exn + ServerMessage) \<times> server" where
  "register_monitor now request client s =
     (case data_parts request of
        Inl e \<Rightarrow> (Inl e, s)
      | Inr parts \<Rightarrow>
          if length parts = 1 then (Inr (reply OP_READ request (error_reply ''Invalid request format'')), s)
          else (case array_get parts 0 of
             Inl e \<Rightarrow> (Inl e, s)
           | Inr kind \<Rightarrow>
               if kind \<noteq> ''register'' then (Inr (reply OP_MONITOR request (error_reply ''Invalid request format'')), s)
               else (case jbind (array_get parts 1) (\<lambda>facilityName.
                       jbind (jbind (array_get parts 2) parseInt) (\<lambda>interval. Inr (facilityName, interval))) of
                  Inl e \<Rightarrow> (Inl e, s)
                | Inr (facilityName, interval) \<Rightarrow>
                    if getFacility facilityName (facilities s) = None
                    then (Inr (reply OP_READ request (error_reply ''Invalid facilityName provided'')), s)
                    else (Inr (reply OP_MONITOR request
                           (STATUS_SUCCESS @ newline # ''facility:'' @ facilityName @ newline # ''interval:'' @ to_string interval)),
                          s\<lparr>monitors := monitors s @ [\<lparr>resourceName = facilityName, mon_requestID = sm_requestID request,
                            mon_client = client, createdTime = now, monitorInterval = interval\<rparr>]\<rparr>))))"

section \<open>Reading\<close>

fun days_of :: "string list \<Rightarrow> java_exn + DayOfWeek list" where
  "days_of [] = Inr []"
| "days_of (t # ts) = jbind (valueOf t) (\<lambda>d. jbind (days_of ts) (\<lambda>ds. Inr (d # ds)))"

definition booking_response :: "Facility \<Rightarrow> Booking \<Rightarrow> string" where
  "booking_response facility b =
     STATUS_SUCCESS @ newline # ''bookingID:'' @ confirmationID b @ newline # ''user:'' @ userInfo b @
     newline # ''facility:'' @ f_name facility @ newline # ''day:'' @ day_name (ts_day (timeSlot b)) @
     newline # ''startTime:'' @ getStartTime (timeSlot b) @ newline # ''endTime:'' @ getEndTime (timeSlot b) @ [newline]"

text \<open>The loop over the facilities stops at the first one with the booking.\<close>

fun find_booking :: "string \<Rightarrow> Facility list \<Rightarrow> string option" where
  "find_booking bookingID [] = None"
| "find_booking bookingID (facility # fs) =
     (case getBookingInfo bookingID (f_availability facility) of
        Some b \<Rightarrow> Some (booking_response facility b)
      | None \<Rightarrow> find_booking bookingID fs)"

text \<open>
  The \<^verbatim>\<open>READ\<close> branch of \<^verbatim>\<open>handleRequest\<close>, which changes nothing and catches nothing. A facility
  may be asked for with some days.
\<close>

definition facility_names :: "server \<Rightarrow> string" where
  "facility_names s = concat (map (\<lambda>facility. f_name facility @ '','') (facilities s))"

definition read_facility :: "ServerMessage \<Rightarrow> string list \<Rightarrow> server \<Rightarrow> java_exn + ServerMessage" where
  "read_facility request parts s =
     jbind (array_get parts 1) (\<lambda>name.
     if name = ''ALL''
     then Inr (reply OP_READ request (STATUS_SUCCESS @ newline # ''facilityNames:'' @ facility_names s))
     else jbind (days_of (drop 2 parts)) (\<lambda>days.
       Inr (reply OP_READ request (formatFacilityAvailability name (set days) s))))"

definition read_request :: "jvm \<Rightarrow> ServerMessage \<Rightarrow> server \<Rightarrow> java_exn + ServerMessage" where
  "read_request env request s =
     jbind (data_parts request) (\<lambda>parts.
     if length parts = 1 then Inr (reply OP_READ request (error_reply ''Invalid request format'')) else
     jbind (array_get parts 0) (\<lambda>kind.
     if kind = ''facility'' then read_facility request parts s
     else if kind = ''booking'' then
       jbind (array_get parts 1) (\<lambda>bookingID.
       Inr (reply OP_READ request
         (case find_booking bookingID (facilities s) of
            Some response \<Rightarrow> response | None \<Rightarrow> error_reply ''Booking not found'')))
     else if kind = ''rating'' then
       jbind (array_get parts 1) (\<lambda>name.
       Inr (reply OP_READ request
         (case getFacility name (facilities s) of
            Some facility \<Rightarrow> getRating env facility | None \<Rightarrow> error_reply ''Facility not found'')))
     else Inr (reply OP_READ request (error_reply ''Invalid request format''))))"

end
