(* ===== verification/Server_Handler.thy ===== *)
theory Server_Handler
  imports Server_Requests
begin

text \<open>
  The server's request handler (\<^verbatim>\<open>Server/Server.java\<close>: \<^verbatim>\<open>init\<close>, \<^verbatim>\<open>handleRequest\<close>;
  \<^verbatim>\<open>Server/services/RequestHistory.java\<close>) and what every call of it keeps: the booked
  slots of every facility never conflict, the history grows only by new requests.
\<close>

section \<open>The request history\<close>

definition same_request :: "RequestInfo \<Rightarrow> RequestInfo \<Rightarrow> bool" where
  "same_request r requestInfo \<longleftrightarrow>
     sm_requestID (requestMessage r) = sm_requestID (requestMessage requestInfo) \<and> ri_client r = ri_client requestInfo"

definition containsRequest :: "RequestInfo \<Rightarrow> RequestInfo list \<Rightarrow> RequestInfo option" where
  "containsRequest requestInfo history = find (\<lambda>r. same_request r requestInfo) history"

definition addRequest :: "RequestInfo \<Rightarrow> RequestInfo list \<Rightarrow> RequestInfo list" where
  "addRequest request history = history @ [request]"

text \<open>Two operations the server does not call.\<close>

fun containsAndReplace :: "RequestInfo \<Rightarrow> RequestInfo list \<Rightarrow> RequestInfo option \<times> RequestInfo list" where
  "containsAndReplace requestInfo [] = (None, [])"
| "containsAndReplace requestInfo (r # rs) =
     (if ri_client r = ri_client requestInfo then
        (if sint (sm_requestID (requestMessage r)) < sint (sm_requestID (requestMessage requestInfo))
         then (None, requestInfo # rs) else (Some r, r # rs))
      else apsnd ((#) r) (containsAndReplace requestInfo rs))"

fun updateRequestInfo :: "RequestInfo \<Rightarrow> RequestInfo list \<Rightarrow> bool \<times> RequestInfo list" where
  "updateRequestInfo requestInfo [] = (False, [])"
| "updateRequestInfo requestInfo (r # rs) =
     (if same_request r requestInfo
      then (True, r\<lparr>responseMessage := responseMessage requestInfo\<rparr> # rs)
      else apsnd ((#) r) (updateRequestInfo requestInfo rs))"

section \<open>Handling a request\<close>

text \<open>\<^verbatim>\<open>catch (Exception e)\<close> around an operation.\<close>

definition caught ::
  "jvm \<Rightarrow> Operation \<Rightarrow> ServerMessage \<Rightarrow> (java_exn + ServerMessage) \<times> server \<Rightarrow> (java_exn + ServerMessage) \<times> server" where
  "caught env x request r =
     (case r of
        (Inl e, s) \<Rightarrow> (Inr (reply x request (error_reply (getMessage env e))), s)
      | (Inr response, s) \<Rightarrow> (Inr response, s))"

definition update_request ::
  "jvm \<Rightarrow> ServerMessage \<Rightarrow> sockaddr_in \<Rightarrow> server \<Rightarrow> (java_exn + ServerMessage) \<times> server" where
  "update_request env request client s =
     (case parseUpdateType (sm_data request) of
        Inl e \<Rightarrow> (Inl e, s)
      | Inr updateType \<Rightarrow>
          if updateType = ''booking'' then Server_updateBooking env request client s
          else if updateType = ''rating'' then Server_addRating env request client s
          else (Inr (reply OP_UPDATE request (error_reply ''Invalid update type'')), s))"

text \<open>The switch over the operation; only \<^verbatim>\<open>READ\<close> lets exceptions through.\<close>

definition process_request ::
  "jvm \<Rightarrow> int \<Rightarrow> ServerMessage \<Rightarrow> sockaddr_in \<Rightarrow> server \<Rightarrow> (java_exn + ServerMessage) \<times> server" where
  "process_request env now request client s =
     (case getOperation request of
        OP_READ \<Rightarrow> (read_request env request s, s)
      | OP_WRITE \<Rightarrow> caught env OP_WRITE request (Server_bookFacility env request client s)
      | OP_UPDATE \<Rightarrow> caught env OP_UPDATE request (update_request env request client s)
      | OP_DELETE \<Rightarrow> caught env OP_DELETE request (Server_deleteBooking env request client s)
      | OP_MONITOR \<Rightarrow> caught env OP_MONITOR request (register_monitor now request client s)
      | _ \<Rightarrow> (Inr (reply OP_NONE request (error_reply ''Unknown operation'')), s))"

text \<open>The end of \<^verbatim>\<open>handleRequest\<close>: clients that monitor the changed facility are told.\<close>

definition notify_change :: "int \<Rightarrow> Operation \<Rightarrow> server \<Rightarrow> server" where
  "notify_change now x s =
     (case lastUpdatedFacility s of
        None \<Rightarrow> s
      | Some facilityName \<Rightarrow>
          if x = OP_WRITE \<or> x = OP_UPDATE \<or> x = OP_DELETE then
            let s = removeExpiredMonitors now s;
                notification = formatFacilityAvailability facilityName {} s
            in if notification = [] \<or> str_find notification STATUS_ERROR \<noteq> None then s
               else Server_notifyAll facilityName notification s
          else s)"

text \<open>
  The message is \<^const>\<open>None\<close> when it cannot be deserialised. The entry that is looked up has no
  response in the code; the comparison does not read it.
\<close>

definition handleRequest ::
  "jvm \<Rightarrow> int \<Rightarrow> ServerMessage option \<Rightarrow> sockaddr_in \<Rightarrow> server \<Rightarrow> (java_exn + ServerMessage) \<times> server" where
  "handleRequest env now received client s =
     (let s = s\<lparr>lastUpdatedFacility := None\<rparr> in
      case received of
        None \<Rightarrow> (Inr \<lparr>sm_requestType = getOpCode OP_READ, sm_requestID = 0, sm_data = Some (error_reply ''Bad request'')\<rparr>, s)
      | Some request \<Rightarrow>
          if getOperation request = OP_ECHO then (Inr request, s)
          else
            (case (if checkHistory s
                   then containsRequest \<lparr>requestMessage = request, ri_client = client, responseMessage = request\<rparr> (requestHistory s)
                   else None) of
               Some prevRequest \<Rightarrow> (Inr (responseMessage prevRequest), s)
             | None \<Rightarrow>
                 (case process_request env now request client s of
                    (Inl e, s) \<Rightarrow> (Inl e, s)
                  | (Inr response, s) \<Rightarrow>
                      let s = s\<lparr>requestHistory := addRequest
                            \<lparr>requestMessage = request, ri_client = client, responseMessage = response\<rparr> (requestHistory s)\<rparr>
                      in (Inr response, notify_change now (getOperation request) s))))"

text \<open>\<^verbatim>\<open>init()\<close> with the flag of the invocation semantics.\<close>

definition facility_open :: "string \<Rightarrow> DayOfWeek list \<Rightarrow> int \<times> int \<Rightarrow> int \<times> int \<Rightarrow> Facility" where
  "facility_open name days opens closes =
     with_availability
       (fold (\<lambda>d. setAvaOfDay d True (fst opens) (snd opens) (fst closes) (snd closes)) days Availability_new)
       (Facility_new name)"

definition init_facilities :: "Facility list" where
  "init_facilities =
     [facility_open ''Weekday1'' [MONDAY, TUESDAY, WEDNESDAY] (8, 0) (17, 0),
      facility_open ''Weekday2'' [WEDNESDAY, THURSDAY, FRIDAY] (8, 30) (23, 30),
      facility_open ''Weekends'' [SATURDAY, SUNDAY] (9, 0) (18, 0)]"

definition Server_init :: "bool \<Rightarrow> server" where
  "Server_init atMostOnce =
     \<lparr>facilities = init_facilities, requestHistory = [], monitors = [], lastUpdatedFacility = None,
      checkHistory = atMostOnce, sv_uuids = 0, sv_notified = []\<rparr>"

section \<open>Bookings never conflict\<close>

definition facilities_ok :: "Facility list \<Rightarrow> bool" where
  "facilities_ok fs \<longleftrightarrow> (\<forall>f\<in>set fs. availability_ok (f_availability f))"

lemma getFacility_Some: "getFacility name fs = Some f \<Longrightarrow> f \<in> set fs \<and> f_name f = name"
  by (auto simp: getFacility_def find_Some_iff)

lemma update_facility_ok:
  "facilities_ok fs \<Longrightarrow> (\<And>f. f \<in> set fs \<Longrightarrow> availability_ok (f_availability (g f))) \<Longrightarrow>
   facilities_ok (update_facility name g fs)"
  by (induction fs) (auto simp: facilities_ok_def)

lemma with_availability_ok:
  "facilities_ok fs \<Longrightarrow> availability_ok a \<Longrightarrow> facilities_ok (update_facility name (with_availability a) fs)"
  by (rule update_facility_ok) (simp_all add: with_availability_def)

lemma with_rating_ok: "facilities_ok fs \<Longrightarrow> facilities_ok (update_facility name (with_rating env r) fs)"
  by (rule update_facility_ok) (simp_all add: with_rating_def facilities_ok_def)

text \<open>What an operation may do to the state: \<open>keeps s s'\<close>.\<close>

definition keeps :: "server \<Rightarrow> server \<Rightarrow> bool" where
  "keeps s s' \<longleftrightarrow> (facilities_ok (facilities s) \<longrightarrow> facilities_ok (facilities s')) \<and>
     requestHistory s' = requestHistory s \<and> checkHistory s' = checkHistory s"

lemma keeps_refl [intro, simp]: "keeps s s"
  by (simp add: keeps_def)

lemma bookFacility_keeps: "keeps s (snd (Server_bookFacility env m c s))"
proof (cases "parseBookingDetails (sm_data m)")
  case Inr: (Inr b)
  show ?thesis
  proof (cases "getFacility (bd_facilityName b) (facilities s)")
    case (Some f)
    then have "facilities_ok (facilities s) \<Longrightarrow> availability_ok (f_availability f)"
      by (auto simp: facilities_ok_def dest: getFacility_Some)
    with Inr Some show ?thesis
      by (auto simp: Server_bookFacility_def Let_def keeps_def case_prod_beta intro!: with_availability_ok
          dest: store.book_ok [of "f_availability f" "booking_slot b" "uuid env (sv_uuids s)" "user_info env c"])
  qed (simp add: Server_bookFacility_def Inr Let_def)
qed (simp add: Server_bookFacility_def)

lemma updateBooking_keeps: "keeps s (snd (Server_updateBooking env m c s))"
proof (cases "parseUpdateBookingDetails env (sm_data m)")
  case Inr: (Inr b)
  show ?thesis
  proof (cases "getFacility (bd_facilityName b) (facilities s)")
    case (Some f)
    then have "facilities_ok (facilities s) \<Longrightarrow> availability_ok (f_availability f)"
      by (auto simp: facilities_ok_def dest: getFacility_Some)
    with Inr Some show ?thesis
      by (auto simp: Server_updateBooking_def Let_def keeps_def case_prod_beta intro!: with_availability_ok
          dest: store.move_ok [of "f_availability f" "booking_slot b" "uuid env (sv_uuids s)" "user_info env c"
              "null_text (prev_bookingId b)"])
  qed (simp add: Server_updateBooking_def Inr Let_def)
qed (simp add: Server_updateBooking_def)

lemma deleteBooking_keeps: "keeps s (snd (Server_deleteBooking env m c s))"
proof (cases "jbind (data_parts m) (\<lambda>parts.
    jbind (array_get parts 0) (\<lambda>i. jbind (array_get parts 1) (\<lambda>f. Inr (i, f))))")
  case Inr: (Inr p)
  obtain i name where p: "p = (i, name)" by (cases p)
  show ?thesis
  proof (cases "getFacility name (facilities s)")
    case (Some f)
    then have "facilities_ok (facilities s) \<Longrightarrow> availability_ok (f_availability f)"
      by (auto simp: facilities_ok_def dest: getFacility_Some)
    with Inr p Some show ?thesis
      by (auto simp: Server_deleteBooking_def Let_def keeps_def case_prod_beta intro!: with_availability_ok
          dest: store.remove_ok [of "f_availability f" i "user_info env c"])
  qed (use Inr p in \<open>simp add: Server_deleteBooking_def Let_def\<close>)
qed (simp add: Server_deleteBooking_def)

lemma addRating_keeps: "keeps s (snd (Server_addRating env m c s))"
  by (auto simp: Server_addRating_def keeps_def with_rating_ok split: sum.split option.split)

lemma register_monitor_keeps: "keeps s (snd (register_monitor now m c s))"
  by (auto simp: register_monitor_def keeps_def split: sum.split)

lemma caught_snd [simp]: "snd (caught env x m r) = snd r"
  by (auto simp: caught_def split: prod.split sum.split)

lemma process_request_keeps: "keeps s (snd (process_request env now m c s))"
  by (simp add: process_request_def update_request_def bookFacility_keeps updateBooking_keeps
      deleteBooking_keeps addRating_keeps register_monitor_keeps split: Operation.split sum.split)

lemma notify_change_simps [simp]:
  "facilities (notify_change now x s) = facilities s" "requestHistory (notify_change now x s) = requestHistory s"
  "checkHistory (notify_change now x s) = checkHistory s"
  by (simp_all add: notify_change_def Server_notifyAll_def removeExpiredMonitors_def Let_def split: option.split)

lemma handleRequest_keeps_ok:
  assumes "handleRequest env now m c s = (r, s')" and ok: "facilities_ok (facilities s)"
  shows "facilities_ok (facilities s')"
proof (cases m)
  case (Some request)
  let ?s = "s\<lparr>lastUpdatedFacility := None\<rparr>"
  have "facilities_ok (facilities (snd (process_request env now request c ?s)))"
    using process_request_keeps [of ?s env now request c] ok by (simp add: keeps_def)
  with assms Some show ?thesis
    by (auto simp: handleRequest_def Let_def split: option.splits prod.splits sum.splits if_splits)
qed (use assms in \<open>auto simp: handleRequest_def\<close>)

lemma init_facilities_ok: "facilities_ok init_facilities"
  by (simp add: facilities_ok_def init_facilities_def facility_open_def with_availability_def
      setAvaOfDay_ok Availability_new_ok)

section \<open>Runs of the server\<close>

text \<open>A request as it arrives: the time, what was received and from whom.\<close>

type_synonym request_event = "int \<times> ServerMessage option \<times> sockaddr_in"

inductive server_step :: "jvm \<Rightarrow> server \<Rightarrow> request_event \<times> ServerMessage \<Rightarrow> server \<Rightarrow> bool"
  for env :: jvm where
  handled: "handleRequest env now m c s = (Inr response, s') \<Longrightarrow> server_step env s ((now, m, c), response) s'"

inductive server_run :: "jvm \<Rightarrow> server \<Rightarrow> (request_event \<times> ServerMessage) list \<Rightarrow> server \<Rightarrow> bool"
  for env :: jvm where
  idle: "server_run env s [] s"
| served: "server_run env s es s' \<Longrightarrow> server_step env s' e s'' \<Longrightarrow> server_run env s (es @ [e]) s''"

inductive_cases server_stepE: "server_step env s e s'"

inductive_simps server_step_iff: "server_step env s ((now, m, c), response) s'"

lemma server_run_ok: "server_run env s es s' \<Longrightarrow> facilities_ok (facilities s) \<Longrightarrow> facilities_ok (facilities s')"
  by (induction rule: server_run.induct) (auto elim!: server_stepE dest: handleRequest_keeps_ok)

section \<open>The flag of the invocation semantics\<close>

text \<open>Only the lookup in the history depends on it.\<close>

definition with_flag :: "bool \<Rightarrow> server \<Rightarrow> server" where
  "with_flag b s = s\<lparr>checkHistory := b\<rparr>"

lemma with_flag_simps [simp]:
  "facilities (with_flag b s) = facilities s" "requestHistory (with_flag b s) = requestHistory s"
  "monitors (with_flag b s) = monitors s" "sv_uuids (with_flag b s) = sv_uuids s"
  "sv_notified (with_flag b s) = sv_notified s" "lastUpdatedFacility (with_flag b s) = lastUpdatedFacility s"
  "checkHistory (with_flag b s) = b"
  by (simp_all add: with_flag_def)

lemma bookFacility_flag:
  "Server_bookFacility env m c (with_flag b s) = apsnd (with_flag b) (Server_bookFacility env m c s)"
  by (simp add: Server_bookFacility_def Let_def case_prod_beta with_flag_def split: sum.split option.split)

lemma updateBooking_flag:
  "Server_updateBooking env m c (with_flag b s) = apsnd (with_flag b) (Server_updateBooking env m c s)"
  by (simp add: Server_updateBooking_def Let_def case_prod_beta with_flag_def split: sum.split option.split)

lemma deleteBooking_flag:
  "Server_deleteBooking env m c (with_flag b s) = apsnd (with_flag b) (Server_deleteBooking env m c s)"
  by (simp add: Server_deleteBooking_def Let_def case_prod_beta with_flag_def split: sum.split option.split)

lemma addRating_flag:
  "Server_addRating env m c (with_flag b s) = apsnd (with_flag b) (Server_addRating env m c s)"
  by (simp add: Server_addRating_def Let_def case_prod_beta with_flag_def split: sum.split option.split)

lemma register_monitor_flag:
  "register_monitor now m c (with_flag b s) = apsnd (with_flag b) (register_monitor now m c s)"
  by (auto simp: register_monitor_def Let_def with_flag_def split: sum.split)

lemma formatFacilityAvailability_flag [simp]:
  "formatFacilityAvailability name days (with_flag b s) = formatFacilityAvailability name days s"
  by (simp add: formatFacilityAvailability_def)

lemma read_facility_flag: "read_facility m parts (with_flag b s) = read_facility m parts s"
  by (simp add: read_facility_def facility_names_def cong: if_cong)

lemma read_request_flag: "read_request env m (with_flag b s) = read_request env m s"
  by (simp add: read_request_def read_facility_flag cong: if_cong)

lemma update_request_flag:
  "update_request env m c (with_flag b s) = apsnd (with_flag b) (update_request env m c s)"
  by (simp add: update_request_def updateBooking_flag addRating_flag split: sum.split)

lemma caught_apsnd: "caught env x m (apsnd f r) = apsnd f (caught env x m r)"
  by (cases r) (simp add: caught_def split: sum.split)

lemma process_request_flag:
  "process_request env now m c (with_flag b s) = apsnd (with_flag b) (process_request env now m c s)"
  by (simp add: process_request_def bookFacility_flag update_request_flag deleteBooking_flag
      register_monitor_flag read_request_flag caught_apsnd split: Operation.split)

lemma notify_change_flag: "notify_change now x (with_flag b s) = with_flag b (notify_change now x s)"
  by (simp add: notify_change_def Let_def removeExpiredMonitors_def Server_notifyAll_def
      formatFacilityAvailability_def with_flag_def split: option.split)

section \<open>What a request amounts to\<close>

text \<open>A request that is neither garbage nor an echo has a key, its ID and its sender.\<close>

fun request_key :: "request_event \<Rightarrow> (int32 \<times> sockaddr_in) option" where
  "request_key (now, None, c) = None"
| "request_key (now, Some m, c) = (if getOperation m = OP_ECHO then None else Some (sm_requestID m, c))"

definition info_key :: "RequestInfo \<Rightarrow> int32 \<times> sockaddr_in" where
  "info_key r = (sm_requestID (requestMessage r), ri_client r)"

text \<open>Executing a request, whatever the history says.\<close>

definition serve :: "jvm \<Rightarrow> int \<Rightarrow> ServerMessage \<Rightarrow> sockaddr_in \<Rightarrow> server \<Rightarrow> (java_exn + ServerMessage) \<times> server" where
  "serve env now request client s =
     (case process_request env now request client (s\<lparr>lastUpdatedFacility := None\<rparr>) of
        (Inl e, s) \<Rightarrow> (Inl e, s)
      | (Inr response, s) \<Rightarrow> (Inr response, notify_change now (getOperation request) (s\<lparr>requestHistory := addRequest
          \<lparr>requestMessage = request, ri_client = client, responseMessage = response\<rparr> (requestHistory s)\<rparr>)))"

lemma containsRequest_Some:
  "containsRequest r history = Some r' \<Longrightarrow> r' \<in> set history \<and> info_key r' = info_key r"
  by (auto simp: containsRequest_def find_Some_iff same_request_def info_key_def)

lemma containsRequest_None:
  "containsRequest r history = None \<longleftrightarrow> info_key r \<notin> info_key ` set history"
  by (auto simp: containsRequest_def find_None_iff same_request_def info_key_def image_iff)

lemma handle_unkeyed:
  "request_key (now, m, c) = None \<Longrightarrow> \<exists>response. handleRequest env now m c s = (Inr response, s\<lparr>lastUpdatedFacility := None\<rparr>)"
  by (cases m) (auto simp: handleRequest_def split: if_splits)

lemma handle_keyed:
  assumes "request_key (now, m, c) = Some k"
  shows "\<exists>request. m = Some request \<and> k = (sm_requestID request, c) \<and>
    (checkHistory s \<and> k \<in> info_key ` set (requestHistory s) \<longrightarrow>
      (\<exists>r\<in>set (requestHistory s). info_key r = k \<and>
        handleRequest env now m c s = (Inr (responseMessage r), s\<lparr>lastUpdatedFacility := None\<rparr>))) \<and>
    (\<not> (checkHistory s \<and> k \<in> info_key ` set (requestHistory s)) \<longrightarrow>
      handleRequest env now m c s = serve env now request c s)"
proof (cases m)
  case (Some request)
  let ?r = "\<lparr>requestMessage = request, ri_client = c, responseMessage = request\<rparr>"
  have k: "getOperation request \<noteq> OP_ECHO" "k = (sm_requestID request, c)" "info_key ?r = k"
    using assms Some by (auto simp: info_key_def split: if_splits)
  show ?thesis
  proof (cases "checkHistory s \<and> k \<in> info_key ` set (requestHistory s)")
    case True
    then obtain r where r: "containsRequest ?r (requestHistory s) = Some r"
      using k(3) containsRequest_None by blast
    with k(1,3) True Some containsRequest_Some [OF r] show ?thesis
      by (intro exI [of _ request] conjI impI bexI [of _ r]) (auto simp: k(2) handleRequest_def)
  next
    case False
    then have "(if checkHistory s then containsRequest ?r (requestHistory s) else None) = None"
      using k(3) by (auto simp: containsRequest_None)
    with k(1) Some False show ?thesis
      by (auto simp: k(2) handleRequest_def serve_def Let_def simp del: if_split split: sum.split prod.split)
  qed
qed (use assms in simp)

section \<open>At-most-once\<close>

text \<open>The part of a log that was executed: the first request with each key.\<close>

fun executed_after :: "(int32 \<times> sockaddr_in) set \<Rightarrow> (request_event \<times> ServerMessage) list \<Rightarrow> (request_event \<times> ServerMessage) list" where
  "executed_after seen [] = []"
| "executed_after seen (e # es) =
     (case request_key (fst e) of
        None \<Rightarrow> executed_after seen es
      | Some k \<Rightarrow> if k \<in> seen then executed_after seen es else e # executed_after (insert k seen) es)"

definition executed :: "(request_event \<times> ServerMessage) list \<Rightarrow> (request_event \<times> ServerMessage) list" where
  "executed es = executed_after {} es"

definition keys_of :: "(request_event \<times> ServerMessage) list \<Rightarrow> (int32 \<times> sockaddr_in) set" where
  "keys_of es = {k. \<exists>e\<in>set es. request_key (fst e) = Some k}"

lemma executed_after_snoc:
  "executed_after seen (es @ [e]) = executed_after seen es @
     (case request_key (fst e) of None \<Rightarrow> [] | Some k \<Rightarrow> if k \<in> seen \<union> keys_of es then [] else [e])"
  by (induction es arbitrary: seen) (auto simp: keys_of_def split: option.splits)

lemma executed_snoc:
  "executed (es @ [e]) = executed es @
     (case request_key (fst e) of None \<Rightarrow> [] | Some k \<Rightarrow> if k \<in> keys_of es then [] else [e])"
  unfolding executed_def executed_after_snoc by (simp split: option.split)

lemma executed_Nil [simp]: "executed [] = []"
  by (simp add: executed_def)

lemma keys_of_simps [simp]: "keys_of [] = {}"
  "keys_of (es @ [e]) = keys_of es \<union> (case request_key (fst e) of None \<Rightarrow> {} | Some k \<Rightarrow> {k})"
  by (auto simp: keys_of_def split: option.splits)

lemma executed_after_key: "e \<in> set (executed_after seen es) \<Longrightarrow> e \<in> set es \<and> (\<exists>k. request_key (fst e) = Some k \<and> k \<notin> seen)"
proof (induction es arbitrary: seen)
  case (Cons x es)
  then show ?case by (force split: option.splits if_splits)
qed simp

lemma distinct_executed_after: "distinct (map (request_key \<circ> fst) (executed_after seen es))"
proof (induction es arbitrary: seen)
  case (Cons e es)
  have "Some k \<notin> (request_key \<circ> fst) ` set (executed_after (insert k seen) es)" for k
    using executed_after_key by fastforce
  with Cons show ?case by (auto split: option.splits)
qed simp

lemmas executed_key = executed_after_key [where seen = "{}", folded executed_def]
  and distinct_executed = distinct_executed_after [where seen = "{}", folded executed_def]

text \<open>The entry of the history an executed request leaves, and the states that differ in nothing a request reads.\<close>

fun entry :: "request_event \<times> ServerMessage \<Rightarrow> RequestInfo" where
  "entry ((now, m, c), response) = \<lparr>requestMessage = the m, ri_client = c, responseMessage = response\<rparr>"

definition fresh :: "server \<Rightarrow> server" where
  "fresh s = s\<lparr>lastUpdatedFacility := None\<rparr>"

lemma fresh_fresh [simp]: "fresh (fresh s) = fresh s"
  by (simp add: fresh_def)

lemma fresh_eqD:
  "fresh s = fresh t \<Longrightarrow> facilities s = facilities t \<and> monitors s = monitors t \<and> sv_uuids s = sv_uuids t \<and>
    sv_notified s = sv_notified t \<and> requestHistory s = requestHistory t \<and> checkHistory s = checkHistory t"
  by (cases s; cases t) (simp add: fresh_def)

lemma serve_fresh: "fresh s = fresh t \<Longrightarrow> serve env now m c s = serve env now m c t"
  by (simp add: serve_def fresh_def)

lemma with_flag_updates:
  "(with_flag b s)\<lparr>lastUpdatedFacility := x\<rparr> = with_flag b (s\<lparr>lastUpdatedFacility := x\<rparr>)"
  "(with_flag b s)\<lparr>requestHistory := h\<rparr> = with_flag b (s\<lparr>requestHistory := h\<rparr>)"
  by (simp_all add: with_flag_def)

lemma serve_flag: "serve env now m c (with_flag b s) = apsnd (with_flag b) (serve env now m c s)"
  by (simp add: serve_def with_flag_updates process_request_flag notify_change_flag case_prod_beta split: sum.split)

lemma serve_history:
  assumes "serve env now request c s = (Inr response, s')"
  shows "requestHistory s' = requestHistory s @ [\<lparr>requestMessage = request, ri_client = c, responseMessage = response\<rparr>]"
    and "checkHistory s' = checkHistory s"
proof -
  have k: "keeps (fresh s) (snd (process_request env now request c (fresh s)))" by (rule process_request_keeps)
  show "requestHistory s' = requestHistory s @ [\<lparr>requestMessage = request, ri_client = c, responseMessage = response\<rparr>]"
    and "checkHistory s' = checkHistory s"
    using assms k by (auto simp: serve_def keeps_def addRequest_def fresh_def split: prod.splits sum.splits)
qed

text \<open>
  What a run with the lookup amounts to: the history is the log of the executed requests, every
  answer is the one given when the request was executed, and the same requests, each once, lead
  the server without the lookup to the same state.
\<close>

definition answers_of :: "server \<Rightarrow> (request_event \<times> ServerMessage) list \<Rightarrow> bool" where
  "answers_of s es \<longleftrightarrow> (\<forall>(ev, response)\<in>set es. \<forall>k. request_key ev = Some k \<longrightarrow>
     (\<exists>r\<in>set (requestHistory s). info_key r = k \<and> responseMessage r = response))"

definition once :: "jvm \<Rightarrow> server \<Rightarrow> (request_event \<times> ServerMessage) list \<Rightarrow> server \<Rightarrow> bool" where
  "once env s es s' \<longleftrightarrow> checkHistory s' \<and> requestHistory s' = map entry (executed es) \<and>
     info_key ` set (requestHistory s') = keys_of es \<and> answers_of s' es \<and>
     (\<exists>s1. server_run env (with_flag False s) (executed es) s1 \<and> fresh s1 = fresh (with_flag False s'))"

lemma onceD:
  assumes "once env s es s'"
  shows "checkHistory s'" and "requestHistory s' = map entry (executed es)"
    and "info_key ` set (requestHistory s') = keys_of es" and "answers_of s' es"
    and "\<exists>s1. server_run env (with_flag False s) (executed es) s1 \<and> fresh s1 = fresh (with_flag False s')"
  using assms unfolding once_def by blast+

lemma once_skip:
  assumes o: "once env s es s'" and s'': "fresh s'' = fresh s'"
    and e: "request_key (fst e) = None \<or> (\<exists>r\<in>set (requestHistory s'). request_key (fst e) = Some (info_key r) \<and> responseMessage r = snd e)"
  shows "once env s (es @ [e]) s''"
proof -
  note eq = fresh_eqD [OF s'']
  have "request_key (fst e) = Some k \<Longrightarrow> k \<in> keys_of es" for k
    using e onceD(3) [OF o] by auto
  then have ex: "executed (es @ [e]) = executed es" "keys_of (es @ [e]) = keys_of es"
    by (auto simp: executed_snoc split: option.split)
  have fl: "fresh (with_flag False s'') = fresh (with_flag False s')"
    using s'' by (cases s'; cases s'') (simp add: fresh_def with_flag_def)
  have "answers_of s'' (es @ [e])"
    using e onceD(4) [OF o] by (auto simp: answers_of_def eq)
  with onceD [OF o] show ?thesis unfolding once_def ex fl by (simp add: eq)
qed

lemma once_serve:
  assumes o: "once env s es s'" and k: "request_key (now, Some m, c) = Some k" "k \<notin> keys_of es"
    and sv: "serve env now m c s' = (Inr response, s'')"
  shows "once env s (es @ [((now, Some m, c), response)]) s''"
proof -
  let ?e = "((now, Some m, c), response)"
  have ex: "executed (es @ [?e]) = executed es @ [?e]" "keys_of (es @ [?e]) = insert k (keys_of es)"
    using k by (auto simp: executed_snoc)
  have key: "k = (sm_requestID m, c)" using k(1) by (simp split: if_splits)
  obtain s1 where s1: "server_run env (with_flag False s) (executed es) s1" "fresh s1 = fresh (with_flag False s')"
    using onceD(5) [OF o] by blast
  have sv1: "serve env now m c s1 = (Inr response, with_flag False s'')"
    using serve_fresh [OF s1(2)] sv by (simp add: serve_flag)
  have "\<not> checkHistory s1" using fresh_eqD [OF s1(2)] by simp
  then have "handleRequest env now (Some m) c s1 = (Inr response, with_flag False s'')"
    using handle_keyed [OF k(1), of s1 env] sv1 by auto
  then have "server_run env (with_flag False s) (executed (es @ [?e])) (with_flag False s'')"
    unfolding ex by (intro served [OF s1(1)] handled)
  moreover have "answers_of s'' (es @ [?e])"
    using onceD(4) [OF o] serve_history(1) [OF sv] k(1) by (auto simp: answers_of_def info_key_def split: if_splits)
  moreover have "info_key ` set (requestHistory s'') = insert k (keys_of es)"
    using onceD(3) [OF o] serve_history(1) [OF sv] by (simp add: info_key_def key)
  moreover have "requestHistory s'' = map entry (executed es @ [?e])"
    using onceD(2) [OF o] serve_history(1) [OF sv] by simp
  ultimately show ?thesis
    using onceD(1) [OF o] serve_history(2) [OF sv] unfolding once_def ex by blast
qed

lemma runs_once:
  "server_run env s es s' \<Longrightarrow> checkHistory s \<Longrightarrow> requestHistory s = [] \<Longrightarrow> once env s es s'"
proof (induction rule: server_run.induct)
  case (idle s)
  then show ?case
    by (auto simp: once_def answers_of_def intro!: exI [of _ "with_flag False s"] server_run.idle)
next
  case (served s es s' e s'')
  then have o: "once env s es s'" by simp
  from served.hyps(2) obtain now m c response where e: "e = ((now, m, c), response)"
    and h: "handleRequest env now m c s' = (Inr response, s'')" by (auto elim: server_stepE)
  show ?case
  proof (cases "request_key (now, m, c)")
    case None
    with handle_unkeyed [OF None, of env s'] h show ?thesis
      by (intro once_skip [OF o]) (auto simp: e fresh_def)
  next
    case (Some k)
    have ch: "checkHistory s'" "info_key ` set (requestHistory s') = keys_of es" using onceD [OF o] by blast+
    note hk = handle_keyed [OF Some, of s' env]
    show ?thesis
    proof (cases "k \<in> keys_of es")
      case True
      with hk ch h obtain r where "r \<in> set (requestHistory s')" "info_key r = k" "response = responseMessage r"
        "s'' = s'\<lparr>lastUpdatedFacility := None\<rparr>" by auto
      with Some show ?thesis by (intro once_skip [OF o] disjI2 bexI [of _ r]) (auto simp: e fresh_def)
    next
      case False
      with hk ch h obtain request where "m = Some request" "serve env now request c s' = (Inr response, s'')" by auto
      with once_serve [OF o] Some False show ?thesis by (simp add: e)
    qed
  qed
qed

lemma once_answers:
  assumes o: "once env s es s'" and e: "(ev, response) \<in> set es" and k: "request_key ev = Some k"
  shows "\<exists>ev'. request_key ev' = Some k \<and> (ev', response) \<in> set (executed es)"
proof -
  from onceD(4) [OF o] e k obtain r where "r \<in> set (requestHistory s')" "info_key r = k" "responseMessage r = response"
    unfolding answers_of_def by blast
  then obtain e' where e': "e' \<in> set (executed es)" "info_key (entry e') = k" "responseMessage (entry e') = response"
    using onceD(2) [OF o] by auto
  obtain k' where k': "request_key (fst e') = Some k'" using executed_key [OF e'(1)] by blast
  obtain n m' c' x where E: "e' = ((n, m', c'), x)" by (metis surj_pair)
  with k' e'(2,3) have "k' = k" "x = response" by (cases m'; auto simp: info_key_def split: if_splits)+
  with e'(1) k' E show ?thesis by auto
qed

end
