(* ===== verification/Server_Behaviour.thy ===== *)
theory Server_Behaviour
  imports Server_Handler "HOL-Library.Multiset"
begin

text \<open>
  What the server does with the requests of its clients: the texts it parses, the effect of
  booking, moving and deleting on the facilities, what is read back afterwards, and the
  properties of whole runs.
\<close>

section \<open>Texts with commas\<close>

fun commas :: "string list \<Rightarrow> string" where
  "commas [] = ''''"
| "commas [x] = x"
| "commas (x # y # xs) = x @ CHR '','' # commas (y # xs)"

definition no_comma :: "string \<Rightarrow> bool" where
  "no_comma s \<longleftrightarrow> CHR '','' \<notin> set s"

lemma fields_at_commas: "xs \<noteq> [] \<Longrightarrow> \<forall>x\<in>set xs. no_comma x \<Longrightarrow> fields_at (CHR '','') (commas xs) = xs"
  by (induction xs rule: commas.induct) (simp_all add: fields_at_append fields_at_plain no_comma_def)

lemma split_commas_commas:
  assumes "xs \<noteq> []" and "\<forall>x\<in>set xs. no_comma x" and "last xs \<noteq> []"
  shows "split_commas (commas xs) = xs"
proof -
  obtain ys y where xs: "xs = ys @ [y]" using assms(1) by (cases xs rule: rev_cases) simp_all
  with assms(3) have "rev (dropWhile (\<lambda>f. f = []) (rev xs)) = xs" by simp
  with fields_at_commas [OF assms(1,2)] show ?thesis unfolding split_commas_def Let_def by simp
qed

lemma no_comma_digits [simp]: "h < 100 \<Longrightarrow> no_comma [digit_char (h div 10), digit_char (h mod 10)]"
proof -
  assume "h < 100"
  then have "h div 10 < 10" by simp
  with isdigit_not_space [OF isdigit_digit_char, of "h div 10"] isdigit_not_space [OF isdigit_digit_char, of "h mod 10"]
  show ?thesis by (auto simp: no_comma_def)
qed

lemma no_comma_to_string [simp]: "no_comma (to_string i)"
  by (simp add: no_comma_def to_string_no_comma)

lemma no_comma_day [simp]: "no_comma (day_name d)"
  by (cases d) (simp_all add: no_comma_def day_name_def DAYS_OF_WEEK_def)

section \<open>Days and times\<close>

lemma day_name_inj: "day_name d = day_name e \<longleftrightarrow> d = e"
  by (cases d; cases e) (simp_all add: day_name_def DAYS_OF_WEEK_def)

lemma valueOf_day_name [simp]: "valueOf (day_name d) = Inr d"
proof -
  have "find (\<lambda>e. day_name e = day_name d) day_values = Some d"
    unfolding day_name_inj by (cases d) (simp_all add: day_values_def)
  then show ?thesis by (simp add: valueOf_def)
qed

definition two :: "nat \<Rightarrow> string" where
  "two n = [digit_char (n div 10), digit_char (n mod 10)]"

lemma two_simps [simp]: "two n \<noteq> []" "n < 100 \<Longrightarrow> no_comma (two n)"
  by (simp_all add: two_def)

lemma hhmm_two: "hhmm h m = two h @ two m"
  by (simp add: hhmm_def two_def)

lemma parseInt_two [simp]: "n < 100 \<Longrightarrow> parseInt (two n) = Inr (int n)"
proof -
  assume n: "n < 100"
  then have "n div 10 < 10" "n mod 10 < 10" by simp_all
  with isdigit_not_space [OF isdigit_digit_char, of "n div 10"] n show ?thesis
    by (simp add: parseInt_def two_def digits_val_def in_int_def INT_MIN_def INT_MAX_def)
qed

lemma format02d_two: "n < 100 \<Longrightarrow> format02d (int n) = two n"
proof (cases "n < 10")
  case True
  then show ?thesis
    by (simp add: format02d_def to_string_def to_string_nat.simps [of n] two_def digit_char_def)
next
  case False
  moreover assume "n < 100"
  then have "n div 10 < 10" by simp
  ultimately show ?thesis
    by (simp add: format02d_def to_string_def to_string_nat.simps [of n] to_string_nat.simps [of "n div 10"] two_def)
qed

section \<open>Booking texts\<close>

text \<open>The text the client sends to book, and the booking the server reads from it.\<close>

definition slot_of :: "DayOfWeek \<Rightarrow> nat \<Rightarrow> nat \<Rightarrow> nat \<Rightarrow> nat \<Rightarrow> TimeSlot" where
  "slot_of d h1 m1 h2 m2 = TimeSlot_new (int h1) (int m1) (int h2) (int m2) d"

definition booking_text :: "string \<Rightarrow> DayOfWeek \<Rightarrow> nat \<Rightarrow> nat \<Rightarrow> nat \<Rightarrow> nat \<Rightarrow> string" where
  "booking_text name d h1 m1 h2 m2 = commas [name, day_name d, two h1, two m1, two h2, two m2]"

lemma parse_booking_text:
  assumes "no_comma name" and "h1 < 100" and "m1 < 100" and "h2 < 100" and "m2 < 100"
  shows "\<exists>b. parseBookingDetails (Some (booking_text name d h1 m1 h2 m2)) = Inr b \<and> bd_facilityName b = name \<and>
    booking_slot b = slot_of d h1 m1 h2 m2"
  using assms split_commas_commas [of "[name, day_name d, two h1, two m1, two h2, two m2]"]
  by (simp add: parseBookingDetails_def booking_text_def booking_slot_def slot_of_def numeral_nat Let_def)

lemma slot_times:
  "h1 < 100 \<Longrightarrow> m1 < 100 \<Longrightarrow> getStartTime (slot_of d h1 m1 h2 m2) = hhmm h1 m1"
  "h2 < 100 \<Longrightarrow> m2 < 100 \<Longrightarrow> getEndTime (slot_of d h1 m1 h2 m2) = hhmm h2 m2"
  by (simp_all add: slot_of_def TimeSlot_new_def getStartTime_def getEndTime_def format02d_two hhmm_two)

lemma ts_day_slot_of [simp]: "ts_day (slot_of d h1 m1 h2 m2) = d"
  by (simp add: slot_of_def TimeSlot_new_def)

section \<open>New requests\<close>

definition new_request :: "ServerMessage \<Rightarrow> sockaddr_in \<Rightarrow> server \<Rightarrow> bool" where
  "new_request m c s \<longleftrightarrow> getOperation m \<noteq> OP_ECHO \<and>
     (checkHistory s \<longrightarrow> (sm_requestID m, c) \<notin> info_key ` set (requestHistory s))"

lemma handle_new:
  assumes "new_request m c s"
  shows "handleRequest env now (Some m) c s = serve env now m c s"
  using assms handle_keyed [of now "Some m" c "(sm_requestID m, c)" s env] by (auto simp: new_request_def)

lemma fresh_simps [simp]:
  "facilities (fresh s) = facilities s" "requestHistory (fresh s) = requestHistory s"
  "monitors (fresh s) = monitors s" "sv_uuids (fresh s) = sv_uuids s" "checkHistory (fresh s) = checkHistory s"
  "lastUpdatedFacility (fresh s) = None"
  by (simp_all add: fresh_def)

lemma notify_change_uuids [simp]: "sv_uuids (notify_change now x s) = sv_uuids s"
  by (simp add: notify_change_def Server_notifyAll_def removeExpiredMonitors_def Let_def split: option.split)

lemma handle_processed:
  assumes n: "new_request m c s" and p: "process_request env now m c (fresh s) = (Inr response, s1)"
  shows "\<exists>s'. handleRequest env now (Some m) c s = (Inr response, s') \<and> facilities s' = facilities s1 \<and>
    sv_uuids s' = sv_uuids s1 \<and> checkHistory s' = checkHistory s \<and>
    requestHistory s' = requestHistory s @ [\<lparr>requestMessage = m, ri_client = c, responseMessage = response\<rparr>]"
proof -
  have "keeps (fresh s) s1" using process_request_keeps [of "fresh s" env now m c] p by simp
  then show ?thesis
    using p by (simp add: handle_new [OF n] serve_def fresh_def [symmetric] keeps_def addRequest_def)
qed

section \<open>Booking\<close>

definition booked_text :: "jvm \<Rightarrow> sockaddr_in \<Rightarrow> string \<Rightarrow> TimeSlot \<Rightarrow> server \<Rightarrow> string" where
  "booked_text env c name ts s =
     STATUS_SUCCESS @ newline # ''bookingID:'' @ uuid env (sv_uuids s) @ newline # ''user:'' @ user_info env c @
     newline # ''facility:'' @ name @ newline # ''day:'' @ day_name (ts_day ts) @
     newline # ''startTime:'' @ getStartTime ts @ newline # ''endTime:'' @ getEndTime ts"

definition new_booking :: "jvm \<Rightarrow> sockaddr_in \<Rightarrow> TimeSlot \<Rightarrow> Availability \<Rightarrow> server \<Rightarrow> Booking" where
  "new_booking env c ts a s = \<lparr>confirmationID = uuid env (sv_uuids s), userInfo = user_info env c,
     bk_facilityName = av_facilityName a, timeSlot = ts\<rparr>"

text \<open>The availability with one more booking at the end of its day.\<close>

definition add_booking :: "Booking \<Rightarrow> Availability \<Rightarrow> Availability" where
  "add_booking b a = a\<lparr>bookedSlots := (bookedSlots a)[day_index (ts_day (timeSlot b)) :=
     bookedSlots a ! day_index (ts_day (timeSlot b)) @ [b]]\<rparr>"

lemma bookTimeSlot_eq:
  "bookTimeSlot (uuid env (sv_uuids s)) (user_info env c) ts a = (uuid env (sv_uuids s), add_booking (new_booking env c ts a s) a)"
  by (simp add: bookTimeSlot_def add_booking_def new_booking_def Let_def)

lemma bookFacility_run:
  assumes "parseBookingDetails (sm_data m) = Inr b" and "bd_facilityName b = name" and "booking_slot b = ts"
    and "getFacility name (facilities s) = Some f"
  shows "Server_bookFacility env m c s =
    (if isAvailable (f_availability f) ts
     then (Inr (reply OP_WRITE m (booked_text env c name ts s)),
       s\<lparr>lastUpdatedFacility := Some name, sv_uuids := sv_uuids s + 1,
         facilities := update_facility name
           (with_availability (add_booking (new_booking env c ts (f_availability f) s) (f_availability f))) (facilities s)\<rparr>)
     else (Inr (reply OP_WRITE m (error_reply ''Facility not available at the requested time'')),
       s\<lparr>lastUpdatedFacility := Some name\<rparr>))"
  using assms by (simp add: Server_bookFacility_def Let_def bookTimeSlot_eq [of env s] bookTimeSlot_def booked_text_def
      add_booking_def new_booking_def)

text \<open>
  A booking request whose text parses and whose facility exists: it is granted exactly when the
  slot is free, and then filed at the end of its day; otherwise nothing changes.
\<close>

definition write_request :: "int32 \<Rightarrow> string \<Rightarrow> ServerMessage" where
  "write_request i d = \<lparr>sm_requestType = 1, sm_requestID = i, sm_data = Some d\<rparr>"

lemma getOperation_write [simp]: "getOperation (write_request i d) = OP_WRITE"
  by (simp add: getOperation_def fromInt_def write_request_def)

lemma write_request_simps [simp]:
  "sm_data (write_request i d) = Some d" "sm_requestID (write_request i d) = i"
  by (simp_all add: write_request_def)

lemma handle_booking:
  assumes "new_request (write_request i (booking_text name d h1 m1 h2 m2)) c s" and "no_comma name"
    and "h1 < 100" and "m1 < 100" and "h2 < 100" and "m2 < 100"
    and f: "getFacility name (facilities s) = Some f"
  shows "\<exists>response s'. handleRequest env now (Some (write_request i (booking_text name d h1 m1 h2 m2))) c s = (Inr response, s') \<and>
    checkHistory s' = checkHistory s \<and>
    requestHistory s' = requestHistory s @ [\<lparr>requestMessage = write_request i (booking_text name d h1 m1 h2 m2),
      ri_client = c, responseMessage = response\<rparr>] \<and>
    (if isAvailable (f_availability f) (slot_of d h1 m1 h2 m2)
     then response = reply OP_WRITE (write_request i '''') (booked_text env c name (slot_of d h1 m1 h2 m2) s) \<and>
       facilities s' = update_facility name (with_availability
         (add_booking (new_booking env c (slot_of d h1 m1 h2 m2) (f_availability f) s) (f_availability f))) (facilities s)
     else response = reply OP_WRITE (write_request i '''') (error_reply ''Facility not available at the requested time'') \<and>
       facilities s' = facilities s)"
proof -
  let ?m = "write_request i (booking_text name d h1 m1 h2 m2)" and ?ts = "slot_of d h1 m1 h2 m2"
  obtain b where "parseBookingDetails (sm_data ?m) = Inr b" "bd_facilityName b = name" "booking_slot b = ?ts"
    using parse_booking_text [OF assms(2-6), of d] by auto
  note r = bookFacility_run [OF this, of "fresh s" f env c]
  let ?r = "Server_bookFacility env ?m c (fresh s)"
  have "\<exists>x. fst ?r = Inr x" using r f by (simp split: if_splits)
  then obtain x where x: "fst ?r = Inr x" by blast
  then have "process_request env now ?m c (fresh s) = (Inr x, snd ?r)"
    by (simp add: process_request_def caught_def case_prod_beta)
  from handle_processed [OF assms(1) this] x r f show ?thesis
    by (auto simp: reply_def booked_text_def new_booking_def split: if_splits)
qed

section \<open>Reading a booking\<close>

lemma find_unique: "x \<in> set xs \<Longrightarrow> P x \<Longrightarrow> \<forall>y\<in>set xs. P y \<longrightarrow> y = x \<Longrightarrow> find P xs = Some x"
proof (induction xs)
  case (Cons a xs)
  show ?case
  proof (cases "P a")
    case True
    with Cons.prems(3) have "a = x" by simp
    with True show ?thesis by simp
  next
    case False
    with Cons.prems(2) have "a \<noteq> x" by blast
    then have "x \<in> set xs" using Cons.prems(1) by simp
    moreover have "\<forall>y\<in>set xs. P y \<longrightarrow> y = x" using Cons.prems(3) by (meson list.set_intros(2))
    ultimately have "find P xs = Some x" using Cons.IH Cons.prems(2) by blast
    with False show ?thesis by simp
  qed
qed simp

lemma getBookingInfo_add:
  assumes ok: "availability_ok a" and new: "getBookingInfo (confirmationID b) a = None"
  shows "getBookingInfo (confirmationID b) (add_booking b a) = Some b"
proof -
  let ?d = "day_index (ts_day (timeSlot b))"
  have "length (bookedSlots a) = 7" using ok by (simp add: availability_ok_def)
  then have d: "?d < length (bookedSlots a)" by simp
  have none: "\<forall>x\<in>set (concat (bookedSlots a)). confirmationID x \<noteq> confirmationID b"
    using new by (auto simp: getBookingInfo_def find_None_iff)
  have "set (concat (bookedSlots (add_booking b a))) \<subseteq> insert b (set (concat (bookedSlots a)))"
    using set_update_subset_insert [of "bookedSlots a" ?d "bookedSlots a ! ?d @ [b]"] nth_mem [OF d]
    by (force simp: add_booking_def)
  moreover have "b \<in> set (concat (bookedSlots (add_booking b a)))"
    using UN_I [OF set_update_memI [OF d, of "bookedSlots a ! ?d @ [b]"], of b set] by (simp add: add_booking_def)
  ultimately show ?thesis
    unfolding getBookingInfo_def using none by (intro find_unique) blast+
qed

lemma find_booking_update:
  assumes "\<forall>g\<in>set fs. getBookingInfo i (f_availability g) = None" and "getFacility name fs = Some f"
    and "getBookingInfo i a = Some b"
  shows "find_booking i (update_facility name (with_availability a) fs) = Some (booking_response (with_availability a f) b)"
  using assms by (induction fs) (auto simp: getFacility_def with_availability_def split: if_splits)

lemma booking_response_details:
  "booking_response f b = booking_details (confirmationID b) (userInfo b) (f_name f) (day_name (ts_day (timeSlot b)))
     (getStartTime (timeSlot b)) (getEndTime (timeSlot b))"
  by (simp add: booking_response_def booking_details_def terminated_def)

definition read_message :: "int32 \<Rightarrow> string \<Rightarrow> ServerMessage" where
  "read_message i d = \<lparr>sm_requestType = 0, sm_requestID = i, sm_data = Some d\<rparr>"

lemma read_message_simps [simp]:
  "getOperation (read_message i d) = OP_READ" "sm_data (read_message i d) = Some d" "sm_requestID (read_message i d) = i"
  by (simp_all add: getOperation_def fromInt_def read_message_def)

lemma read_booking:
  assumes "new_request (read_message j (''booking,'' @ i)) c s" and "no_comma i" and "i \<noteq> ''''"
    and "find_booking i (facilities s) = Some txt"
  shows "\<exists>s'. handleRequest env now (Some (read_message j (''booking,'' @ i))) c s = (Inr (read_message j txt), s') \<and>
    facilities s' = facilities s"
proof -
  have "split_commas (''booking'' @ CHR '','' # i) = [''booking'', i]"
    using assms(2,3) by (intro split_commas_Cons) (auto simp: no_comma_def)
  then have "process_request env now (read_message j (''booking,'' @ i)) c (fresh s) = (Inr (read_message j txt), fresh s)"
    using assms(4) by (simp add: process_request_def read_request_def data_parts_def reply_def read_message_def
        getOperation_def fromInt_def)
  from handle_processed [OF assms(1) this] show ?thesis by auto
qed

section \<open>All bookings of a facility\<close>

definition all_bookings :: "Availability \<Rightarrow> Booking multiset" where
  "all_bookings a = mset (concat (bookedSlots a))"

lemma mset_concat_update:
  "k < length xss \<Longrightarrow> mset (concat (xss[k := ys])) + mset (xss ! k) = mset (concat xss) + mset ys"
proof (induction xss arbitrary: k)
  case (Cons xs xss)
  then show ?case by (cases k) (auto simp: ac_simps)
qed simp

lemma all_bookings_add:
  assumes "availability_ok a"
  shows "all_bookings (add_booking b a) = add_mset b (all_bookings a)"
proof -
  have "length (bookedSlots a) = 7" using assms by (simp add: availability_ok_def)
  then have "day_index (ts_day (timeSlot b)) < length (bookedSlots a)" by simp
  from mset_concat_update [OF this, of "bookedSlots a ! day_index (ts_day (timeSlot b)) @ [b]"]
  show ?thesis by (simp add: all_bookings_def add_booking_def)
qed

lemma removeTimeSlot_Some:
  assumes "removeTimeSlot i u a = (Some j, a')"
  shows "j = i \<and> (\<exists>b. confirmationID b = i \<and> userInfo b = u \<and> all_bookings a = add_mset b (all_bookings a'))"
proof -
  obtain slots where s: "remove_booked i u (bookedSlots a) = Some slots" "j = i" "a' = a\<lparr>bookedSlots := slots\<rparr>"
    using assms by (auto simp: removeTimeSlot_def split: option.splits)
  obtain k bs where k: "k < length (bookedSlots a)" "remove_slot i u (bookedSlots a ! k) = Some bs"
    "slots = (bookedSlots a)[k := bs]" using remove_booked_Some [OF s(1)] by blast
  obtain pre b post where b: "bookedSlots a ! k = pre @ b # post" "bs = pre @ post" "confirmationID b = i" "userInfo b = u"
    using remove_slot_Some [OF k(2)] by blast
  have "all_bookings a = add_mset b (all_bookings a')"
    using mset_concat_update [OF k(1), of bs] b(1,2) by (simp add: all_bookings_def s(3) k(3))
  with s(2) b(3,4) show ?thesis by blast
qed

lemma removeTimeSlot_cases:
  "removeTimeSlot i u a = (r, a') \<Longrightarrow>
   (r = None \<and> a' = a \<and> (\<forall>b\<in>#all_bookings a. \<not> (confirmationID b = i \<and> userInfo b = u))) \<or>
   (r = Some i \<and> (\<exists>b. confirmationID b = i \<and> userInfo b = u \<and> all_bookings a = add_mset b (all_bookings a')))"
  using removeTimeSlot_None [of i u a a'] removeTimeSlot_Some [of i u a _ a']
  by (cases r) (auto simp: all_bookings_def)

section \<open>Moving and deleting\<close>

definition moved_slot :: "DayOfWeek \<Rightarrow> int \<Rightarrow> int \<Rightarrow> TimeSlot" where
  "moved_slot d t1 t2 = TimeSlot_new (c_div t1 60) (c_mod t1 60) (c_div t2 60) (c_mod t2 60) d"

definition update_message :: "int32 \<Rightarrow> string \<Rightarrow> ServerMessage" where
  "update_message i d = \<lparr>sm_requestType = 2, sm_requestID = i, sm_data = Some d\<rparr>"

lemma update_message_simps [simp]:
  "getOperation (update_message i d) = OP_UPDATE" "sm_data (update_message i d) = Some d" "sm_requestID (update_message i d) = i"
  by (simp_all add: getOperation_def fromInt_def update_message_def)

lemma toUpperCase_day [simp]: "toUpperCase (day_name d) = day_name d"
  by (cases d) (simp_all add: toUpperCase_def toUpper_def day_name_def DAYS_OF_WEEK_def)

definition update_text :: "string \<Rightarrow> string \<Rightarrow> DayOfWeek \<Rightarrow> int \<Rightarrow> int \<Rightarrow> string" where
  "update_text i name d t1 t2 = commas [''booking'', i, name, day_name d, to_string (c_div t1 60), to_string (c_mod t1 60),
     to_string (c_div t2 60), to_string (c_mod t2 60)]"

lemma split_update_text:
  assumes "no_comma i" and "no_comma name"
  shows "split_commas (update_text i name d t1 t2) = [''booking'', i, name, day_name d, to_string (c_div t1 60),
     to_string (c_mod t1 60), to_string (c_div t2 60), to_string (c_mod t2 60)]"
  unfolding update_text_def using assms by (intro split_commas_commas) (simp_all add: no_comma_def [of "''booking''"])

lemma split_time_in_int:
  assumes "in_int t"
  shows "in_int (c_div t 60) \<and> in_int (c_mod t 60)"
proof (cases "0 \<le> t")
  case True
  then have q: "0 \<le> t div 60" by simp
  then have "t div 60 \<le> t"
    using div_mult_mod_eq [of t 60] pos_mod_sign [of 60 t] by linarith
  moreover note q
  moreover have "- 2147483648 \<le> t mod 60 \<and> t mod 60 \<le> 2147483647"
    using pos_mod_sign [of 60 t] pos_mod_bound [of 60 t] by linarith
  ultimately show ?thesis using assms True by (simp add: c_div_nonneg c_mod_nonneg in_int_def INT_MIN_def INT_MAX_def)
next
  case False
  then have d: "c_div t 60 = - ((- t) div 60)" by (simp add: c_div_def)
  have q: "0 \<le> (- t) div 60" using False by simp
  then have "(- t) div 60 \<le> - t"
    using div_mult_mod_eq [of "- t" 60] pos_mod_sign [of 60 "- t"] by linarith
  moreover note q
  moreover have "t - - ((- t) div 60) * 60 = - ((- t) mod 60)"
    using div_mult_mod_eq [of "- t" 60] by linarith
  then have "- 60 < c_mod t 60 \<and> c_mod t 60 \<le> 0"
    unfolding c_mod_def d using pos_mod_sign [of 60 "- t"] pos_mod_bound [of 60 "- t"] by linarith
  ultimately show ?thesis using assms d by (simp add: in_int_def INT_MIN_def INT_MAX_def)
qed

lemma parse_update_text:
  assumes "no_comma i" and "no_comma name" and "in_int t1" and "in_int t2"
  shows "\<exists>b. parseUpdateBookingDetails env (Some (update_text i name d t1 t2)) = Inr b \<and> bd_facilityName b = name \<and>
    booking_slot b = moved_slot d t1 t2 \<and> prev_bookingId b = Some i \<and> bd_day b = d"
proof -
  have "\<not> blank (update_text i name d t1 t2)" by (simp add: blank_def update_text_def)
  then show ?thesis
    using split_update_text [OF assms(1,2), of d t1 t2] split_time_in_int [OF assms(3)] split_time_in_int [OF assms(4)]
    by (simp add: parseUpdateBookingDetails_def parse_update_parts_def parseInt_to_string booking_slot_def moved_slot_def
        numeral_nat Let_def)
qed

text \<open>The availability after a move, and the ID of the booking it replaced.\<close>

definition after_move :: "jvm \<Rightarrow> sockaddr_in \<Rightarrow> string \<Rightarrow> TimeSlot \<Rightarrow> Availability \<Rightarrow> server \<Rightarrow> string option \<times> Availability" where
  "after_move env c i ts a s = (case removeTimeSlot i (user_info env c) a of
     (oldID, a1) \<Rightarrow> (oldID, add_booking (new_booking env c ts a1 s) a1))"

lemma updateBooking_run:
  assumes "parseUpdateBookingDetails env (sm_data m) = Inr b" and "bd_facilityName b = name" and "booking_slot b = ts"
    and "prev_bookingId b = Some i" and "bd_day b = d" and "getFacility name (facilities s) = Some f"
  shows "Server_updateBooking env m c s =
    (if isAvailable (f_availability f) ts
     then (Inr (reply OP_UPDATE m (update_details (null_text (fst (after_move env c i ts (f_availability f) s)))
           (uuid env (sv_uuids s)) (user_info env c) name (day_name d) (getStartTime ts) (getEndTime ts))),
       s\<lparr>lastUpdatedFacility := Some name, sv_uuids := sv_uuids s + 1,
         facilities := update_facility name (with_availability (snd (after_move env c i ts (f_availability f) s))) (facilities s)\<rparr>)
     else (Inr (reply OP_WRITE m (error_reply ''Facility not available at the requested time'')),
       s\<lparr>lastUpdatedFacility := Some name\<rparr>))"
proof (cases "isAvailable (f_availability f) ts")
  case True
  have "null_text (Some i) = i" by (simp add: null_text_def)
  with assms True show ?thesis
    by (simp add: Server_updateBooking_def Let_def bookTimeSlot_def after_move_def add_booking_def new_booking_def
        update_details_def terminated_def case_prod_beta)
qed (use assms in \<open>simp add: Server_updateBooking_def Let_def\<close>)

lemma handle_update:
  assumes "new_request (update_message j (update_text i name d t1 t2)) c s" and "no_comma i" and "no_comma name"
    and "in_int t1" and "in_int t2" and f: "getFacility name (facilities s) = Some f"
  shows "\<exists>response s'. handleRequest env now (Some (update_message j (update_text i name d t1 t2))) c s = (Inr response, s') \<and>
    checkHistory s' = checkHistory s \<and>
    (if isAvailable (f_availability f) (moved_slot d t1 t2)
     then response = reply OP_UPDATE (update_message j '''')
         (update_details (null_text (fst (after_move env c i (moved_slot d t1 t2) (f_availability f) s)))
           (uuid env (sv_uuids s)) (user_info env c) name (day_name d)
           (getStartTime (moved_slot d t1 t2)) (getEndTime (moved_slot d t1 t2))) \<and>
       facilities s' = update_facility name
         (with_availability (snd (after_move env c i (moved_slot d t1 t2) (f_availability f) s))) (facilities s)
     else response = reply OP_WRITE (update_message j '''') (error_reply ''Facility not available at the requested time'') \<and>
       facilities s' = facilities s)"
proof -
  let ?m = "update_message j (update_text i name d t1 t2)" and ?ts = "moved_slot d t1 t2"
  obtain b where "parseUpdateBookingDetails env (sm_data ?m) = Inr b" "bd_facilityName b = name" "booking_slot b = ?ts"
    "prev_bookingId b = Some i" "bd_day b = d"
    using parse_update_text [OF assms(2-5), of env d] by auto
  note r = updateBooking_run [OF this, of "fresh s" f c]
  let ?r = "Server_updateBooking env ?m c (fresh s)"
  have "after_move env c i ?ts (f_availability f) (fresh s) = after_move env c i ?ts (f_availability f) s"
    by (simp add: after_move_def new_booking_def)
  note r = r [unfolded this]
  have "\<exists>x. fst ?r = Inr x" using r f by (simp split: if_splits)
  then obtain x where x: "fst ?r = Inr x" by blast
  have "parseUpdateType (sm_data ?m) = Inr ''booking''"
    using split_update_text [OF assms(2,3), of d t1 t2] by (simp add: parseUpdateType_def)
  with x have "process_request env now ?m c (fresh s) = (Inr x, snd ?r)"
    by (simp add: process_request_def caught_def update_request_def case_prod_beta)
  from handle_processed [OF assms(1) this] x r f show ?thesis
    by (auto simp: reply_def split: if_splits)
qed

definition delete_message :: "int32 \<Rightarrow> string \<Rightarrow> ServerMessage" where
  "delete_message i d = \<lparr>sm_requestType = 3, sm_requestID = i, sm_data = Some d\<rparr>"

lemma delete_message_simps [simp]:
  "getOperation (delete_message i d) = OP_DELETE" "sm_data (delete_message i d) = Some d" "sm_requestID (delete_message i d) = i"
  by (simp_all add: getOperation_def fromInt_def delete_message_def)

lemma deleteBooking_run:
  assumes "sm_data m = Some (i @ CHR '','' # name)" and "no_comma i" and "no_comma name" and "name \<noteq> ''''"
    and "getFacility name (facilities s) = Some f" and "removeTimeSlot i (user_info env c) (f_availability f) = (removedID, a)"
  shows "Server_deleteBooking env m c s =
    (Inr (reply OP_DELETE m (STATUS_SUCCESS @ newline # ''bookingID:'' @ null_text removedID @ newline # ''user:'' @ user_info env c)),
     s\<lparr>lastUpdatedFacility := Some name, facilities := update_facility name (with_availability a) (facilities s)\<rparr>)"
proof -
  have "data_parts m = Inr [i, name]"
    using assms(1-4) split_commas_Cons [of i name] by (simp add: data_parts_def no_comma_def)
  then show ?thesis using assms(5,6) by (simp add: Server_deleteBooking_def Let_def)
qed

lemma handle_delete:
  assumes "new_request (delete_message j (i @ CHR '','' # name)) c s" and "no_comma i" and "no_comma name" and "name \<noteq> ''''"
    and f: "getFacility name (facilities s) = Some f"
    and r: "removeTimeSlot i (user_info env c) (f_availability f) = (removedID, a)"
  shows "\<exists>s'. handleRequest env now (Some (delete_message j (i @ CHR '','' # name))) c s =
      (Inr (reply OP_DELETE (delete_message j '''')
         (STATUS_SUCCESS @ newline # ''bookingID:'' @ null_text removedID @ newline # ''user:'' @ user_info env c)), s') \<and>
    facilities s' = update_facility name (with_availability a) (facilities s)"
proof -
  let ?m = "delete_message j (i @ CHR '','' # name)"
  have "Server_deleteBooking env ?m c (fresh s) =
    (Inr (reply OP_DELETE ?m (STATUS_SUCCESS @ newline # ''bookingID:'' @ null_text removedID @ newline # ''user:'' @ user_info env c)),
     (fresh s)\<lparr>lastUpdatedFacility := Some name, facilities := update_facility name (with_availability a) (facilities (fresh s))\<rparr>)"
    using assms(2-6) by (intro deleteBooking_run) simp_all
  then have "process_request env now ?m c (fresh s) =
    (Inr (reply OP_DELETE ?m (STATUS_SUCCESS @ newline # ''bookingID:'' @ null_text removedID @ newline # ''user:'' @ user_info env c)),
     (fresh s)\<lparr>lastUpdatedFacility := Some name, facilities := update_facility name (with_availability a) (facilities (fresh s))\<rparr>)"
    by (simp add: process_request_def caught_def)
  from handle_processed [OF assms(1) this] show ?thesis by (auto simp: reply_def)
qed

section \<open>Facilities after a change\<close>

lemma getFacility_update [simp]:
  "getFacility name (update_facility name (with_availability a) fs) = map_option (with_availability a) (getFacility name fs)"
  by (induction fs) (auto simp: getFacility_def with_availability_def)

lemma with_availability_simps [simp]:
  "f_availability (with_availability a f) = a" "f_name (with_availability a f) = f_name f"
  by (simp_all add: with_availability_def)

section \<open>Monitors and reading\<close>

text \<open>A facility name that contains a comma reads as days.\<close>

lemma valueOf_unknown: "\<forall>e. day_name e \<noteq> t \<Longrightarrow> valueOf t = Inl (No_Enum_Constant t)"
proof -
  assume "\<forall>e. day_name e \<noteq> t"
  then have "find (\<lambda>d. day_name d = t) day_values = None" by (simp add: find_None_iff)
  then show ?thesis by (simp add: valueOf_def)
qed

lemma handle_unknown_day:
  assumes d: "d = commas (''facility'' # name # t # ts)" and n: "new_request (read_message i d) c s"
    and "\<forall>x\<in>set (name # t # ts). no_comma x" and "last (t # ts) \<noteq> ''''" and "name \<noteq> ''ALL''"
    and "\<forall>e. day_name e \<noteq> t"
  shows "handleRequest env now (Some (read_message i d)) c s = (Inl (No_Enum_Constant t), fresh s)"
proof -
  have "split_commas d = ''facility'' # name # t # ts"
    unfolding d using assms(3,4) by (intro split_commas_commas) (auto simp: no_comma_def [of "''facility''"])
  then show ?thesis
    using assms(5) valueOf_unknown [OF assms(6)]
    by (simp add: handle_new [OF n] serve_def fresh_def [symmetric] process_request_def read_request_def
        read_facility_def data_parts_def)
qed

lemma ifExpired_in_int:
  "in_int (1000 * monitorInterval m) \<Longrightarrow> ifExpired now m \<longleftrightarrow> now - createdTime m > 1000 * monitorInterval m"
proof -
  assume "in_int (1000 * monitorInterval m)"
  then have "- (2 ^ 31) \<le> monitorInterval m * 1000" "monitorInterval m * 1000 < 2 ^ 31"
    by (simp_all add: in_int_def INT_MIN_def INT_MAX_def)
  then have "signed_take_bit 31 (monitorInterval m * 1000) = monitorInterval m * 1000"
    by (intro signed_take_bit_int_eq_self) simp_all
  moreover have "(word_of_int (monitorInterval m) * 1000 :: int32) = word_of_int (monitorInterval m * 1000)"
    by simp
  then have "sint (word_of_int (monitorInterval m) * 1000 :: int32) = signed_take_bit 31 (monitorInterval m * 1000)"
    by (simp only: signed_of_int) simp
  ultimately show ?thesis by (simp add: ifExpired_def mult.commute)
qed

section \<open>An example\<close>

lemma run_of_two:
  assumes "handleRequest env n1 m1 c1 s = (Inr r1, s1)" and "handleRequest env n2 m2 c2 s1 = (Inr r2, s2)"
  shows "server_run env s [((n1, m1, c1), r1), ((n2, m2, c2), r2)] s2"
proof -
  have "server_run env s ([] @ [((n1, m1, c1), r1)]) s1" by (rule served [OF idle handled [OF assms(1)]])
  from served [OF this handled [OF assms(2)]] show ?thesis by simp
qed

definition jvm_example :: jvm where
  "jvm_example = \<lparr>uuid = (\<lambda>n. ''id-'' @ to_string (int n)), addr_text = (\<lambda>a. ''/'' @ to_string (uint a)),
     exn_text = (\<lambda>e. ''error''), parseDouble = (\<lambda>t. Inl (Number_Format t)), double_plus = (\<lambda>x y. x + y),
     double_over = (\<lambda>x n. x), format_1f = (\<lambda>x. ''0.0''),
     charset_encode = map byte_of_char, charset_decode = map char_of_byte, array_max = 2147483639,
     on_class_path = (\<lambda>name. name = ''Server.RequestMessage'' \<or> name = ''java.lang.String'')\<rparr>"

definition client_example :: sockaddr_in where
  "client_example = \<lparr>sin_port = 5000, sin_addr = 1\<rparr>"

definition weekday1 :: Facility where
  "weekday1 = facility_open ''Weekday1'' [MONDAY, TUESDAY, WEDNESDAY] (8, 0) (17, 0)"

lemma init_weekday1 [simp]: "getFacility ''Weekday1'' (facilities (Server_init b)) = Some weekday1"
  by (simp add: getFacility_def Server_init_def init_facilities_def weekday1_def facility_open_def Facility_new_def
      with_availability_def)

lemma weekday1_monday:
  "isAvailable (f_availability weekday1) (slot_of MONDAY h1 m1 h2 m2)"
  by (simp add: isAvailable_def weekday1_def facility_open_def with_availability_def setAvaOfDay_def
      Availability_new_def slot_of_def TimeSlot_new_def)

lemma weekday1_slots: "bookedSlots (f_availability weekday1) = replicate 7 []"
  by (simp add: weekday1_def facility_open_def with_availability_def setAvaOfDay_def Availability_new_def)

lemma new_at_start [simp]: "new_request m c (Server_init b) \<longleftrightarrow> getOperation m \<noteq> OP_ECHO"
  by (simp add: new_request_def Server_init_def)

lemma Server_init_simps [simp]: "requestHistory (Server_init b) = []" "checkHistory (Server_init b) = b"
  by (simp_all add: Server_init_def)

lemma no_comma_Weekday1 [simp]: "no_comma ''Weekday1''"
  by (simp add: no_comma_def)

lemma booked_twice:
  "\<exists>r1 r2 s1 s2 f. handleRequest jvm_example 0 (Some (write_request 0 (booking_text ''Weekday1'' MONDAY 9 0 10 0))) client_example (Server_init b) = (Inr r1, s1) \<and>
    handleRequest jvm_example 0 (Some (write_request 1 (booking_text ''Weekday1'' MONDAY 10 0 11 0))) client_example s1 = (Inr r2, s2) \<and>
    f \<in> set (facilities s2) \<and> length (bookedSlots (f_availability f) ! day_index MONDAY) = 2"
proof -
  let ?m1 = "write_request 0 (booking_text ''Weekday1'' MONDAY 9 0 10 0)"
  let ?m2 = "write_request 1 (booking_text ''Weekday1'' MONDAY 10 0 11 0)"
  let ?a = "add_booking (new_booking jvm_example client_example (slot_of MONDAY 9 0 10 0) (f_availability weekday1) (Server_init b)) (f_availability weekday1)"
  obtain r1 s1 where 1: "handleRequest jvm_example 0 (Some ?m1) client_example (Server_init b) = (Inr r1, s1)"
      "requestHistory s1 = [\<lparr>requestMessage = ?m1, ri_client = client_example, responseMessage = r1\<rparr>]"
      "facilities s1 = update_facility ''Weekday1'' (with_availability ?a) (facilities (Server_init b))"
    using handle_booking [of 0 "''Weekday1''" MONDAY 9 0 10 0 client_example "Server_init b" weekday1 jvm_example 0]
      weekday1_monday [of 9 0 10 0] by auto
  have n: "new_request ?m2 client_example s1" by (simp add: new_request_def 1(2) info_key_def)
  have f: "getFacility ''Weekday1'' (facilities s1) = Some (with_availability ?a weekday1)" by (simp add: 1(3))
  have av: "isAvailable ?a (slot_of MONDAY 10 0 11 0)"
    by (simp add: isAvailable_def weekday1_def facility_open_def with_availability_def setAvaOfDay_def add_booking_def
      Availability_new_def slot_of_def TimeSlot_new_def new_booking_def conflictsWith_iff before_def)
  have len: "length (bookedSlots (add_booking b ?a) ! 0) = 2" if "ts_day (timeSlot b) = MONDAY" for b
    using that by (simp add: add_booking_def weekday1_slots new_booking_def)
  let ?a2 = "add_booking (new_booking jvm_example client_example (slot_of MONDAY 10 0 11 0) ?a s1) ?a"
  obtain r2 s2 where 2: "handleRequest jvm_example 0 (Some ?m2) client_example s1 = (Inr r2, s2)"
      "facilities s2 = update_facility ''Weekday1'' (with_availability ?a2) (facilities s1)"
    using handle_booking [OF n _ _ _ _ _ f, of jvm_example 0] av by auto
  have "getFacility ''Weekday1'' (facilities s2) = Some (with_availability ?a2 (with_availability ?a weekday1))"
    by (simp add: f 2(2))
  then have "with_availability ?a2 (with_availability ?a weekday1) \<in> set (facilities s2)" using getFacility_Some by blast
  moreover have "length (bookedSlots ?a2 ! day_index MONDAY) = 2"
    using len [of "new_booking jvm_example client_example (slot_of MONDAY 10 0 11 0) ?a s1"] by (simp add: new_booking_def)
  ultimately show ?thesis using 1(1) 2(1) with_availability_simps(1) by metis
qed

section \<open>Properties\<close>

text \<open>
  C1. The server never books a slot twice: whatever requests arrive from whatever clients, after
  any run from the initial facilities no two bookings of a facility on a day conflict, and those
  with real minutes cover disjoint times; every booking is filed under its own day.
\<close>

theorem never_double_booked:
  assumes "server_run env (Server_init atMostOnce) es s'"
    and "f \<in> set (facilities s')" and "i < j" and "j < length (bookedSlots (f_availability f) ! day_index d)"
  shows "let a = timeSlot (bookedSlots (f_availability f) ! day_index d ! i);
             b = timeSlot (bookedSlots (f_availability f) ! day_index d ! j)
    in \<not> conflictsWith a b \<and> (proper a \<and> proper b \<longrightarrow> slot_minutes a \<inter> slot_minutes b = {}) \<and>
       ts_day a = d \<and> ts_day b = d"
proof -
  let ?bs = "bookedSlots (f_availability f) ! day_index d"
  have "facilities_ok (facilities s')"
    using server_run_ok [OF assms(1)] init_facilities_ok by (simp add: Server_init_def)
  then have ok: "availability_ok (f_availability f)" using assms(2) by (simp add: facilities_ok_def)
  then have "no_conflicts ?bs" by (simp add: availability_ok_def)
  then have "\<not> conflictsWith (timeSlot (?bs ! i)) (timeSlot (?bs ! j))"
    using assms(3,4) by (simp add: no_conflicts_def sorted_wrt_iff_nth_less)
  moreover have "\<forall>b\<in>set ?bs. ts_day (timeSlot b) = d" using ok by (simp add: availability_ok_def)
  ultimately show ?thesis
    using assms(3,4) no_conflict_disjoint by (auto simp: Let_def)
qed

theorem never_double_booked_witness:
  "\<exists>es s' f. length es = 2 \<and> server_run jvm_example (Server_init True) es s' \<and> f \<in> set (facilities s') \<and> (let a = timeSlot (bookedSlots (f_availability f) ! day_index MONDAY ! 0);
      b = timeSlot (bookedSlots (f_availability f) ! day_index MONDAY ! 1)
    in \<not> conflictsWith a b \<and> (proper a \<and> proper b \<longrightarrow> slot_minutes a \<inter> slot_minutes b = {}) \<and>
       ts_day a = MONDAY \<and> ts_day b = MONDAY)"
proof -
  obtain r1 r2 s1 s2 f where r: "handleRequest jvm_example 0 (Some (write_request 0 (booking_text ''Weekday1'' MONDAY 9 0 10 0)))
      client_example (Server_init True) = (Inr r1, s1)"
    "handleRequest jvm_example 0 (Some (write_request 1 (booking_text ''Weekday1'' MONDAY 10 0 11 0))) client_example s1 = (Inr r2, s2)"
    and f: "f \<in> set (facilities s2)" "length (bookedSlots (f_availability f) ! day_index MONDAY) = 2"
    using booked_twice by blast
  have "0 < (1 :: nat)" "1 < length (bookedSlots (f_availability f) ! day_index MONDAY)" using f(2) by simp_all
  from never_double_booked [OF run_of_two [OF r] f(1) this] f(1) run_of_two [OF r] show ?thesis
    by (intro exI [of _ "[_, _]"] exI [of _ s2] exI [of _ f] conjI) simp_all
qed

text \<open>
  C3. At-most-once: a run with the request history is a run of the server without it in which
  every request, identified by its ID and sender, occurs once. The first copy of each request is
  executed and leads to the same facilities, monitors and notifications; every later copy is
  answered with the same response and changes nothing.
\<close>

theorem at_most_once_refines:
  assumes "server_run env s es s'" and "checkHistory s" and "requestHistory s = []"
  shows "(\<exists>s1. server_run env (with_flag False s) (executed es) s1 \<and>
      facilities s1 = facilities s' \<and> monitors s1 = monitors s' \<and> sv_notified s1 = sv_notified s' \<and>
      requestHistory s1 = requestHistory s') \<and>
    distinct (map (request_key \<circ> fst) (executed es)) \<and>
    (\<forall>(ev, response)\<in>set es. \<forall>k. request_key ev = Some k \<longrightarrow>
      (\<exists>ev'. request_key ev' = Some k \<and> (ev', response) \<in> set (executed es)))"
proof -
  note o = runs_once [OF assms]
  obtain s1 where "server_run env (with_flag False s) (executed es) s1" "fresh s1 = fresh (with_flag False s')"
    using onceD(5) [OF o] by blast
  with fresh_eqD [OF this(2)] have "\<exists>s1. server_run env (with_flag False s) (executed es) s1 \<and>
      facilities s1 = facilities s' \<and> monitors s1 = monitors s' \<and> sv_notified s1 = sv_notified s' \<and>
      requestHistory s1 = requestHistory s'" by auto
  with distinct_executed once_answers [OF o] show ?thesis by blast
qed

theorem at_most_once_refines_witness:
  "\<exists>r s' s1. let e = ((0, Some (write_request 0 (booking_text ''Weekday1'' MONDAY 9 0 10 0)), client_example), r) in
    server_run jvm_example (Server_init True) [e, e] s' \<and>
    server_run jvm_example (Server_init False) [e] s1 \<and> facilities s1 = facilities s'"
proof -
  let ?m = "write_request 0 (booking_text ''Weekday1'' MONDAY 9 0 10 0)"
  let ?ev = "(0, Some ?m, client_example)"
  obtain r s1 where 1: "handleRequest jvm_example 0 (Some ?m) client_example (Server_init True) = (Inr r, s1)"
    "checkHistory s1" "requestHistory s1 = [\<lparr>requestMessage = ?m, ri_client = client_example, responseMessage = r\<rparr>]"
    using handle_booking [of 0 "''Weekday1''" MONDAY 9 0 10 0 client_example "Server_init True" weekday1 jvm_example 0]
    by auto
  have k: "request_key ?ev = Some (0, client_example)" by simp
  have 2: "handleRequest jvm_example 0 (Some ?m) client_example s1 = (Inr r, s1\<lparr>lastUpdatedFacility := None\<rparr>)"
    using handle_keyed [OF k, of s1 jvm_example] 1(2,3) by (auto simp: info_key_def)
  note run = run_of_two [OF 1(1) 2]
  have "executed [(?ev, r), (?ev, r)] = [(?ev, r)]" by (simp add: executed_def)
  moreover have "with_flag False (Server_init True) = Server_init False" by (simp add: with_flag_def Server_init_def)
  ultimately obtain s2 where "server_run jvm_example (Server_init False) [(?ev, r)] s2"
      "facilities s2 = facilities (s1\<lparr>lastUpdatedFacility := None\<rparr>)"
    using at_most_once_refines [OF run] by auto
  with run show ?thesis unfolding Let_def by blast
qed

text \<open>
  C10. A free slot that is booked can be read back: the booking request of a client succeeds, and
  anybody who then asks for the confirmation ID is sent exactly the details of that booking, with
  the address of the client that made it. The random ID is taken to be new.
\<close>

theorem booking_read_back:
  assumes "new_request (write_request i (booking_text name d h1 m1 h2 m2)) c s"
    and "new_request (read_message j (''booking,'' @ uuid env (sv_uuids s))) c' s" and "(i, c) \<noteq> (j, c')"
    and "no_comma name" and "h1 < 24" and "m1 < 60" and "h2 < 24" and "m2 < 60"
    and "facilities_ok (facilities s)" and "getFacility name (facilities s) = Some f"
    and "isAvailable (f_availability f) (slot_of d h1 m1 h2 m2)"
    and "\<forall>g\<in>set (facilities s). getBookingInfo (uuid env (sv_uuids s)) (f_availability g) = None"
    and "no_comma (uuid env (sv_uuids s))" and "uuid env (sv_uuids s) \<noteq> ''''"
  shows "\<exists>s' s''.
    handleRequest env now (Some (write_request i (booking_text name d h1 m1 h2 m2))) c s =
      (Inr (write_request i (booked_text env c name (slot_of d h1 m1 h2 m2) s)), s') \<and>
    handleRequest env now' (Some (read_message j (''booking,'' @ uuid env (sv_uuids s)))) c' s' =
      (Inr (read_message j (booking_details (uuid env (sv_uuids s)) (user_info env c) name (day_name d)
        (hhmm h1 m1) (hhmm h2 m2))), s'')"
proof -
  let ?w = "write_request i (booking_text name d h1 m1 h2 m2)" and ?i = "uuid env (sv_uuids s)"
  let ?b = "new_booking env c (slot_of d h1 m1 h2 m2) (f_availability f) s"
  have lt: "h1 < 100" "m1 < 100" "h2 < 100" "m2 < 100" using assms(5-8) by simp_all
  obtain s' where s': "handleRequest env now (Some ?w) c s =
      (Inr (write_request i (booked_text env c name (slot_of d h1 m1 h2 m2) s)), s')"
    "checkHistory s' = checkHistory s" "\<exists>r. requestHistory s' = requestHistory s @ [\<lparr>requestMessage = ?w, ri_client = c, responseMessage = r\<rparr>]"
    "facilities s' = update_facility name (with_availability (add_booking ?b (f_availability f))) (facilities s)"
    using handle_booking [OF assms(1,4) lt assms(10), of env now] assms(11) by (auto simp: reply_def write_request_def)
  have f: "availability_ok (f_availability f)" "getBookingInfo ?i (f_availability f) = None" "f_name f = name"
    using assms(9,12) getFacility_Some [OF assms(10)] by (auto simp: facilities_ok_def)
  have "getBookingInfo (confirmationID ?b) (add_booking ?b (f_availability f)) = Some ?b"
    using f by (intro getBookingInfo_add) (simp_all add: new_booking_def)
  then have "find_booking ?i (facilities s') = Some (booking_response (with_availability (add_booking ?b (f_availability f)) f) ?b)"
    unfolding s'(4) using assms(12) by (intro find_booking_update assms(10)) (simp_all add: new_booking_def)
  then have "find_booking ?i (facilities s') =
      Some (booking_details ?i (user_info env c) name (day_name d) (hhmm h1 m1) (hhmm h2 m2))"
    using lt by (simp add: booking_response_details f(3) new_booking_def slot_times)
  moreover have "new_request (read_message j (''booking,'' @ ?i)) c' s'"
    using assms(2,3) s'(2,3) by (auto simp: new_request_def info_key_def)
  ultimately show ?thesis using read_booking [OF _ assms(13,14)] s'(1) by blast
qed

lemma init_no_booking: "\<forall>g\<in>set (facilities (Server_init b)). getBookingInfo i (f_availability g) = None"
  by (simp add: Server_init_def init_facilities_def getBookingInfo_def facility_open_def setAvaOfDay_def Availability_new_def
      numeral_nat)

lemma init_facilities_fine [simp]: "facilities_ok (facilities (Server_init b))"
  using init_facilities_ok by (simp add: Server_init_def)

lemma jvm_example_simps [simp]: "uuid jvm_example n = ''id-'' @ to_string (int n)"
  by (simp add: jvm_example_def)

theorem booking_read_back_witness:
  "\<exists>s' s''. handleRequest jvm_example 0 (Some (write_request 0 (booking_text ''Weekday1'' MONDAY 9 0 10 30))) client_example (Server_init True) =
      (Inr (write_request 0 (booked_text jvm_example client_example ''Weekday1'' (slot_of MONDAY 9 0 10 30) (Server_init True))), s') \<and>
    handleRequest jvm_example 5 (Some (read_message 1 (''booking,'' @ uuid jvm_example 0))) client_example s' =
      (Inr (read_message 1 (booking_details (uuid jvm_example 0) (user_info jvm_example client_example) ''Weekday1'' (day_name MONDAY)
        (hhmm 9 0) (hhmm 10 30))), s'')"
proof -
  have "sv_uuids (Server_init True) = 0" by (simp add: Server_init_def)
  then show ?thesis
    using booking_read_back [of 0 "''Weekday1''" MONDAY 9 0 10 30 client_example "Server_init True" 1 jvm_example client_example weekday1 0 5]
      weekday1_monday [of 9 0 10 30] init_no_booking [of True "''id-'' @ to_string 0"] no_comma_to_string [of 0]
    by (simp add: no_comma_def)
qed

text \<open>
  C11. Moving a booking to a free slot: the booking with that ID made from the same address is
  replaced by the new one, every other booking stays. When the sender has no such booking the
  request succeeds all the same: nothing is removed, the slot is booked, and the old ID in the
  response is null.
\<close>

theorem move_replaces_own_booking:
  assumes "new_request (update_message j (update_text i name d t1 t2)) c s" and "no_comma i" and "no_comma name"
    and "in_int t1" and "in_int t2" and "facilities_ok (facilities s)" and "getFacility name (facilities s) = Some f"
    and "isAvailable (f_availability f) (moved_slot d t1 t2)"
  shows "\<exists>oldID b s' f'.
    handleRequest env now (Some (update_message j (update_text i name d t1 t2))) c s =
      (Inr (update_message j (update_details (null_text oldID) (uuid env (sv_uuids s)) (user_info env c) name (day_name d)
         (getStartTime (moved_slot d t1 t2)) (getEndTime (moved_slot d t1 t2)))), s') \<and>
    getFacility name (facilities s') = Some f' \<and>
    timeSlot b = moved_slot d t1 t2 \<and> confirmationID b = uuid env (sv_uuids s) \<and> userInfo b = user_info env c \<and>
    (oldID = None \<and> all_bookings (f_availability f') = add_mset b (all_bookings (f_availability f)) \<and>
       (\<forall>x\<in>#all_bookings (f_availability f). \<not> (confirmationID x = i \<and> userInfo x = user_info env c)) \<or>
     oldID = Some i \<and> (\<exists>x. confirmationID x = i \<and> userInfo x = user_info env c \<and>
       add_mset x (all_bookings (f_availability f')) = add_mset b (all_bookings (f_availability f))))"
proof -
  let ?ts = "moved_slot d t1 t2"
  obtain r a1 where rm: "removeTimeSlot i (user_info env c) (f_availability f) = (r, a1)" by fastforce
  let ?b = "new_booking env c ?ts a1 s"
  obtain s' where s': "handleRequest env now (Some (update_message j (update_text i name d t1 t2))) c s =
      (Inr (update_message j (update_details (null_text r) (uuid env (sv_uuids s)) (user_info env c) name (day_name d)
         (getStartTime ?ts) (getEndTime ?ts))), s')"
    "facilities s' = update_facility name (with_availability (add_booking ?b a1)) (facilities s)"
    using handle_update [OF assms(1-5,7), of env now] assms(8) rm by (auto simp: after_move_def reply_def update_message_def)
  have "availability_ok (f_availability f)"
    using assms(6) getFacility_Some [OF assms(7)] by (auto simp: facilities_ok_def)
  then have "availability_ok a1" by (rule removeTimeSlot_ok(1) [OF _ rm])
  note add = all_bookings_add [OF this, of ?b]
  have f': "getFacility name (facilities s') = Some (with_availability (add_booking ?b a1) f)"
    by (simp add: s'(2) assms(7))
  from removeTimeSlot_cases [OF rm] have "r = None \<and> all_bookings (add_booking ?b a1) = add_mset ?b (all_bookings (f_availability f)) \<and>
       (\<forall>x\<in>#all_bookings (f_availability f). \<not> (confirmationID x = i \<and> userInfo x = user_info env c)) \<or>
     r = Some i \<and> (\<exists>x. confirmationID x = i \<and> userInfo x = user_info env c \<and>
       add_mset x (all_bookings (add_booking ?b a1)) = add_mset ?b (all_bookings (f_availability f)))"
    unfolding add by (auto simp: add_mset_commute)
  with s'(1) f' show ?thesis
    by (intro exI [of _ r] exI [of _ ?b] exI [of _ s'] exI [of _ "with_availability (add_booking ?b a1) f"])
      (simp add: new_booking_def)
qed

lemma in_int_small: "\<bar>t\<bar> \<le> 1000000 \<Longrightarrow> in_int t"
  by (auto simp: in_int_def INT_MIN_def INT_MAX_def)

lemma weekday1_free: "isAvailable (f_availability weekday1) (moved_slot MONDAY t1 t2)"
  by (simp add: isAvailable_def weekday1_def facility_open_def with_availability_def setAvaOfDay_def
      Availability_new_def moved_slot_def TimeSlot_new_def)

text \<open>A shift to before midnight, as the client sends it: 00:-30 is accepted.\<close>

theorem move_replaces_own_booking_witness:
  "\<exists>s' f'. handleRequest jvm_example 0 (Some (update_message 0 (update_text ''nothing'' ''Weekday1'' MONDAY (-30) 30))) client_example (Server_init True) =
      (Inr (update_message 0 (update_details ''null'' (uuid jvm_example 0) (user_info jvm_example client_example) ''Weekday1'' (day_name MONDAY)
         (getStartTime (moved_slot MONDAY (-30) 30)) (getEndTime (moved_slot MONDAY (-30) 30)))), s') \<and>
    getFacility ''Weekday1'' (facilities s') = Some f' \<and> size (all_bookings (f_availability f')) = 1"
proof -
  have "sv_uuids (Server_init True) = 0" by (simp add: Server_init_def)
  moreover have e: "all_bookings (f_availability weekday1) = {#}"
    by (simp add: all_bookings_def weekday1_slots numeral_nat)
  ultimately show ?thesis
    using move_replaces_own_booking [of 0 "''nothing''" "''Weekday1''" MONDAY "-30" 30 client_example "Server_init True" weekday1 jvm_example 0]
      weekday1_free in_int_small [of "-30"] in_int_small [of 30]
    by (auto simp: null_text_def no_comma_def e)
qed

text \<open>
  Hours and minutes computed with the client's truncating division are ordered as the minutes they
  come from, also before midnight, where both may be negative, and past the end of the day.
\<close>

lemma c_div_mono: "a \<le> b \<Longrightarrow> c_div a 60 \<le> c_div b 60"
proof -
  have c: "c_div x 60 = (if 0 \<le> x then x div 60 else - ((- x) div 60))" for x
    by (auto simp: c_div_def sgn_if)
  show "a \<le> b \<Longrightarrow> c_div a 60 \<le> c_div b 60"
    using zdiv_mono1 [of a b 60] zdiv_mono1 [of "- b" "- a" 60] div_int_pos_iff [of b 60] div_int_pos_iff [of "- a" 60]
    by (auto simp: c)
qed

lemma before_truncated: "before (c_div a 60) (c_mod a 60) (c_div b 60) (c_mod b 60) \<longleftrightarrow> a < b"
proof (cases "c_div a 60 = c_div b 60")
  case True
  then show ?thesis by (simp add: before_def c_mod_def)
next
  case False
  then show ?thesis
    using c_div_mono [of a b] c_div_mono [of b a] by (cases "a < b") (auto simp: before_def)
qed

lemma truncated_minute:
  "0 \<le> h \<Longrightarrow> 0 \<le> m \<Longrightarrow> m < 60 \<Longrightarrow> c_div (minute_of h m) 60 = h \<and> c_mod (minute_of h m) 60 = m"
  by (simp add: minute_of_def c_div_nonneg c_mod_nonneg)

lemma conflicts_moved:
  assumes "0 \<le> startHour (timeSlot b)" and "0 \<le> endHour (timeSlot b)" and "proper (timeSlot b)"
  shows "conflictsWith (timeSlot b) (moved_slot d t1 t2) \<longleftrightarrow> t1 < end_of b \<and> start_of b < t2"
  using before_truncated [of t1 "end_of b"] before_truncated [of "start_of b" t2] assms
  by (simp add: conflictsWith_iff moved_slot_def TimeSlot_new_def start_of_def end_of_def truncated_minute proper_def)

text \<open>
  A booking cannot be moved by less than its own length: while it is booked, every slot on its
  day that overlaps it counts as taken, its own slot included, so the move is refused with an
  error and nothing changes, whoever asks.
\<close>

theorem overlapping_move_refused:
  assumes "new_request (update_message j (update_text i name d t1 t2)) c s" and "no_comma i" and "no_comma name"
    and "in_int t1" and "in_int t2" and "getFacility name (facilities s) = Some f"
    and "b \<in> set (bookedSlots (f_availability f) ! day_index d)" and "proper (timeSlot b)"
    and "0 \<le> startHour (timeSlot b)" and "0 \<le> endHour (timeSlot b)"
    and "t1 < end_of b" and "start_of b < t2"
  shows "\<exists>s'. handleRequest env now (Some (update_message j (update_text i name d t1 t2))) c s =
      (Inr (write_request j (error_reply ''Facility not available at the requested time'')), s') \<and> facilities s' = facilities s"
proof -
  let ?ts = "moved_slot d t1 t2"
  have "conflictsWith (timeSlot b) ?ts"
    using assms(8-12) by (simp add: conflicts_moved)
  then have "\<not> isAvailable (f_availability f) ?ts"
    using assms(7) by (auto simp: isAvailable_def list_all_iff moved_slot_def TimeSlot_new_def Let_def)
  then show ?thesis
    using handle_update [OF assms(1-6), of env now] by (auto simp: reply_def write_request_def)
qed

lemma booked_once:
  assumes "h1 < 24" and "m1 < 60" and "h2 < 24" and "m2 < 60"
  shows "\<exists>r s' f. handleRequest jvm_example 0 (Some (write_request 0 (booking_text ''Weekday1'' MONDAY h1 m1 h2 m2))) client_example (Server_init True) = (Inr r, s') \<and>
    info_key ` set (requestHistory s') = {(0, client_example)} \<and> getFacility ''Weekday1'' (facilities s') = Some f \<and>
    (\<exists>b. timeSlot b = slot_of MONDAY h1 m1 h2 m2 \<and> userInfo b = user_info jvm_example client_example \<and>
      f_availability f = add_booking b (f_availability weekday1))"
proof -
  obtain s' where "handleRequest jvm_example 0 (Some (write_request 0 (booking_text ''Weekday1'' MONDAY h1 m1 h2 m2))) client_example (Server_init True) =
      (Inr (reply OP_WRITE (write_request 0 '''') (booked_text jvm_example client_example ''Weekday1'' (slot_of MONDAY h1 m1 h2 m2) (Server_init True))), s')"
    "\<exists>r. requestHistory s' = [\<lparr>requestMessage = write_request 0 (booking_text ''Weekday1'' MONDAY h1 m1 h2 m2), ri_client = client_example, responseMessage = r\<rparr>]"
    "facilities s' = update_facility ''Weekday1'' (with_availability (add_booking (new_booking jvm_example client_example
       (slot_of MONDAY h1 m1 h2 m2) (f_availability weekday1) (Server_init True)) (f_availability weekday1))) (facilities (Server_init True))"
    using handle_booking [of 0 "''Weekday1''" MONDAY h1 m1 h2 m2 client_example "Server_init True" weekday1 jvm_example 0]
      weekday1_monday [of h1 m1 h2 m2] assms by auto
  then show ?thesis
    by (intro exI [of _ "with_availability (add_booking (new_booking jvm_example client_example
       (slot_of MONDAY h1 m1 h2 m2) (f_availability weekday1) (Server_init True)) (f_availability weekday1)) weekday1"]
        exI [of _ s'] exI conjI) (auto simp: info_key_def new_booking_def)
qed

theorem overlapping_move_refused_witness:
  "\<exists>s s'. handleRequest jvm_example 9 (Some (update_message 1 (update_text ''id-0'' ''Weekday1'' MONDAY 570 630))) client_example s =
      (Inr (write_request 1 (error_reply ''Facility not available at the requested time'')), s') \<and>
    (\<exists>r. handleRequest jvm_example 0 (Some (write_request 0 (booking_text ''Weekday1'' MONDAY 9 0 10 0))) client_example (Server_init True) = (Inr r, s))"
proof -
  obtain r s f b where s: "handleRequest jvm_example 0 (Some (write_request 0 (booking_text ''Weekday1'' MONDAY 9 0 10 0))) client_example (Server_init True) = (Inr r, s)"
    and h: "info_key ` set (requestHistory s) = {(0, client_example)}" and f: "getFacility ''Weekday1'' (facilities s) = Some f"
    and b: "timeSlot b = slot_of MONDAY 9 0 10 0" "f_availability f = add_booking b (f_availability weekday1)"
    using booked_once [of 9 0 10 0] by auto
  have "new_request (update_message 1 (update_text ''id-0'' ''Weekday1'' MONDAY 570 630)) client_example s"
    using h by (simp add: new_request_def)
  moreover have "b \<in> set (bookedSlots (f_availability f) ! day_index MONDAY)"
    by (simp add: b add_booking_def weekday1_slots)
  moreover have "proper (timeSlot b)" "start_of b = 540" "end_of b = 600" "0 \<le> startHour (timeSlot b)" "0 \<le> endHour (timeSlot b)"
    by (simp_all add: b proper_def slot_of_def TimeSlot_new_def start_of_def end_of_def minute_of_def)
  ultimately show ?thesis
    using overlapping_move_refused [of 1 "''id-0''" "''Weekday1''" MONDAY 570 630 client_example s f b jvm_example 9] s f
      in_int_small [of 570] in_int_small [of 630]
    by (auto simp: no_comma_def [of "''id-0''"])
qed

text \<open>
  C12. Deleting a booking: the booking with that ID made from the same address is removed and
  nothing else; when there is none, another client's included, nothing changes, yet the response
  reports success, with null for the ID.
\<close>

theorem delete_removes_own_booking:
  assumes "new_request (delete_message j (i @ CHR '','' # name)) c s" and "no_comma i" and "no_comma name" and "name \<noteq> ''''"
    and "getFacility name (facilities s) = Some f"
  shows "\<exists>removedID s' f'. handleRequest env now (Some (delete_message j (i @ CHR '','' # name))) c s =
      (Inr (delete_message j (delete_response (null_text removedID) (user_info env c))), s') \<and>
    getFacility name (facilities s') = Some f' \<and>
    (removedID = None \<and> f' = f \<and>
       (\<forall>x\<in>#all_bookings (f_availability f). \<not> (confirmationID x = i \<and> userInfo x = user_info env c)) \<or>
     removedID = Some i \<and> (\<exists>x. confirmationID x = i \<and> userInfo x = user_info env c \<and>
       all_bookings (f_availability f) = add_mset x (all_bookings (f_availability f'))))"
proof -
  obtain r a where rm: "removeTimeSlot i (user_info env c) (f_availability f) = (r, a)" by fastforce
  obtain s' where s': "handleRequest env now (Some (delete_message j (i @ CHR '','' # name))) c s =
      (Inr (delete_message j (delete_response (null_text r) (user_info env c))), s')"
    "facilities s' = update_facility name (with_availability a) (facilities s)"
    using handle_delete [OF assms rm, of now]
    by (auto simp: reply_def delete_message_def delete_response_def terminated_def)
  have f': "getFacility name (facilities s') = Some (with_availability a f)" by (simp add: s'(2) assms(5))
  have "r = None \<Longrightarrow> with_availability a f = f"
    using removeTimeSlot_cases [OF rm] by (auto simp: with_availability_def)
  with s'(1) f' removeTimeSlot_cases [OF rm] show ?thesis
    by (intro exI [of _ r] exI [of _ s'] exI [of _ "with_availability a f"]) auto
qed

theorem delete_removes_own_booking_witness:
  "\<exists>s'. handleRequest jvm_example 0 (Some (delete_message 0 (''id-7'' @ '',Weekday1''))) client_example (Server_init True) =
      (Inr (delete_message 0 (delete_response ''null'' (user_info jvm_example client_example))), s')"
  using delete_removes_own_booking [of 0 "''id-7''" "''Weekday1''" client_example "Server_init True" weekday1 jvm_example 0]
  by (auto simp: no_comma_def null_text_def all_bookings_def weekday1_slots numeral_nat)

text \<open>
  C30. Opening hours are not checked: on an open day without bookings any slot is granted, also one
  that ends before the facility opens, and from then on the server reports the day as free from
  the end of that booking, before the opening time, up to the closing time.
\<close>

theorem booking_before_opening:
  assumes "new_request (write_request i (booking_text name d h1 m1 h2 m2)) c s" and "no_comma name"
    and "h1 < 24" and "m1 < 60" and "h2 < 24" and "m2 < 60" and "facilities_ok (facilities s)"
    and "getFacility name (facilities s) = Some f" and "real_hours (f_availability f) d"
    and "bookedSlots (f_availability f) ! day_index d = []"
    and "60 * h1 + m1 < 60 * h2 + m2" and "60 * int h2 + int m2 < opens_at (f_availability f) d"
  shows "\<exists>s' f'. handleRequest env now (Some (write_request i (booking_text name d h1 m1 h2 m2))) c s =
      (Inr (write_request i (booked_text env c name (slot_of d h1 m1 h2 m2) s)), s') \<and>
    getFacility name (facilities s') = Some f' \<and>
    getAvailableTimeSlots d (f_availability f') = [TimeSlot_new (int h2) (int m2)
      (av_endHour (f_availability f) ! day_index d) (av_endMinute (f_availability f) ! day_index d) d]"
proof -
  let ?a = "f_availability f" and ?ts = "slot_of d h1 m1 h2 m2"
  let ?b = "new_booking env c ?ts ?a s"
  have lt: "h1 < 100" "m1 < 100" "h2 < 100" "m2 < 100" using assms(3-6) by simp_all
  have ok: "availability_ok ?a" using assms(7) getFacility_Some [OF assms(8)] by (auto simp: facilities_ok_def)
  have "isAvailable ?a ?ts" using assms(9,10) by (simp add: isAvailable_def real_hours_def)
  then obtain s' where s': "handleRequest env now (Some (write_request i (booking_text name d h1 m1 h2 m2))) c s =
      (Inr (write_request i (booked_text env c name ?ts s)), s')"
    "facilities s' = update_facility name (with_availability (add_booking ?b ?a)) (facilities s)"
    using handle_booking [OF assms(1,2) lt assms(8), of env now] by (auto simp: reply_def write_request_def)
  have d: "day_index d < length (bookedSlots ?a)" using ok by (simp add: availability_ok_def)
  have slots: "bookedSlots (add_booking ?b ?a) ! day_index d = [?b]"
    using d assms(10) by (simp add: add_booking_def new_booking_def)
  let ?oh = "av_startHour ?a ! day_index d" and ?om = "av_startMinute ?a ! day_index d"
  have "\<not> before ?oh ?om (int h1) (int m1)"
    using assms(4,9,11,12) by (simp add: before_minute real_hours_def opens_at_def) (simp add: minute_of_def)
  moreover have "before (int h2) (int m2) (av_endHour ?a ! day_index d) (av_endMinute ?a ! day_index d)"
    using assms(6,9,12) by (simp add: before_minute real_hours_def opens_at_def closes_at_def) (simp add: minute_of_def)
  ultimately have "getAvailableTimeSlots d (add_booking ?b ?a) =
      [TimeSlot_new (int h2) (int m2) (av_endHour ?a ! day_index d) (av_endMinute ?a ! day_index d) d]"
    using assms(9) slots by (simp add: getAvailableTimeSlots_def Let_def real_hours_def)
      (simp add: add_booking_def new_booking_def slot_of_def TimeSlot_new_def)
  with s' assms(8) show ?thesis by simp
qed

lemma weekday1_hours:
  "real_hours (f_availability weekday1) MONDAY" "opens_at (f_availability weekday1) MONDAY = 480"
  "av_endHour (f_availability weekday1) ! day_index MONDAY = 17" "av_endMinute (f_availability weekday1) ! day_index MONDAY = 0"
  by (simp_all add: real_hours_def opens_at_def closes_at_def weekday1_def facility_open_def with_availability_def
      setAvaOfDay_def Availability_new_def minute_of_def)

theorem booking_before_opening_witness:
  "\<exists>s' f'. handleRequest jvm_example 0 (Some (write_request 0 (booking_text ''Weekday1'' MONDAY 2 0 3 0))) client_example (Server_init True) =
      (Inr (write_request 0 (booked_text jvm_example client_example ''Weekday1'' (slot_of MONDAY 2 0 3 0) (Server_init True))), s') \<and>
    getFacility ''Weekday1'' (facilities s') = Some f' \<and>
    getAvailableTimeSlots MONDAY (f_availability f') = [TimeSlot_new 3 0 17 0 MONDAY]"
  using booking_before_opening [of 0 "''Weekday1''" MONDAY 2 0 3 0 client_example "Server_init True" weekday1 jvm_example 0]
    weekday1_hours by (simp add: weekday1_slots)

text \<open>
  C31. A monitor expires after its interval, in seconds, only up to 2147483 seconds: the product
  with 1000 is computed in 32 bits, so a monitor for 2147484 seconds, almost 25 days, counts as
  expired from the start.
\<close>

theorem monitor_interval_overflows:
  "(in_int (1000 * monitorInterval m) \<longrightarrow> (ifExpired now m \<longleftrightarrow> now > createdTime m + 1000 * monitorInterval m)) \<and>
   (monitorInterval m' = 2147484 \<and> createdTime m' \<le> now \<longrightarrow> ifExpired now m' \<and>
      m' \<notin> set (monitors (removeExpiredMonitors now s)))"
proof -
  have "sint (2147484 * 1000 :: int32) < 0" by code_simp
  then show ?thesis
    by (auto simp: ifExpired_in_int) (simp_all add: ifExpired_def removeExpiredMonitors_def)
qed

theorem monitor_interval_overflows_witness:
  "ifExpired 0 \<lparr>resourceName = ''Weekday1'', mon_requestID = 0, mon_client = client_example, createdTime = 0, monitorInterval = 2147484\<rparr>"
proof -
  let ?m = "\<lparr>resourceName = ''Weekday1'', mon_requestID = 0, mon_client = client_example, createdTime = 0, monitorInterval = 2147484\<rparr>"
  show ?thesis using monitor_interval_overflows [of ?m 0 ?m "Server_init True"] by simp
qed

text \<open>
  C4. What the history is for: the client's booking of a free slot arrives twice. Without the
  history the second copy is executed, collides with the booking the first one made and is
  answered with an error, although the client's booking stands; with the history it gets the
  confirmation again.
\<close>

theorem repeated_booking:
  assumes "new_request (write_request i (booking_text name d h1 m1 h2 m2)) c (with_flag True s)" and "no_comma name"
    and "h1 < 24" and "m1 < 60" and "h2 < 24" and "m2 < 60" and "60 * h1 + m1 < 60 * h2 + m2"
    and "facilities_ok (facilities s)" and "getFacility name (facilities s) = Some f"
    and "isAvailable (f_availability f) (slot_of d h1 m1 h2 m2)"
  shows "\<exists>s1 s2 t1 t2.
    handleRequest env now (Some (write_request i (booking_text name d h1 m1 h2 m2))) c (with_flag False s) =
      (Inr (write_request i (booked_text env c name (slot_of d h1 m1 h2 m2) s)), s1) \<and>
    handleRequest env now' (Some (write_request i (booking_text name d h1 m1 h2 m2))) c s1 =
      (Inr (write_request i (error_reply ''Facility not available at the requested time'')), s2) \<and>
    handleRequest env now (Some (write_request i (booking_text name d h1 m1 h2 m2))) c (with_flag True s) =
      (Inr (write_request i (booked_text env c name (slot_of d h1 m1 h2 m2) s)), t1) \<and>
    handleRequest env now' (Some (write_request i (booking_text name d h1 m1 h2 m2))) c t1 =
      (Inr (write_request i (booked_text env c name (slot_of d h1 m1 h2 m2) s)), t2) \<and>
    facilities s2 = facilities s1 \<and> facilities t2 = facilities s1 \<and>
    (\<exists>f'. getFacility name (facilities s1) = Some f' \<and>
      new_booking env c (slot_of d h1 m1 h2 m2) (f_availability f) s \<in># all_bookings (f_availability f'))"
proof -
  let ?w = "write_request i (booking_text name d h1 m1 h2 m2)" and ?ts = "slot_of d h1 m1 h2 m2" and ?a = "f_availability f"
  let ?b = "new_booking env c ?ts ?a s"
  have lt: "h1 < 100" "m1 < 100" "h2 < 100" "m2 < 100" using assms(3-6) by simp_all
  have first: "\<exists>s1. handleRequest env now (Some ?w) c (with_flag h s) = (Inr (write_request i (booked_text env c name ?ts s)), s1) \<and>
      checkHistory s1 = h \<and> facilities s1 = update_facility name (with_availability (add_booking ?b ?a)) (facilities s) \<and>
      requestHistory s1 = requestHistory s @ [\<lparr>requestMessage = ?w, ri_client = c, responseMessage = write_request i (booked_text env c name ?ts s)\<rparr>]"
    for h
  proof -
    have "new_request ?w c (with_flag h s)" using assms(1) by (simp add: new_request_def)
    from handle_booking [OF this assms(2) lt, of f env now] assms(9,10) show ?thesis
      by (auto simp: reply_def write_request_def new_booking_def booked_text_def)
  qed
  obtain s1 where s1: "handleRequest env now (Some ?w) c (with_flag False s) = (Inr (write_request i (booked_text env c name ?ts s)), s1)"
    "\<not> checkHistory s1" "facilities s1 = update_facility name (with_availability (add_booking ?b ?a)) (facilities s)"
    using first [of False] by auto
  have f1: "getFacility name (facilities s1) = Some (with_availability (add_booking ?b ?a) f)"
    by (simp add: s1(3) assms(9))
  have ok: "availability_ok ?a" using assms(8) getFacility_Some [OF assms(9)] by (auto simp: facilities_ok_def)
  then have d: "day_index d < length (bookedSlots ?a)" by (simp add: availability_ok_def)
  have "conflictsWith ?ts ?ts"
    using assms(4,6,7) by (simp add: conflictsWith_iff slot_of_def TimeSlot_new_def before_minute) (simp add: minute_of_def)
  then have "\<not> isAvailable (add_booking ?b ?a) ?ts"
    using d by (simp add: isAvailable_def add_booking_def new_booking_def Let_def)
  moreover have n1: "new_request ?w c s1" using s1(2) by (simp add: new_request_def)
  ultimately obtain s2 where s2: "handleRequest env now' (Some ?w) c s1 =
      (Inr (write_request i (error_reply ''Facility not available at the requested time'')), s2)" "facilities s2 = facilities s1"
    using handle_booking [OF n1 assms(2) lt f1, of env now'] by (auto simp: reply_def write_request_def)
  obtain t1 where t1: "handleRequest env now (Some ?w) c (with_flag True s) = (Inr (write_request i (booked_text env c name ?ts s)), t1)"
    "checkHistory t1" "facilities t1 = facilities s1"
    "requestHistory t1 = requestHistory s @ [\<lparr>requestMessage = ?w, ri_client = c, responseMessage = write_request i (booked_text env c name ?ts s)\<rparr>]"
    using first [of True] s1(3) by auto
  have k: "request_key (now', Some ?w, c) = Some (i, c)" by simp
  have "handleRequest env now' (Some ?w) c t1 = (Inr (write_request i (booked_text env c name ?ts s)), t1\<lparr>lastUpdatedFacility := None\<rparr>)"
    using handle_keyed [OF k, of t1 env] t1(2,4) assms(1) by (auto simp: new_request_def info_key_def)
  moreover have "?b \<in># all_bookings (add_booking ?b ?a)" using ok by (simp add: all_bookings_add new_booking_def)
  ultimately show ?thesis using s1(1) s2 t1(1,3) f1
    by (intro exI [of _ s1] exI [of _ s2] exI [of _ t1] exI [of _ "t1\<lparr>lastUpdatedFacility := None\<rparr>"]) simp
qed

theorem repeated_booking_witness:
  "\<exists>s1 s2. handleRequest jvm_example 0 (Some (write_request 0 (booking_text ''Weekday1'' MONDAY 9 0 10 0))) client_example (Server_init False) =
      (Inr (write_request 0 (booked_text jvm_example client_example ''Weekday1'' (slot_of MONDAY 9 0 10 0) (Server_init False))), s1) \<and>
    handleRequest jvm_example 5 (Some (write_request 0 (booking_text ''Weekday1'' MONDAY 9 0 10 0))) client_example s1 =
      (Inr (write_request 0 (error_reply ''Facility not available at the requested time'')), s2)"
proof -
  have w: "with_flag False (Server_init False) = Server_init False" by (simp add: with_flag_def Server_init_def)
  have n: "new_request (write_request 0 (booking_text ''Weekday1'' MONDAY 9 0 10 0)) client_example (with_flag True (Server_init False))"
    by (simp add: new_request_def)
  have lt: "9 < (24 :: nat)" "0 < (60 :: nat)" "10 < (24 :: nat)" "60 * 9 + 0 < 60 * 10 + (0 :: nat)" by simp_all
  from repeated_booking [OF n no_comma_Weekday1 lt(1-3) lt(2) lt(4) init_facilities_fine init_weekday1 weekday1_monday, of jvm_example 0 5]
  show ?thesis unfolding w by blast
qed

end
