(* ===== verification/Java_Serializer.thy ===== *)
theory Java_Serializer
  imports Server_Requests Client
begin

text \<open>
  The server's side of the wire format (\<^verbatim>\<open>Server/utils/ByteBuffer.java\<close>, \<^verbatim>\<open>ByteReader.java\<close>,
  \<^verbatim>\<open>Parity.java\<close>, \<^verbatim>\<open>Serializer.java\<close>) for the one class it exchanges, \<^verbatim>\<open>RequestMessage\<close>.
  The reflection over that class is written out: its fields in the order of their declaration. The
  locale \<open>wire_codec\<close> ties the client's codecs to the server's; from it follows that each side
  reads what the other writes, within the limits of the server's buffers.
\<close>

unbundle bit_operations_syntax

section \<open>Parity\<close>

text \<open>The loop runs eight times for every byte, shifting in the sign.\<close>

definition java_parity_byte :: "byte \<Rightarrow> byte \<Rightarrow> byte" where
  "java_parity_byte b parityBit =
     fst (fold (\<lambda>i (p, temp). (p XOR (temp AND 1), signed_drop_bit 1 temp)) [0..<8::nat] (parityBit, b))"

definition java_parity :: "byte list \<Rightarrow> byte" where
  "java_parity data = fold java_parity_byte data 0"

section \<open>Writing\<close>

text \<open>The array of a \<^verbatim>\<open>ByteBuffer\<close> has a fixed size; \<^const>\<open>None\<close> is the exception of a write behind it.\<close>

definition SERVER_CAPACITY :: nat where
  "SERVER_CAPACITY = 1024"

definition obind :: "'a option \<Rightarrow> ('a \<Rightarrow> 'b option) \<Rightarrow> 'b option" where
  "obind x k = (case x of None \<Rightarrow> None | Some y \<Rightarrow> k y)"

lemma obind_if: "obind (if c then Some y else None) k = (if c then k y else None)"
  by (simp add: obind_def)

lemma obind_simps [simp]: "obind None k = None" "obind (Some y) k = k y"
  by (simp_all add: obind_def)

definition putByte :: "byte \<Rightarrow> byte list \<Rightarrow> byte list option" where
  "putByte value buffer = (if length buffer < SERVER_CAPACITY then Some (buffer @ [value]) else None)"

definition putInt :: "int32 \<Rightarrow> byte list \<Rightarrow> byte list option" where
  "putInt value buffer =
     obind (putByte (ucast (signed_drop_bit 24 value AND 0xFF)) buffer) (\<lambda>buffer.
     obind (putByte (ucast (signed_drop_bit 16 value AND 0xFF)) buffer) (\<lambda>buffer.
     obind (putByte (ucast (signed_drop_bit 8 value AND 0xFF)) buffer) (\<lambda>buffer.
     putByte (ucast (value AND 0xFF)) buffer)))"

fun putBytes :: "byte list \<Rightarrow> byte list \<Rightarrow> byte list option" where
  "putBytes [] buffer = Some buffer"
| "putBytes (b # bs) buffer = obind (putByte b buffer) (putBytes bs)"

definition putString :: "jvm \<Rightarrow> string \<Rightarrow> byte list \<Rightarrow> byte list option" where
  "putString env value buffer =
     (let bytes = charset_encode env value in
      obind (putInt (word_of_nat (length bytes)) buffer) (putBytes bytes))"

text \<open>The declared fields of \<^verbatim>\<open>RequestMessage\<close> and their types.\<close>

definition declared_fields :: "(string \<times> string) list" where
  "declared_fields = [(''requestType'', ''int''), (''requestID'', ''int''), (''data'', ''java.lang.String'')]"

fun putFields :: "jvm \<Rightarrow> (string \<times> string) list \<Rightarrow> byte list \<Rightarrow> byte list option" where
  "putFields env [] buffer = Some buffer"
| "putFields env (f # fs) buffer =
     obind (putString env (fst f) buffer) (\<lambda>buffer. obind (putString env (snd f) buffer) (putFields env fs))"

definition putData :: "jvm \<Rightarrow> string option \<Rightarrow> byte list \<Rightarrow> byte list option" where
  "putData env d buffer =
     (case d of None \<Rightarrow> putByte 0 buffer | Some t \<Rightarrow> obind (putByte 1 buffer) (putString env t))"

text \<open>The message is new to the serialiser, since its table is cleared for every call.\<close>

definition java_serialize :: "jvm \<Rightarrow> ServerMessage \<Rightarrow> byte list option" where
  "java_serialize env m =
     obind (putByte 1 []) (\<lambda>buffer.
     obind (putByte 0 buffer) (\<lambda>buffer.
     obind (putString env ''Server.RequestMessage'' buffer) (\<lambda>buffer.
     obind (putInt (word_of_nat (length declared_fields)) buffer) (\<lambda>buffer.
     obind (putFields env declared_fields buffer) (\<lambda>buffer.
     obind (putInt (sm_requestType m) buffer) (\<lambda>buffer.
     obind (putInt (sm_requestID m) buffer) (\<lambda>buffer.
     obind (putData env (sm_data m) buffer) (\<lambda>buffer.
     putByte (java_parity buffer) buffer))))))))"

section \<open>Reading\<close>

text \<open>
  A read fails with an \<^verbatim>\<open>Exception\<close>, which the server catches, or an \<^verbatim>\<open>Error\<close>, which it does
  not. A class name that is not on the class path is a \<^verbatim>\<open>ClassNotFoundException\<close>. Objects of other
  classes on the class path are created by reflection; what that does is not modelled, and the name
  of the class is reported as the outcome.
\<close>

datatype java_throw = Java_Exception | Java_Error | Other_Class string

type_synonym 'a reader = "byte list \<Rightarrow> java_throw + 'a \<times> byte list"

definition rbind :: "'a reader \<Rightarrow> ('a \<Rightarrow> 'b reader) \<Rightarrow> 'b reader" where
  "rbind r k bs = (case r bs of Inl e \<Rightarrow> Inl e | Inr (x, bs') \<Rightarrow> k x bs')"

definition rret :: "'a \<Rightarrow> 'a reader" where
  "rret x bs = Inr (x, bs)"

definition rfail :: "java_throw \<Rightarrow> 'a reader" where
  "rfail e bs = Inl e"

lemma rbind_Inr [simp]: "r bs = Inr (x, bs') \<Longrightarrow> rbind r k bs = k x bs'"
  by (simp add: rbind_def)

lemma rret_apply [simp]: "rret x bs = Inr (x, bs)"
  by (simp add: rret_def)

fun getByte :: "byte reader" where
  "getByte [] = Inl Java_Exception"
| "getByte (b # bs) = Inr (b, bs)"

text \<open>\<^verbatim>\<open>readByte() & 0xFF\<close>: the byte is sign-extended to an \<^verbatim>\<open>int\<close> first.\<close>

definition unsigned_byte :: "byte \<Rightarrow> int32" where
  "unsigned_byte b = scast b AND 0xFF"

definition getInt :: "int32 reader" where
  "getInt = rbind getByte (\<lambda>b3. rbind getByte (\<lambda>b2. rbind getByte (\<lambda>b1. rbind getByte (\<lambda>b0.
     rret (push_bit 24 (unsigned_byte b3) OR push_bit 16 (unsigned_byte b2) OR push_bit 8 (unsigned_byte b1) OR
       unsigned_byte b0)))))"

fun getBytes :: "nat \<Rightarrow> byte list reader" where
  "getBytes 0 = rret []"
| "getBytes (Suc n) = rbind getByte (\<lambda>b. rbind (getBytes n) (\<lambda>bs. rret (b # bs)))"

text \<open>A negative array size is an exception, one there is no room for an error.\<close>

definition getString :: "jvm \<Rightarrow> string reader" where
  "getString env = rbind getInt (\<lambda>n.
     if sint n < 0 then rfail Java_Exception
     else if array_max env < sint n then rfail Java_Error
     else rbind (getBytes (nat (sint n))) (\<lambda>bytes. rret (charset_decode env bytes)))"

datatype java_type = T_int | T_long | T_double | T_boolean | T_other_primitive | T_String

definition getClassFromName :: "jvm \<Rightarrow> string \<Rightarrow> java_throw + java_type" where
  "getClassFromName env name =
     (if name = ''int'' then Inr T_int
      else if name = ''long'' then Inr T_long
      else if name = ''double'' then Inr T_double
      else if name = ''boolean'' then Inr T_boolean
      else if name \<in> {''float'', ''byte'', ''short'', ''char'', ''void''} then Inr T_other_primitive
      else if name = ''java.lang.String'' then Inr T_String
      else if on_class_path env name then Inl (Other_Class name)
      else Inl Java_Exception)"

datatype java_value = V_null | V_int int32 | V_string string | V_other

definition getValue :: "jvm \<Rightarrow> java_type \<Rightarrow> java_value reader" where
  "getValue env ty =
     (case ty of
        T_int \<Rightarrow> rbind getInt (\<lambda>i. rret (V_int i))
      | T_long \<Rightarrow> rbind (getBytes 8) (\<lambda>_. rret V_other)
      | T_double \<Rightarrow> rbind (getBytes 8) (\<lambda>_. rret V_other)
      | T_boolean \<Rightarrow> rbind getByte (\<lambda>_. rret V_other)
      | T_other_primitive \<Rightarrow> rret V_null
      | T_String \<Rightarrow> rbind getByte (\<lambda>nullMarker. if nullMarker = 0 then rret V_null
          else rbind (getString env) (\<lambda>t. rret (V_string t))))"

text \<open>\<^verbatim>\<open>field.set(obj, value)\<close>: a value of another type is an exception.\<close>

fun set_field :: "string \<Rightarrow> java_value \<Rightarrow> ServerMessage \<Rightarrow> java_throw + ServerMessage" where
  "set_field name (V_int i) m =
     (if name = ''requestType'' then Inr (m\<lparr>sm_requestType := i\<rparr>)
      else if name = ''requestID'' then Inr (m\<lparr>sm_requestID := i\<rparr>) else Inl Java_Exception)"
| "set_field name (V_string t) m = (if name = ''data'' then Inr (m\<lparr>sm_data := Some t\<rparr>) else Inl Java_Exception)"
| "set_field name V_null m = (if name = ''data'' then Inr (m\<lparr>sm_data := None\<rparr>) else Inl Java_Exception)"
| "set_field name V_other m = Inl Java_Exception"

fun getFields :: "jvm \<Rightarrow> nat \<Rightarrow> (string \<times> java_type) list reader" where
  "getFields env 0 = rret []"
| "getFields env (Suc n) =
     rbind (getString env) (\<lambda>name. rbind (getString env) (\<lambda>typeName.
     if name \<notin> fst ` set declared_fields then rfail Java_Exception
     else case getClassFromName env typeName of
       Inl e \<Rightarrow> rfail e
     | Inr ty \<Rightarrow> rbind (getFields env n) (\<lambda>fs. rret ((name, ty) # fs))))"

fun getValues :: "jvm \<Rightarrow> (string \<times> java_type) list \<Rightarrow> ServerMessage \<Rightarrow> ServerMessage reader" where
  "getValues env [] m = rret m"
| "getValues env (f # fs) m =
     rbind (getValue env (snd f)) (\<lambda>v. case set_field (fst f) v m of Inl e \<Rightarrow> rfail e | Inr m' \<Rightarrow> getValues env fs m')"

text \<open>
  \<^verbatim>\<open>deserializeObject\<close> at the start of a message, when no object has been read yet: null, a
  reference (which is not found, so null), or an object. A primitive value fails the cast.
\<close>

definition getMessage_object :: "jvm \<Rightarrow> ServerMessage option reader" where
  "getMessage_object env =
     rbind getByte (\<lambda>nullMarker.
     if nullMarker = 0 then rret None else
     rbind getByte (\<lambda>referenceMarker.
     if referenceMarker = 1 then rbind getInt (\<lambda>_. rret None) else
     rbind (getString env) (\<lambda>className.
     if className \<noteq> ''Server.RequestMessage'' then
       (case getClassFromName env className of
          Inl e \<Rightarrow> rfail e
        | Inr ty \<Rightarrow> rfail (if ty = T_String then Other_Class className else Java_Exception))
     else
       rbind getInt (\<lambda>fieldCount.
       rbind (getFields env (nat (sint fieldCount))) (\<lambda>fs.
       rbind (getValues env fs \<lparr>sm_requestType = 0, sm_requestID = 0, sm_data = None\<rparr>) (\<lambda>m. rret (Some m)))))))"

text \<open>A null object ends in a \<^verbatim>\<open>NullPointerException\<close> when it is printed.\<close>

definition java_deserialize :: "jvm \<Rightarrow> byte list \<Rightarrow> java_throw + ServerMessage" where
  "java_deserialize env data =
     (if data = [] then Inl Java_Exception
      else if java_parity (butlast data) \<noteq> last data then Inl Java_Exception
      else case getMessage_object env (butlast data) of
          Inl e \<Rightarrow> Inl e
        | Inr (None, _) \<Rightarrow> Inl Java_Exception
        | Inr (Some m, _) \<Rightarrow> Inr m)"

section \<open>The two sides agree\<close>

lemma and_1_of_bool: "(w :: byte) AND 1 = of_bool (bit w 0)"
  by (simp add: and_one_eq mod_2_eq_odd bit_0)

lemma xor_of_bool: "(x XOR of_bool a) XOR of_bool b = x XOR of_bool (a \<noteq> b)" for x :: byte
  by (cases a; cases b) (simp_all add: xor.assoc)

lemma java_parity_loop:
  "n \<le> 8 \<Longrightarrow> fold (\<lambda>i (p, temp). (p XOR (temp AND 1), signed_drop_bit 1 temp)) [0..<n] (p, b :: byte) =
    (p XOR of_bool (odd (\<Sum>k\<leftarrow>[0..<n]. of_bool (bit b k) :: nat)), signed_drop_bit n b)"
proof (induction n)
  case (Suc n)
  then have "signed_drop_bit n b AND 1 = of_bool (bit b n)"
    by (simp add: and_1_of_bool bit_signed_drop_bit_iff)
  with Suc show ?case by (simp add: xor_of_bool)
qed simp

lemma java_parity_byte_eq: "java_parity_byte b p = parity_byte b p"
proof -
  have "[0..<8] = [0 :: nat, 1, 2, 3, 4, 5, 6, 7]" by (simp add: upt_rec)
  then show ?thesis using java_parity_loop [of 8 p b] by (simp only: java_parity_byte_def parity_byte_eq ones_def) simp
qed

lemma java_parity_eq: "java_parity = calculateEvenParityBit"
proof
  fix data
  have "java_parity_byte = parity_byte" by (intro ext java_parity_byte_eq)
  then show "java_parity data = calculateEvenParityBit data"
    by (simp add: java_parity_def calculateEvenParityBit_def)
qed

definition ascii :: "string \<Rightarrow> bool" where
  "ascii s \<longleftrightarrow> list_all (\<lambda>c. (of_char c :: nat) < 128) s"

text \<open>Every character set Java offers as default agrees with ASCII on its characters.\<close>

definition ascii_charset :: "jvm \<Rightarrow> bool" where
  "ascii_charset env \<longleftrightarrow> (\<forall>s. ascii s \<longrightarrow>
     charset_encode env s = map byte_of_char s \<and> charset_decode env (map byte_of_char s) = s)"

text \<open>A text both sides write with the same bytes and the server has room for.\<close>

definition java_text :: "jvm \<Rightarrow> string \<Rightarrow> bool" where
  "java_text env s \<longleftrightarrow> ascii_charset env \<and> ascii s \<and> string_fits s \<and> int (length s) \<le> array_max env"

text \<open>
  A codec of the client together with the server's: the server appends the same encoding while
  its array has room, and reads it back from the front of any bytes.
\<close>

locale wire_codec = codec wr rd enc valid
  for wr :: "'a \<Rightarrow> ByteBuffer \<Rightarrow> ByteBuffer" and rd and enc and valid +
  fixes put :: "'a \<Rightarrow> byte list \<Rightarrow> byte list option"
    and get :: "'a reader"
  assumes put_enc: "valid x \<Longrightarrow> put x b = (if length b + length (enc x) \<le> SERVER_CAPACITY then Some (b @ enc x) else None)"
    and get_enc: "valid x \<Longrightarrow> get (enc x @ rest) = Inr (x, rest)"
begin

lemma server_reads_client:
  "valid x \<Longrightarrow> get (drop (length (bb_buffer b)) (bb_buffer (wr x b)) @ rest) = Inr (x, rest)"
  by (simp add: write_enc get_enc)

lemma client_reads_server:
  assumes "valid x" and "put x b = Some b'"
  shows "rd \<lparr>br_buffer = b' @ rest, br_position = length b\<rparr> = (Inr x, \<lparr>br_buffer = b' @ rest, br_position = length b'\<rparr>)"
proof -
  have b': "b' = b @ enc x" using assms by (simp add: put_enc split: if_splits)
  from write_read [OF assms(1), of "\<lparr>bb_buffer = b\<rparr>" rest] show ?thesis
    by (simp add: write_enc b')
qed

lemma put_bind:
  "valid x \<Longrightarrow> obind (put x b) k =
    (if length b + length (enc x) \<le> SERVER_CAPACITY then k (b @ enc x) else None)"
  by (simp add: put_enc)

lemma get_bind: "valid x \<Longrightarrow> rbind get k (enc x @ rest) = k x rest"
  by (simp add: rbind_def get_enc)

end

lemma unsigned_byte_eq: "unsigned_byte b = ucast b"
proof -
  have "bit b n \<Longrightarrow> min 7 n = n" for n using bit_imp_le_length [of b n] by simp
  then show ?thesis
    unfolding unsigned_byte_def mask_FF by (intro bit_word_eqI) (auto simp: bit_simps dest: bit_imp_le_length)
qed

lemma getInt_enc: "getInt (int_bytes v @ rest) = Inr (v, rest)"
proof -
  have "getInt (int_bytes v @ rest) = Inr (octet 24 v OR octet 16 v OR octet 8 v OR octet 0 v, rest)"
    by (simp add: getInt_def int_bytes_def rbind_def unsigned_byte_eq octet_def)
  then show ?thesis unfolding octets_int32 .
qed

lemma putInt_enc:
  "putInt v b = (if length b + length (int_bytes v) \<le> SERVER_CAPACITY then Some (b @ int_bytes v) else None)"
  by (simp add: putInt_def putByte_def int_bytes_def low_byte low_byte_shift32 obind_def)

lemma putBytes_enc:
  "length b \<le> SERVER_CAPACITY \<Longrightarrow>
   putBytes bs b = (if length b + length bs \<le> SERVER_CAPACITY then Some (b @ bs) else None)"
  by (induction bs arbitrary: b) (simp_all add: putByte_def)

lemma getBytes_enc: "getBytes (length bs) (bs @ rest) = Inr (bs, rest)"
  by (induction bs) (simp_all add: rbind_def)

interpretation byte_wire: wire_codec writeByte readByte "\<lambda>b. [b]" "\<lambda>_. True" putByte getByte
  by unfold_locales (auto simp: putByte_def)

interpretation int_wire: wire_codec writeInt readInt int_bytes "\<lambda>_. True" putInt getInt
  by unfold_locales (simp_all only: putInt_enc getInt_enc)

interpretation string_wire: wire_codec writeString readString string_bytes "java_text env" "putString env" "getString env"
  for env
proof
  fix x b assume x: "java_text env x"
  then have e: "charset_encode env x = map byte_of_char x" by (simp add: java_text_def ascii_charset_def)
  show "putString env x b = (if length b + length (string_bytes x) \<le> SERVER_CAPACITY then Some (b @ string_bytes x) else None)"
    by (simp add: putString_def e Let_def putInt_enc putBytes_enc string_bytes_def obind_def)
next
  fix x rest assume x: "java_text env x"
  then have "string_fits x" "int (length x) \<le> array_max env"
    and d: "charset_decode env (map byte_of_char x) = x" by (simp_all add: java_text_def ascii_charset_def)
  then show "getString env (string_bytes x @ rest) = Inr (x, rest)"
    using getBytes_enc [of "map byte_of_char x" rest]
    by (simp add: getString_def string_bytes_def rbind_def getInt_enc sint_of_length d)
qed (simp_all add: appends readString_enc java_text_def)

section \<open>Whole messages\<close>

definition to_client :: "ServerMessage \<Rightarrow> RequestMessage" where
  "to_client m = \<lparr>rm_requestType = sm_requestType m, rm_requestID = sm_requestID m,
     rm_data = (case sm_data m of None \<Rightarrow> '''' | Some t \<Rightarrow> t)\<rparr>"

definition to_server :: "RequestMessage \<Rightarrow> ServerMessage" where
  "to_server m = \<lparr>sm_requestType = rm_requestType m, sm_requestID = rm_requestID m,
     sm_data = (if rm_data m = '''' then None else Some (rm_data m))\<rparr>"

text \<open>What the server needs from its environment: an ASCII-compatible character set and room for a datagram.\<close>

definition java_ready :: "jvm \<Rightarrow> bool" where
  "java_ready env \<longleftrightarrow> ascii_charset env \<and> 1024 \<le> array_max env"

lemma java_text_short: "java_ready env \<Longrightarrow> ascii s \<Longrightarrow> length s \<le> 1024 \<Longrightarrow> java_text env s"
  by (simp add: java_ready_def java_text_def string_fits_def)

lemma java_text_names:
  "java_ready env \<Longrightarrow> s \<in> {''Server.RequestMessage'', ''requestType'', ''requestID'', ''data'', ''int'', ''java.lang.String''} \<Longrightarrow>
   java_text env s"
  by (rule java_text_short) (auto simp: ascii_def)

lemma length_fields_bytes: "length (fields_bytes declared_fields) = 70"
  by (simp add: fields_bytes_def declared_fields_def)

lemma putFields_enc:
  assumes "\<forall>f\<in>set fs. java_text env (fst f) \<and> java_text env (snd f)" and "length b \<le> SERVER_CAPACITY"
  shows "putFields env fs b =
    (if length b + length (fields_bytes fs) \<le> SERVER_CAPACITY then Some (b @ fields_bytes fs) else None)"
  using assms
proof (induction fs arbitrary: b)
  case (Cons f fs)
  then show ?case
    by (simp add: string_wire.put_bind fields_bytes_def)
qed (simp add: fields_bytes_def)

lemma putData_enc:
  assumes "\<forall>t. d = Some t \<longrightarrow> java_text env t \<and> t \<noteq> ''''" and "length b \<le> SERVER_CAPACITY"
  shows "putData env d b =
    (let enc = (if d = None then [0] else 1 # string_bytes (the d))
     in if length b + length enc \<le> SERVER_CAPACITY then Some (b @ enc) else None)"
  using assms by (cases d) (auto simp: putData_def byte_wire.put_enc byte_wire.put_bind string_wire.put_enc)

lemma request_fields_to_client:
  "sm_data m \<noteq> Some '''' \<Longrightarrow> request_fields (to_client m) = int_bytes (sm_requestType m) @ int_bytes (sm_requestID m) @
     (if sm_data m = None then [0] else 1 # string_bytes (the (sm_data m)))"
  by (cases "sm_data m") (auto simp: request_fields_def to_client_def)

lemma java_serialize_datagram:
  assumes env: "java_ready env" and d: "\<forall>t. sm_data m = Some t \<longrightarrow> java_text env t \<and> t \<noteq> ''''"
  shows "java_serialize env m =
    (if length (datagram (to_client m)) \<le> SERVER_CAPACITY then Some (datagram (to_client m)) else None)"
proof -
  have names: "java_text env ''Server.RequestMessage''" "\<forall>f\<in>set declared_fields. java_text env (fst f) \<and> java_text env (snd f)"
    using java_text_names [OF env] by (simp_all add: declared_fields_def)
  have e: "request_fields (to_client m) = int_bytes (sm_requestType m) @ int_bytes (sm_requestID m) @
     (if sm_data m = None then [0] else 1 # string_bytes (the (sm_data m)))"
    using d by (intro request_fields_to_client) auto
  have cap: "SERVER_CAPACITY = 1024" by (simp add: SERVER_CAPACITY_def)
  have ob: "object_bytes RequestMessage_class request_fields (to_client m) =
      [1, 0] @ string_bytes ''Server.RequestMessage'' @ int_bytes 3 @ fields_bytes declared_fields @ request_fields (to_client m)"
    by (simp add: object_bytes_def RequestMessage_class_def RequestMessage_getJavaClassName_def
        RequestMessage_getFieldMetadata_def declared_fields_def)
  have three: "(word_of_nat (length declared_fields) :: int32) = 3" by (simp add: declared_fields_def)
  show ?thesis
    unfolding java_serialize_def three
    by (simp add: byte_wire.put_bind int_wire.put_bind string_wire.put_bind [OF names(1)] putFields_enc [OF names(2)]
        putData_enc [OF d] length_fields_bytes byte_wire.put_enc cap obind_if Let_def)
      (auto simp: datagram_def with_parity_def ob e java_parity_eq length_fields_bytes)
qed

lemma getFields_enc:
  assumes "\<forall>f\<in>set fs. java_text env (fst f) \<and> java_text env (snd f) \<and> fst f \<in> fst ` set declared_fields"
    and "list_all2 (\<lambda>f g. fst g = fst f \<and> getClassFromName env (snd f) = Inr (snd g)) fs gs"
  shows "getFields env (length fs) (fields_bytes fs @ rest) = Inr (gs, rest)"
  using assms
proof (induction fs arbitrary: gs)
  case (Cons f fs)
  then obtain g gs' where g: "gs = g # gs'" "fst g = fst f" "getClassFromName env (snd f) = Inr (snd g)"
    "list_all2 (\<lambda>f g. fst g = fst f \<and> getClassFromName env (snd f) = Inr (snd g)) fs gs'"
    by (auto simp: list_all2_Cons1)
  with Cons have "getFields env (length fs) (fields_bytes fs @ rest) = Inr (gs', rest)" by simp
  with Cons.prems(1) g show ?case
    by (cases g) (auto simp: fields_bytes_def string_wire.get_bind)
qed (simp add: fields_bytes_def)

definition message_header :: "int32 \<Rightarrow> int32 \<Rightarrow> byte list" where
  "message_header ty i = [1, 0] @ string_bytes ''Server.RequestMessage'' @ int_bytes 3 @ fields_bytes declared_fields @
     int_bytes ty @ int_bytes i"

lemma length_header [simp]: "length (message_header ty i) = 109"
  by (simp add: message_header_def length_fields_bytes)

lemma object_bytes_header:
  "object_bytes RequestMessage_class request_fields m = message_header (rm_requestType m) (rm_requestID m) @
     (if rm_data m = [] then [0] else 1 # string_bytes (rm_data m))"
  by (simp add: object_bytes_def RequestMessage_class_def RequestMessage_getJavaClassName_def message_header_def
      RequestMessage_getFieldMetadata_def declared_fields_def request_fields_def)

lemma getMessage_object_header:
  assumes env: "java_ready env"
  shows "getMessage_object env (message_header ty i @ rest) =
    (case getValue env T_String rest of Inl e \<Rightarrow> Inl e
     | Inr (v, rest') \<Rightarrow> (case set_field ''data'' v \<lparr>sm_requestType = ty, sm_requestID = i, sm_data = None\<rparr> of
          Inl e \<Rightarrow> Inl e | Inr m \<Rightarrow> Inr (Some m, rest')))"
proof -
  have names: "java_text env ''Server.RequestMessage''"
    "\<forall>f\<in>set declared_fields. java_text env (fst f) \<and> java_text env (snd f) \<and> fst f \<in> fst ` set declared_fields"
    using java_text_names [OF env] by (simp_all add: declared_fields_def)
  have "getFields env (length declared_fields) (fields_bytes declared_fields @ more) =
      Inr ([(''requestType'', T_int), (''requestID'', T_int), (''data'', T_String)], more)" for more
    by (rule getFields_enc [OF names(2)]) (simp add: declared_fields_def getClassFromName_def)
  moreover have "length declared_fields = 3" by (simp add: declared_fields_def)
  ultimately have f: "getFields env 3 (fields_bytes declared_fields @ more) =
      Inr ([(''requestType'', T_int), (''requestID'', T_int), (''data'', T_String)], more)" for more by simp
  have v: "getValue env T_int (int_bytes x @ more) = Inr (V_int x, more)" for x more
    by (simp add: getValue_def int_wire.get_bind)
  let ?m = "\<lparr>sm_requestType = ty, sm_requestID = i, sm_data = None\<rparr>"
  have vals: "getValues env [(''requestType'', T_int), (''requestID'', T_int), (''data'', T_String)]
      \<lparr>sm_requestType = 0, sm_requestID = 0, sm_data = None\<rparr> (int_bytes ty @ int_bytes i @ rest) =
    getValues env [(''data'', T_String)] ?m rest"
    by (simp add: rbind_def [of "getValue env T_int"] v)
  have "getMessage_object env (message_header ty i @ rest) =
      (case getValues env [(''data'', T_String)] ?m rest of Inl e \<Rightarrow> Inl e | Inr (m, rest') \<Rightarrow> Inr (Some m, rest'))"
    unfolding vals [symmetric]
    by (simp add: getMessage_object_def message_header_def string_wire.get_bind [OF names(1)] int_wire.get_bind
        rbind_def [of getByte] rbind_def [of "getFields env n" for n] f rbind_def [of "getValues env fs m" for fs m]
        del: getValues.simps split: sum.split)
  then show ?thesis
    by (auto simp: rbind_def rfail_def split: sum.split prod.split)
qed

lemma getValue_text_enc:
  "java_text env t \<Longrightarrow> getValue env T_String (1 # string_bytes t @ rest) = Inr (V_string t, rest)"
  by (simp add: getValue_def rbind_def [of getByte] string_wire.get_bind)

lemma java_deserialize_datagram:
  assumes env: "java_ready env" and t: "java_text env (rm_data m)"
  shows "java_deserialize env (datagram m) = Inr (to_server m)"
proof -
  have "getMessage_object env (object_bytes RequestMessage_class request_fields m) = Inr (Some (to_server m), [])"
    using getValue_text_enc [OF t, of "[]"]
    by (cases "rm_data m = []")
      (simp_all add: object_bytes_header getMessage_object_header [OF env] to_server_def, simp add: getValue_def rbind_def)
  then show ?thesis
    by (simp add: java_deserialize_def datagram_def java_parity_eq)
qed

lemma getBytes_short: "length bs < n \<Longrightarrow> getBytes n bs = Inl Java_Exception"
proof (induction n arbitrary: bs)
  case (Suc n)
  then show ?case by (cases bs) (simp_all add: rbind_def)
qed simp

lemma getString_cut:
  assumes "string_fits t" and "int (length t) \<le> array_max env" and "k < 4 + length t" and "4 \<le> k"
  shows "getString env (take k (string_bytes t)) = Inl Java_Exception"
proof -
  have "take k (string_bytes t) = int_bytes (word_of_nat (length t)) @ take (k - 4) (map byte_of_char t)"
    using assms(4) by (simp add: string_bytes_def)
  moreover have "length (take (k - 4) (map byte_of_char t)) < length t" using assms(3,4) by simp
  ultimately show ?thesis
    using assms(1,2) by (simp add: getString_def int_wire.get_bind sint_of_length rbind_def [of "getBytes n" for n] getBytes_short)
qed

lemma take_inside: "n \<le> length s \<Longrightarrow> take (length h + Suc n) ((h @ x # s) @ [c]) = h @ x # take n s"
  by simp

text \<open>A datagram cut off inside its text.\<close>

lemma java_deserialize_cut:
  assumes env: "java_ready env" and "string_fits (rm_data m)" and "int (length (rm_data m)) \<le> array_max env"
    and k: "115 \<le> k" "k < length (datagram m)"
  shows "java_deserialize env (take k (datagram m)) = Inl Java_Exception"
proof (cases "java_parity (butlast (take k (datagram m))) = last (take k (datagram m))")
  case True
  have ne: "rm_data m \<noteq> []" using k by (auto simp: length_datagram)
  then have len: "length (datagram m) = 115 + length (rm_data m)" by (simp add: length_datagram)
  have "datagram m = (message_header (rm_requestType m) (rm_requestID m) @ 1 # string_bytes (rm_data m)) @
      [calculateEvenParityBit (object_bytes RequestMessage_class request_fields m)]"
    using ne by (simp add: datagram_def with_parity_def object_bytes_header)
  moreover have "k - 1 = length (message_header (rm_requestType m) (rm_requestID m)) + Suc (k - 111)" using k by simp
  moreover have "k - 111 \<le> length (string_bytes (rm_data m))" using k len by simp
  ultimately have "take (k - 1) (datagram m) =
      message_header (rm_requestType m) (rm_requestID m) @ 1 # take (k - 111) (string_bytes (rm_data m))"
    by (metis take_inside)
  then have b: "butlast (take k (datagram m)) =
      message_header (rm_requestType m) (rm_requestID m) @ 1 # take (k - 111) (string_bytes (rm_data m))"
    using k by (simp add: butlast_take)
  have "getString env (take (k - 111) (string_bytes (rm_data m))) = Inl Java_Exception"
    using assms(2,3) k len by (intro getString_cut) simp_all
  then have "getMessage_object env (butlast (take k (datagram m))) = Inl Java_Exception"
    unfolding b getMessage_object_header [OF env] by (simp add: getValue_def rbind_def)
  with True k show ?thesis by (auto simp: java_deserialize_def)
qed (simp add: java_deserialize_def)

end
