(* ===== verification/Server_Loop.thy ===== *)
theory Server_Loop
  imports Java_Serializer Server_Behaviour
begin

text \<open>
  The server's program (\<^verbatim>\<open>Server/Server.java\<close>: \<^verbatim>\<open>main\<close>): the flags it is started with, one
  turn of the receive loop on a datagram, and runs of it. Receiving cuts a datagram off at the size
  of the buffer; an exception that leaves \<^verbatim>\<open>handleRequest\<close> ends the server.
\<close>

section \<open>The loop\<close>

definition RECEIVE_BUFFER :: nat where
  "RECEIVE_BUFFER = 1000"

record server_loop =
  sl_server :: server
  DROP_REQUEST :: bool
  DROP :: bool
  sv_sent :: "(sockaddr_in \<times> byte list) list"

text \<open>The command line: the invocation semantics and the simulated loss.\<close>

definition parseBoolean :: "string \<Rightarrow> bool" where
  "parseBoolean s \<longleftrightarrow> toUpperCase s = ''TRUE''"

definition Server_main :: "string list \<Rightarrow> server_loop" where
  "Server_main args =
     (let invocationSemantic = (if 0 < length args then args ! 0 else ''default'');
          dropRequest = (if 1 < length args then parseBoolean (args ! 1) else False)
      in \<lparr>sl_server = Server_init (invocationSemantic \<noteq> ''at-least-once''), DROP_REQUEST = dropRequest,
          DROP = False, sv_sent = []\<rparr>)"

text \<open>
  Why the server stops: an exception of a request, an error that nothing catches, or, not
  determined here, the loading of a class that is not part of the protocol.
\<close>

datatype server_stop = Uncaught java_exn | Out_Of_Memory | Loads_Class string

type_synonym packet = "int \<times> byte list \<times> sockaddr_in"

text \<open>The message of a packet as \<^verbatim>\<open>handleRequest\<close> reads it.\<close>

definition received_message :: "jvm \<Rightarrow> byte list \<Rightarrow> server_stop + ServerMessage option" where
  "received_message env data =
     (case java_deserialize env (take RECEIVE_BUFFER data) of
        Inr m \<Rightarrow> Inr (Some m)
      | Inl Java_Exception \<Rightarrow> Inr None
      | Inl Java_Error \<Rightarrow> Inl Out_Of_Memory
      | Inl (Other_Class name) \<Rightarrow> Inl (Loads_Class name))"

definition send_reply :: "jvm \<Rightarrow> sockaddr_in \<Rightarrow> ServerMessage \<Rightarrow> server_loop \<Rightarrow> server_loop" where
  "send_reply env client response l =
     (case java_serialize env response of
        None \<Rightarrow> l
      | Some replybuff \<Rightarrow> l\<lparr>sv_sent := sv_sent l @ [(client, replybuff)]\<rparr>)"

text \<open>One turn, with the request it handled and its response, if it was not dropped.\<close>

definition server_turn ::
  "jvm \<Rightarrow> packet \<Rightarrow> server_loop \<Rightarrow> server_stop + (request_event \<times> ServerMessage) option \<times> server_loop" where
  "server_turn env p l =
     (let (now, data, client) = p;
          l = (if DROP_REQUEST l then l\<lparr>DROP := \<not> DROP l\<rparr> else l)
      in if DROP l then Inr (None, l)
         else case received_message env data of
           Inl stop \<Rightarrow> Inl stop
         | Inr received \<Rightarrow>
             (case handleRequest env now received client (sl_server l) of
                (Inl e, _) \<Rightarrow> Inl (Uncaught e)
              | (Inr response, s) \<Rightarrow>
                  Inr (Some ((now, received, client), response), send_reply env client response (l\<lparr>sl_server := s\<rparr>))))"

section \<open>Runs\<close>

inductive loop_run ::
  "jvm \<Rightarrow> server_loop \<Rightarrow> packet list \<Rightarrow> (request_event \<times> ServerMessage) list \<Rightarrow> server_loop \<Rightarrow> bool"
  for env :: jvm where
  waiting: "loop_run env l [] [] l"
| dropped: "loop_run env l ps es l' \<Longrightarrow> server_turn env p l' = Inr (None, l'') \<Longrightarrow> loop_run env l (ps @ [p]) es l''"
| answered: "loop_run env l ps es l' \<Longrightarrow> server_turn env p l' = Inr (Some e, l'') \<Longrightarrow> loop_run env l (ps @ [p]) (es @ [e]) l''"

lemma send_reply_simps [simp]:
  "sl_server (send_reply env c r l) = sl_server l" "DROP_REQUEST (send_reply env c r l) = DROP_REQUEST l"
  "DROP (send_reply env c r l) = DROP l"
  by (simp_all add: send_reply_def split: option.split)

lemma server_turn_None:
  "server_turn env p l = Inr (None, l') \<Longrightarrow> sl_server l' = sl_server l \<and> sv_sent l' = sv_sent l"
  by (auto simp: server_turn_def Let_def split: prod.splits sum.splits if_splits)

lemma server_turn_Some:
  assumes "server_turn env (now, data, c) l = Inr (Some e, l')"
  shows "\<exists>m response. e = ((now, m, c), response) \<and> received_message env data = Inr m \<and>
    handleRequest env now m c (sl_server l) = (Inr response, sl_server l')"
  using assms by (auto simp: server_turn_def Let_def split: prod.splits sum.splits if_splits)

text \<open>The requests a run of the loop handles are a run of the handler.\<close>

lemma loop_run_server: "loop_run env l ps es l' \<Longrightarrow> server_run env (sl_server l) es (sl_server l')"
proof (induction rule: loop_run.induct)
  case (answered l ps es l' p e l'')
  obtain now data c where p: "p = (now, data, c)" by (metis surj_pair)
  with server_turn_Some [of env now data c l' e l''] answered show ?case
    by (auto intro!: served handled)
qed (auto intro: idle dest: server_turn_None)

text \<open>Every handled request is one of the packets.\<close>

lemma loop_run_packets:
  "loop_run env l ps es l' \<Longrightarrow> \<forall>((now, m, c), response)\<in>set es. \<exists>data. (now, data, c) \<in> set ps \<and> received_message env data = Inr m"
proof (induction rule: loop_run.induct)
  case (answered l ps es l' p e l'')
  obtain now data c where p: "p = (now, data, c)" by (metis surj_pair)
  with server_turn_Some [of env now data c l' e l''] answered show ?case by auto
qed auto

section \<open>Limits of the buffers\<close>

lemma received_datagram:
  assumes "java_ready env" and "ascii (rm_data m)" and "length (datagram m) \<le> RECEIVE_BUFFER"
  shows "received_message env (datagram m) = Inr (Some (to_server m))"
proof -
  have "length (rm_data m) \<le> 1024" using assms(3) by (auto simp: RECEIVE_BUFFER_def length_datagram split: if_splits)
  then have "java_text env (rm_data m)" using assms(1,2) by (intro java_text_short)
  from java_deserialize_datagram [OF assms(1) this] show ?thesis using assms(3) by (simp add: received_message_def)
qed

lemma received_too_long:
  assumes "java_ready env" and "string_fits (rm_data m)" and "int (length (rm_data m)) \<le> array_max env"
    and "RECEIVE_BUFFER < length (datagram m)"
  shows "received_message env (datagram m) = Inr None"
  using java_deserialize_cut [OF assms(1-3), of RECEIVE_BUFFER] assms(4)
  by (simp add: received_message_def RECEIVE_BUFFER_def)

section \<open>Simulated loss\<close>

lemma loop_run_drops:
  assumes "loop_run env l ps es l'" and "DROP_REQUEST l" and "\<not> DROP l"
  shows "length es = length ps div 2 \<and> DROP_REQUEST l' \<and> (DROP l' \<longleftrightarrow> odd (length ps))"
  using assms
proof (induction rule: loop_run.induct)
  case (dropped l ps es l' p l'')
  then have "DROP_REQUEST l'' \<and> (DROP l'' \<longleftrightarrow> \<not> DROP l') \<and> DROP l''"
    by (auto simp: server_turn_def Let_def split: prod.splits sum.splits if_splits)
  with dropped show ?case by auto
next
  case (answered l ps es l' p e l'')
  then have "DROP_REQUEST l'' \<and> (DROP l'' \<longleftrightarrow> \<not> DROP l') \<and> \<not> DROP l''"
    by (auto simp: server_turn_def Let_def split: prod.splits sum.splits if_splits)
  with answered show ?case by auto
qed simp

lemma parseBoolean_true [simp]: "parseBoolean ''true''"
  by code_simp

section \<open>Properties\<close>

definition bad_request :: ServerMessage where
  "bad_request = \<lparr>sm_requestType = 0, sm_requestID = 0, sm_data = Some (error_reply ''Bad request'')\<rparr>"

text \<open>
  C28. The limits of the server's buffers. A request of the client with more than 885 characters of
  text arrives cut off: it is never executed, and answered under ID 0 instead of its own. A
  response with more than 909 characters does not fit the array it is serialised in: the request
  has been executed, but no response is sent.
\<close>

theorem server_buffer_limits:
  assumes "java_ready env"
  shows "(885 < length (rm_data m) \<and> string_fits (rm_data m) \<and> int (length (rm_data m)) \<le> array_max env \<and>
      \<not> DROP_REQUEST l \<and> \<not> DROP l \<longrightarrow>
      server_turn env (now, datagram m, c) l =
        Inr (Some ((now, None, c), bad_request), send_reply env c bad_request (l\<lparr>sl_server := fresh (sl_server l)\<rparr>))) \<and>
    (ascii t \<and> 909 < length t \<and> string_fits t \<and> int (length t) \<le> array_max env \<longrightarrow>
      send_reply env c \<lparr>sm_requestType = ty, sm_requestID = i, sm_data = Some t\<rparr> l = l)"
proof (intro conjI impI)
  assume m: "885 < length (rm_data m) \<and> string_fits (rm_data m) \<and> int (length (rm_data m)) \<le> array_max env \<and>
      \<not> DROP_REQUEST l \<and> \<not> DROP l"
  then have "RECEIVE_BUFFER < length (datagram m)" by (auto simp: length_datagram RECEIVE_BUFFER_def)
  with m have "received_message env (datagram m) = Inr None" by (intro received_too_long assms) simp_all
  with m show "server_turn env (now, datagram m, c) l =
        Inr (Some ((now, None, c), bad_request), send_reply env c bad_request (l\<lparr>sl_server := fresh (sl_server l)\<rparr>))"
    by (simp add: server_turn_def handleRequest_def fresh_def bad_request_def)
next
  assume t: "ascii t \<and> 909 < length t \<and> string_fits t \<and> int (length t) \<le> array_max env"
  let ?m = "\<lparr>sm_requestType = ty, sm_requestID = i, sm_data = Some t\<rparr>"
  have "java_serialize env ?m = None"
    using t assms by (subst java_serialize_datagram)
      (auto simp: java_ready_def java_text_def length_datagram to_client_def SERVER_CAPACITY_def)
  then show "send_reply env c ?m l = l" by (simp add: send_reply_def)
qed

lemma java_ready_example [simp]: "java_ready jvm_example"
proof -
  have "map char_of_byte (map byte_of_char s) = s" for s by (simp add: comp_def)
  then show ?thesis by (simp add: java_ready_def ascii_charset_def jvm_example_def)
qed

lemma array_max_example [simp]: "array_max jvm_example = 2147483639"
  by (simp add: jvm_example_def)

theorem server_buffer_limits_witness:
  "server_turn jvm_example (0, datagram (RequestMessage_new ECHO 3 (replicate 900 CHR ''a'')), client_example) (Server_main []) =
    Inr (Some ((0, None, client_example), bad_request),
      send_reply jvm_example client_example bad_request ((Server_main [])\<lparr>sl_server := fresh (sl_server (Server_main []))\<rparr>))"
  using server_buffer_limits [OF java_ready_example, of "RequestMessage_new ECHO 3 (replicate 900 CHR ''a'')" "Server_main []" 0 client_example]
  by (simp add: RequestMessage_new_def string_fits_def Server_main_def)

text \<open>
  With simulated loss the server drops the first packet and then every other one: of any
  number of packets exactly half, rounded down, are handled.
\<close>

theorem every_other_packet_handled:
  assumes "loop_run env (Server_main args) ps es l'" and "1 < length args" and "args ! 1 = ''true''"
  shows "length es = length ps div 2"
proof -
  have "DROP_REQUEST (Server_main args) \<and> \<not> DROP (Server_main args)"
    using assms(2,3) by (simp add: Server_main_def Let_def)
  with loop_run_drops [OF assms(1)] show ?thesis by blast
qed

theorem every_other_packet_handled_witness:
  "\<exists>l'. loop_run jvm_example (Server_main [''at-most-once'', ''true'']) ([] @ [(0, [], client_example)]) [] l' \<and>
    length ([] :: (request_event \<times> ServerMessage) list) = length ([] @ [(0 :: int, [] :: byte list, client_example)]) div 2"
proof -
  let ?l = "Server_main [''at-most-once'', ''true'']"
  have "server_turn jvm_example (0, [], client_example) ?l = Inr (None, ?l\<lparr>DROP := True\<rparr>)"
    by (simp add: server_turn_def Server_main_def)
  from dropped [OF waiting this] every_other_packet_handled [OF dropped [OF waiting this]]
  show ?thesis by auto
qed

end
