(* ===== verification/Client_Server.thy ===== *)
theory Client_Server
  imports Server_Loop Client_Runs Response_Parser
begin

text \<open>
  The client and the server together: what a datagram of one side is to the other, and how often
  an operation of the client is executed when the network loses, repeats and reorders datagrams.
\<close>

section \<open>Requests of the client at the server\<close>

lemma to_server_new:
  "d \<noteq> '''' \<Longrightarrow> to_server (RequestMessage_new ty i d) = \<lparr>sm_requestType = enumerator ty, sm_requestID = i, sm_data = Some d\<rparr>"
  by (simp add: to_server_def RequestMessage_new_def)

lemma to_server_requestID [simp]: "sm_requestID (to_server m) = rm_requestID m"
  by (simp add: to_server_def)

lemma server_turn_handles:
  assumes "\<not> DROP_REQUEST l" and "\<not> DROP l" and "received_message env data = Inr m"
  shows "server_turn env (now, data, c) l =
    (case handleRequest env now m c (sl_server l) of
       (Inl e, _) \<Rightarrow> Inl (Uncaught e)
     | (Inr response, s) \<Rightarrow> Inr (Some ((now, m, c), response), send_reply env c response (l\<lparr>sl_server := s\<rparr>)))"
  using assms by (simp add: server_turn_def)

section \<open>At most once, from end to end\<close>

lemma filter_at_most_one:
  assumes "distinct (map f xs)" and "\<And>x. x \<in> set xs \<Longrightarrow> P x \<Longrightarrow> f x = k"
  shows "length (filter P xs) \<le> 1"
proof -
  have "distinct (map f (filter P xs))" using assms(1) by (rule distinct_map_filter)
  moreover have "set (map f (filter P xs)) \<subseteq> {k}" using assms(2) by auto
  ultimately have "length (map f (filter P xs)) \<le> card {k}"
    by (metis card_mono distinct_card finite.emptyI finite.insertI)
  then show ?thesis by simp
qed

lemma sent_entries:
  assumes "run_log entries k s s'" and "k_trace s = []" and "data \<in> set (sent_datagrams (k_trace s'))"
  shows "\<exists>j<k. data = datagram (fst (entries ! j))"
proof -
  have e: "length entries = k" "sent_datagrams (k_trace s') = concat (map (\<lambda>(m, n). replicate n (datagram m)) entries)"
    using assms(1,2) by (simp_all add: run_log_def)
  then obtain m n where "(m, n) \<in> set entries" "data = datagram m" using assms(3) by auto
  with e(1) show ?thesis by (metis fst_conv in_set_conv_nth)
qed

section \<open>Properties\<close>

text \<open>
  C2. Each operation of a client is executed at most once: a client performs any operations that
  return, and the server, which starts with an empty history and keeps it, handles any packets,
  those under the client's address being datagrams the client sent, in any order and number. Then
  the server ends as the server without a history does when it is sent certain requests one by one,
  and those of the client among them are operations of its run, each at most once.
\<close>

theorem operations_executed_at_most_once:
  assumes "client_run onUpdate s ops s'" and "k_trace s = []"
    and "\<forall>m. datagram m \<in> set (sent_datagrams (k_trace s')) \<longrightarrow> ascii (rm_data m) \<and> length (datagram m) \<le> RECEIVE_BUFFER"
    and "java_ready env" and "loop_run env l ps es l'"
    and "checkHistory (sl_server l)" and "requestHistory (sl_server l) = []"
    and "\<forall>(now, data, c')\<in>set ps. c' = c \<longrightarrow> data \<in> set (sent_datagrams (k_trace s'))"
  shows "\<exists>ms es1 s1. length ms = length ops \<and>
    (\<forall>j<length ops. rm_requestID (ms ! j) = requestID s + word_of_nat j) \<and>
    server_run env (with_flag False (sl_server l)) es1 s1 \<and>
    facilities s1 = facilities (sl_server l') \<and> monitors s1 = monitors (sl_server l') \<and>
    sv_notified s1 = sv_notified (sl_server l') \<and> requestHistory s1 = requestHistory (sl_server l') \<and>
    (\<forall>((now, received, c'), response)\<in>set es1. c' = c \<longrightarrow> (\<exists>j<length ops. received = Some (to_server (ms ! j)))) \<and>
    (\<forall>j<length ops. length (filter (\<lambda>((now, received, c'), response).
       c' = c \<and> received = Some (to_server (ms ! j))) es1) \<le> 1)"
proof -
  obtain entries where log: "run_log entries (length ops) s s'" using run_has_log [OF assms(1)] by blast
  let ?ms = "map fst entries"
  have len: "length entries = length ops" using log by (simp add: run_log_def)
  have sent: "\<exists>j<length ops. received = Some (to_server (?ms ! j))"
    if e: "((now, received, c), response) \<in> set (executed es)" for now received response
  proof -
    have "((now, received, c), response) \<in> set es" using executed_key [OF e] by blast
    then obtain data where data: "(now, data, c) \<in> set ps" "received_message env data = Inr received"
      using loop_run_packets [OF assms(5)] by blast
    then have "data \<in> set (sent_datagrams (k_trace s'))" using assms(8) by blast
    moreover from sent_entries [OF log assms(2) this] obtain j where j: "j < length ops" "data = datagram (fst (entries ! j))"
      by blast
    ultimately have "received_message env data = Inr (Some (to_server (fst (entries ! j))))"
      using assms(3,4) received_datagram by blast
    with data(2) j(1) len show ?thesis by auto
  qed
  have "length (filter (\<lambda>((now, received, c'), response). c' = c \<and> received = Some (to_server m)) (executed es)) \<le> 1" for m
  proof (rule filter_at_most_one [OF distinct_executed, where k = "Some (rm_requestID m, c)"])
    fix e assume e: "e \<in> set (executed es)" "(\<lambda>((now, received, c'), response). c' = c \<and> received = Some (to_server m)) e"
    obtain k where "request_key (fst e) = Some k" using executed_key [OF e(1)] by blast
    with e(2) show "(request_key \<circ> fst) e = Some (rm_requestID m, c)" by (auto split: prod.splits if_splits)
  qed
  moreover have "\<forall>j<length ops. rm_requestID (?ms ! j) = requestID s + word_of_nat j"
    using log len by (simp add: run_log_def)
  moreover obtain s1 where "server_run env (with_flag False (sl_server l)) (executed es) s1"
      "fresh s1 = fresh (with_flag False (sl_server l'))"
    using onceD(5) [OF runs_once [OF loop_run_server [OF assms(5)] assms(6,7)]] by blast
  moreover note fresh_eqD [OF this(2)]
  ultimately show ?thesis using sent len by (intro exI [of _ ?ms] exI [of _ "executed es"] exI [of _ s1]) auto
qed

lemma datagram_inj:
  assumes "string_fits (rm_data m)" and "string_fits (rm_data m')" and "datagram m = datagram m'"
  shows "m = m'"
proof -
  note r = deserialize_reply [OF assms(1), of "client_on []"] deserialize_reply [OF assms(2), of "client_on []"]
  then obtain a d a' d' where "deserialize_response (datagram m) (client_on []) = (Inr (Some a), (client_on [])\<lparr>c_deserializer := d\<rparr>)"
    "jd_heap d ! a = m" "deserialize_response (datagram m) (client_on []) = (Inr (Some a'), (client_on [])\<lparr>c_deserializer := d'\<rparr>)"
    "jd_heap d' ! a' = m'" unfolding assms(3) by blast
  then show ?thesis by (simp add: client_on_def)
qed

lemma datagram_short_inj:
  assumes "datagram m = datagram m'" and "length (rm_data m') < 1000"
  shows "m = m'"
proof (rule datagram_inj [OF _ _ assms(1)])
  have "length (rm_data m) < 1000"
    using arg_cong [where f = length, OF assms(1)] assms(2) by (auto simp: length_datagram split: if_splits)
  then show "string_fits (rm_data m)" "string_fits (rm_data m')" using assms(2) by (simp_all add: string_fits_def)
qed

theorem operations_executed_at_most_once_witness:
  "\<exists>s' ms r l' es1 s1. client_run (\<lambda>_ _. '''') (client_on []) [Query_Rating ''Room''] s' \<and>
    loop_run jvm_example (Server_main []) [(0, datagram (RequestMessage_new READ 0 ''rating,Room''), client_example)] [r] l' \<and>
    length ms = 1 \<and> server_run jvm_example (with_flag False (sl_server (Server_main []))) es1 s1 \<and>
    requestHistory s1 = requestHistory (sl_server l') \<and> length (filter (\<lambda>((now, received, c'), response).
       c' = client_example \<and> received = Some (to_server (ms ! 0))) es1) \<le> 1"
proof -
  let ?m = "RequestMessage_new READ 0 ''rating,Room''" and ?l = "Server_main []"
  obtain s' where p: "perform (\<lambda>_ _. '''') (Query_Rating ''Room'') (client_on []) = (Inr gave_up, s')"
    using request_silent [of "client_on []" READ "''rating,Room''"] by (auto simp: queryRating_def)
  then have "client_step (\<lambda>_ _. '''') (client_on []) (Query_Rating ''Room'') s'" by (rule step)
  then have run: "client_run (\<lambda>_ _. '''') (client_on []) [Query_Rating ''Room''] s'"
    using next_op [OF start] by fastforce
  have "request READ ''rating,Room'' (client_on []) = (Inr gave_up, s')" using p by (simp add: queryRating_def)
  from request_issues [OF this] obtain n where n: "1 \<le> n" "sent_datagrams (k_trace s') = replicate n (datagram ?m)"
    by (auto simp: issued_def)
  have d: "rm_data ?m = ''rating,Room''" by (simp add: RequestMessage_new_def)
  have a: "ascii (rm_data ?m) \<and> length (datagram ?m) \<le> RECEIVE_BUFFER"
    by (simp add: d ascii_def length_datagram RECEIVE_BUFFER_def)
  have texts: "\<forall>m. datagram m \<in> set (sent_datagrams (k_trace s')) \<longrightarrow> ascii (rm_data m) \<and> length (datagram m) \<le> RECEIVE_BUFFER"
    using a datagram_short_inj [of _ ?m] d by (auto simp: n(2) dest!: datagram_short_inj)
  have "received_message jvm_example (datagram ?m) = Inr (Some (read_message 0 ''rating,Room''))"
    using received_datagram [OF java_ready_example, of ?m] a to_server_new [of "''rating,Room''" READ 0]
    by (simp add: read_message_def)
  moreover have new: "new_request (read_message 0 ''rating,Room'') client_example (Server_init True)" by simp
  have "split_commas ''rating,Room'' = [''rating'', ''Room'']" by code_simp
  then have "\<exists>x. process_request jvm_example 0 (read_message 0 ''rating,Room'') client_example (fresh (Server_init True)) = (Inr x, fresh (Server_init True))"
    by (simp add: process_request_def read_request_def data_parts_def)
  then obtain x s1 where "handleRequest jvm_example 0 (Some (read_message 0 ''rating,Room'')) client_example (Server_init True) = (Inr x, s1)"
    using handle_processed [OF new] by blast
  ultimately obtain r l' where "server_turn jvm_example (0, datagram ?m, client_example) ?l = Inr (Some r, l')"
    using server_turn_handles [of ?l jvm_example "datagram ?m" "Some (read_message 0 ''rating,Room'')" 0 client_example]
    by (simp add: Server_main_def)
  from answered [OF waiting this] have loop: "loop_run jvm_example ?l [(0, datagram ?m, client_example)] [r] l'" by simp
  have l: "checkHistory (sl_server ?l)" "requestHistory (sl_server ?l) = []" by (simp_all add: Server_main_def)
  have "\<forall>(now, data, c')\<in>set [(0 :: int, datagram ?m, client_example)]. c' = client_example \<longrightarrow> data \<in> set (sent_datagrams (k_trace s'))"
    using n by simp
  moreover have "k_trace (client_on []) = []" by simp
  ultimately obtain ms es1 s1 where q: "length ms = length [Query_Rating ''Room'']"
    "server_run jvm_example (with_flag False (sl_server ?l)) es1 s1" "requestHistory s1 = requestHistory (sl_server l')"
    "\<forall>j<length [Query_Rating ''Room'']. length (filter (\<lambda>((now, received, c'), response).
       c' = client_example \<and> received = Some (to_server (ms ! j))) es1) \<le> 1"
    using operations_executed_at_most_once [OF run _ texts java_ready_example loop l, of client_example] by blast
  from q(4) have "length (filter (\<lambda>((now, received, c'), response).
       c' = client_example \<and> received = Some (to_server (ms ! 0))) es1) \<le> 1" by (elim allE [of _ 0]) simp
  with run loop q(1-3) show ?thesis
    by (intro exI [of _ s'] exI [of _ ms] exI [of _ r] exI [of _ l'] exI [of _ es1] exI [of _ s1]) simp
qed

section \<open>The texts of the client at the server\<close>

lemma update_texts_agree: "update_request i name (day_name d) t1 t2 = update_text i name d t1 t2"
  by (simp add: update_request_def update_text_def)

lemma booking_sent:
  "bookFacility name (day_name d) (hhmm h1 m1) (hhmm h2 m2) s = request WRITE (booking_text name d h1 m1 h2 m2) s"
  unfolding hhmm_def using book_facility_times
  by (simp add: bookFacility_def substr_def numeral_2_eq_2 booking_text_def two_def)

lemma booking_text_not_empty: "booking_text name d h1 m1 h2 m2 \<noteq> ''''"
  by (simp add: booking_text_def)

lemma to_server_booking:
  "to_server (RequestMessage_new WRITE i (booking_text name d h1 m1 h2 m2)) = write_request i (booking_text name d h1 m1 h2 m2)"
  by (simp add: to_server_new booking_text_not_empty write_request_def)

lemma ascii_simps [simp]: "ascii []" "ascii (c # s) \<longleftrightarrow> (of_char c :: nat) < 128 \<and> ascii s"
  "ascii (s @ t) \<longleftrightarrow> ascii s \<and> ascii t"
  by (simp_all add: ascii_def)

lemma ascii_day [simp]: "ascii (day_name d)"
  by (cases d) (simp_all add: day_name_def DAYS_OF_WEEK_def)

lemma length_day: "length (day_name d) \<le> 9"
  by (cases d) (simp_all add: day_name_def DAYS_OF_WEEK_def)

lemma ascii_digit: "n < 10 \<Longrightarrow> (of_char (digit_char n) :: nat) < 128"
  by (drule digit_char_cases) (auto simp: digit_char_def)

lemma ascii_two [simp]: "n < 100 \<Longrightarrow> ascii (two n)" "length (two n) = 2"
  using ascii_digit [of "n div 10"] ascii_digit [of "n mod 10"] by (simp_all add: two_def)

lemma received_booking:
  assumes "java_ready env" and "ascii name" and "length name \<le> 800"
    and "h1 < 100" and "m1 < 100" and "h2 < 100" and "m2 < 100"
  shows "received_message env (datagram (RequestMessage_new WRITE i (booking_text name d h1 m1 h2 m2))) =
    Inr (Some (write_request i (booking_text name d h1 m1 h2 m2)))"
proof -
  let ?m = "RequestMessage_new WRITE i (booking_text name d h1 m1 h2 m2)"
  have d: "rm_data ?m = booking_text name d h1 m1 h2 m2" by (simp add: RequestMessage_new_def)
  have "ascii (rm_data ?m)" using assms unfolding d by (simp add: booking_text_def)
  moreover have "length (datagram ?m) \<le> RECEIVE_BUFFER"
    using assms(3) length_day [of d] unfolding length_datagram d by (simp add: booking_text_def RECEIVE_BUFFER_def)
  ultimately show ?thesis
    using received_datagram [OF assms(1)] to_server_booking by simp
qed

text \<open>
  C5. A booking from end to end: the client asks to book a free slot, the server gets its datagram
  and the client is delivered what the server sends back. Then the server has filed the booking
  for the client's address, and the client's call returns the server's confirmation.
\<close>

theorem booking_end_to_end:
  assumes "java_ready env" and "ascii name" and "no_comma name" and "length name \<le> 800"
    and "h1 < 24" and "m1 < 60" and "h2 < 24" and "m2 < 60"
    and "\<not> DROP_REQUEST l" and "\<not> DROP l"
    and "new_request (write_request (requestID s) (booking_text name d h1 m1 h2 m2)) c (sl_server l)"
    and "getFacility name (facilities (sl_server l)) = Some f" and "isAvailable (f_availability f) (slot_of d h1 m1 h2 m2)"
    and "ascii (booked_text env c name (slot_of d h1 m1 h2 m2) (sl_server l))"
    and "length (booked_text env c name (slot_of d h1 m1 h2 m2) (sl_server l)) \<le> BUFFER_SIZE - 115"
  shows "\<exists>e l' bytes.
    server_turn env (now, datagram (RequestMessage_new WRITE (requestID s) (booking_text name d h1 m1 h2 m2)), c) l = Inr (Some e, l') \<and>
    sv_sent l' = sv_sent l @ [(c, bytes)] \<and>
    facilities (sl_server l') = update_facility name (with_availability
      (add_booking (new_booking env c (slot_of d h1 m1 h2 m2) (f_availability f) (sl_server l)) (f_availability f))) (facilities (sl_server l)) \<and>
    (ready s \<and> k_recv s = (t, Datagram bytes addr) # post \<and> t < time_limit s \<longrightarrow>
      (\<exists>s'. bookFacility name (day_name d) (hhmm h1 m1) (hhmm h2 m2) s =
        (Inr (booked_text env c name (slot_of d h1 m1 h2 m2) (sl_server l)), s') \<and> k_recv s' = post))"
proof -
  let ?txt = "booking_text name d h1 m1 h2 m2" and ?ok = "booked_text env c name (slot_of d h1 m1 h2 m2) (sl_server l)"
  let ?w = "write_request (requestID s) ?txt" and ?m = "RequestMessage_new WRITE (requestID s) ?txt"
  have lt: "h1 < 100" "m1 < 100" "h2 < 100" "m2 < 100" using assms(5-8) by simp_all
  obtain sv where sv: "handleRequest env now (Some ?w) c (sl_server l) = (Inr (write_request (requestID s) ?ok), sv)"
    "facilities sv = update_facility name (with_availability
      (add_booking (new_booking env c (slot_of d h1 m1 h2 m2) (f_availability f) (sl_server l)) (f_availability f))) (facilities (sl_server l))"
    using handle_booking [OF assms(11,3) lt assms(12), of env now] assms(13) by (auto simp: reply_def write_request_def)
  let ?l = "send_reply env c (write_request (requestID s) ?ok) (l\<lparr>sl_server := sv\<rparr>)"
  let ?bytes = "datagram (RequestMessage_new WRITE (requestID s) ?ok)"
  have turn: "server_turn env (now, datagram ?m, c) l = Inr (Some ((now, Some ?w, c), write_request (requestID s) ?ok), ?l)"
    using server_turn_handles [OF assms(9,10) received_booking [OF assms(1,2,4) lt, of "requestID s" d], of now c] sv(1) by simp
  have ne: "?ok \<noteq> ''''" by (simp add: booked_text_def STATUS_SUCCESS_def)
  have "\<forall>t. sm_data (write_request (requestID s) ?ok) = Some t \<longrightarrow> java_text env t \<and> t \<noteq> ''''"
    using java_text_short [OF assms(1,14)] assms(15) ne by (simp add: BUFFER_SIZE_def)
  note ser = java_serialize_datagram [OF assms(1) this]
  have tc: "to_client (write_request (requestID s) ?ok) = RequestMessage_new WRITE (requestID s) ?ok"
    by (simp add: to_client_def write_request_def RequestMessage_new_def)
  have "length ?bytes \<le> SERVER_CAPACITY"
    using assms(15) by (simp add: length_datagram RequestMessage_new_def BUFFER_SIZE_def SERVER_CAPACITY_def)
  then have "java_serialize env (write_request (requestID s) ?ok) = Some ?bytes" using ser tc by simp
  then have sent: "sv_sent ?l = sv_sent l @ [(c, ?bytes)]" by (simp add: send_reply_def)
  have "\<exists>s'. bookFacility name (day_name d) (hhmm h1 m1) (hhmm h2 m2) s = (Inr ?ok, s') \<and> k_recv s' = post"
    if "ready s \<and> k_recv s = (t, Datagram ?bytes addr) # post \<and> t < time_limit s"
    using request_replied [of s t WRITE ?ok addr post WRITE ?txt] that ne assms(15) by (simp add: booking_sent)
  with turn sent sv(2) show ?thesis
    by (intro exI [of _ "((now, Some ?w, c), write_request (requestID s) ?ok)"] exI [of _ ?l] exI [of _ ?bytes]) auto
qed

lemma user_info_example: "user_info jvm_example client_example = ''/1:5000''"
  by (simp add: user_info_def jvm_example_def client_example_def to_string_def to_string_nat.simps digit_char_def)

lemma booked_text_example:
  "booked_text jvm_example client_example ''Weekday1'' (slot_of MONDAY 9 0 10 0) (Server_init True) =
    STATUS_SUCCESS @ newline # ''bookingID:id-0'' @ newline # ''user:/1:5000'' @ newline # ''facility:Weekday1'' @
    newline # ''day:MONDAY'' @ newline # ''startTime:0900'' @ newline # ''endTime:1000''"
proof -
  have "sv_uuids (Server_init True) = 0" by (simp add: Server_init_def)
  moreover have "getStartTime (slot_of MONDAY 9 0 10 0) = ''0900''" "getEndTime (slot_of MONDAY 9 0 10 0) = ''1000''"
    by (simp_all add: slot_times hhmm_def digit_char_def)
  ultimately show ?thesis
    by (simp add: booked_text_def user_info_example to_string_def to_string_nat.simps digit_char_def day_name_def DAYS_OF_WEEK_def)
qed

theorem booking_end_to_end_witness:
  "\<exists>e l' bytes s'.
    server_turn jvm_example (7, datagram (RequestMessage_new WRITE 0 (booking_text ''Weekday1'' MONDAY 9 0 10 0)), client_example)
      (Server_main []) = Inr (Some e, l') \<and> sv_sent l' = [(client_example, bytes)] \<and>
    bookFacility ''Weekday1'' (day_name MONDAY) (hhmm 9 0) (hhmm 10 0) (client_on [(3, Datagram bytes server_at)]) =
      (Inr (booked_text jvm_example client_example ''Weekday1'' (slot_of MONDAY 9 0 10 0) (Server_init True)), s')"
proof -
  let ?l = "Server_main []"
  have l: "\<not> DROP_REQUEST ?l" "\<not> DROP ?l" "sl_server ?l = Server_init True" "sv_sent ?l = []" by (simp_all add: Server_main_def)
  have t: "ascii (booked_text jvm_example client_example ''Weekday1'' (slot_of MONDAY 9 0 10 0) (Server_init True))"
    "length (booked_text jvm_example client_example ''Weekday1'' (slot_of MONDAY 9 0 10 0) (Server_init True)) \<le> BUFFER_SIZE - 115"
    unfolding booked_text_example by (simp_all add: STATUS_SUCCESS_def newline_def BUFFER_SIZE_def)
  have r: "\<exists>e l' bytes. server_turn jvm_example (7, datagram (RequestMessage_new WRITE 0 (booking_text ''Weekday1'' MONDAY 9 0 10 0)), client_example) ?l = Inr (Some e, l') \<and>
      sv_sent l' = [(client_example, bytes)] \<and> (k_recv s = [(3, Datagram bytes server_at)] \<longrightarrow>
      (\<exists>s'. bookFacility ''Weekday1'' (day_name MONDAY) (hhmm 9 0) (hhmm 10 0) s =
        (Inr (booked_text jvm_example client_example ''Weekday1'' (slot_of MONDAY 9 0 10 0) (Server_init True)), s')))"
    if s: "s = client_on es" for s es
    using booking_end_to_end [OF java_ready_example _ no_comma_Weekday1 _ _ _ _ _ l(1,2), of 9 0 10 0 s MONDAY client_example weekday1 7 3 server_at "[]"]
      weekday1_monday [of 9 0 10 0] t l(3,4) by (auto simp: s)
  from r [OF refl, of "[]"] obtain e l' bytes where 1:
    "server_turn jvm_example (7, datagram (RequestMessage_new WRITE 0 (booking_text ''Weekday1'' MONDAY 9 0 10 0)), client_example) ?l = Inr (Some e, l')"
    "sv_sent l' = [(client_example, bytes)]" by blast
  from r [OF refl, of "[(3, Datagram bytes server_at)]"] 1 show ?thesis by auto
qed

text \<open>
  C14. A client's shift of a booking by less than its length always fails: the update request
  carries the shifted times, and the server refuses it because the booking itself still occupies
  its slot. That is so too when the shifted times lie before the start or past the end of the day:
  nothing checks them, and they overlap the booking like others.
\<close>

theorem small_shift_refused:
  assumes "plain_fields i u name (day_name d)" and "no_comma i" and "no_comma name"
    and "h1 < 24" and "m1 < 60" and "h2 < 24" and "m2 < 60" and "60 * h1 + m1 < 60 * h2 + m2"
    and "\<bar>off\<bar> < (60 * int h2 + int m2) - (60 * int h1 + int m1)"
    and "getFacility name (facilities sv) = Some f"
    and "b \<in> set (bookedSlots (f_availability f) ! day_index d)" and "timeSlot b = slot_of d h1 m1 h2 m2"
  shows "\<exists>txt. updateBooking i off (booking_details i u name (day_name d) (hhmm h1 m1) (hhmm h2 m2)) s = request UPDATE txt s \<and>
    (new_request (update_message j txt) c sv \<longrightarrow>
      (\<exists>sv'. handleRequest env now (Some (update_message j txt)) c sv =
        (Inr (write_request j (error_reply ''Facility not available at the requested time'')), sv') \<and>
      facilities sv' = facilities sv))"
proof -
  let ?t1 = "60 * int h1 + int m1 + off" and ?t2 = "60 * int h2 + int m2 + off"
  have in_int: "in_int ?t1" "in_int ?t2" using assms(4-9) by (auto intro!: in_int_small)
  have "updateBooking i off (booking_details i u name (day_name d) (hhmm h1 m1) (hhmm h2 m2)) s =
      request UPDATE (update_text i name d ?t1 ?t2) s"
    using updateBooking_details [OF assms(1) _ _ _ _ in_int] assms(4-7) by (simp add: update_texts_agree)
  moreover have "proper (timeSlot b)" "0 \<le> startHour (timeSlot b)" "0 \<le> endHour (timeSlot b)" "start_of b = 60 * int h1 + int m1" "end_of b = 60 * int h2 + int m2"
    using assms(5,7) by (simp_all add: assms(12) proper_def slot_of_def TimeSlot_new_def start_of_def end_of_def minute_of_def)
  ultimately show ?thesis
    using overlapping_move_refused [OF _ assms(2,3) in_int assms(10,11), of j c env now] assms(8,9)
    by (intro exI [of _ "update_text i name d ?t1 ?t2"]) auto
qed

theorem small_shift_refused_witness:
  "\<exists>sv txt sv'. updateBooking ''id-0'' (-50) (booking_details ''id-0'' ''/1:5000'' ''Weekday1'' (day_name MONDAY) (hhmm 0 0) (hhmm 1 0)) (client_on []) =
      request UPDATE txt (client_on []) \<and>
    handleRequest jvm_example 9 (Some (update_message 1 txt)) client_example sv =
      (Inr (write_request 1 (error_reply ''Facility not available at the requested time'')), sv')"
proof -
  obtain sv :: server and f b where sv: "info_key ` set (requestHistory sv) = {(0, client_example)}"
    "getFacility ''Weekday1'' (facilities sv) = Some f" "timeSlot b = slot_of MONDAY 0 0 1 0"
    "f_availability f = add_booking b (f_availability weekday1)"
    using booked_once [of 0 0 1 0] by auto
  have b: "b \<in> set (bookedSlots (f_availability f) ! day_index MONDAY)"
    by (simp add: sv add_booking_def weekday1_slots)
  have n: "new_request (update_message 1 x) client_example sv" for x using sv(1) by (simp add: new_request_def)
  have "plain_fields ''id-0'' ''/1:5000'' ''Weekday1'' (day_name MONDAY)"
    by (simp add: plain_fields_def newline_def day_name_def DAYS_OF_WEEK_def)
  from small_shift_refused [OF this _ no_comma_Weekday1 _ _ _ _ _ _ sv(2) b sv(3), of "-50" "client_on []" 1 client_example jvm_example 9] n
  show ?thesis by (auto simp: no_comma_def [of "''id-0''"])
qed

text \<open>
  C29. One query can stop the server: when the facility name typed at the client contains a comma
  and what follows it is not the name of a day, the server reads it as a day of the week all the
  same, and the exception for an unknown day is caught nowhere: the turn of the main loop ends the
  server.
\<close>

theorem comma_in_name_stops_server:
  assumes "java_ready env" and "\<not> DROP_REQUEST l" and "\<not> DROP l"
    and "days = commas (d # ds)" and "\<forall>x\<in>set (name # t # d # ds). no_comma x" and "last (d # ds) \<noteq> ''''"
    and "name \<noteq> ''ALL''" and "\<forall>e. day_name e \<noteq> t"
    and "ascii (name @ t @ days)" and "length (name @ t @ days) \<le> 800"
    and "new_request (read_message (requestID s) (''facility,'' @ (name @ '','' @ t) @ '','' @ days)) c (sl_server l)"
  shows "\<exists>txt. queryAvailability (name @ '','' @ t) days s = request READ txt s \<and>
    server_turn env (now, datagram (RequestMessage_new READ (requestID s) txt), c) l = Inl (Uncaught (No_Enum_Constant t))"
proof -
  let ?txt = "''facility,'' @ (name @ '','' @ t) @ '','' @ days"
  let ?m = "RequestMessage_new READ (requestID s) ?txt"
  have d: "rm_data ?m = ?txt" by (simp add: RequestMessage_new_def)
  have "ascii (rm_data ?m)" "length (datagram ?m) \<le> RECEIVE_BUFFER"
    using assms(9,10) unfolding length_datagram d by (simp_all add: RECEIVE_BUFFER_def)
  then have "received_message env (datagram ?m) = Inr (Some (to_server ?m))" by (rule received_datagram [OF assms(1)])
  moreover have "to_server ?m = read_message (requestID s) ?txt" by (simp add: to_server_new read_message_def)
  moreover have "?txt = commas (''facility'' # name # t # d # ds)" by (simp add: assms(4))
  from handle_unknown_day [OF this assms(11) assms(5) _ assms(7,8)]
  have "handleRequest env now (Some (read_message (requestID s) ?txt)) c (sl_server l) = (Inl (No_Enum_Constant t), fresh (sl_server l))"
    using assms(6) by simp
  ultimately have "server_turn env (now, datagram ?m, c) l = Inl (Uncaught (No_Enum_Constant t))"
    using server_turn_handles [OF assms(2,3), of env "datagram ?m" "Some (read_message (requestID s) ?txt)" now c] by simp
  then show ?thesis by (intro exI [of _ ?txt]) (simp add: queryAvailability_def)
qed

theorem comma_in_name_stops_server_witness:
  "\<exists>txt. queryAvailability ''Room,A'' ''MONDAY'' (client_on []) = request READ txt (client_on []) \<and>
    server_turn jvm_example (0, datagram (RequestMessage_new READ 0 txt), client_example) (Server_main []) =
      Inl (Uncaught (No_Enum_Constant ''A''))"
proof -
  have "\<forall>e. day_name e \<noteq> ''A''"
  proof
    show "day_name e \<noteq> ''A''" for e by (cases e) (simp_all add: day_name_def DAYS_OF_WEEK_def)
  qed
  then show ?thesis
    using comma_in_name_stops_server [OF java_ready_example, of "Server_main []" "''MONDAY''" "''MONDAY''" "[]" "''Room''" "''A''" "client_on []" client_example 0]
    by (simp add: Server_main_def no_comma_def)
qed

text \<open>
  C9. The two sides read each other's messages, within the limits of the server's buffers. The
  server takes a datagram of the client whose text has at most 885 characters, all ASCII, for the
  same message, with null for an empty text. A response of the server whose text is null, or is
  ASCII with 1 to 1024 characters, and that fits the serialiser's array is read by the client's
  deserialiser as the same message.
\<close>

theorem both_sides_agree:
  assumes "java_ready env"
  shows "(ascii (rm_data m) \<and> length (rm_data m) \<le> 885 \<longrightarrow> received_message env (datagram m) = Inr (Some (to_server m))) \<and>
    (java_serialize env sm = Some bytes \<and> (\<forall>t. sm_data sm = Some t \<longrightarrow> ascii t \<and> t \<noteq> '''' \<and> length t \<le> 1024) \<longrightarrow>
      (\<exists>d'. deserialize RequestMessage_class (registerClasses other) bytes d = (Inr (Some (length (jd_heap d))), d') \<and>
        jd_heap d' = jd_heap d @ [to_client sm]))"
proof (intro conjI impI)
  assume "ascii (rm_data m) \<and> length (rm_data m) \<le> 885"
  then show "received_message env (datagram m) = Inr (Some (to_server m))"
    by (intro received_datagram assms) (auto simp: length_datagram RECEIVE_BUFFER_def)
next
  assume sm: "java_serialize env sm = Some bytes \<and> (\<forall>t. sm_data sm = Some t \<longrightarrow> ascii t \<and> t \<noteq> '''' \<and> length t \<le> 1024)"
  then have "\<forall>t. sm_data sm = Some t \<longrightarrow> java_text env t \<and> t \<noteq> ''''" using java_text_short [OF assms] by blast
  from java_serialize_datagram [OF assms this] sm have b: "bytes = datagram (to_client sm)" by (simp split: if_splits)
  have "string_fits (rm_data (to_client sm))" using sm by (auto simp: to_client_def string_fits_def split: option.split)
  from rm.deserialize_serialize [where creators = "registerClasses other", OF this known_class [OF refl], of d]
  show "\<exists>d'. deserialize RequestMessage_class (registerClasses other) bytes d = (Inr (Some (length (jd_heap d))), d') \<and>
        jd_heap d' = jd_heap d @ [to_client sm]"
    by (auto simp: b datagram_def)
qed

theorem both_sides_agree_witness:
  "received_message jvm_example (datagram (RequestMessage_new READ 5 ''facility,ALL'')) =
    Inr (Some \<lparr>sm_requestType = 0, sm_requestID = 5, sm_data = Some ''facility,ALL''\<rparr>) \<and>
   (\<exists>bytes d'. java_serialize jvm_example \<lparr>sm_requestType = 0, sm_requestID = 5, sm_data = Some ''Room1''\<rparr> = Some bytes \<and>
     deserialize RequestMessage_class (registerClasses Map.empty) bytes JavaDeserializer_init = (Inr (Some 0), d') \<and>
     jd_heap d' = [RequestMessage_new READ 5 ''Room1''])"
proof
  show "received_message jvm_example (datagram (RequestMessage_new READ 5 ''facility,ALL'')) =
    Inr (Some \<lparr>sm_requestType = 0, sm_requestID = 5, sm_data = Some ''facility,ALL''\<rparr>)"
    using both_sides_agree [OF java_ready_example, of "RequestMessage_new READ 5 ''facility,ALL''" undefined]
    by (simp add: to_server_new RequestMessage_new_def ascii_def to_server_def)
next
  let ?sm = "\<lparr>sm_requestType = 0, sm_requestID = 5, sm_data = Some ''Room1''\<rparr>"
  have a: "ascii ''Room1''" by (simp add: ascii_def)
  have c: "to_client ?sm = RequestMessage_new READ 5 ''Room1''" by (simp add: to_client_def RequestMessage_new_def)
  have "java_text jvm_example ''Room1''" by (rule java_text_short [OF java_ready_example a]) simp
  then have b: "java_serialize jvm_example ?sm = Some (datagram (to_client ?sm))"
    by (subst java_serialize_datagram [OF java_ready_example])
      (simp_all add: c length_datagram RequestMessage_new_def SERVER_CAPACITY_def)
  then show "\<exists>bytes d'. java_serialize jvm_example ?sm = Some bytes \<and>
     deserialize RequestMessage_class (registerClasses Map.empty) bytes JavaDeserializer_init = (Inr (Some 0), d') \<and>
     jd_heap d' = [RequestMessage_new READ 5 ''Room1'']"
    using both_sides_agree [OF java_ready_example, of undefined ?sm "datagram (to_client ?sm)" Map.empty JavaDeserializer_init] a
    by (simp add: c JavaDeserializer_init_def)
qed

end
