(* ===== verification/Availability_Shown.thy ===== *)
theory Availability_Shown
  imports Client_Server User_Interface
begin

text \<open>
  What a user sees of the server's bookings: the availability text the server makes
  (\<^verbatim>\<open>formatFacilityAvailability\<close>), for a query and for a notification of a change, goes through
  the client's parser; the rows shown are the free slots the server computed. Facility names
  without colons, commas and line breaks, and times that are not negative, are taken for granted.
\<close>

section \<open>The printed times\<close>

definition clock_slot :: "TimeSlot \<Rightarrow> bool" where
  "clock_slot ts \<longleftrightarrow> 0 \<le> startHour ts \<and> 0 \<le> startMinute ts \<and> 0 \<le> endHour ts \<and> 0 \<le> endMinute ts"

definition clock_times :: "Availability \<Rightarrow> bool" where
  "clock_times a \<longleftrightarrow> (\<forall>d. 0 \<le> av_startHour a ! day_index d \<and> 0 \<le> av_startMinute a ! day_index d \<and>
     0 \<le> av_endHour a ! day_index d \<and> 0 \<le> av_endMinute a ! day_index d \<and>
     (\<forall>b\<in>set (bookedSlots a ! day_index d). clock_slot (timeSlot b)))"

lemma free_slots_clock:
  assumes "\<forall>b\<in>set bs. clock_slot (timeSlot b)" and "0 \<le> h" and "0 \<le> m" and "\<forall>ts\<in>set slots. clock_slot ts"
    and "free_slots d bs h m slots = (h', m', slots')"
  shows "0 \<le> h' \<and> 0 \<le> m' \<and> (\<forall>ts\<in>set slots'. clock_slot ts)"
  using assms
proof (induction bs arbitrary: h m slots)
  case (Cons b bs)
  let ?slots = "if before h m (startHour (timeSlot b)) (startMinute (timeSlot b))
    then slots @ [TimeSlot_new h m (startHour (timeSlot b)) (startMinute (timeSlot b)) d] else slots"
  have "\<forall>ts\<in>set ?slots. clock_slot ts" using Cons.prems(1-4) by (auto simp: clock_slot_def TimeSlot_new_def)
  moreover have "0 \<le> endHour (timeSlot b)" "0 \<le> endMinute (timeSlot b)" "\<forall>b\<in>set bs. clock_slot (timeSlot b)"
    using Cons.prems(1) by (simp_all add: clock_slot_def)
  moreover have "free_slots d bs (endHour (timeSlot b)) (endMinute (timeSlot b)) ?slots = (h', m', slots')"
    using Cons.prems(5) by (simp only: free_slots.simps)
  ultimately show ?case by (intro Cons.IH)
qed simp

lemma available_slots_clock:
  assumes "clock_times a" and "ts \<in> set (getAvailableTimeSlots d a)"
  shows "clock_slot ts"
proof -
  let ?k = "\<lambda>b. (startHour (timeSlot b), startMinute (timeSlot b))"
  obtain h m slots where f: "free_slots d (sort_key ?k (bookedSlots a ! day_index d))
      (av_startHour a ! day_index d) (av_startMinute a ! day_index d) [] = (h, m, slots)"
    by (cases "free_slots d (sort_key ?k (bookedSlots a ! day_index d))
      (av_startHour a ! day_index d) (av_startMinute a ! day_index d) []") auto
  have "0 \<le> h \<and> 0 \<le> m \<and> (\<forall>ts\<in>set slots. clock_slot ts)"
    by (rule free_slots_clock [OF _ _ _ _ f]) (use assms(1) in \<open>simp_all add: clock_times_def\<close>)
  moreover have "0 \<le> av_endHour a ! day_index d" "0 \<le> av_endMinute a ! day_index d"
    using assms(1) by (simp_all add: clock_times_def)
  moreover have "ts \<in> set slots \<or> ts = TimeSlot_new h m (av_endHour a ! day_index d) (av_endMinute a ! day_index d) d"
    using assms(2) f by (auto simp: getAvailableTimeSlots_def Let_def split: if_splits)
  ultimately show ?thesis by (auto simp: clock_slot_def TimeSlot_new_def)
qed

lemma digits_format02d:
  assumes "0 \<le> i"
  shows "list_all isdigit (format02d i)"
  using assms by (auto simp: format02d_def to_string_def list_all_iff dest: to_string_nat_digits) (simp add: isdigit_def)

lemma digits_plain: "list_all isdigit s \<Longrightarrow> no_break s \<and> ascii s \<and> CHR '','' \<notin> set s \<and> CHR ''-'' \<notin> set s \<and> CHR '':'' \<notin> set s"
  by (induction s) (auto simp: isdigit_def newline_def)

section \<open>The text of an availability\<close>

text \<open>The slots of a day as they are printed, and the days that have any.\<close>

definition day_slots :: "Facility \<Rightarrow> DayOfWeek \<Rightarrow> (string \<times> string) list" where
  "day_slots f d = map (\<lambda>ts. (getStartTime ts, getEndTime ts)) (getAvailableTimeSlots d (f_availability f))"

definition free_days :: "Facility \<Rightarrow> DayOfWeek list \<Rightarrow> (string \<times> (string \<times> string) list) list" where
  "free_days f ds = map (\<lambda>d. (day_name d, day_slots f d)) (filter (\<lambda>d. day_slots f d \<noteq> []) ds)"

lemma TimeSlot_toString_times: "TimeSlot_toString ts = getStartTime ts @ '' - '' @ getEndTime ts"
  by (simp add: TimeSlot_toString_def getStartTime_def getEndTime_def)

lemma day_line_slots:
  "day_line (day_name d, day_slots f d) =
    day_name d @ '':'' @ concat (map (\<lambda>slot. TimeSlot_toString slot @ '','') (getAvailableTimeSlots d (f_availability f)))"
  by (simp add: day_line_def day_slots_def terminated_def comp_def TimeSlot_toString_times)

lemma availability_text:
  assumes "getFacility name (facilities s) = Some f"
  shows "formatFacilityAvailability name days s =
    availability_response name (free_days f (filter (\<lambda>d. days = {} \<or> d \<in> days) day_values))"
proof -
  have "concat (map (\<lambda>d. if days \<noteq> {} \<and> d \<notin> days then ''''
        else let timeslots = getAvailableTimeSlots d (f_availability f) in
          if timeslots = [] then ''''
          else day_name d @ '':'' @ concat (map (\<lambda>slot. TimeSlot_toString slot @ '','') timeslots) @ [newline]) ds) =
      terminated newline (map day_line (free_days f (filter (\<lambda>d. days = {} \<or> d \<in> days) ds)))" for ds
  proof (induction ds)
    case (Cons d ds)
    then show ?case
      by (auto simp: free_days_def day_line_slots Let_def) (simp_all add: day_slots_def)
  qed (simp add: free_days_def)
  with assms show ?thesis by (simp add: formatFacilityAvailability_def availability_response_def)
qed

lemma free_days_plain:
  assumes "clock_times (f_availability f)"
  shows "\<forall>d\<in>set (free_days f ds). plain_day d"
proof -
  have "plain_slot (getStartTime ts, getEndTime ts)" if "ts \<in> set (getAvailableTimeSlots d (f_availability f))" for ts d
  proof -
    from available_slots_clock [OF assms that] have "clock_slot ts" .
    then have "list_all isdigit (getStartTime ts)" "list_all isdigit (getEndTime ts)"
      using digits_format02d by (simp_all add: clock_slot_def getStartTime_def getEndTime_def)
    with digits_plain show ?thesis by (auto simp: plain_slot_def)
  qed
  moreover have "day_name d \<in> set DAYS_OF_WEEK" for d
    by (cases d) (simp_all add: day_name_def DAYS_OF_WEEK_def)
  ultimately show ?thesis by (auto simp: free_days_def plain_day_def day_slots_def)
qed

lemma distinct_free_days: "distinct ds \<Longrightarrow> distinct (map fst (free_days f ds))"
  by (simp add: free_days_def comp_def distinct_map inj_on_def day_name_inj)

lemma distinct_day_values [simp]: "distinct day_values"
  by (simp add: day_values_def)

lemma map_of_free_days:
  "map_of (free_days f ds) (day_name d) = (if d \<in> set ds \<and> day_slots f d \<noteq> [] then Some (day_slots f d) else None)"
  by (induction ds) (auto simp: free_days_def day_name_inj)

lemma weekday1_clock: "clock_times (f_availability weekday1)"
  unfolding clock_times_def
proof
  fix d show "0 \<le> av_startHour (f_availability weekday1) ! day_index d \<and> 0 \<le> av_startMinute (f_availability weekday1) ! day_index d \<and>
     0 \<le> av_endHour (f_availability weekday1) ! day_index d \<and> 0 \<le> av_endMinute (f_availability weekday1) ! day_index d \<and>
     (\<forall>b\<in>set (bookedSlots (f_availability weekday1) ! day_index d). clock_slot (timeSlot b))"
    by (cases d) (simp_all add: weekday1_def facility_open_def with_availability_def setAvaOfDay_def Availability_new_def)
qed

lemma DAYS_OF_WEEK_names: "DAYS_OF_WEEK = map day_name day_values"
  by (simp add: day_values_def day_name_def DAYS_OF_WEEK_def)

section \<open>The rows the client shows\<close>

definition day_row :: "Facility \<Rightarrow> DayOfWeek \<Rightarrow> string" where
  "day_row f d = (if getAvailableTimeSlots d (f_availability f) = [] then day_name d @ '': Closed''
     else shown_day (day_name d, day_slots f d))"

lemma day_slots_Nil [simp]: "day_slots f d = [] \<longleftrightarrow> getAvailableTimeSlots d (f_availability f) = []"
  by (simp add: day_slots_def)

lemma requested_rows:
  "ds \<noteq> [] \<Longrightarrow> set ds' = day_name ` set ds \<Longrightarrow>
   requested_lines (set ds') (\<lambda>day. map_option (\<lambda>slots. shown_day (day, slots))
     (map_of (free_days f (filter (\<lambda>d. d \<in> set ds) day_values)) day)) =
   map (day_row f) (filter (\<lambda>d. d \<in> set ds) day_values)"
proof -
  assume ds: "ds \<noteq> []" "set ds' = day_name ` set ds"
  then have m: "day_name d \<in> set ds' \<longleftrightarrow> d \<in> set ds" for d
    using day_name_inj by auto
  have "map (\<lambda>day. case map_of (free_days f (filter (\<lambda>d. d \<in> set ds) day_values)) day of
        Some slots \<Rightarrow> shown_day (day, slots) | None \<Rightarrow> day @ '': Closed'')
      (filter (\<lambda>day. day \<in> set ds') (map day_name xs)) = map (day_row f) (filter (\<lambda>d. d \<in> set ds) xs)"
    if "set xs \<subseteq> set day_values" for xs
    using that by (induction xs) (auto simp: m map_of_free_days day_row_def)
  then show ?thesis by (simp add: requested_lines_shown DAYS_OF_WEEK_names)
qed

lemma all_rows:
  "all_lines (\<lambda>day. map_option (\<lambda>slots. shown_day (day, slots)) (map_of (free_days f day_values) day)) =
   map shown_day (free_days f day_values)"
proof -
  have "concat (map (\<lambda>day. case map_option (\<lambda>slots. shown_day (day, slots)) (map_of (free_days f day_values) day) of
      Some ts \<Rightarrow> [ts] | None \<Rightarrow> []) (map day_name xs)) = map shown_day (free_days f xs)"
    if "set xs \<subseteq> set day_values" for xs
    using that by (induction xs) (auto simp: map_of_free_days, auto simp: free_days_def)
  then show ?thesis by (simp add: all_lines_def DAYS_OF_WEEK_names)
qed

section \<open>Queries\<close>

lemma days_of_names: "days_of (map day_name ds) = Inr ds"
  by (induction ds) simp_all

lemma commas_join: "commas xs = join '','' xs"
  by (induction xs rule: commas.induct) simp_all

lemma day_name_not_Nil [simp]: "day_name d \<noteq> []"
  by (cases d) (simp_all add: day_name_def DAYS_OF_WEEK_def)

text \<open>The text of a query for some days of a facility, and the server's answer.\<close>

definition days_text :: "DayOfWeek list \<Rightarrow> string" where
  "days_text ds = join '','' (map day_name ds)"

definition query_text :: "string \<Rightarrow> DayOfWeek list \<Rightarrow> string" where
  "query_text name ds = ''facility,'' @ name @ '','' @ days_text ds"

lemma query_commas: "ds \<noteq> [] \<Longrightarrow> query_text name ds = commas (''facility'' # name # map day_name ds)"
  by (cases ds) (simp_all add: query_text_def days_text_def commas_join)

lemma handle_query:
  assumes "new_request (read_message i (query_text name ds)) c s" and "no_comma name" and "name \<noteq> ''ALL''" and "ds \<noteq> []"
  shows "\<exists>s'. handleRequest env now (Some (read_message i (query_text name ds))) c s =
    (Inr (read_message i (formatFacilityAvailability name (set ds) s)), s') \<and> facilities s' = facilities s"
proof -
  have "split_commas (query_text name ds) = ''facility'' # name # map day_name ds"
    unfolding query_commas [OF assms(4)] using assms(2,4)
    by (intro split_commas_commas) (auto simp: no_comma_def [of "''facility''"] last_map)
  moreover have "formatFacilityAvailability name (set ds) (fresh s) = formatFacilityAvailability name (set ds) s"
    by (simp add: formatFacilityAvailability_def)
  ultimately have "process_request env now (read_message i (query_text name ds)) c (fresh s) =
      (Inr (reply OP_READ (read_message i (query_text name ds)) (formatFacilityAvailability name (set ds) s)), fresh s)"
    using assms(3) by (simp add: process_request_def read_request_def read_facility_def data_parts_def days_of_names)
  from handle_processed [OF assms(1) this] show ?thesis
    by (auto simp: reply_def read_message_def)
qed

section \<open>Notifications\<close>

text \<open>The error status occurs in no availability text of a facility whose name has no colon.\<close>

lemma no_error_line:
  assumes "CHR '':'' \<notin> set k" and "CHR '':'' \<notin> set v" and "\<not> suffix ''status'' k"
  shows "str_find (k @ CHR '':'' # v) STATUS_ERROR = None"
proof (rule ccontr)
  assume "str_find (k @ CHR '':'' # v) STATUS_ERROR \<noteq> None"
  then obtain i where "str_find (k @ CHR '':'' # v) STATUS_ERROR = Some i" by blast
  from str_find_Some [OF this] obtain u w where "k @ CHR '':'' # v = (u @ ''status'') @ CHR '':'' # ''ERROR'' @ w"
    by (auto simp: STATUS_ERROR_def)
  with assms(1,2) have "k = u @ ''status''"
    by (metis append_Cons_eq_iff in_set_conv_decomp)
  with assms(3) show False by (simp add: suffix_def)
qed

lemma str_find_terminated:
  "newline \<notin> set p \<Longrightarrow> p \<noteq> [] \<Longrightarrow> \<forall>l\<in>set ls. str_find l p = None \<Longrightarrow> str_find (terminated newline ls) p = None"
  by (induction ls) (simp_all add: str_find_line)

lemma slot_times_digits:
  assumes "clock_times (f_availability f)" and "sl \<in> set (day_slots f d)"
  shows "list_all isdigit (fst sl) \<and> list_all isdigit (snd sl)"
  using assms available_slots_clock digits_format02d
  by (auto simp: day_slots_def clock_slot_def getStartTime_def getEndTime_def)

lemma day_line_characters:
  assumes "clock_times (f_availability f)"
  shows "\<exists>v. day_line (day_name d, day_slots f d) = day_name d @ CHR '':'' # v \<and> CHR '':'' \<notin> set v \<and> ascii v"
proof -
  have "CHR '':'' \<notin> set (fst sl) \<and> CHR '':'' \<notin> set (snd sl) \<and> ascii (fst sl) \<and> ascii (snd sl)"
    if "sl \<in> set (day_slots f d)" for sl
    using slot_times_digits [OF assms that] digits_plain by blast
  then have "CHR '':'' \<notin> set (terminated (CHR '','') (map (\<lambda>(a, b). a @ '' - '' @ b) (day_slots f d))) \<and>
      ascii (terminated (CHR '','') (map (\<lambda>(a, b). a @ '' - '' @ b) (day_slots f d)))"
    by (induction "day_slots f d" rule: list.induct) (auto simp: terminated_def ascii_def list_all_iff)
  then show ?thesis by (simp add: day_line_def)
qed

lemma availability_text_fine:
  assumes "clock_times (f_availability f)" and "CHR '':'' \<notin> set name"
  shows "str_find (availability_response name (free_days f ds)) STATUS_ERROR = None"
    and "ascii name \<Longrightarrow> ascii (availability_response name (free_days f ds))"
proof -
  have "str_find (day_line l) STATUS_ERROR = None \<and> ascii (day_line l)" if l: "l \<in> set (free_days f ds)" for l
  proof -
    obtain d where d: "l = (day_name d, day_slots f d)" using l by (auto simp: free_days_def)
    from day_line_characters [OF assms(1), of d] obtain v
      where "day_line l = day_name d @ CHR '':'' # v" "CHR '':'' \<notin> set v" "ascii v" by (auto simp: d)
    moreover have "CHR '':'' \<notin> set (day_name d)" "\<not> suffix ''status'' (day_name d)"
      by (cases d; simp add: day_name_def DAYS_OF_WEEK_def suffix_def)+
    ultimately show ?thesis using no_error_line by simp
  qed
  moreover have "str_find (''facility'' @ CHR '':'' # name) STATUS_ERROR = None"
    using assms(2) by (intro no_error_line) (simp_all add: suffix_def)
  moreover have "str_find (''availableTimeslots'' @ CHR '':'' # []) STATUS_ERROR = None"
    by (intro no_error_line) (simp_all add: suffix_def)
  moreover have "str_find STATUS_SUCCESS STATUS_ERROR = None" by (simp add: STATUS_SUCCESS_def STATUS_ERROR_def)
  ultimately show "str_find (availability_response name (free_days f ds)) STATUS_ERROR = None"
    unfolding availability_response_def
    by (intro str_find_terminated) (auto simp: STATUS_ERROR_def newline_def)
  have "ascii (terminated newline ls) \<longleftrightarrow> (\<forall>l\<in>set ls. ascii l)" for ls
    by (induction ls) (auto simp: newline_def)
  then show "ascii (availability_response name (free_days f ds))" if "ascii name"
    using that \<open>\<And>l. l \<in> set (free_days f ds) \<Longrightarrow> str_find (day_line l) STATUS_ERROR = None \<and> ascii (day_line l)\<close>
    by (auto simp: availability_response_def STATUS_SUCCESS_def newline_def)
qed

text \<open>The text of a notification: the printed form of a message with the whole week.\<close>

definition notice_text :: "string \<Rightarrow> Facility \<Rightarrow> string" where
  "notice_text name f = ''RequestMessage: 0 0 '' @ availability_response name (free_days f day_values)"

lemma handle_notified:
  assumes n: "new_request m c s" and p: "process_request env now m c (fresh s) = (Inr response, s1)"
    and "getOperation m \<in> {OP_WRITE, OP_UPDATE, OP_DELETE}" and "lastUpdatedFacility s1 = Some name"
    and "monitors s1 = monitors s" and "sv_notified s1 = sv_notified s"
    and f: "getFacility name (facilities s1) = Some f" "clock_times (f_availability f)" "CHR '':'' \<notin> set name"
  shows "\<exists>s'. handleRequest env now (Some m) c s = (Inr response, s') \<and> facilities s' = facilities s1 \<and>
    monitors s' = filter (\<lambda>x. \<not> ifExpired now x) (monitors s) \<and>
    sv_notified s' = sv_notified s @ map (\<lambda>x. (mon_client x, notice_text name f)) (filter (\<lambda>x. resourceName x = name) (monitors s'))"
proof -
  have t: "formatFacilityAvailability name {} s2 = availability_response name (free_days f day_values)"
    if "facilities s2 = facilities s1" for s2
    using availability_text [of name s2 f "{}"] f(1) that by simp
  have "availability_response name (free_days f day_values) \<noteq> []" by (simp add: availability_response_def)
  with availability_text_fine(1) [OF f(2,3)] show ?thesis
    using p assms(3-6)
    by (auto simp: handle_new [OF n] serve_def fresh_def [symmetric] notify_change_def t removeExpiredMonitors_def
        Server_notifyAll_def Let_def RequestMessage_toString_def notice_text_def null_text_def to_string_def
        to_string_nat.simps digit_char_def)
qed

text \<open>The client's parser shows a notification like the answer to a query for the whole week.\<close>

lemma notice_shown:
  assumes "no_break name" and "clock_times (f_availability f)"
  shows "parseQueryAvailabilityResponse (notice_text name f) '''' =
    [''Facility Availability'', ''Facility: '' @ name] @ map shown_day (free_days f day_values)"
proof -
  have "no_break (''RequestMessage: 0 0 '' @ STATUS_SUCCESS)" "\<not> prefix STATUS_ERROR (''RequestMessage: 0 0 '' @ STATUS_SUCCESS)"
    by (simp_all add: STATUS_SUCCESS_def STATUS_ERROR_def newline_def)
  from availability_rows [OF assms(1) free_days_plain [OF assms(2)] distinct_free_days [OF distinct_day_values] this _ refl,
      of "notice_text name f" "''''"] all_rows [of f]
  show ?thesis by (simp add: notice_text_def availability_response_def)
qed

lemma listen_update:
  assumes "k_recv k = (t, Datagram bytes addr) # es" and "t < time_limit k" and "k_clock k < endTime"
    and "bytes \<noteq> []" and "length bytes \<le> BUFFER_SIZE"
  shows "\<exists>k'. listen_loop onUpdate endTime k = listen_loop onUpdate endTime k' \<and> k_recv k' = es \<and>
    k_clock k' = k_clock k + t \<and> k_cout k' = k_cout k @ onUpdate (map char_of_byte bytes) False"
proof -
  have "\<exists>s1. receiveDataFrom k = (Inr (bytes, addr), s1) \<and> k_recv s1 = es \<and> k_clock s1 = k_clock k + t \<and> k_cout s1 = k_cout k"
    using assms(1,2,5) by (auto simp: receiveDataFrom_def sys_recvfrom_def traced_def Let_def prog_defs)
  then obtain s1 where s1: "receiveDataFrom k = (Inr (bytes, addr), s1)" "k_recv s1 = es"
    "k_clock s1 = k_clock k + t" "k_cout s1 = k_cout k" by blast
  with assms(3,4) have "listen_loop onUpdate endTime k =
      listen_loop onUpdate endTime (s1\<lparr>k_cout := k_cout s1 @ onUpdate (map char_of_byte bytes) False\<rparr>)"
    by (simp add: listen_loop.simps [of onUpdate endTime k])
  with s1 show ?thesis
    by (intro exI [of _ "s1\<lparr>k_cout := k_cout s1 @ onUpdate (map char_of_byte bytes) False\<rparr>"]) simp
qed

lemma clock_add_booking:
  assumes "clock_times a" and "clock_slot (timeSlot b)" and "availability_ok a"
  shows "clock_times (add_booking b a)"
proof -
  have "day_index d < length (bookedSlots a)" for d
    using assms(3) by (simp add: availability_ok_def)
  then show ?thesis
    using assms(1,2) by (auto simp: clock_times_def add_booking_def nth_list_update)
qed

section \<open>Properties\<close>

text \<open>
  C7. What a user is shown for a query: the client's request, answered by the server and put
  through the client's parser, gives the facility and, for each requested day in the order of the
  week, exactly the free slots of the server; a day without free slots is shown as closed, a fully
  booked one included.
\<close>

theorem availability_query_shown:
  assumes "new_request (read_message i (query_text name ds)) c s" and "no_comma name" and "no_break name"
    and "name \<noteq> ''ALL''" and "ds \<noteq> []" and "getFacility name (facilities s) = Some f"
    and "clock_times (f_availability f)"
  shows "queryAvailability name (days_text ds) k = request READ (query_text name ds) k \<and>
    (\<exists>response s'. handleRequest env now (Some (read_message i (query_text name ds))) c s =
        (Inr (read_message i response), s') \<and>
      parseQueryAvailabilityResponse response (days_text ds) =
        [''Facility Availability'', ''Facility: '' @ name] @ map (day_row f) (filter (\<lambda>d. d \<in> set ds) day_values))"
proof -
  let ?av = "free_days f (filter (\<lambda>d. d \<in> set ds) day_values)"
  have t: "formatFacilityAvailability name (set ds) s = availability_response name ?av"
    using assms(5) by (simp add: availability_text [OF assms(6)])
  have ne: "map day_name ds \<noteq> []" "\<forall>d\<in>set (map day_name ds). d \<noteq> [] \<and> CHR '','' \<notin> set d"
    using assms(5) no_comma_day by (auto simp: no_comma_def)
  then have "join '','' (map day_name ds) \<noteq> ''''" by (intro join_not_Nil) auto
  with requested_days_join [OF ne] have days: "requested_days (days_text ds) = set (map day_name ds)" "days_text ds \<noteq> []"
    by (simp_all add: days_text_def)
  have "no_break STATUS_SUCCESS" "\<not> prefix STATUS_ERROR STATUS_SUCCESS"
    by (simp_all add: STATUS_SUCCESS_def STATUS_ERROR_def newline_def)
  from availability_rows [OF assms(3) free_days_plain [OF assms(7)] distinct_free_days this _ refl,
      of "filter (\<lambda>d. d \<in> set ds) day_values" "availability_response name ?av" "days_text ds"]
  have "parseQueryAvailabilityResponse (availability_response name ?av) (days_text ds) =
      [''Facility Availability'', ''Facility: '' @ name] @ map (day_row f) (filter (\<lambda>d. d \<in> set ds) day_values)"
    using days requested_rows [OF assms(5), of "map day_name ds" f]
    by (simp add: availability_response_def)
  moreover obtain s' where "handleRequest env now (Some (read_message i (query_text name ds))) c s =
      (Inr (read_message i (availability_response name ?av)), s')"
    using handle_query [OF assms(1,2,4,5), of env now] unfolding t by blast
  ultimately show ?thesis by (auto simp: queryAvailability_def query_text_def)
qed

theorem availability_query_shown_witness:
  "queryAvailability ''Weekday1'' (days_text [TUESDAY, SUNDAY]) (client_on []) = request READ (query_text ''Weekday1'' [TUESDAY, SUNDAY]) (client_on []) \<and>
    (\<exists>response s'. handleRequest jvm_example 5 (Some (read_message 0 (query_text ''Weekday1'' [TUESDAY, SUNDAY]))) client_example (Server_init True) =
        (Inr (read_message 0 response), s') \<and>
      parseQueryAvailabilityResponse response (days_text [TUESDAY, SUNDAY]) =
        [''Facility Availability'', ''Facility: Weekday1'', ''TUESDAY: 0800 to 1700'', ''SUNDAY: Closed''])"
proof -
  have a: "getAvailableTimeSlots TUESDAY (f_availability weekday1) = [TimeSlot_new 8 0 17 0 TUESDAY]"
    "getAvailableTimeSlots SUNDAY (f_availability weekday1) = []"
    by (simp_all add: getAvailableTimeSlots_def weekday1_def facility_open_def with_availability_def setAvaOfDay_def
        Availability_new_def before_def)
  have "day_row weekday1 TUESDAY = ''TUESDAY: 0800 to 1700''" "day_row weekday1 SUNDAY = ''SUNDAY: Closed''"
    by (simp_all add: day_row_def a shown_day_def day_slots_def getStartTime_def getEndTime_def TimeSlot_new_def format02d_def
        to_string_def to_string_nat.simps digit_char_def day_name_def DAYS_OF_WEEK_def)
  then show ?thesis
    using availability_query_shown [of 0 "''Weekday1''" "[TUESDAY, SUNDAY]" client_example "Server_init True" weekday1 "client_on []" jvm_example 5]
      weekday1_clock by (simp add: day_values_def newline_def)
qed

text \<open>
  C6. A change reaches the clients that monitor it: a booking request for a facility, granted or
  refused, makes the server drop the expired monitors and send the others of that facility, and
  nobody else, the availability after the request; a client that receives it while it listens
  shows the facility and, for every day that has any, the free slots, and goes on listening.
\<close>

theorem change_reaches_monitors:
  assumes "new_request (write_request i (booking_text name d h1 m1 h2 m2)) c s"
    and "no_comma name" and "no_break name" and "CHR '':'' \<notin> set name" and "ascii name" and "ascii_charset env"
    and "h1 < 24" and "m1 < 60" and "h2 < 24" and "m2 < 60"
    and "getFacility name (facilities s) = Some f" and "clock_times (f_availability f)"
    and "availability_ok (f_availability f)"
  shows "\<exists>response s' f'.
    handleRequest env now (Some (write_request i (booking_text name d h1 m1 h2 m2))) c s = (Inr response, s') \<and>
    getFacility name (facilities s') = Some f' \<and>
    f' = (if isAvailable (f_availability f) (slot_of d h1 m1 h2 m2)
      then with_availability (add_booking (new_booking env c (slot_of d h1 m1 h2 m2) (f_availability f) s) (f_availability f)) f
      else f) \<and>
    monitors s' = filter (\<lambda>m. \<not> ifExpired now m) (monitors s) \<and>
    sv_notified s' = sv_notified s @ map (\<lambda>m. (mon_client m, notice_text name f')) (filter (\<lambda>m. resourceName m = name) (monitors s')) \<and>
    (k_recv k = (t, Datagram (charset_encode env (notice_text name f')) addr) # es \<and> t < time_limit k \<and> k_clock k < endTime \<and>
       length (notice_text name f') \<le> BUFFER_SIZE \<longrightarrow>
      (\<exists>k'. listen_loop monitor_callback endTime k = listen_loop monitor_callback endTime k' \<and>
        k_recv k' = es \<and> k_clock k' = k_clock k + t \<and>
        k_cout k' = k_cout k @ generateBox ([''Facility Availability'', ''Facility: '' @ name] @
          map shown_day (free_days f' day_values))))"
proof -
  let ?m = "write_request i (booking_text name d h1 m1 h2 m2)" and ?ts = "slot_of d h1 m1 h2 m2"
  let ?f = "if isAvailable (f_availability f) ?ts
      then with_availability (add_booking (new_booking env c ?ts (f_availability f) s) (f_availability f)) f else f"
  obtain b where "parseBookingDetails (sm_data ?m) = Inr b" "bd_facilityName b = name" "booking_slot b = ?ts"
    using parse_booking_text [OF assms(2), of h1 m1 h2 m2 d] assms(7-10) by auto
  note r = bookFacility_run [OF this, of "fresh s" f env c]
  let ?r = "Server_bookFacility env ?m c (fresh s)"
  have s1: "lastUpdatedFacility (snd ?r) = Some name" "monitors (snd ?r) = monitors s" "sv_notified (snd ?r) = sv_notified s"
    "getFacility name (facilities (snd ?r)) = Some ?f" "\<exists>x. fst ?r = Inr x"
    using r assms(11) by (simp_all add: fresh_def new_booking_def)
  then obtain x where p: "process_request env now ?m c (fresh s) = (Inr x, snd ?r)"
    by (auto simp: process_request_def caught_def case_prod_beta)
  have clock: "clock_times (f_availability ?f)"
    using assms(12,13) clock_add_booking [of "f_availability f" "new_booking env c ?ts (f_availability f) s"]
    by (simp add: new_booking_def slot_of_def TimeSlot_new_def clock_slot_def)
  have "getOperation ?m \<in> {OP_WRITE, OP_UPDATE, OP_DELETE}" by simp
  from handle_notified [OF assms(1) p this s1(1-4) clock assms(4)]
  obtain s' where s': "handleRequest env now (Some ?m) c s = (Inr x, s')" "facilities s' = facilities (snd ?r)"
    "monitors s' = filter (\<lambda>m. \<not> ifExpired now m) (monitors s)"
    "sv_notified s' = sv_notified s @ map (\<lambda>m. (mon_client m, notice_text name ?f)) (filter (\<lambda>m. resourceName m = name) (monitors s'))"
    by blast
  have "ascii (notice_text name ?f)"
    using availability_text_fine(2) [OF clock assms(4,5)] by (simp add: notice_text_def)
  then have e: "charset_encode env (notice_text name ?f) = map byte_of_char (notice_text name ?f)"
    using assms(6) by (simp add: ascii_charset_def)
  have "\<exists>k'. listen_loop monitor_callback endTime k = listen_loop monitor_callback endTime k' \<and>
        k_recv k' = es \<and> k_clock k' = k_clock k + t \<and>
        k_cout k' = k_cout k @ generateBox ([''Facility Availability'', ''Facility: '' @ name] @ map shown_day (free_days ?f day_values))"
    if "k_recv k = (t, Datagram (charset_encode env (notice_text name ?f)) addr) # es \<and> t < time_limit k \<and>
      k_clock k < endTime \<and> length (notice_text name ?f) \<le> BUFFER_SIZE"
  proof -
    let ?bytes = "map byte_of_char (notice_text name ?f)"
    have "k_recv k = (t, Datagram ?bytes addr) # es" "t < time_limit k" "k_clock k < endTime" "length ?bytes \<le> BUFFER_SIZE"
      using that by (simp_all only: e length_map)
    moreover have "?bytes \<noteq> []" by (simp add: notice_text_def)
    moreover have "monitor_callback (map char_of_byte ?bytes) False = generateBox ([''Facility Availability'', ''Facility: '' @ name] @
        map shown_day (free_days ?f day_values))"
      unfolding monitor_callback_def using notice_shown [OF assms(3) clock] by (simp only: if_False map_map comp_def char_of_byte_of_char map_ident)
    ultimately show ?thesis using listen_update [of k t ?bytes addr es endTime monitor_callback] by (simp only:) blast
  qed
  with s' s1(4) show ?thesis
    by (intro exI [of _ x] exI [of _ s'] exI [of _ ?f]) simp
qed

lemma weekday1_week:
  assumes "a = f_availability weekday1" and "timeSlot b = slot_of MONDAY 9 0 10 0"
  shows "free_days (with_availability (add_booking b a) weekday1) day_values =
    [(''MONDAY'', [(''0800'', ''0900''), (''1000'', ''1700'')]), (''TUESDAY'', [(''0800'', ''1700'')]),
     (''WEDNESDAY'', [(''0800'', ''1700'')])]"
proof -
  have slots: "getAvailableTimeSlots MONDAY (add_booking b a) = [TimeSlot_new 8 0 9 0 MONDAY, TimeSlot_new 10 0 17 0 MONDAY]"
    "getAvailableTimeSlots TUESDAY (add_booking b a) = [TimeSlot_new 8 0 17 0 TUESDAY]"
    "getAvailableTimeSlots WEDNESDAY (add_booking b a) = [TimeSlot_new 8 0 17 0 WEDNESDAY]"
    "getAvailableTimeSlots THURSDAY (add_booking b a) = []" "getAvailableTimeSlots FRIDAY (add_booking b a) = []"
    "getAvailableTimeSlots SATURDAY (add_booking b a) = []" "getAvailableTimeSlots SUNDAY (add_booking b a) = []"
    by (simp_all add: assms getAvailableTimeSlots_def weekday1_def facility_open_def setAvaOfDay_def add_booking_def
        Availability_new_def before_def slot_of_def TimeSlot_new_def)
  have times: "getStartTime (TimeSlot_new 8 0 h m d) = ''0800''" "getStartTime (TimeSlot_new 10 0 h m d) = ''1000''"
    "getEndTime (TimeSlot_new h m 9 0 d) = ''0900''" "getEndTime (TimeSlot_new h m 17 0 d) = ''1700''" for h m d
    by (simp_all add: getStartTime_def getEndTime_def TimeSlot_new_def format02d_def to_string_def to_string_nat.simps digit_char_def)
  show ?thesis
    by (simp add: free_days_def day_values_def day_slots_def slots times day_name_def DAYS_OF_WEEK_def)
qed

theorem change_reaches_monitors_witness:
  "\<exists>response s' notice k'.
    handleRequest jvm_example 7 (Some (write_request 0 (booking_text ''Weekday1'' MONDAY 9 0 10 0))) client_example
      ((Server_init True)\<lparr>monitors := [\<lparr>resourceName = ''Weekday1'', mon_requestID = 0, mon_client = server_at, createdTime = 0, monitorInterval = 60\<rparr>]\<rparr>) =
      (Inr response, s') \<and>
    sv_notified s' = [(server_at, notice)] \<and>
    listen_loop monitor_callback 9000 (client_on [(3, Datagram (map byte_of_char notice) server_at)]) = listen_loop monitor_callback 9000 k' \<and>
    k_cout k' = generateBox [''Facility Availability'', ''Facility: Weekday1'',
      ''MONDAY: 0800 to 0900, 1000 to 1700'', ''TUESDAY: 0800 to 1700'', ''WEDNESDAY: 0800 to 1700'']"
proof -
  let ?mon = "\<lparr>resourceName = ''Weekday1'', mon_requestID = 0, mon_client = server_at, createdTime = 0, monitorInterval = 60\<rparr>"
  let ?s = "(Server_init True)\<lparr>monitors := [?mon]\<rparr>" and ?a = "f_availability weekday1"
  let ?f = "with_availability (add_booking (new_booking jvm_example client_example (slot_of MONDAY 9 0 10 0) ?a ?s) ?a) weekday1"
  let ?n = "notice_text ''Weekday1'' ?f"
  let ?k = "client_on [(3, Datagram (charset_encode jvm_example ?n) server_at)]"
  have days: "free_days ?f day_values = [(''MONDAY'', [(''0800'', ''0900''), (''1000'', ''1700'')]),
      (''TUESDAY'', [(''0800'', ''1700'')]), (''WEDNESDAY'', [(''0800'', ''1700'')])]"
    by (rule weekday1_week) (simp_all add: new_booking_def)
  have len: "length ?n \<le> BUFFER_SIZE"
    unfolding notice_text_def days by (simp add: availability_response_def day_line_def STATUS_SUCCESS_def BUFFER_SIZE_def)
  have enc: "charset_encode jvm_example x = map byte_of_char x" for x by (simp add: jvm_example_def)
  have rows: "map shown_day (free_days ?f day_values) = [''MONDAY: 0800 to 0900, 1000 to 1700'', ''TUESDAY: 0800 to 1700'', ''WEDNESDAY: 0800 to 1700'']"
    unfolding days by (simp add: shown_day_def)
  have ok: "availability_ok ?a" using init_facilities_fine [of True] getFacility_Some [OF init_weekday1] by (auto simp: facilities_ok_def)
  have new: "new_request (write_request 0 (booking_text ''Weekday1'' MONDAY 9 0 10 0)) client_example ?s"
    "getFacility ''Weekday1'' (facilities ?s) = Some weekday1" "sv_notified ?s = []" "monitors ?s = [?mon]" "\<not> ifExpired 7 ?mon"
    by (simp_all add: new_request_def) (simp_all add: Server_init_def ifExpired_def)
  have fine: "no_break ''Weekday1''" "CHR '':'' \<notin> set ''Weekday1''" "ascii ''Weekday1''" "ascii_charset jvm_example"
    using java_ready_example by (simp_all add: newline_def java_ready_def)
  have lt: "9 < (24 :: nat)" "0 < (60 :: nat)" "10 < (24 :: nat)" "0 < (60 :: nat)" by simp_all
  note r = change_reaches_monitors [OF new(1) no_comma_Weekday1 fine lt new(2) weekday1_clock ok,
    where now = 7 and k = ?k and t = 3 and addr = server_at and es = "[]" and endTime = 9000]
  obtain response s' f' where
    h: "handleRequest jvm_example 7 (Some (write_request 0 (booking_text ''Weekday1'' MONDAY 9 0 10 0))) client_example ?s = (Inr response, s')"
    and g: "getFacility ''Weekday1'' (facilities s') = Some f'"
    and f': "f' = (if isAvailable ?a (slot_of MONDAY 9 0 10 0) then ?f else weekday1)"
    and m: "monitors s' = filter (\<lambda>m. \<not> ifExpired 7 m) (monitors ?s)"
    and n: "sv_notified s' = sv_notified ?s @ map (\<lambda>m. (mon_client m, notice_text ''Weekday1'' f')) (filter (\<lambda>m. resourceName m = ''Weekday1'') (monitors s'))"
    and l: "k_recv ?k = (3, Datagram (charset_encode jvm_example (notice_text ''Weekday1'' f')) server_at) # [] \<and> 3 < time_limit ?k \<and>
       k_clock ?k < 9000 \<and> length (notice_text ''Weekday1'' f') \<le> BUFFER_SIZE \<longrightarrow>
      (\<exists>k'. listen_loop monitor_callback 9000 ?k = listen_loop monitor_callback 9000 k' \<and>
        k_recv k' = [] \<and> k_clock k' = k_clock ?k + 3 \<and>
        k_cout k' = k_cout ?k @ generateBox ([''Facility Availability'', ''Facility: '' @ ''Weekday1''] @ map shown_day (free_days f' day_values)))"
    using r by (elim exE conjE) (rule that; assumption)
  have "f' = ?f" using f' weekday1_monday by (simp only: if_True)
  moreover have "sv_notified s' = [(server_at, notice_text ''Weekday1'' f')]" using m n new(3-5) by simp
  ultimately show ?thesis using h l len by (auto simp: enc rows)
qed

end
