(* ===== verification/Spec2Isabelle.thy ===== *)
theory Spec2Isabelle
  imports Prelude Std_Strings Std_Streams Std_Float Constants Byte_Buffer Byte_Reader Parity_Bit
    Serializer Request_Message Socket Box Client Server_Texts Client_Operations Client_Runs Response_Parser
    Regex Interaction User_Prompts User_Interface Interface_Outcomes Java_Runtime
    Server_Bookings Server_Requests Server_Handler Server_Behaviour Java_Serializer Server_Loop Client_Server
    Availability_Shown
begin

text \<open>
  The distributed facility booking system: a C++ client (\<^verbatim>\<open>src/Client\<close>) and a Java server
  (\<^verbatim>\<open>src/Server\<close>) that exchange \<^verbatim>\<open>RequestMessage\<close> objects in UDP datagrams. A user picks an
  operation from the client's menu; the prompts ask for its arguments; \<^verbatim>\<open>Client\<close> numbers the
  request, serialises it with a parity byte, sends it up to five times until a reply with its ID
  arrives, and the response parser turns the text of the reply into lines that are shown in a box.
  The server takes one datagram at a time, answers repeated requests from its history when it runs
  with at-most-once semantics, executes the others on its facilities, bookings, ratings and
  monitors, and notifies the clients that monitor a facility whose bookings change.

  \<^bold>\<open>The program and the theories.\<close> Operations keep the names of the functions they model; a
  class is a record and its constructor and methods take and return that record.

  \<^item> \<open>Prelude\<close>: programs over a state that return a value or fail, with their combinators.
    \<open>Std_Strings\<close>, \<open>Std_Streams\<close>, \<open>Std_Float\<close>: what the client uses of the C++ library: texts and
    numbers, input streams, the reading of \<^verbatim>\<open>float\<close> values. \<open>Java_Runtime\<close>: the same for the server.
  \<^item> \<open>Constants\<close>, \<open>Byte_Buffer\<close>, \<open>Byte_Reader\<close>, \<open>Parity_Bit\<close>, \<open>Serializer\<close>, \<open>Request_Message\<close>: the
    client's serialisation (\<^verbatim>\<open>ByteBuffer.cpp\<close>, \<^verbatim>\<open>ByteReader.cpp\<close>, \<^verbatim>\<open>Parity.cpp\<close>, \<^verbatim>\<open>Serializer.cpp\<close>,
    \<^verbatim>\<open>RequestMessage.cpp\<close>). A class is a table of its virtual methods, a \<^verbatim>\<open>shared_ptr\<close> an index
    into a heap of created objects, the static members are explicit state.
  \<^item> \<open>Socket\<close>, \<open>Client\<close>, \<open>Client_Operations\<close>, \<open>Client_Runs\<close>: \<^verbatim>\<open>Socket.cpp\<close> and \<^verbatim>\<open>Client.cpp\<close>. The
    operating system is the record \<open>kernel\<close>: it fixes what every system call reports, above all
    which datagrams and timeouts receiving meets, and logs the calls.
  \<^item> \<open>Response_Parser\<close>: \<^verbatim>\<open>ResponseParser.cpp\<close>. \<open>Server_Texts\<close>: the response texts of the server
    in the form the client's parsers are proved against.
  \<^item> \<open>Regex\<close>, \<open>Box\<close>, \<open>Interaction\<close>, \<open>User_Prompts\<close>, \<open>User_Interface\<close>, \<open>Interface_Outcomes\<close>:
    \<^verbatim>\<open>UserInterface.cpp\<close> and \<^verbatim>\<open>main.cpp\<close>: the prompts and their patterns, one handler per entry of
    the menu, the menu loop and \<^verbatim>\<open>main\<close> with the unwinding of the client.
  \<^item> \<open>Server_Bookings\<close>, \<open>Server_Requests\<close>, \<open>Server_Handler\<close>: the server's models and services
    (\<^verbatim>\<open>models/\<close>, \<^verbatim>\<open>services/\<close>), its operations with the parsing of requests (\<^verbatim>\<open>utils/Parser.java\<close>),
    and \<^verbatim>\<open>handleRequest\<close> with the request history, the notifications and \<^verbatim>\<open>init\<close>.
    \<open>Java_Serializer\<close>: \<^verbatim>\<open>utils/Serializer.java\<close> and the classes it uses. \<open>Server_Loop\<close>: \<^verbatim>\<open>main\<close> and
    its receive loop. \<open>Server_Behaviour\<close>: what the handler does with the requests of the client.
  \<^item> \<open>Client_Server\<close>: both programs together, over datagrams that may be lost, repeated and
    reordered. \<open>Availability_Shown\<close>: what a user is shown of the server's bookings, by a query or by a
    notification.

  \<^bold>\<open>What the lemmas show.\<close>

  \<^item> Wire format: the locale \<open>codec\<close> (a reader undoes a writer and leaves the rest) is interpreted for
    bytes, \<^verbatim>\<open>int\<close>, \<^verbatim>\<open>long\<close>, \<^verbatim>\<open>double\<close> and strings, \<open>java_serializable\<close> for \<^verbatim>\<open>RequestMessage\<close>; the
    locale \<open>wire_codec\<close> extends \<open>codec\<close> by the server's writer and reader of the same format. From
    them follow the round trip of messages, that odd numbers of bit errors and cut messages
    are rejected, that no unchecked vector access of the deserialiser is out of range on any bytes
    (each such access is undefined behaviour in the model when it is), and that both sides read each
    other within the limits of the server's buffers.
  \<^item> Requests: how often a request is sent, which reply is returned, that IDs are fresh. The locale
    \<open>client_operation\<close> (an operation issues one logical request under the next ID) is
    interpreted for all ten operations of the client, so that runs of them have a log of requests.
  \<^item> Server: the locale \<open>booking_store\<close> (booking a free slot and removing keep a store in order) is
    interpreted on the availability of a facility; by it no run of the server books a slot twice.
    A run with the history refines a run without it in which every request occurs once; without it a
    repeated booking request is executed again and refused. The
    operations book, move, delete and find exactly the bookings they should; free time is what is
    not booked of the opening hours, and of the bookings' range where they leave the opening hours.
  \<^item> Composition: what the server executes for a client are the client's operations, each at most
    once; a booking travels from the client's call to the server's books and back; the free slots
    of the server are what a query shows and what a change shows on the clients that monitor it.
  \<^item> Interface: the locales \<open>asking\<close> and \<open>total_asking\<close> (a question repeated until the answer is valid)
    are interpreted for every prompt, \<open>response_parser\<close> for every parser but that of echoes. A booking is
    changed only when the question put right after showing it was answered yes; the handlers send
    only valid bookings and fail only in the listed ways; the menu (its completed turns are the
    inductive relation \<open>menu_turns\<close>) ends the program only in a turn that chose and confirmed exit.
  \<^item> The properties also state where the code does less than it seems to: an empty reply counts as
    none, the parity byte can be read as payload, opening hours are not checked, a booking cannot be
    shifted by less than its length, a comma in a facility name stops the server, and others.

  \<^bold>\<open>Bounds and loops.\<close> Sizes are those of the code: \<^const>\<open>MAX_RETRIES\<close> is 5, \<^const>\<open>BUFFER_SIZE\<close>
  1024 bytes, \<^const>\<open>RECEIVE_BUFFER\<close> 1000 bytes, \<^const>\<open>SERVER_CAPACITY\<close> 1024 bytes; integers have the
  width of the code where they are stored or sent, and values computed in \<^verbatim>\<open>int\<close> are checked
  against its range. The retry loop counts its attempts down, the monitoring loop the
  remaining events, stream loops the remaining input. There is no fuel: prompts and the menu, which
  may never end, are \<open>partial_function (option)\<close>, with \<^const>\<open>None\<close> for running forever, and whether they
  end is proved either way.

  \<^bold>\<open>The environment.\<close> Not determined by the source, and so arguments: the \<open>kernel\<close> record, and the
  \<open>jvm\<close> record with the random IDs, library messages, \<^verbatim>\<open>double\<close> arithmetic, character set and class
  path of the server. The hypothesis \<open>java_ready\<close> asks for a character set that encodes ASCII texts as ASCII
  and for room for arrays of 1024 bytes; the theorems about random IDs assume the drawn one new.

  \<^bold>\<open>Not modelled.\<close> The Windows branches of \<^verbatim>\<open>Socket.cpp\<close>; the member \<^verbatim>\<open>buffer\<close> of \<^verbatim>\<open>Client\<close>, which is
  never used; clearing the screen and flushing; the server's console log and the \<^verbatim>\<open>toString\<close> methods
  only it uses; failures of the server's socket; the passing of time while the server handles one
  request (the clock has one value during it); objects of other classes on the class path, which the
  server's reflection would create (a class that is not there is a bad request); texts that are not ASCII on the server's side; the
  Dockerfiles, CMake and shell files, which have no behaviour to model.
\<close>

section \<open>Times across the components\<close>

lemma digit_char_of_digit: "isdigit c \<Longrightarrow> digit_char (digit_val c) = c"
  by (auto simp: isdigit_def digit_char_def digit_val_def)

lemma is_time_iff: "is_time t \<longleftrightarrow> (\<exists>h m. h < 24 \<and> m < 60 \<and> t = hhmm h m)"
proof
  assume "is_time t"
  then obtain a b c d where t: "t = [a, b, c, d]" "isdigit a" "isdigit b" "isdigit c" "isdigit d"
    and lt: "10 * digit_val a + digit_val b < 24" "10 * digit_val c + digit_val d < 60"
    by (auto simp: is_time_def)
  then have "t = hhmm (10 * digit_val a + digit_val b) (10 * digit_val c + digit_val d)"
    using digit_val_less [of b] digit_val_less [of d] by (simp add: hhmm_def digit_char_of_digit)
  with lt show "\<exists>h m. h < 24 \<and> m < 60 \<and> t = hhmm h m" by blast
next
  assume "\<exists>h m. h < 24 \<and> m < 60 \<and> t = hhmm h m"
  then obtain h m where hm: "h < 24" "m < 60" "t = hhmm h m" by blast
  then have "h div 10 < 10" "m div 10 < 10" by simp_all
  with hm show "is_time t" unfolding is_time_def hhmm_def by (intro exI conjI) auto
qed

text \<open>
  The pattern of the time prompts accepts exactly the texts the server prints for the times of
  the day: what a user may type is what \<^verbatim>\<open>HHMM\<close> formatting produces, from 0000 to 2359.
\<close>

theorem time_pattern_is_time_of_day:
  "regex_match t timeRegex \<longleftrightarrow> (\<exists>h m. h < 24 \<and> m < 60 \<and> t = hhmm h m)"
  by (simp only: timeRegex_iff is_time_iff)

end
